(* ===== verification/Prelude.thy ===== *)
theory Prelude
  imports Main "HOL-Library.Word" "HOL-Library.FSet" "HOL-Library.Finite_Map" "HOL-Library.Multiset"
begin

text \<open>
  The shared layer of the development: the machine integer types of the Rust
  sources, results and panics as values, and the facts on words, lists, finite
  maps and finite sets that the component theories use.

  Conventions.  \<open>Result<T, E>\<close> is the sum \<open>'e + 'a\<close>, with \<open>Ok\<close> and \<open>Err\<close>
  abbreviating its injections.  A function of the sources that can reach a
  \<open>panic!\<close>, \<open>unwrap\<close>, \<open>expect\<close> or \<open>unreachable!\<close> returns an \<open>outcome\<close>, whose
  second constructor is the panic.  \<open>HashMap\<close> and \<open>BTreeMap\<close> are finite maps,
  \<open>HashSet\<close> and \<open>BTreeSet\<close> are finite sets, \<open>Vec\<close> and \<open>VecDeque\<close> are lists.
\<close>

unbundle bit_operations_syntax

named_theorems panic_free \<open>operations that never panic, in the states they are used in\<close>
named_theorems frame \<open>fields that an operation leaves alone\<close>
named_theorems inv_pres \<open>operations that keep the invariant of their component\<close>

section \<open>Machine integers\<close>

type_synonym u8 = "8 word"
type_synonym u16 = "16 word"
type_synonym u32 = "32 word"
type_synonym u64 = "64 word"

text \<open>\<open>usize::MAX\<close> on a 64-bit target; lengths and counts are naturals.\<close>

definition usize_max :: nat where
  "usize_max = 2 ^ 64 - 1"

section \<open>Results\<close>

type_synonym ('a, 'e) result = "'e + 'a"

abbreviation Ok :: "'a \<Rightarrow> ('a, 'e) result" where "Ok \<equiv> Inr"
abbreviation Err :: "'e \<Rightarrow> ('a, 'e) result" where "Err \<equiv> Inl"

text \<open>\<open>Result::and_then\<close>, which is also the \<open>?\<close> operator.\<close>

fun and_then :: "('a, 'e) result \<Rightarrow> ('a \<Rightarrow> ('b, 'e) result) \<Rightarrow> ('b, 'e) result" where
  "and_then (Inl e) f = Inl e"
| "and_then (Inr a) f = f a"

fun map_ok :: "('a \<Rightarrow> 'b) \<Rightarrow> ('a, 'e) result \<Rightarrow> ('b, 'e) result" where
  "map_ok f (Inl e) = Inl e"
| "map_ok f (Inr a) = Inr (f a)"

fun map_err :: "('e \<Rightarrow> 'f) \<Rightarrow> ('a, 'e) result \<Rightarrow> ('a, 'f) result" where
  "map_err f (Inl e) = Inl (f e)"
| "map_err f (Inr a) = Inr a"

fun ok_or :: "'e \<Rightarrow> 'a option \<Rightarrow> ('a, 'e) result" where
  "ok_or e None = Inl e"
| "ok_or e (Some a) = Inr a"

lemma and_then_Ok_iff:
  "and_then r f = Ok b \<longleftrightarrow> (\<exists>a. r = Ok a \<and> f a = Ok b)"
  by (cases r) auto

lemma and_then_Err_iff:
  "and_then r f = Err e \<longleftrightarrow> r = Err e \<or> (\<exists>a. r = Ok a \<and> f a = Err e)"
  by (cases r) auto

lemma map_ok_Ok_iff: "map_ok f r = Ok b \<longleftrightarrow> (\<exists>a. r = Ok a \<and> b = f a)"
  by (cases r) auto

lemma map_err_Ok_iff [simp]: "map_err f r = Ok b \<longleftrightarrow> r = Ok b"
  by (cases r) auto

lemma map_err_Err_iff: "map_err f r = Err e \<longleftrightarrow> (\<exists>e'. r = Err e' \<and> e = f e')"
  by (cases r) auto

lemma ok_or_Ok_iff [simp]: "ok_or e x = Ok a \<longleftrightarrow> x = Some a"
  by (cases x) auto

lemmas result_iffs = and_then_Ok_iff and_then_Err_iff map_ok_Ok_iff

section \<open>Panics\<close>

datatype 'a outcome = Returns 'a | Panics string

primrec outcome_bind :: "'a outcome \<Rightarrow> ('a \<Rightarrow> 'b outcome) \<Rightarrow> 'b outcome" where
  "outcome_bind (Returns a) f = f a"
| "outcome_bind (Panics m) f = Panics m"

fun expect :: "string \<Rightarrow> 'a option \<Rightarrow> 'a outcome" where
  "expect m None = Panics m"
| "expect m (Some a) = Returns a"

fun expect_ok :: "string \<Rightarrow> ('a, 'e) result \<Rightarrow> 'a outcome" where
  "expect_ok m (Inl e) = Panics m"
| "expect_ok m (Inr a) = Returns a"

lemma outcome_bind_Returns_iff:
  "outcome_bind x f = Returns b \<longleftrightarrow> (\<exists>a. x = Returns a \<and> f a = Returns b)"
  by (cases x) auto

lemma expect_Returns_iff [simp]: "expect m x = Returns a \<longleftrightarrow> x = Some a"
  by (cases x) auto

lemma expect_ok_Returns_iff [simp]: "expect_ok m x = Returns a \<longleftrightarrow> x = Ok a"
  by (cases x) auto

section \<open>Words\<close>

lemma unat_ucast_up:
  fixes w :: "'a::len word"
  assumes "LENGTH('a) \<le> LENGTH('b)"
  shows "unat (ucast w :: 'b::len word) = unat w"
proof -
  have "unat w < 2 ^ LENGTH('b)"
    using assms unsigned_less [of w] by (meson less_le_trans one_le_numeral power_increasing)
  then show ?thesis
    by (simp add: unsigned_ucast_eq take_bit_nat_eq_self)
qed

lemma unat_u32_to_u64 [simp]: "unat (ucast (w :: u32) :: u64) = unat w"
  by (rule unat_ucast_up) simp

lemma unat_u32_less: "unat (w :: u32) < 2 ^ 32"
  using unsigned_less [of w] by simp

lemma unat_sum_u64:
  "unat ((ucast (a :: u32) :: u64) + ucast (b :: u32)) = unat a + unat b"
proof -
  have "unat a + unat b < 2 ^ 64"
    using unat_u32_less [of a] unat_u32_less [of b] by simp
  then show ?thesis by (simp add: unat_word_ariths)
qed

lemma unat_add_u32_no_overflow:
  "unat (a :: u32) + unat (b :: u32) < 2 ^ 32 \<Longrightarrow> unat (a + b) = unat a + unat b"
  by (simp add: unat_word_ariths)

section \<open>Lists\<close>

text \<open>
  \<open>Iterator::position\<close> followed by \<open>VecDeque::remove\<close>: the first element that
  satisfies the predicate, with the list it leaves behind.
\<close>

fun remove_first :: "('a \<Rightarrow> bool) \<Rightarrow> 'a list \<Rightarrow> ('a \<times> 'a list) option" where
  "remove_first P [] = None"
| "remove_first P (x # xs) =
     (if P x then Some (x, xs)
      else map_option (\<lambda>(y, ys). (y, x # ys)) (remove_first P xs))"

lemma remove_first_None: "remove_first P xs = None \<longleftrightarrow> (\<forall>x \<in> set xs. \<not> P x)"
  by (induction xs) auto

lemma remove_first_Some:
  assumes "remove_first P xs = Some (y, ys)"
  obtains us vs where "xs = us @ y # vs" "ys = us @ vs" "P y" "\<forall>u \<in> set us. \<not> P u"
  using assms
proof (induction xs arbitrary: ys thesis)
  case Nil
  then show ?case by simp
next
  case (Cons x xs)
  show ?case
  proof (cases "P x")
    case True
    with Cons.prems show ?thesis by (auto intro: Cons.prems(1) [of "[]"])
  next
    case False
    with Cons.prems(2) obtain zs where zs: "remove_first P xs = Some (y, zs)" "ys = x # zs"
      by auto
    from zs(1) obtain us vs where "xs = us @ y # vs" "zs = us @ vs" "P y" "\<forall>u \<in> set us. \<not> P u"
      using Cons.IH by blast
    with False zs(2) show ?thesis
      by (intro Cons.prems(1) [of "x # us" vs]) auto
  qed
qed

text \<open>\<open>Itertools::unique_by\<close>: the first element of every key, in order.\<close>

fun unique_by_from :: "('a \<Rightarrow> 'k) \<Rightarrow> 'k set \<Rightarrow> 'a list \<Rightarrow> 'a list" where
  "unique_by_from f seen [] = []"
| "unique_by_from f seen (x # xs) =
     (if f x \<in> seen then unique_by_from f seen xs
      else x # unique_by_from f (insert (f x) seen) xs)"

abbreviation unique_by :: "('a \<Rightarrow> 'k) \<Rightarrow> 'a list \<Rightarrow> 'a list" where
  "unique_by f \<equiv> unique_by_from f {}"

lemma unique_by_from_subset: "set (unique_by_from f seen xs) \<subseteq> set xs"
  by (induction xs arbitrary: seen) auto

lemma unique_by_from_keys:
  "f ` set (unique_by_from f seen xs) = f ` set xs - seen"
  by (induction xs arbitrary: seen) auto

lemma unique_by_from_distinct: "distinct (map f (unique_by_from f seen xs))"
proof (induction xs arbitrary: seen)
  case (Cons x xs)
  have "f x \<notin> f ` set (unique_by_from f (insert (f x) seen) xs)"
    by (simp add: unique_by_from_keys)
  with Cons show ?case by auto
qed simp

lemma unique_by_from_length: "length (unique_by_from f seen xs) \<le> length xs"
  by (induction xs arbitrary: seen) (auto intro: le_SucI)

lemma unique_by_from_fixed:
  "length (unique_by_from f seen xs) = length xs \<Longrightarrow> unique_by_from f seen xs = xs"
proof (induction xs arbitrary: seen)
  case (Cons x xs)
  show ?case
  proof (cases "f x \<in> seen")
    case True
    with Cons.prems unique_by_from_length [of f seen xs] show ?thesis by simp
  next
    case False
    with Cons show ?thesis by simp
  qed
qed simp

lemma find_filter_hd: "find P xs = (case filter P xs of [] \<Rightarrow> None | y # _ \<Rightarrow> Some y)"
  by (induction xs) auto

lemma unique_by_from_distinct_map:
  "distinct (map g xs) \<Longrightarrow> distinct (map g (unique_by_from f seen xs))"
proof (induction xs arbitrary: seen)
  case (Cons x xs)
  then show ?case
    using unique_by_from_subset [of f "insert (f x) seen" xs] by auto
qed simp

lemma remove_first_mset:
  "remove_first P xs = Some (y, ys) \<Longrightarrow> P y \<and> mset xs = add_mset y (mset ys)"
  by (erule remove_first_Some) simp

lemma dropWhile_filter_split:
  assumes "dropWhile Q (filter P xs) = y # ys"
  obtains us vs where "xs = us @ y # vs" "P y" "\<not> Q y" "\<forall>u \<in> set us. P u \<longrightarrow> Q u"
  using assms
proof (induction xs arbitrary: thesis)
  case (Cons x xs)
  show ?case
  proof (cases "P x \<and> \<not> Q x")
    case True
    with Cons.prems show ?thesis by (auto intro: Cons.prems(1) [of "[]"])
  next
    case False
    with Cons.prems(2) have "dropWhile Q (filter P xs) = y # ys" by (auto split: if_splits)
    then obtain us vs where "xs = us @ y # vs" "P y" "\<not> Q y" "\<forall>u \<in> set us. P u \<longrightarrow> Q u"
      using Cons.IH by blast
    with False show ?thesis by (intro Cons.prems(1) [of "x # us" vs]) auto
  qed
qed simp

lemma dropWhile_filter_Nil:
  "dropWhile Q (filter P xs) = [] \<longleftrightarrow> (\<forall>x \<in> set xs. P x \<longrightarrow> Q x)"
  by (auto simp: dropWhile_eq_Nil_conv)

lemma distinct_mset_subset: "distinct xs \<Longrightarrow> mset ys \<subseteq># mset xs \<Longrightarrow> distinct ys"
proof (induction ys arbitrary: xs)
  case (Cons y ys)
  then obtain us vs where xs: "xs = us @ y # vs"
    by (metis insert_subset_eq_iff mset.simps(2) set_mset_mset split_list)
  with Cons.prems have "distinct (us @ vs)" "y \<notin> set (us @ vs)" "mset ys \<subseteq># mset (us @ vs)"
    by auto
  moreover from this(3) have "set ys \<subseteq> set (us @ vs)"
    by (metis set_mset_mset set_mset_mono)
  moreover have "distinct ys" using calculation(1,3) by (rule Cons.IH)
  ultimately show ?case by auto
qed simp

lemma distinct_map_unique:
  assumes "distinct (map f xs)" "mset xs = add_mset p rest" "q \<in># rest"
  shows "f q \<noteq> f p"
proof -
  obtain ys where ys: "mset ys = rest" using ex_mset by blast
  with assms(2) have "mset (map f xs) = mset (map f (p # ys))" by (simp only: mset_map mset.simps)
  with assms(1) have "distinct (map f (p # ys))" using mset_eq_imp_distinct_iff by blast
  then have "f p \<notin> f ` set ys" by simp
  moreover from ys assms(3) have "q \<in> set ys" by auto
  ultimately show ?thesis by (metis imageI)
qed

end
