(* ===== verification/Bits_N_Pieces.thy ===== *)
theory Bits_N_Pieces
  imports Prelude
begin

text \<open>
  \<open>crates/core_types/src/bits_n_pieces.rs\<close>: the packing of two integers into one
  of twice the width, which carries every value between the ribosome and a zome.
\<close>

section \<open>Constants and operations\<close>

definition U16_MAX :: u32 where
  "U16_MAX = ucast (- 1 :: u16)"

definition U32_MAX :: u64 where
  "U32_MAX = ucast (- 1 :: u32)"

definition u32_high_bits :: "u32 \<Rightarrow> u16" where
  "u32_high_bits i = ucast (drop_bit 16 i)"

definition u32_low_bits :: "u32 \<Rightarrow> u16" where
  "u32_low_bits i = ucast i"

definition u32_split_bits :: "u32 \<Rightarrow> u16 \<times> u16" where
  "u32_split_bits i = (u32_high_bits i, u32_low_bits i)"

definition u32_merge_bits :: "u16 \<Rightarrow> u16 \<Rightarrow> u32" where
  "u32_merge_bits high low = push_bit 16 (ucast high) OR ucast low"

definition u64_high_bits :: "u64 \<Rightarrow> u32" where
  "u64_high_bits i = ucast (drop_bit 32 i)"

definition u64_low_bits :: "u64 \<Rightarrow> u32" where
  "u64_low_bits i = ucast i"

definition u64_split_bits :: "u64 \<Rightarrow> u32 \<times> u32" where
  "u64_split_bits i = (u64_high_bits i, u64_low_bits i)"

definition u64_merge_bits :: "u32 \<Rightarrow> u32 \<Rightarrow> u64" where
  "u64_merge_bits high low = push_bit 32 (ucast high) OR ucast low"

lemmas bits_defs =
  u32_high_bits_def u32_low_bits_def u32_split_bits_def u32_merge_bits_def
  u64_high_bits_def u64_low_bits_def u64_split_bits_def u64_merge_bits_def

section \<open>Merging and splitting are inverse\<close>

lemma u64_high_merge [simp]: "u64_high_bits (u64_merge_bits h l) = h"
  by (rule bit_word_eqI) (auto simp: bits_defs bit_simps dest: bit_imp_le_length)

lemma u64_low_merge [simp]: "u64_low_bits (u64_merge_bits h l) = l"
  by (rule bit_word_eqI) (auto simp: bits_defs bit_simps)

lemma u64_merge_split [simp]: "u64_merge_bits (u64_high_bits i) (u64_low_bits i) = i"
  by (rule bit_word_eqI) (auto simp: bits_defs bit_simps)

lemma u32_high_merge [simp]: "u32_high_bits (u32_merge_bits h l) = h"
  by (rule bit_word_eqI) (auto simp: bits_defs bit_simps dest: bit_imp_le_length)

lemma u32_low_merge [simp]: "u32_low_bits (u32_merge_bits h l) = l"
  by (rule bit_word_eqI) (auto simp: bits_defs bit_simps)

lemma u32_merge_split [simp]: "u32_merge_bits (u32_high_bits i) (u32_low_bits i) = i"
  by (rule bit_word_eqI) (auto simp: bits_defs bit_simps)

lemma u64_merge_eq_0_iff [simp]: "u64_merge_bits h l = 0 \<longleftrightarrow> h = 0 \<and> l = 0"
proof
  assume "u64_merge_bits h l = 0"
  then have "u64_high_bits 0 = h" "u64_low_bits 0 = l"
    using u64_high_merge [of h l] u64_low_merge [of h l] by simp_all
  then show "h = 0 \<and> l = 0" by (simp add: bits_defs)
qed (simp add: bits_defs)

lemma unat_U32_MAX: "unat U32_MAX = 2 ^ 32 - 1"
  by (simp add: U32_MAX_def unsigned_minus_1_eq_mask mask_eq_exp_minus_1)

lemma U32_MAX_numeral: "U32_MAX = 0xFFFFFFFF"
  by (simp add: word_unat_eq_iff unat_U32_MAX)

text \<open>
  Packing two 32-bit words into 64 bits and unpacking them are mutually
  inverse, in both directions and for every value; the 16-bit pair likewise.
\<close>

theorem split_merge_bits_bijection:
  "u64_split_bits (u64_merge_bits h l) = (h, l)
   \<and> case_prod u64_merge_bits (u64_split_bits i) = i
   \<and> u32_split_bits (u32_merge_bits h' l') = (h', l')
   \<and> case_prod u32_merge_bits (u32_split_bits j) = j"
  by (simp add: u64_split_bits_def u32_split_bits_def)

end
