(* ===== verification/Ribosome_Error.thy ===== *)
theory Ribosome_Error
  imports Bits_N_Pieces
begin

text \<open>
  \<open>crates/core_types/src/error/\<close>: the error type of the core and the encoding of
  results into the 64-bit integers that cross the WASM boundary.  A value whose
  low half is non-zero is an allocation; a value whose low half is zero is an
  error code in the high half; zero itself is success.
\<close>

section \<open>Error types\<close>

text \<open>\<open>CryptoError\<close> is a type of the crypto library; an error of that type is
  carried as the message it displays.\<close>

type_synonym CryptoError = string
type_synonym HashString = string

datatype DnaError =
    ZomeNotFound string
  | TraitNotFound string
  | ZomeFunctionNotFound string

datatype RibosomeErrorCode =
    Unspecified
  | ArgumentDeserializationFailed
  | OutOfMemory
  | ReceivedWrongActionResult
  | CallbackFailed
  | RecursiveCallForbidden
  | ResponseSerializationFailed
  | NotAnAllocation
  | ZeroSizedAllocation
  | UnknownEntryType
  | MismatchWasmCallDataType
  | EntryNotFound
  | WorkflowFailed

datatype HolochainError =
    ErrorGeneric string
  | CryptoError CryptoError
  | CryptoServiceError string
  | NotImplemented string
  | LoggingError
  | DnaMissing
  | Dna_error DnaError
  | IoError string
  | SerializationError string
  | InvalidOperationOnSysEntry
  | CapabilityCheckFailed
  | ValidationFailed string
  | ValidationPending
  | Ribosome RibosomeErrorCode
  | RibosomeFailed string
  | ConfigError string
  | Timeout string
  | InitializationFailed string
  | LifecycleError string
  | DnaHashMismatch HashString HashString
  | EntryNotFoundLocally
  | EntryIsPrivate
  | Error_list "HolochainError list"

type_synonym 'a HcResult = "('a, HolochainError) result"

datatype PersistenceError =
    PErrorGeneric string
  | PSerializationError string
  | PIoError string

fun error_from_persistence :: "PersistenceError \<Rightarrow> HolochainError" where
  "error_from_persistence (PErrorGeneric e) = ErrorGeneric e"
| "error_from_persistence (PSerializationError e) = SerializationError e"
| "error_from_persistence (PIoError e) = IoError e"

section \<open>Displaying errors\<close>

fun dna_error_string :: "DnaError \<Rightarrow> string" where
  "dna_error_string (ZomeNotFound err_msg) = err_msg"
| "dna_error_string (TraitNotFound err_msg) = err_msg"
| "dna_error_string (ZomeFunctionNotFound err_msg) = err_msg"

fun as_str :: "RibosomeErrorCode \<Rightarrow> string" where
  "as_str Unspecified = ''Unspecified''"
| "as_str ArgumentDeserializationFailed = ''Argument deserialization failed''"
| "as_str OutOfMemory = ''Out of memory''"
| "as_str ReceivedWrongActionResult = ''Received wrong action result''"
| "as_str CallbackFailed = ''Callback failed''"
| "as_str RecursiveCallForbidden = ''Recursive call forbidden''"
| "as_str ResponseSerializationFailed = ''Response serialization failed''"
| "as_str NotAnAllocation = ''Not an allocation''"
| "as_str ZeroSizedAllocation = ''Zero-sized allocation''"
| "as_str UnknownEntryType = ''Unknown entry type''"
| "as_str MismatchWasmCallDataType = ''Mismatched WasmCallData type''"
| "as_str EntryNotFound = ''Entry Could Not Be Found''"
| "as_str WorkflowFailed = ''Workflow failed''"

fun join_lines :: "string list \<Rightarrow> string" where
  "join_lines [] = []"
| "join_lines [s] = s"
| "join_lines (s # t # ss) = s @ [CHR 0x0A] @ join_lines (t # ss)"

fun error_string :: "HolochainError \<Rightarrow> string" where
  "error_string (ErrorGeneric err_msg) = err_msg"
| "error_string (CryptoError crypto_error) = crypto_error"
| "error_string (CryptoServiceError service_error) = service_error"
| "error_string (NotImplemented description) = ''not implemented: '' @ description"
| "error_string LoggingError = ''logging failed''"
| "error_string DnaMissing = ''DNA is missing''"
| "error_string (Dna_error dna_err) = dna_error_string dna_err"
| "error_string (IoError err_msg) = err_msg"
| "error_string (SerializationError err_msg) = err_msg"
| "error_string InvalidOperationOnSysEntry = ''operation cannot be done on a system entry type''"
| "error_string CapabilityCheckFailed = ''Caller does not have Capability to make that call''"
| "error_string (ValidationFailed fail_msg) = fail_msg"
| "error_string ValidationPending = ''Entry validation could not be completed''"
| "error_string (Ribosome err_code) = as_str err_code"
| "error_string (RibosomeFailed fail_msg) = fail_msg"
| "error_string (ConfigError err_msg) = err_msg"
| "error_string (Timeout s) = ''timeout '' @ s"
| "error_string (InitializationFailed err_msg) = err_msg"
| "error_string (LifecycleError err_msg) = err_msg"
| "error_string (DnaHashMismatch hash1 hash2) =
     ''Provided DNA hash does not match actual DNA hash! '' @ hash1 @ '' != '' @ hash2"
| "error_string EntryNotFoundLocally = ''The requested entry could not be found locally''"
| "error_string EntryIsPrivate =
     ''The requested entry is private and should not be shared via gossip''"
| "error_string (Error_list es) =
     ''A list of errors has been generated '' @ join_lines (map error_string es)"

definition error_code_from_str :: "string \<Rightarrow> RibosomeErrorCode HcResult" where
  "error_code_from_str s =
     (if s = ''Unspecified'' then Ok Unspecified
      else if s = ''Argument deserialization failed'' then Ok ArgumentDeserializationFailed
      else if s = ''Out of memory'' then Ok OutOfMemory
      else if s = ''Received wrong action result'' then Ok ReceivedWrongActionResult
      else if s = ''Callback failed'' then Ok CallbackFailed
      else if s = ''Recursive call forbidden'' then Ok RecursiveCallForbidden
      else if s = ''Response serialization failed'' then Ok ResponseSerializationFailed
      else if s = ''Not an allocation'' then Ok NotAnAllocation
      else if s = ''Zero-sized allocation'' then Ok ZeroSizedAllocation
      else if s = ''Unknown entry type'' then Ok UnknownEntryType
      else if s = ''Entry Could Not Be Found'' then Ok EntryNotFound
      else if s = ''Workflow failed'' then Ok WorkflowFailed
      else Err (ErrorGeneric ''Unknown RibosomeErrorCode''))"

text \<open>\<open>Serialize\<close> and \<open>Deserialize\<close> go through the display string; deserialising
  an unknown string panics.\<close>

definition serialize_error_code :: "RibosomeErrorCode \<Rightarrow> string" where
  "serialize_error_code c = as_str c"

definition deserialize_error_code :: "string \<Rightarrow> RibosomeErrorCode outcome" where
  "deserialize_error_code s =
     expect_ok ''could not deserialize RibosomeErrorCode'' (error_code_from_str s)"

section \<open>Error codes as integers\<close>

type_synonym RibosomeEncodingBits = u64
type_synonym RibosomeCodeBits = u32

text \<open>The discriminants of the \<open>repr(u64)\<close> enum, \<open>n << 32\<close>.\<close>

fun error_code_discriminant :: "RibosomeErrorCode \<Rightarrow> u64" where
  "error_code_discriminant Unspecified = push_bit 32 1"
| "error_code_discriminant ArgumentDeserializationFailed = push_bit 32 2"
| "error_code_discriminant OutOfMemory = push_bit 32 3"
| "error_code_discriminant ReceivedWrongActionResult = push_bit 32 4"
| "error_code_discriminant CallbackFailed = push_bit 32 5"
| "error_code_discriminant RecursiveCallForbidden = push_bit 32 6"
| "error_code_discriminant ResponseSerializationFailed = push_bit 32 7"
| "error_code_discriminant NotAnAllocation = push_bit 32 8"
| "error_code_discriminant ZeroSizedAllocation = push_bit 32 9"
| "error_code_discriminant UnknownEntryType = push_bit 32 10"
| "error_code_discriminant MismatchWasmCallDataType = push_bit 32 11"
| "error_code_discriminant EntryNotFound = push_bit 32 12"
| "error_code_discriminant WorkflowFailed = push_bit 32 13"

definition from_code_int :: "RibosomeCodeBits \<Rightarrow> RibosomeErrorCode outcome" where
  "from_code_int code =
     (if code = 0 then Panics ''RibosomeErrorCode == 0 encountered''
      else if code = 2 then Returns ArgumentDeserializationFailed
      else if code = 3 then Returns OutOfMemory
      else if code = 4 then Returns ReceivedWrongActionResult
      else if code = 5 then Returns CallbackFailed
      else if code = 6 then Returns RecursiveCallForbidden
      else if code = 7 then Returns ResponseSerializationFailed
      else if code = 8 then Returns NotAnAllocation
      else if code = 9 then Returns ZeroSizedAllocation
      else if code = 10 then Returns UnknownEntryType
      else if code = 12 then Returns EntryNotFound
      else if code = 13 then Returns WorkflowFailed
      else Returns Unspecified)"

datatype RibosomeEncodedValue =
    Success
  | Allocation RibosomeEncodingBits
  | Failure RibosomeErrorCode

fun encode_value :: "RibosomeEncodedValue \<Rightarrow> RibosomeEncodingBits" where
  "encode_value Success = 0"
| "encode_value (Allocation allocation) = allocation"
| "encode_value (Failure code) = error_code_discriminant code"

definition decode_value :: "RibosomeEncodingBits \<Rightarrow> RibosomeEncodedValue outcome" where
  "decode_value i =
     (if i = 0 then Returns Success
      else let (code_int, maybe_allocation_length) = u64_split_bits i
           in if maybe_allocation_length = 0
              then outcome_bind (from_code_int code_int) (\<lambda>c. Returns (Failure c))
              else Returns (Allocation i))"

fun from_return_code :: "RibosomeEncodedValue \<Rightarrow> RibosomeErrorCode outcome" where
  "from_return_code (Failure rib_err) = Returns rib_err"
| "from_return_code _ = Panics ''RibosomeEncodedValue encountered''"

fun error_code_from_error :: "HolochainError \<Rightarrow> RibosomeErrorCode" where
  "error_code_from_error (NotImplemented _) = CallbackFailed"
| "error_code_from_error (SerializationError _) = ArgumentDeserializationFailed"
| "error_code_from_error InvalidOperationOnSysEntry = UnknownEntryType"
| "error_code_from_error (ValidationFailed _) = CallbackFailed"
| "error_code_from_error (Ribosome e) = e"
| "error_code_from_error (RibosomeFailed _) = CallbackFailed"
| "error_code_from_error _ = Unspecified"

definition encoded_value_from_error :: "HolochainError \<Rightarrow> RibosomeEncodedValue" where
  "encoded_value_from_error e = Failure (error_code_from_error e)"

text \<open>\<open>FromStr\<close> for encoded values: anything but \<open>Success\<close> is read as an error.\<close>

definition encoded_value_from_str :: "string \<Rightarrow> RibosomeEncodedValue HcResult" where
  "encoded_value_from_str s =
     (if s = ''Success'' then Ok Success
      else and_then (error_code_from_str s) (\<lambda>c. Ok (Failure c)))"

section \<open>Facts\<close>

lemma merge_zero_low: "push_bit 32 (ucast (c :: u32) :: u64) = u64_merge_bits c 0"
  by (simp add: u64_merge_bits_def)

fun code_int_of :: "RibosomeErrorCode \<Rightarrow> u32" where
  "code_int_of Unspecified = 1"
| "code_int_of ArgumentDeserializationFailed = 2"
| "code_int_of OutOfMemory = 3"
| "code_int_of ReceivedWrongActionResult = 4"
| "code_int_of CallbackFailed = 5"
| "code_int_of RecursiveCallForbidden = 6"
| "code_int_of ResponseSerializationFailed = 7"
| "code_int_of NotAnAllocation = 8"
| "code_int_of ZeroSizedAllocation = 9"
| "code_int_of UnknownEntryType = 10"
| "code_int_of MismatchWasmCallDataType = 11"
| "code_int_of EntryNotFound = 12"
| "code_int_of WorkflowFailed = 13"

lemma discriminant_merge: "error_code_discriminant c = u64_merge_bits (code_int_of c) 0"
  by (cases c) (simp_all add: u64_merge_bits_def)

lemma code_int_of_nonzero [simp]: "code_int_of c \<noteq> 0"
  by (cases c) simp_all

lemma from_code_int_of:
  "from_code_int (code_int_of c) =
     Returns (if c = MismatchWasmCallDataType then Unspecified else c)"
  by (cases c) (simp_all add: from_code_int_def)

lemma from_code_int_panics_iff: "(\<exists>m. from_code_int c = Panics m) \<longleftrightarrow> c = 0"
  by (auto simp: from_code_int_def)

lemma decode_value_merge:
  "decode_value (u64_merge_bits h l) =
     (if h = 0 \<and> l = 0 then Returns Success
      else if l = 0 then outcome_bind (from_code_int h) (\<lambda>c. Returns (Failure c))
      else Returns (Allocation (u64_merge_bits h l)))"
  by (simp add: decode_value_def u64_split_bits_def)

lemma decode_value_returns [panic_free]: "\<exists>v. decode_value i = Returns v"
proof -
  let ?h = "u64_high_bits i" and ?l = "u64_low_bits i"
  have "\<exists>v. decode_value (u64_merge_bits ?h ?l) = Returns v"
  proof (cases "?l = 0 \<and> ?h \<noteq> 0")
    case True
    then obtain c where "from_code_int ?h = Returns c"
      using from_code_int_panics_iff [of ?h] by (cases "from_code_int ?h") auto
    with True show ?thesis by (simp only: decode_value_merge) simp
  next
    case False
    then show ?thesis by (simp only: decode_value_merge) auto
  qed
  then show ?thesis by simp
qed

lemma error_code_from_str_as_str:
  "error_code_from_str (as_str c) =
     (if c = MismatchWasmCallDataType then Err (ErrorGeneric ''Unknown RibosomeErrorCode'')
      else Ok c)"
  by (cases c) (simp_all add: error_code_from_str_def)

lemma error_code_from_str_Ok: "error_code_from_str s = Ok c \<Longrightarrow> as_str c = s"
  by (auto simp: error_code_from_str_def split: if_splits)

text \<open>A value can cross the boundary when an allocation it carries has a length.\<close>

fun encodable :: "RibosomeEncodedValue \<Rightarrow> bool" where
  "encodable (Allocation a) \<longleftrightarrow> u64_low_bits a \<noteq> 0"
| "encodable _ \<longleftrightarrow> True"

lemma decode_encode_failure:
  "decode_value (error_code_discriminant c) =
     Returns (Failure (if c = MismatchWasmCallDataType then Unspecified else c))"
  unfolding discriminant_merge decode_value_merge by (simp add: from_code_int_of)

lemma decode_allocation: "u64_low_bits a \<noteq> 0 \<Longrightarrow> decode_value a = Returns (Allocation a)"
  using decode_value_merge [of "u64_high_bits a" "u64_low_bits a"] by simp

section \<open>Properties\<close>



text \<open>
  Decoding is total, although the decoder of error codes panics on zero: no
  64-bit value received from a zome makes the ribosome panic while decoding it, and
  each decodes to success exactly when it is zero, to an allocation exactly when its
  low half is non-zero, and to an error otherwise.
\<close>

theorem decode_value_total:
  "(\<exists>v. decode_value i = Returns v)
   \<and> (decode_value i = Returns Success \<longleftrightarrow> i = 0)
   \<and> ((\<exists>a. decode_value i = Returns (Allocation a)) \<longleftrightarrow> u64_low_bits i \<noteq> 0)
   \<and> ((\<exists>c. decode_value i = Returns (Failure c)) \<longleftrightarrow> i \<noteq> 0 \<and> u64_low_bits i = 0)"
  using decode_value_returns [of i] decode_allocation [of i]
  by (cases "u64_low_bits i = 0")
     (auto simp: decode_value_def u64_split_bits_def outcome_bind_Returns_iff)

text \<open>
  Reading the printed form of an error code returns that code, for every code
  but \<open>MismatchWasmCallDataType\<close>, whose name the parser does not know; deserialising
  a serialised \<open>MismatchWasmCallDataType\<close> is a panic.
\<close>

theorem error_code_string_roundtrip:
  "(error_code_from_str (as_str c) = Ok c \<longleftrightarrow> c \<noteq> MismatchWasmCallDataType)
   \<and> deserialize_error_code (serialize_error_code c) =
       (if c = MismatchWasmCallDataType then Panics ''could not deserialize RibosomeErrorCode''
        else Returns c)"
  by (simp_all add: error_code_from_str_as_str deserialize_error_code_def
      serialize_error_code_def)

end
