(* ===== verification/Wasm_Memory.thy ===== *)
theory Wasm_Memory
  imports Ribosome_Error
begin

text \<open>
  \<open>crates/wasm_utils/src/memory/\<close> and \<open>crates/core/src/wasm_engine/memory.rs\<close>: the
  stack allocator that a zome and the ribosome share, the encoding of its blocks
  into 64 bits, and the reads and writes through it on either side.

  \<open>Offset\<close>, \<open>Length\<close> and \<open>Top\<close> are the \<open>u32\<close> they wrap.  Inside the zome an address
  is an index into the linear memory, a list of bytes; an access past its end traps.
  The ribosome reaches the same memory through the interpreter, whose \<open>get\<close> and
  \<open>set\<close> are the fields of \<open>memory_ops\<close>.
\<close>

section \<open>Allocations\<close>

type_synonym MemoryInt = u32
type_synonym MemoryBits = u64

definition MEMORY_INT_MAX :: MemoryBits where
  "MEMORY_INT_MAX = U32_MAX"

datatype AllocationError = OutOfBounds | ZeroLength | BadStackAlignment | Serialization

fun allocation_error_string :: "AllocationError \<Rightarrow> string" where
  "allocation_error_string OutOfBounds = ''Allocation out of bounds''"
| "allocation_error_string ZeroLength = ''Allocation is zero length''"
| "allocation_error_string BadStackAlignment = ''Allocation not aligned with stack''"
| "allocation_error_string Serialization = ''Allocation could not serialize data''"

definition allocation_error_to_error :: "AllocationError \<Rightarrow> HolochainError" where
  "allocation_error_to_error e = ErrorGeneric (allocation_error_string e)"

record WasmAllocation =
  offset :: MemoryInt
  alloc_length :: MemoryInt

type_synonym AllocationResult = "(WasmAllocation, AllocationError) result"

definition WasmAllocation_max :: MemoryBits where
  "WasmAllocation_max = MEMORY_INT_MAX"

definition WasmAllocation_new :: "MemoryInt \<Rightarrow> MemoryInt \<Rightarrow> AllocationResult" where
  "WasmAllocation_new off len =
     (if ucast off + ucast len > WasmAllocation_max then Err OutOfBounds
      else if len = 0 then Err ZeroLength
      else Ok \<lparr> offset = off, alloc_length = len \<rparr>)"

section \<open>The stack\<close>

record WasmStack =
  stack_top :: MemoryInt

definition WasmStack_max :: MemoryBits where
  "WasmStack_max = MEMORY_INT_MAX"

definition WasmStack_min :: MemoryInt where
  "WasmStack_min = 0"

definition WasmStack_new :: WasmStack where
  "WasmStack_new = \<lparr> stack_top = WasmStack_min \<rparr>"

definition next_allocation :: "WasmStack \<Rightarrow> MemoryInt \<Rightarrow> AllocationResult" where
  "next_allocation stack len = WasmAllocation_new (stack_top stack) len"

definition allocate ::
  "WasmStack \<Rightarrow> WasmAllocation \<Rightarrow> (MemoryInt, AllocationError) result \<times> WasmStack" where
  "allocate stack a =
     (if stack_top stack \<noteq> offset a then (Err BadStackAlignment, stack)
      else if (ucast (stack_top stack) :: MemoryBits) + ucast (alloc_length a) > WasmStack_max
      then (Err OutOfBounds, stack)
      else (Ok (stack_top stack), stack\<lparr> stack_top := offset a + alloc_length a \<rparr>))"

definition deallocate ::
  "WasmStack \<Rightarrow> WasmAllocation \<Rightarrow> (MemoryInt, AllocationError) result \<times> WasmStack" where
  "deallocate stack a =
     (if stack_top stack \<noteq> offset a + alloc_length a then (Err BadStackAlignment, stack)
      else if offset a < WasmStack_min then (Err OutOfBounds, stack)
      else (Ok (stack_top stack), stack\<lparr> stack_top := offset a \<rparr>))"

definition WasmStack_try_from :: "WasmAllocation \<Rightarrow> (WasmStack, AllocationError) result" where
  "WasmStack_try_from a =
     (let (r, stack) = allocate \<lparr> stack_top = offset a \<rparr> a
      in and_then r (\<lambda>_. Ok stack))"

section \<open>Encoding allocations\<close>

definition allocation_from_encoded :: "RibosomeEncodingBits \<Rightarrow> AllocationResult" where
  "allocation_from_encoded i =
     (let (off, len) = u64_split_bits i in WasmAllocation_new off len)"

definition encoded_from_allocation :: "WasmAllocation \<Rightarrow> RibosomeEncodingBits" where
  "encoded_from_allocation a = u64_merge_bits (offset a) (alloc_length a)"

fun error_code_from_allocation_error :: "AllocationError \<Rightarrow> RibosomeErrorCode" where
  "error_code_from_allocation_error OutOfBounds = OutOfMemory"
| "error_code_from_allocation_error ZeroLength = ZeroSizedAllocation"
| "error_code_from_allocation_error BadStackAlignment = NotAnAllocation"
| "error_code_from_allocation_error Serialization = NotAnAllocation"

definition allocation_error_encoding :: "AllocationError \<Rightarrow> RibosomeEncodingBits" where
  "allocation_error_encoding e = encode_value (Failure (error_code_from_allocation_error e))"

definition allocation_encoding :: "WasmAllocation \<Rightarrow> RibosomeEncodingBits" where
  "allocation_encoding a = encode_value (Allocation (encoded_from_allocation a))"

definition allocation_try_from_ribosome_encoding ::
  "RibosomeEncodingBits \<Rightarrow> AllocationResult outcome" where
  "allocation_try_from_ribosome_encoding i =
     outcome_bind (decode_value i) (\<lambda>v. Returns
       (case v of
          Success \<Rightarrow> Err ZeroLength
        | Failure _ \<Rightarrow> Err OutOfBounds
        | Allocation a \<Rightarrow> allocation_from_encoded a))"

definition stack_try_from_ribosome_encoding ::
  "RibosomeEncodingBits \<Rightarrow> (WasmStack, RibosomeEncodedValue) result outcome" where
  "stack_try_from_ribosome_encoding i =
     outcome_bind (allocation_try_from_ribosome_encoding i) (\<lambda>r.
       case and_then r WasmStack_try_from of
         Inl e \<Rightarrow> outcome_bind (decode_value (allocation_error_encoding e)) (\<lambda>v. Returns (Err v))
       | Inr stack \<Rightarrow> Returns (Ok stack))"

fun return_code_for_allocation_result :: "AllocationResult \<Rightarrow> RibosomeEncodedValue" where
  "return_code_for_allocation_result (Inr a) = Allocation (encoded_from_allocation a)"
| "return_code_for_allocation_result (Inl e) = Failure (error_code_from_allocation_error e)"

section \<open>Linear memory\<close>

type_synonym bytes = "u8 list"

text \<open>Reads and writes of a byte range; \<open>None\<close> is the trap.\<close>

definition linear_get :: "bytes \<Rightarrow> nat \<Rightarrow> nat \<Rightarrow> bytes option" where
  "linear_get m p n = (if p + n \<le> length m then Some (take n (drop p m)) else None)"

definition linear_set :: "bytes \<Rightarrow> nat \<Rightarrow> bytes \<Rightarrow> bytes option" where
  "linear_set m p bs =
     (if p + length bs \<le> length m then Some (take p m @ bs @ drop (p + length bs) m) else None)"

text \<open>\<open>str::from_utf8\<close>: well-formed UTF-8.\<close>

definition continuation :: "u8 \<Rightarrow> bool" where
  "continuation b \<longleftrightarrow> 128 \<le> b \<and> b \<le> 191"

fun utf8 :: "bytes \<Rightarrow> bool" where
  "utf8 [] \<longleftrightarrow> True"
| "utf8 (a # bs) \<longleftrightarrow>
     (if a \<le> 127 then utf8 bs
      else case bs of
        [] \<Rightarrow> False
      | b # cs \<Rightarrow>
          (if 194 \<le> a \<and> a \<le> 223 then continuation b \<and> utf8 cs
           else case cs of
             [] \<Rightarrow> False
           | c # ds \<Rightarrow>
               (if 224 \<le> a \<and> a \<le> 239
                then continuation b \<and> (a = 224 \<longrightarrow> 160 \<le> b) \<and> (a = 237 \<longrightarrow> b \<le> 159)
                     \<and> continuation c \<and> utf8 ds
                else case ds of
                  [] \<Rightarrow> False
                | d # es \<Rightarrow>
                    240 \<le> a \<and> a \<le> 244
                    \<and> continuation b \<and> (a = 240 \<longrightarrow> 144 \<le> b) \<and> (a = 244 \<longrightarrow> b \<le> 143)
                    \<and> continuation c \<and> continuation d \<and> utf8 es)))"

section \<open>Reads and writes inside the zome\<close>

text \<open>\<open>CStr::from_ptr\<close> reads up to the first zero byte, whatever the length of the
  allocation; a memory with no zero byte from the offset on is a trap.\<close>

definition read_str_raw :: "bytes \<Rightarrow> MemoryInt \<Rightarrow> bytes outcome" where
  "read_str_raw m ptr =
     (let rest = drop (unat ptr) m
      in if 0 \<in> set rest
         then (let s = takeWhile (\<lambda>b. b \<noteq> 0) rest
               in if utf8 s then Returns s else Panics ''invalid utf-8 sequence'')
         else Panics ''out of bounds memory access'')"

definition read_to_string :: "bytes \<Rightarrow> WasmAllocation \<Rightarrow> bytes outcome" where
  "read_to_string m a = read_str_raw m (offset a)"

definition load_ribosome_encoded_string ::
  "bytes \<Rightarrow> RibosomeEncodingBits \<Rightarrow> bytes HcResult outcome" where
  "load_ribosome_encoded_string m i =
     outcome_bind (decode_value i) (\<lambda>v.
       case v of
         Success \<Rightarrow> Returns (Err (Ribosome ZeroSizedAllocation))
       | Failure err_code \<Rightarrow> Returns (Err (Ribosome err_code))
       | Allocation a \<Rightarrow>
           (case allocation_from_encoded a of
              Inl e \<Rightarrow> Returns (Err (allocation_error_to_error e))
            | Inr alloc \<Rightarrow> outcome_bind (read_to_string m alloc) (\<lambda>s. Returns (Ok s))))"

text \<open>The copy loop of \<open>write_in_wasm_memory\<close>: the slice has \<open>len\<close> bytes at the old
  top, and writing past it panics.\<close>

definition write_in_wasm_memory ::
  "WasmStack \<Rightarrow> bytes \<Rightarrow> bytes \<Rightarrow> MemoryInt \<Rightarrow> (AllocationResult \<times> WasmStack \<times> bytes) outcome"
where
  "write_in_wasm_memory stack m bs len =
     (case next_allocation stack len of
        Inl e \<Rightarrow> Returns (Err e, stack, m)
      | Inr a \<Rightarrow>
          (case allocate stack a of
             (Inl e, stack') \<Rightarrow> Returns (Err e, stack', m)
           | (Inr ptr, stack') \<Rightarrow>
               if length bs > unat len then Panics ''index out of bounds''
               else (case linear_set m (unat ptr) bs of
                       None \<Rightarrow> Panics ''out of bounds memory access''
                     | Some m' \<Rightarrow> Returns (WasmAllocation_new ptr len, stack', m'))))"

definition write_string ::
  "WasmStack \<Rightarrow> bytes \<Rightarrow> bytes \<Rightarrow> (AllocationResult \<times> WasmStack \<times> bytes) outcome" where
  "write_string stack m s =
     (let len = of_nat (max (length s) 1) :: MemoryInt
      in if (ucast len :: MemoryBits) > WasmStack_max then Returns (Err OutOfBounds, stack, m)
         else write_in_wasm_memory stack m s len)"

text \<open>\<open>jsonable\<close> is the value's JSON text, or \<open>None\<close> when it does not serialise.\<close>

definition write_json ::
  "WasmStack \<Rightarrow> bytes \<Rightarrow> bytes option \<Rightarrow> (AllocationResult \<times> WasmStack \<times> bytes) outcome" where
  "write_json stack m jsonable =
     (case jsonable of
        None \<Rightarrow> Returns (Err Serialization, stack, m)
      | Some json_bytes \<Rightarrow>
          (let json_bytes_len = of_nat (max (length json_bytes) 1) :: MemoryInt
           in if (ucast json_bytes_len :: MemoryBits) > WasmStack_max
              then Returns (Err OutOfBounds, stack, m)
              else write_in_wasm_memory stack m json_bytes json_bytes_len))"

section \<open>Reads and writes by the ribosome\<close>

record 'm memory_ops =
  mem_get :: "'m \<Rightarrow> MemoryInt \<Rightarrow> nat \<Rightarrow> bytes option"
  mem_set :: "'m \<Rightarrow> MemoryInt \<Rightarrow> bytes \<Rightarrow> 'm option"

record 'm WasmPageManager =
  page_stack :: WasmStack
  wasm_memory :: 'm

definition WasmPageManager_new :: "'m \<Rightarrow> 'm WasmPageManager" where
  "WasmPageManager_new m = \<lparr> page_stack = \<lparr> stack_top = 0 \<rparr>, wasm_memory = m \<rparr>"

definition stack_allocate :: "WasmStack \<Rightarrow> MemoryInt \<Rightarrow> AllocationResult \<times> WasmStack" where
  "stack_allocate stack len =
     (case next_allocation stack len of
        Inl e \<Rightarrow> (Err e, stack)
      | Inr a \<Rightarrow>
          (case allocate stack a of
             (Inl e, stack') \<Rightarrow> (Err e, stack')
           | (Inr t, stack') \<Rightarrow> (WasmAllocation_new t len, stack')))"

definition page_allocate ::
  "'m WasmPageManager \<Rightarrow> MemoryInt \<Rightarrow> AllocationResult \<times> 'm WasmPageManager" where
  "page_allocate mgr len =
     (let (r, stack') = stack_allocate (page_stack mgr) len
      in (r, mgr\<lparr> page_stack := stack' \<rparr>))"

definition page_write ::
  "'m memory_ops \<Rightarrow> 'm WasmPageManager \<Rightarrow> bytes \<Rightarrow> (AllocationResult \<times> 'm WasmPageManager) outcome"
where
  "page_write ops mgr data =
     (if (of_nat (length data) :: MemoryBits) > WasmAllocation_max
      then Returns (Err OutOfBounds, mgr)
      else if data = [] then Returns (Err ZeroLength, mgr)
      else (case page_allocate mgr (of_nat (length data)) of
              (Inl e, mgr') \<Rightarrow> Returns (Err e, mgr')
            | (Inr mem_buf, mgr') \<Rightarrow>
                (case mem_set ops (wasm_memory mgr') (offset mem_buf) data of
                   None \<Rightarrow> Panics ''memory should be writable''
                 | Some m' \<Rightarrow> Returns (Ok mem_buf, mgr'\<lparr> wasm_memory := m' \<rparr>))))"

definition page_read :: "'m memory_ops \<Rightarrow> 'm WasmPageManager \<Rightarrow> WasmAllocation \<Rightarrow> bytes outcome" where
  "page_read ops mgr a =
     expect ''Successfully retrieve the result''
       (mem_get ops (wasm_memory mgr) (offset a) (unat (alloc_length a)))"

text \<open>\<open>load_json_string_from_args\<close>; \<open>JsonString::null\<close> is the text \<open>null\<close>.\<close>

definition json_null :: bytes where
  "json_null = [0x6e, 0x75, 0x6c, 0x6c]"

definition load_json_string_from_args ::
  "'m memory_ops \<Rightarrow> 'm WasmPageManager \<Rightarrow> RibosomeEncodingBits list \<Rightarrow> bytes outcome" where
  "load_json_string_from_args ops mgr args =
     (case args of
        [encoded] \<Rightarrow>
          outcome_bind (decode_value encoded) (\<lambda>v.
            case v of
              Success \<Rightarrow> Returns json_null
            | Failure _ \<Rightarrow> Panics ''received error code instead of valid encoded allocation''
            | Allocation a \<Rightarrow>
                outcome_bind (expect_ok ''unwrap'' (allocation_from_encoded a)) (\<lambda>alloc.
                outcome_bind (page_read ops mgr alloc) (\<lambda>bin_arg.
                  if utf8 bin_arg then Returns bin_arg else Panics ''unwrap'')))
      | _ \<Rightarrow> Panics ''assertion failed'')"

definition store_as_json_string ::
  "'m memory_ops \<Rightarrow> 'm WasmPageManager \<Rightarrow> bytes
     \<Rightarrow> (RibosomeEncodingBits \<times> 'm WasmPageManager) outcome" where
  "store_as_json_string ops mgr j =
     outcome_bind (page_write ops mgr (j @ [0])) (\<lambda>(r, mgr').
       case r of
         Inl _ \<Rightarrow> Returns (encode_value (Failure Unspecified), mgr')
       | Inr a \<Rightarrow> Returns (encode_value (Allocation (encoded_from_allocation a)), mgr'))"

section \<open>Calling a zome function\<close>

text \<open>
  \<open>run_dna\<close>.  The module instance, its memory and the run of the zome's code belong
  to the interpreter: \<open>inst\<close> is the fresh memory or the error of the module factories,
  \<open>invoke\<close> runs the exported function on its one argument.  \<open>dbg\<close> is the text of the
  call data in error messages and \<open>utf8_error\<close> the text of a decoding error.
\<close>

datatype invocation =
    InvokeError string
  | NoValue
  | NotI64
  | Value RibosomeEncodingBits

fun allocation_error_debug :: "AllocationError \<Rightarrow> string" where
  "allocation_error_debug OutOfBounds = ''OutOfBounds''"
| "allocation_error_debug ZeroLength = ''ZeroLength''"
| "allocation_error_debug BadStackAlignment = ''BadStackAlignment''"
| "allocation_error_debug Serialization = ''Serialization''"

definition run_dna_input ::
  "'m memory_ops \<Rightarrow> string \<Rightarrow> 'm \<Rightarrow> bytes option
     \<Rightarrow> (RibosomeEncodingBits HcResult \<times> 'm WasmPageManager) outcome" where
  "run_dna_input ops dbg m parameters =
     (let input_parameters = (case parameters of None \<Rightarrow> [] | Some bs \<Rightarrow> bs)
      in outcome_bind (page_write ops (WasmPageManager_new m) input_parameters) (\<lambda>(r, mgr).
           Returns ((case r of
                       Inl ZeroLength \<Rightarrow> Ok (encode_value Success)
                     | Inl err \<Rightarrow> Err (RibosomeFailed (''WASM Memory issue: '' @
                         allocation_error_debug err @ ''. data = '' @ dbg))
                     | Inr a \<Rightarrow> Ok (encode_value (Allocation (encoded_from_allocation a)))), mgr)))"

definition run_dna_output ::
  "'m memory_ops \<Rightarrow> (bytes \<Rightarrow> string) \<Rightarrow> 'm WasmPageManager \<Rightarrow> RibosomeEncodingBits
     \<Rightarrow> bytes HcResult outcome" where
  "run_dna_output ops utf8_error mgr returned_encoding =
     outcome_bind (decode_value returned_encoding) (\<lambda>v.
       case v of
         Success \<Rightarrow> Returns (Ok json_null)
       | Failure err_code \<Rightarrow>
           Returns (Err (RibosomeFailed (''Zome function failure: '' @ as_str err_code)))
       | Allocation e \<Rightarrow>
           (case allocation_from_encoded e of
              Inr a \<Rightarrow>
                outcome_bind (page_read ops mgr a) (\<lambda>result. Returns
                  (if utf8 result then Ok result
                   else Err (RibosomeFailed (''WASM failed to return value: '' @
                          utf8_error result))))
            | Inl err \<Rightarrow>
                Returns (Err (RibosomeFailed (''WASM return value allocation failed: '' @
                  allocation_error_debug err)))))"

definition run_dna ::
  "'m memory_ops \<Rightarrow> (bytes \<Rightarrow> string) \<Rightarrow> string
     \<Rightarrow> ('m WasmPageManager \<Rightarrow> RibosomeEncodingBits \<Rightarrow> invocation \<times> 'm WasmPageManager)
     \<Rightarrow> 'm HcResult \<Rightarrow> bytes option \<Rightarrow> bytes HcResult outcome" where
  "run_dna ops utf8_error dbg invoke inst parameters =
     (case inst of
        Inl e \<Rightarrow> Returns (Err e)
      | Inr m \<Rightarrow>
          outcome_bind (run_dna_input ops dbg m parameters) (\<lambda>(r, mgr).
            case r of
              Inl e \<Rightarrow> Returns (Err e)
            | Inr encoded \<Rightarrow>
                (case invoke mgr encoded of
                   (InvokeError err, mgr') \<Rightarrow>
                     Returns (Err (RibosomeFailed (''WASM invocation failed: '' @ err @
                       ''. data = '' @ dbg)))
                 | (NoValue, mgr') \<Rightarrow> Panics ''called `Option::unwrap()` on a `None` value''
                 | (NotI64, mgr') \<Rightarrow>
                     Returns (Err (RibosomeFailed (''WASM return value missing. data = '' @ dbg)))
                 | (Value i, mgr') \<Rightarrow> run_dna_output ops utf8_error mgr' i)))"

section \<open>Well-formed allocations\<close>

definition valid_allocation :: "WasmAllocation \<Rightarrow> bool" where
  "valid_allocation a \<longleftrightarrow>
     alloc_length a \<noteq> 0 \<and> unat (offset a) + unat (alloc_length a) < 2 ^ 32"

definition block_end :: "WasmAllocation \<Rightarrow> nat" where
  "block_end a = unat (offset a) + unat (alloc_length a)"

lemma memory_max_less_iff:
  "MEMORY_INT_MAX < (ucast (a :: u32) :: u64) + ucast (b :: u32) \<longleftrightarrow> 2 ^ 32 \<le> unat a + unat b"
  by (simp only: word_less_nat_alt unat_sum_u64 MEMORY_INT_MAX_def unat_U32_MAX) auto

lemma u32_within_max: "\<not> MEMORY_INT_MAX < (ucast (a :: u32) :: u64)"
  using memory_max_less_iff [of a 0] unat_u32_less [of a] by simp

lemmas max_defs = WasmAllocation_max_def WasmStack_max_def

lemma WasmAllocation_new_alt:
  "WasmAllocation_new off len =
     (if 2 ^ 32 \<le> unat off + unat len then Err OutOfBounds
      else if len = 0 then Err ZeroLength
      else Ok \<lparr> offset = off, alloc_length = len \<rparr>)"
  by (simp only: WasmAllocation_new_def max_defs memory_max_less_iff)

lemma WasmAllocation_new_Ok_iff:
  "WasmAllocation_new off len = Ok a \<longleftrightarrow>
     a = \<lparr> offset = off, alloc_length = len \<rparr> \<and> valid_allocation a"
  by (auto simp: WasmAllocation_new_alt valid_allocation_def)

lemma stack_allocate_alt:
  "stack_allocate stack len =
     (if 2 ^ 32 \<le> unat (stack_top stack) + unat len then (Err OutOfBounds, stack)
      else if len = 0 then (Err ZeroLength, stack)
      else (Ok \<lparr> offset = stack_top stack, alloc_length = len \<rparr>,
            stack\<lparr> stack_top := stack_top stack + len \<rparr>))"
  by (simp add: stack_allocate_def next_allocation_def WasmAllocation_new_alt allocate_def
      max_defs memory_max_less_iff)

lemma deallocate_alt:
  "deallocate stack a =
     (if stack_top stack = offset a + alloc_length a
      then (Ok (stack_top stack), stack\<lparr> stack_top := offset a \<rparr>)
      else (Err BadStackAlignment, stack))"
  by (simp add: deallocate_def WasmStack_min_def)

lemma unat_block_end:
  "valid_allocation a \<Longrightarrow> unat (offset a + alloc_length a) = block_end a"
  by (simp add: valid_allocation_def block_end_def unat_add_u32_no_overflow)

section \<open>Programs over a stack allocator\<close>

text \<open>
  The abstract contract: the live blocks form a stack, newest first, which tiles the
  addresses from zero to the top.  A client is a list of commands; a failing
  command leaves everything as it was.
\<close>

datatype stack_cmd = Push MemoryInt | Pop

fun exec_cmd ::
  "('s \<Rightarrow> MemoryInt \<Rightarrow> AllocationResult \<times> 's)
   \<Rightarrow> ('s \<Rightarrow> WasmAllocation \<Rightarrow> (MemoryInt, AllocationError) result \<times> 's)
   \<Rightarrow> stack_cmd \<Rightarrow> 's \<times> WasmAllocation list \<Rightarrow> 's \<times> WasmAllocation list" where
  "exec_cmd alloc release (Push len) (s, live) =
     (case alloc s len of (Inr a, s') \<Rightarrow> (s', a # live) | (Inl e, s') \<Rightarrow> (s', live))"
| "exec_cmd alloc release Pop (s, []) = (s, [])"
| "exec_cmd alloc release Pop (s, a # live) =
     (case release s a of (Inr t, s') \<Rightarrow> (s', live) | (Inl e, s') \<Rightarrow> (s', a # live))"

fun abs_cmd :: "stack_cmd \<Rightarrow> nat list \<Rightarrow> nat list" where
  "abs_cmd (Push len) lens =
     (if len \<noteq> 0 \<and> sum_list lens + unat len < 2 ^ 32 then unat len # lens else lens)"
| "abs_cmd Pop lens = tl lens"

fun tiles :: "nat \<Rightarrow> WasmAllocation list \<Rightarrow> bool" where
  "tiles t [] \<longleftrightarrow> t = 0"
| "tiles t (a # as) \<longleftrightarrow> valid_allocation a \<and> t = block_end a \<and> tiles (unat (offset a)) as"

abbreviation lengths :: "WasmAllocation list \<Rightarrow> nat list" where
  "lengths live \<equiv> map (\<lambda>a. unat (alloc_length a)) live"

definition stacked :: "WasmAllocation list \<Rightarrow> bool" where
  "stacked live \<longleftrightarrow>
     list_all valid_allocation live \<and> sorted_wrt (\<lambda>a b. block_end b \<le> unat (offset a)) live"

lemma tiles_sum: "tiles t live \<Longrightarrow> t = sum_list (lengths live)"
  by (induction live arbitrary: t) (auto simp: block_end_def)

lemma tiles_below: "tiles t live \<Longrightarrow> list_all (\<lambda>a. block_end a \<le> t) live"
proof (induction live arbitrary: t)
  case (Cons a live)
  then have "list_all (\<lambda>b. block_end b \<le> unat (offset a)) live" "t = block_end a" by auto
  then show ?case by (auto simp: list_all_iff block_end_def)
qed simp

lemma tiles_stacked: "tiles t live \<Longrightarrow> stacked live"
proof (induction live arbitrary: t)
  case (Cons a live)
  then have "tiles (unat (offset a)) live" by simp
  with Cons tiles_below [OF this] show ?case by (auto simp: stacked_def list_all_iff)
qed (simp add: stacked_def)

locale stack_allocator =
  fixes top_of :: "'s \<Rightarrow> nat"
    and alloc :: "'s \<Rightarrow> MemoryInt \<Rightarrow> AllocationResult \<times> 's"
    and release :: "'s \<Rightarrow> WasmAllocation \<Rightarrow> (MemoryInt, AllocationError) result \<times> 's"
    and init :: 's
  assumes top_init: "top_of init = 0"
    and alloc_ok: "len \<noteq> 0 \<Longrightarrow> top_of s + unat len < 2 ^ 32 \<Longrightarrow>
      \<exists>a s'. alloc s len = (Ok a, s') \<and> unat (offset a) = top_of s \<and> alloc_length a = len
             \<and> top_of s' = top_of s + unat len"
    and alloc_err: "len = 0 \<or> 2 ^ 32 \<le> top_of s + unat len \<Longrightarrow> \<exists>e. alloc s len = (Err e, s)"
    and release_ok: "valid_allocation a \<Longrightarrow> top_of s = block_end a \<Longrightarrow>
      \<exists>t s'. release s a = (Ok t, s') \<and> top_of s' = unat (offset a)"
begin

abbreviation exec :: "stack_cmd \<Rightarrow> 's \<times> WasmAllocation list \<Rightarrow> 's \<times> WasmAllocation list" where
  "exec \<equiv> exec_cmd alloc release"

lemma exec_refines:
  assumes "tiles (top_of s) live" and "exec c (s, live) = (s', live')"
  shows "tiles (top_of s') live' \<and> lengths live' = abs_cmd c (lengths live)"
proof (cases c)
  case (Push len)
  have sum: "sum_list (lengths live) = top_of s" using tiles_sum [OF assms(1)] by simp
  show ?thesis
  proof (cases "len \<noteq> 0 \<and> top_of s + unat len < 2 ^ 32")
    case True
    then obtain a t where a: "alloc s len = (Ok a, t)" "unat (offset a) = top_of s"
      "alloc_length a = len" "top_of t = top_of s + unat len"
      using alloc_ok [of len s] by blast
    with assms True Push sum show ?thesis
      by (auto simp: valid_allocation_def block_end_def)
  next
    case False
    then obtain e where "alloc s len = (Err e, s)" using alloc_err [of len s] by auto
    with assms False Push sum show ?thesis by auto
  qed
next
  case Pop
  show ?thesis
  proof (cases live)
    case Nil
    with Pop assms show ?thesis by simp
  next
    case (Cons a rest)
    with assms(1) obtain t u where "release s a = (Ok t, u)" "top_of u = unat (offset a)"
      using release_ok [of a s] by auto
    with Cons Pop assms show ?thesis by auto
  qed
qed

lemma program_refines:
  "tiles (top_of s) live \<Longrightarrow> fold exec cs (s, live) = (s', live') \<Longrightarrow>
     tiles (top_of s') live' \<and> lengths live' = fold abs_cmd cs (lengths live)"
proof (induction cs arbitrary: s live)
  case (Cons c cs)
  obtain t l where e: "exec c (s, live) = (t, l)" by fastforce
  with Cons.prems have "tiles (top_of t) l" "lengths l = abs_cmd c (lengths live)"
    "fold exec cs (t, l) = (s', live')"
    using exec_refines [OF Cons.prems(1) e] by simp_all
  with Cons.IH [of t l] show ?case by simp
qed simp

lemma program_from_init:
  assumes "fold exec cs (init, []) = (s, live)"
  shows "stacked live \<and> top_of s = sum_list (lengths live) \<and> lengths live = fold abs_cmd cs []"
proof -
  have "tiles (top_of s) live" "lengths live = fold abs_cmd cs []"
    using program_refines [of init "[]" cs s live] assms top_init by simp_all
  then show ?thesis using tiles_stacked tiles_sum by blast
qed

end

interpretation wasm_stack: stack_allocator "\<lambda>s. unat (stack_top s)" stack_allocate deallocate
  WasmStack_new
proof
  show "unat (stack_top WasmStack_new) = 0" by (simp add: WasmStack_new_def WasmStack_min_def)
next
  fix len :: MemoryInt and s :: WasmStack
  assume "len \<noteq> 0" "unat (stack_top s) + unat len < 2 ^ 32"
  then show "\<exists>a s'. stack_allocate s len = (Ok a, s') \<and> unat (offset a) = unat (stack_top s)
      \<and> alloc_length a = len \<and> unat (stack_top s') = unat (stack_top s) + unat len"
    by (simp add: stack_allocate_alt unat_add_u32_no_overflow)
next
  fix len :: MemoryInt and s :: WasmStack
  assume "len = 0 \<or> 2 ^ 32 \<le> unat (stack_top s) + unat len"
  then show "\<exists>e. stack_allocate s len = (Err e, s)" by (auto simp: stack_allocate_alt)
next
  fix a :: WasmAllocation and s :: WasmStack
  assume v: "valid_allocation a" and t: "unat (stack_top s) = block_end a"
  then have "stack_top s = offset a + alloc_length a"
    using unat_block_end [OF v] by (metis word_unat_eq_iff)
  then show "\<exists>t s'. deallocate s a = (Ok t, s') \<and> unat (stack_top s') = unat (offset a)"
    by (simp add: deallocate_alt)
qed


section \<open>Encoded allocations\<close>

lemma valid_encodable: "valid_allocation a \<Longrightarrow> encodable (Allocation (encoded_from_allocation a))"
  by (simp add: valid_allocation_def encoded_from_allocation_def)

lemma decode_encoded_allocation:
  "valid_allocation a \<Longrightarrow>
     decode_value (encoded_from_allocation a) = Returns (Allocation (encoded_from_allocation a))"
  by (rule decode_allocation) (simp add: valid_allocation_def encoded_from_allocation_def)

lemma allocation_from_encoded_Ok_iff:
  "allocation_from_encoded i = Ok a \<longleftrightarrow> valid_allocation a \<and> i = encoded_from_allocation a"
  by (cases a)
     (auto simp: allocation_from_encoded_def u64_split_bits_def WasmAllocation_new_Ok_iff
       encoded_from_allocation_def)

lemma valid_encoded_low: "valid_allocation a \<Longrightarrow> u64_low_bits (encoded_from_allocation a) \<noteq> 0"
  by (simp add: valid_allocation_def encoded_from_allocation_def)

text \<open>
  The integer a zome hands over is accepted as an allocation exactly when it
  is the encoding of a well-formed one, and then it decodes to that allocation:
  encoding and decoding are inverse between the well-formed allocations and the
  accepted integers.
\<close>

theorem allocation_encoding_exact:
  "allocation_try_from_ribosome_encoding i = Returns (Ok a) \<longleftrightarrow>
     valid_allocation a \<and> i = allocation_encoding a"
proof
  assume *: "allocation_try_from_ribosome_encoding i = Returns (Ok a)"
  then obtain b where b: "decode_value i = Returns (Allocation b)" "allocation_from_encoded b = Ok a"
    by (cases "decode_value i")
       (auto simp: allocation_try_from_ribosome_encoding_def split: RibosomeEncodedValue.split_asm)
  from b(1) have "b = i"
    by (auto simp: decode_value_def u64_split_bits_def outcome_bind_Returns_iff split: if_splits)
  with b(2) show "valid_allocation a \<and> i = allocation_encoding a"
    by (simp add: allocation_from_encoded_Ok_iff allocation_encoding_def)
next
  assume "valid_allocation a \<and> i = allocation_encoding a"
  then show "allocation_try_from_ribosome_encoding i = Returns (Ok a)"
    by (simp add: allocation_try_from_ribosome_encoding_def allocation_encoding_def
        decode_encoded_allocation allocation_from_encoded_Ok_iff)
qed

section \<open>The contract of linear memory\<close>

locale linear_memory =
  fixes get :: "'m \<Rightarrow> MemoryInt \<Rightarrow> nat \<Rightarrow> bytes option"
    and set :: "'m \<Rightarrow> MemoryInt \<Rightarrow> bytes \<Rightarrow> 'm option"
  assumes get_set_same: "set m p bs = Some m' \<Longrightarrow> get m' p (length bs) = Some bs"
    and get_set_other: "set m p bs = Some m' \<Longrightarrow>
      unat q + n \<le> unat p \<or> unat p + length bs \<le> unat q \<Longrightarrow> get m' q n = get m q n"
begin

lemma get_stacked:
  assumes "set m (offset a) bs = Some m'" and "length bs = unat (alloc_length a)"
    and "stacked (a # live)" and "b \<in> List.set live"
  shows "get m' (offset b) (unat (alloc_length b)) = get m (offset b) (unat (alloc_length b))"
proof (rule get_set_other [OF assms(1)])
  from assms(3,4) have "block_end b \<le> unat (offset a)" by (auto simp: stacked_def)
  then show "unat (offset b) + unat (alloc_length b) \<le> unat (offset a)
      \<or> unat (offset a) + length bs \<le> unat (offset b)"
    by (simp add: block_end_def)
qed

end

definition bytes_ops :: "bytes memory_ops" where
  "bytes_ops = \<lparr> mem_get = (\<lambda>m p n. linear_get m (unat p) n),
                 mem_set = (\<lambda>m p bs. linear_set m (unat p) bs) \<rparr>"

lemma linear_set_Some_iff:
  "linear_set m p bs = Some m' \<longleftrightarrow>
     p + length bs \<le> length m \<and> m' = take p m @ bs @ drop (p + length bs) m"
  by (auto simp: linear_set_def)

lemma linear_set_length: "linear_set m p bs = Some m' \<Longrightarrow> length m' = length m"
  by (auto simp: linear_set_Some_iff)

lemma linear_get_set_same:
  "linear_set m p bs = Some m' \<Longrightarrow> linear_get m' p (length bs) = Some bs"
  by (auto simp: linear_set_Some_iff linear_get_def)

lemma linear_get_set_other:
  assumes "linear_set m p bs = Some m'" and "q + n \<le> p \<or> p + length bs \<le> q"
  shows "linear_get m' q n = linear_get m q n"
proof -
  have "take n (drop q m') = take n (drop q m)" if "q + n \<le> length m"
  proof (rule nth_equalityI)
    show "length (take n (drop q m')) = length (take n (drop q m))"
      by (simp add: linear_set_length [OF assms(1)])
  next
    fix i
    assume "i < length (take n (drop q m'))"
    with that assms show "take n (drop q m') ! i = take n (drop q m) ! i"
      by (auto simp: linear_set_Some_iff nth_append)
  qed
  then show ?thesis by (simp add: linear_get_def linear_set_length [OF assms(1)])
qed

interpretation bytes_memory: linear_memory "mem_get bytes_ops" "mem_set bytes_ops"
  by unfold_locales
     (auto simp: bytes_ops_def intro: linear_get_set_same linear_get_set_other)

section \<open>Writes of the ribosome\<close>

lemma unat_of_nat_u32: "n < 2 ^ 32 \<Longrightarrow> unat (of_nat n :: u32) = n"
  by (simp add: unat_of_nat take_bit_nat_eq_self)

lemma page_write_cases:
  assumes "page_write ops mgr data = Returns (Ok a, mgr')"
  obtains m' where "a = \<lparr> offset = stack_top (page_stack mgr), alloc_length = of_nat (length data) \<rparr>"
    "valid_allocation a"
    "page_stack mgr' = (page_stack mgr)\<lparr> stack_top := offset a + alloc_length a \<rparr>"
    "mem_set ops (wasm_memory mgr) (offset a) data = Some m'" "wasm_memory mgr' = m'"
  using assms
  by (auto simp: page_write_def page_allocate_def stack_allocate_alt valid_allocation_def
      split: if_splits option.splits sum.splits prod.splits)

lemma page_write_length_bound:
  assumes "page_write ops mgr data = Returns (Ok a, mgr')" and "length data < 2 ^ 64"
  shows "length data < 2 ^ 32"
proof -
  from assms(1) have "\<not> (of_nat (length data) :: MemoryBits) > WasmAllocation_max"
    by (auto simp: page_write_def)
  then have "unat (of_nat (length data) :: MemoryBits) \<le> 2 ^ 32 - 1"
    by (simp only: not_less word_le_nat_alt max_defs MEMORY_INT_MAX_def unat_U32_MAX)
  moreover have "unat (of_nat (length data) :: MemoryBits) = length data"
    using assms(2) by (simp add: unat_of_nat take_bit_nat_eq_self)
  ultimately show ?thesis by simp
qed

lemma valid_after_write:
  assumes "page_write ops mgr data = Returns (Ok a, mgr')" and "length data < 2 ^ 64"
  shows "unat (alloc_length a) = length data"
  using assms page_write_length_bound [OF assms]
  by (elim page_write_cases) (simp add: unat_of_nat_u32)

text \<open>
  What the ribosome writes it reads back, and no write disturbs the blocks
  already on the stack: for every memory that honours the contract of linear memory
  and every stack whose live blocks tile the addresses below its top, a successful
  write extends the tiling by its block, reading that block returns the data, and
  every older block reads as before.
\<close>

theorem page_write_read:
  assumes mem: "linear_memory (mem_get ops) (mem_set ops)"
    and wr: "page_write ops mgr data = Returns (Ok a, mgr')"
    and len: "length data < 2 ^ 64"
    and live: "tiles (unat (stack_top (page_stack mgr))) live"
  shows "page_read ops mgr' a = Returns data
         \<and> tiles (unat (stack_top (page_stack mgr'))) (a # live)
         \<and> list_all (\<lambda>b. page_read ops mgr' b = page_read ops mgr b) live"
proof -
  obtain m' where a: "a = \<lparr> offset = stack_top (page_stack mgr), alloc_length = of_nat (length data) \<rparr>"
    and v: "valid_allocation a"
    and st: "page_stack mgr' = (page_stack mgr)\<lparr> stack_top := offset a + alloc_length a \<rparr>"
    and set: "mem_set ops (wasm_memory mgr) (offset a) data = Some m'"
    and m': "wasm_memory mgr' = m'"
    using wr by (rule page_write_cases)
  have l: "unat (alloc_length a) = length data" using valid_after_write [OF wr len] .
  have t: "tiles (unat (stack_top (page_stack mgr'))) (a # live)"
    using v live by (simp add: st unat_block_end) (simp add: a)
  moreover have "page_read ops mgr' a = Returns data"
    using linear_memory.get_set_same [OF mem set] by (simp add: page_read_def m' l)
  moreover have "page_read ops mgr' b = page_read ops mgr b" if "b \<in> set live" for b
    using linear_memory.get_stacked [OF mem set _ tiles_stacked [OF t] that]
    by (simp add: page_read_def m' l)
  ultimately show ?thesis by (simp add: list_all_iff)
qed

theorem page_write_read_witness:
  "page_read bytes_ops
     \<lparr> page_stack = \<lparr> stack_top = 3 \<rparr>, wasm_memory = [9, 8, 7, 0] \<rparr>
     \<lparr> offset = 1, alloc_length = 2 \<rparr> = Returns [8, 7]"
proof -
  let ?mgr = "\<lparr> page_stack = \<lparr> stack_top = 1 \<rparr>, wasm_memory = [9, 0, 0, 0 :: u8] \<rparr>"
  let ?mgr' = "\<lparr> page_stack = \<lparr> stack_top = 3 \<rparr>, wasm_memory = [9, 8, 7, 0 :: u8] \<rparr>"
  have w: "page_write bytes_ops ?mgr [8, 7] = Returns (Ok \<lparr> offset = 1, alloc_length = 2 \<rparr>, ?mgr')"
    by (simp add: page_write_def page_allocate_def stack_allocate_alt bytes_ops_def linear_set_def
        max_defs MEMORY_INT_MAX_def U32_MAX_numeral)
  have t: "tiles (unat (stack_top (page_stack ?mgr))) [\<lparr> offset = 0, alloc_length = 1 \<rparr>]"
    by (simp add: valid_allocation_def block_end_def)
  show ?thesis
    using page_write_read [OF bytes_memory.linear_memory_axioms w _ t] by simp
qed

section \<open>Strings across the boundary\<close>

lemma page_write_bytes:
  assumes "data \<noteq> []" and fits: "unat (stack_top (page_stack mgr)) + length data \<le> length (wasm_memory mgr)"
    and small: "length (wasm_memory mgr) < 2 ^ 32"
  shows "\<exists>mgr' a. page_write bytes_ops mgr data = Returns (Ok a, mgr')
           \<and> a = \<lparr> offset = stack_top (page_stack mgr), alloc_length = of_nat (length data) \<rparr>
           \<and> valid_allocation a
           \<and> linear_set (wasm_memory mgr) (unat (offset a)) data = Some (wasm_memory mgr')"
proof -
  have n: "length data < 2 ^ 32" using fits small by simp
  then have u: "unat (of_nat (length data) :: u32) = length data"
    "unat (of_nat (length data) :: u64) = length data"
    by (simp_all add: unat_of_nat take_bit_nat_eq_self)
  have "\<not> (of_nat (length data) :: MemoryBits) > WasmAllocation_max"
    using n by (simp only: not_less word_le_nat_alt max_defs MEMORY_INT_MAX_def unat_U32_MAX u)
  moreover have "(of_nat (length data) :: u32) \<noteq> 0"
    using u(1) assms(1) by (metis length_0_conv unat_0)
  ultimately show ?thesis
    using assms u
    by (simp add: page_write_def page_allocate_def stack_allocate_alt bytes_ops_def linear_set_def
        valid_allocation_def)
qed

lemma read_after_set:
  assumes "linear_set m p (s @ [0]) = Some m'" and "0 \<notin> set s"
  shows "0 \<in> set (drop p m') \<and> takeWhile (\<lambda>b. b \<noteq> 0) (drop p m') = s"
  using assms by (auto simp: linear_set_Some_iff takeWhile_append)

text \<open>
  A string the ribosome stores for a zome arrives unchanged: when the block
  fits in the zome's memory, storing succeeds and loading the integer it returns,
  inside the zome, gives the same bytes, for every well-formed UTF-8 text without a
  zero byte.
\<close>

theorem ribosome_to_zome_string:
  assumes "utf8 j" and "0 \<notin> set j"
    and "unat (stack_top (page_stack mgr)) + length j + 1 \<le> length (wasm_memory mgr)"
    and "length (wasm_memory mgr) < 2 ^ 32"
  shows "\<exists>i mgr'. store_as_json_string bytes_ops mgr j = Returns (i, mgr')
           \<and> load_ribosome_encoded_string (wasm_memory mgr') i = Returns (Ok j)"
proof -
  obtain mgr' a where w: "page_write bytes_ops mgr (j @ [0]) = Returns (Ok a, mgr')"
    and v: "valid_allocation a"
    and set: "linear_set (wasm_memory mgr) (unat (offset a)) (j @ [0]) = Some (wasm_memory mgr')"
    using page_write_bytes [of "j @ [0]" mgr] assms(3,4) by auto
  have "read_to_string (wasm_memory mgr') a = Returns j"
    using read_after_set [OF set assms(2)] assms(1)
    by (simp add: read_to_string_def read_str_raw_def)
  then have "load_ribosome_encoded_string (wasm_memory mgr') (encoded_from_allocation a) = Returns (Ok j)"
    using v allocation_from_encoded_Ok_iff [of "encoded_from_allocation a" a]
    by (simp add: load_ribosome_encoded_string_def decode_encoded_allocation)
  with w show ?thesis by (simp add: store_as_json_string_def)
qed

theorem ribosome_to_zome_string_witness:
  "\<exists>i mgr'. store_as_json_string bytes_ops (WasmPageManager_new (replicate 4 255)) [0x68, 0x69]
       = Returns (i, mgr')
     \<and> load_ribosome_encoded_string (wasm_memory mgr') i = Returns (Ok [0x68, 0x69])"
  by (rule ribosome_to_zome_string) (simp_all add: WasmPageManager_new_def)

lemma linear_memory_write_returns:
  assumes "page_write bytes_ops mgr data = Returns (Ok a, mgr')" and "length data < 2 ^ 64"
  shows "page_read bytes_ops mgr' a = Returns data"
proof -
  obtain m' where "mem_set bytes_ops (wasm_memory mgr) (offset a) data = Some m'"
    "wasm_memory mgr' = m'"
    using assms(1) by (rule page_write_cases)
  then show ?thesis
    using bytes_memory.get_set_same valid_after_write [OF assms] by (simp add: page_read_def)
qed

text \<open>The block that an allocation names in a memory.\<close>

definition block_bytes :: "bytes \<Rightarrow> WasmAllocation \<Rightarrow> bytes option" where
  "block_bytes m a = linear_get m (unat (offset a)) (unat (alloc_length a))"

lemma run_dna_started:
  assumes "length ps \<le> length m" and "length m < 2 ^ 32"
  shows "\<exists>i mgr. run_dna_input bytes_ops dbg m (Some ps) = Returns (Ok i, mgr)
    \<and> (if ps = [] then i = encode_value Success \<and> wasm_memory mgr = m
       else \<exists>a. valid_allocation a \<and> i = encode_value (Allocation (encoded_from_allocation a))
                \<and> block_bytes (wasm_memory mgr) a = Some ps)"
proof (cases "ps = []")
  case True
  then show ?thesis
    by (simp add: run_dna_input_def page_write_def WasmPageManager_new_def
        max_defs MEMORY_INT_MAX_def U32_MAX_numeral)
next
  case False
  let ?mgr = "WasmPageManager_new m"
  from False assms obtain mgr' a where w: "page_write bytes_ops ?mgr ps = Returns (Ok a, mgr')"
    and v: "valid_allocation a"
    using page_write_bytes [of ps ?mgr] by (auto simp: WasmPageManager_new_def)
  have "page_read bytes_ops mgr' a = Returns ps"
    using linear_memory_write_returns [OF w] assms by simp
  then have "block_bytes (wasm_memory mgr') a = Some ps"
    by (auto simp: page_read_def bytes_ops_def block_bytes_def)
  with w v False show ?thesis by (auto simp: run_dna_input_def)
qed

lemma run_dna_ended:
  "run_dna_output bytes_ops utf8_error mgr (encode_value Success) = Returns (Ok json_null)"
  "run_dna_output bytes_ops utf8_error mgr (encode_value (Failure c)) = Returns (Err (RibosomeFailed
     (''Zome function failure: '' @ as_str (if c = MismatchWasmCallDataType then Unspecified else c))))"
  "valid_allocation a \<Longrightarrow> block_bytes (wasm_memory mgr) a = Some bs \<Longrightarrow>
     run_dna_output bytes_ops utf8_error mgr (encode_value (Allocation (encoded_from_allocation a))) =
       Returns (if utf8 bs then Ok bs else Err (RibosomeFailed (''WASM failed to return value: '' @ utf8_error bs)))"
proof -
  show "run_dna_output bytes_ops utf8_error mgr (encode_value Success) = Returns (Ok json_null)"
    by (simp add: run_dna_output_def decode_value_def)
  show "run_dna_output bytes_ops utf8_error mgr (encode_value (Failure c)) = Returns (Err (RibosomeFailed
     (''Zome function failure: '' @ as_str (if c = MismatchWasmCallDataType then Unspecified else c))))"
    by (simp add: run_dna_output_def decode_encode_failure del: as_str.simps)
  show "run_dna_output bytes_ops utf8_error mgr (encode_value (Allocation (encoded_from_allocation a))) =
       Returns (if utf8 bs then Ok bs else Err (RibosomeFailed (''WASM failed to return value: '' @ utf8_error bs)))"
    if "valid_allocation a" "block_bytes (wasm_memory mgr) a = Some bs"
    using that allocation_from_encoded_Ok_iff [of "encoded_from_allocation a" a]
    by (simp add: run_dna_output_def decode_encoded_allocation page_read_def bytes_ops_def block_bytes_def)
qed

text \<open>
  C29.  The ribosome hands a zome function exactly its parameters and answers with what it returns.  For a module whose
  memory can hold them, every zome function is started on the encoding of success when the parameters are empty and
  otherwise on that of a block that holds them.  Whatever it then does to the memory, if it returns the encoding of a block,
  the call is answered with the bytes of this block in the memory as the function left it, or with an error if
  they are not UTF-8; success is answered with null, and an error code with an error that names it.
\<close>

theorem run_dna_delivers_parameters:
  assumes "length ps \<le> length m" and "length m < 2 ^ 32"
  shows "\<exists>i mgr. (if ps = [] then i = encode_value Success \<and> wasm_memory mgr = m
       else \<exists>a. valid_allocation a \<and> i = encode_value (Allocation (encoded_from_allocation a))
                \<and> block_bytes (wasm_memory mgr) a = Some ps)
    \<and> (\<forall>invoke returned mgr'. invoke mgr i = (Value returned, mgr') \<longrightarrow>
         (returned = encode_value Success \<longrightarrow>
            run_dna bytes_ops utf8_error dbg invoke (Ok m) (Some ps) = Returns (Ok json_null))
       \<and> (\<forall>c. returned = encode_value (Failure c) \<longrightarrow>
            run_dna bytes_ops utf8_error dbg invoke (Ok m) (Some ps) = Returns (Err (RibosomeFailed
              (''Zome function failure: '' @ as_str (if c = MismatchWasmCallDataType then Unspecified else c)))))
       \<and> (\<forall>b bs. valid_allocation b \<and> returned = encode_value (Allocation (encoded_from_allocation b))
              \<and> block_bytes (wasm_memory mgr') b = Some bs \<longrightarrow>
            run_dna bytes_ops utf8_error dbg invoke (Ok m) (Some ps) =
              Returns (if utf8 bs then Ok bs
                       else Err (RibosomeFailed (''WASM failed to return value: '' @ utf8_error bs)))))"
proof -
  obtain i mgr where r: "run_dna_input bytes_ops dbg m (Some ps) = Returns (Ok i, mgr)"
    and start: "if ps = [] then i = encode_value Success \<and> wasm_memory mgr = m
       else \<exists>a. valid_allocation a \<and> i = encode_value (Allocation (encoded_from_allocation a))
                \<and> block_bytes (wasm_memory mgr) a = Some ps"
    using run_dna_started [OF assms] by blast
  have run: "run_dna bytes_ops utf8_error dbg invoke (Ok m) (Some ps) = run_dna_output bytes_ops utf8_error mgr' returned"
    if "invoke mgr i = (Value returned, mgr')" for invoke returned mgr'
    using that by (simp add: run_dna_def r)
  show ?thesis
    by (intro exI [of _ i] exI [of _ mgr] conjI allI impI start) (simp_all only: run run_dna_ended)
qed

text \<open>The zome of the example overwrites the memory and returns a block of it.\<close>

theorem run_dna_delivers_parameters_witness:
  "run_dna bytes_ops (\<lambda>_. '''') ''call''
     (\<lambda>mgr i. (Value (encode_value (Allocation (encoded_from_allocation \<lparr> offset = 1, alloc_length = 2 \<rparr>))),
               mgr\<lparr> wasm_memory := [0, 0x68, 0x69, 0] \<rparr>))
     (Ok (replicate 8 0)) (Some [0x7b, 0x7d]) = Returns (Ok [0x68, 0x69])"
proof -
  let ?b = "\<lparr> offset = 1, alloc_length = 2 \<rparr>"
  let ?zome = "\<lambda>mgr (i :: RibosomeEncodingBits). (Value (encode_value (Allocation (encoded_from_allocation ?b))),
      mgr\<lparr> wasm_memory := [0, 0x68, 0x69, 0] \<rparr>)"
  have b: "valid_allocation ?b" "block_bytes [0, 0x68, 0x69, 0] ?b = Some [0x68, 0x69]" "utf8 [0x68, 0x69]"
    by (simp_all add: valid_allocation_def block_bytes_def linear_get_def)
  have "length [0x7b, 0x7d :: u8] \<le> length (replicate 8 (0 :: u8))" "length (replicate 8 (0 :: u8)) < 2 ^ 32" by simp_all
  from run_dna_delivers_parameters [OF this, of "\<lambda>_. ''''" "''call''"] show ?thesis
    apply (elim exE conjE)
    subgoal premises prems for i mgr
      using prems(2) [THEN spec [of _ ?zome], THEN spec, THEN spec, THEN mp [OF _ refl], THEN conjunct2, THEN conjunct2,
          THEN spec [of _ ?b], THEN spec [of _ "[0x68, 0x69]"]] b by (simp del: encode_value.simps)
    done
qed

text \<open>The write of a zome, and what the zome and the ribosome read back from it.\<close>

lemma write_string_bytes:
  assumes "s \<noteq> []" and fits: "unat (stack_top st) + length s \<le> length m" and "length m < 2 ^ 32"
  shows "\<exists>a st' m'. write_string st m s = Returns (Ok a, st', m')
           \<and> a = \<lparr> offset = stack_top st, alloc_length = of_nat (length s) \<rparr>
           \<and> valid_allocation a \<and> linear_set m (unat (offset a)) s = Some m'"
proof -
  have u: "unat (of_nat (length s) :: u32) = length s"
    using assms by (intro unat_of_nat_u32) simp
  moreover have "(of_nat (length s) :: u32) \<noteq> 0"
    using u assms(1) by (metis length_0_conv unat_0)
  moreover have "max (length s) 1 = length s" using assms(1) by (cases s) auto
  ultimately show ?thesis
    using assms
    by (simp add: write_string_def write_in_wasm_memory_def next_allocation_def
        WasmAllocation_new_alt allocate_def linear_set_def valid_allocation_def max_defs
        u32_within_max memory_max_less_iff Let_def)
qed

text \<open>
  A string a zome writes arrives unchanged in the ribosome: when it is
  non-empty and fits, writing succeeds, and the ribosome that receives the encoded
  block as argument of an API function loads the same bytes.
\<close>

theorem zome_to_ribosome_string:
  assumes "s \<noteq> []" and "utf8 s"
    and "unat (stack_top st) + length s \<le> length m" and "length m < 2 ^ 32"
  shows "\<exists>a st' m'. write_string st m s = Returns (Ok a, st', m')
           \<and> load_json_string_from_args bytes_ops \<lparr> page_stack = pst, wasm_memory = m' \<rparr>
               [allocation_encoding a] = Returns s"
proof -
  obtain a st' m' where w: "write_string st m s = Returns (Ok a, st', m')"
    and a: "a = \<lparr> offset = stack_top st, alloc_length = of_nat (length s) \<rparr>"
    and v: "valid_allocation a" and set: "linear_set m (unat (offset a)) s = Some m'"
    using write_string_bytes [OF assms(1,3,4)] by blast
  have "unat (alloc_length a) = length s" using assms(3,4) by (simp add: a unat_of_nat_u32)
  then have "page_read bytes_ops \<lparr> page_stack = pst, wasm_memory = m' \<rparr> a = Returns s"
    using linear_get_set_same [OF set] by (simp add: page_read_def bytes_ops_def)
  with v assms(2) have "load_json_string_from_args bytes_ops
      \<lparr> page_stack = pst, wasm_memory = m' \<rparr> [allocation_encoding a] = Returns s"
    using allocation_from_encoded_Ok_iff [of "encoded_from_allocation a" a]
    by (simp add: load_json_string_from_args_def allocation_encoding_def decode_encoded_allocation)
  with w show ?thesis by blast
qed

theorem zome_to_ribosome_string_witness:
  "\<exists>a st' m'. write_string WasmStack_new (replicate 4 255) [0x68, 0x69] = Returns (Ok a, st', m')
     \<and> load_json_string_from_args bytes_ops \<lparr> page_stack = WasmStack_new, wasm_memory = m' \<rparr>
         [allocation_encoding a] = Returns [0x68, 0x69]"
  by (rule zome_to_ribosome_string) (simp_all add: WasmStack_new_def WasmStack_min_def)

text \<open>
  A zome that reads back a string it wrote itself does not see the end of it:
  the writer leaves no terminating zero and the reader ignores the length of the
  block, so the text comes back with every byte that follows the block in memory up
  to the next zero.
\<close>

theorem zome_string_reread_runs_on:
  assumes "s \<noteq> []" and "0 \<notin> set s" and "length m < 2 ^ 32"
    and "unat (stack_top st) + length s \<le> length m"
    and "m = before @ old @ stale @ 0 # rest"
    and "length before = unat (stack_top st)" and "length old = length s" and "0 \<notin> set stale"
    and "utf8 (s @ stale)"
  shows "\<exists>a st' m'. write_string st m s = Returns (Ok a, st', m')
           \<and> read_to_string m' a = Returns (s @ stale)"
proof -
  obtain a st' m' where w: "write_string st m s = Returns (Ok a, st', m')"
    and a: "a = \<lparr> offset = stack_top st, alloc_length = of_nat (length s) \<rparr>"
    and set: "linear_set m (unat (offset a)) s = Some m'"
    using write_string_bytes [OF assms(1,4,3)] by blast
  from set have "drop (unat (offset a)) m' = s @ stale @ 0 # rest"
    using assms(5-7) by (auto simp: linear_set_Some_iff a)
  with assms(2,8,9) have "read_to_string m' a = Returns (s @ stale)"
    by (simp add: read_to_string_def read_str_raw_def takeWhile_append)
  with w show ?thesis by blast
qed

theorem zome_string_reread_runs_on_witness:
  "\<exists>a st' m'. write_string WasmStack_new [0, 0, 0x21, 0] [0x68, 0x69] = Returns (Ok a, st', m')
     \<and> read_to_string m' a = Returns [0x68, 0x69, 0x21]"
proof -
  have "\<exists>a st' m'. write_string WasmStack_new [0, 0, 0x21, 0] [0x68, 0x69] = Returns (Ok a, st', m')
     \<and> read_to_string m' a = Returns ([0x68, 0x69] @ [0x21])"
    by (rule zome_string_reread_runs_on [where before = "[]" and old = "[0, 0]" and rest = "[]"])
       (simp_all add: WasmStack_new_def WasmStack_min_def)
  then show ?thesis by (simp only: append.simps)
qed

end
