(* ===== verification/Core_Types.thy ===== *)
theory Core_Types
  imports Ribosome_Error
begin

text \<open>
  The data of \<open>crates/core_types/src/\<close>: entry types and entries, chain headers, links,
  capability tokens and the DNA with its zomes, and the addresses of entries.

  A string is the list of its UTF-8 bytes.  \<open>Address\<close> and \<open>Signature\<close> are strings, a
  time stamp is its instant.  A \<open>BTreeMap\<close> that the sources iterate over is the list
  of its entries in key order.  Text that \<open>Debug\<close> formatting adds to error messages is
  left out.  The digest of a content is computed by the hashing
  library; it is the parameter \<open>hasher\<close>.
\<close>

section \<open>Entry types\<close>

type_synonym Address = HashString
type_synonym Signature = string
type_synonym AppEntryType = string
type_synonym Iso8601 = int
type_synonym JsonString = string

datatype EntryType =
    App AppEntryType
  | Dna
  | AgentId
  | Deletion
  | LinkAdd
  | LinkRemove
  | LinkList
  | ChainHeader
  | ChainMigrate
  | CapTokenGrant
  | CapTokenClaim

fun is_app :: "EntryType \<Rightarrow> bool" where
  "is_app (EntryType.App _) \<longleftrightarrow> True"
| "is_app _ \<longleftrightarrow> False"

definition is_sys :: "EntryType \<Rightarrow> bool" where
  "is_sys t \<longleftrightarrow> \<not> is_app t"

text \<open>The slice \<open>name[0..1]\<close> panics when the first character takes several bytes.\<close>

definition has_valid_app_name :: "string \<Rightarrow> bool outcome" where
  "has_valid_app_name entry_type_name =
     (case entry_type_name of
        [] \<Rightarrow> Returns False
      | c # _ \<Rightarrow>
          if of_char c \<ge> (128 :: nat) then Panics ''byte index 1 is not a char boundary''
          else Returns (c \<noteq> CHR ''%''))"

definition entry_type_from_str :: "string \<Rightarrow> EntryType" where
  "entry_type_from_str s =
     (if s = ''%agent_id'' then EntryType.AgentId
      else if s = ''%deletion'' then EntryType.Deletion
      else if s = ''%dna'' then EntryType.Dna
      else if s = ''%chain_header'' then EntryType.ChainHeader
      else if s = ''%link_add'' then EntryType.LinkAdd
      else if s = ''%link_remove'' then EntryType.LinkRemove
      else if s = ''%link_list'' then EntryType.LinkList
      else if s = ''%chain_migrate'' then EntryType.ChainMigrate
      else if s = ''%cap_token_claim'' then EntryType.CapTokenClaim
      else if s = ''%cap_token_grant'' then EntryType.CapTokenGrant
      else EntryType.App s)"

fun entry_type_string :: "EntryType \<Rightarrow> string" where
  "entry_type_string (EntryType.App app_entry_type) = app_entry_type"
| "entry_type_string EntryType.AgentId = ''%agent_id''"
| "entry_type_string EntryType.Deletion = ''%deletion''"
| "entry_type_string EntryType.Dna = ''%dna''"
| "entry_type_string EntryType.ChainHeader = ''%chain_header''"
| "entry_type_string EntryType.LinkAdd = ''%link_add''"
| "entry_type_string EntryType.LinkRemove = ''%link_remove''"
| "entry_type_string EntryType.LinkList = ''%link_list''"
| "entry_type_string EntryType.ChainMigrate = ''%chain_migrate''"
| "entry_type_string EntryType.CapTokenClaim = ''%cap_token_claim''"
| "entry_type_string EntryType.CapTokenGrant = ''%cap_token_grant''"

section \<open>Agents, headers and links\<close>

record AgentId =
  nick :: string
  pub_sign_key :: string

type_synonym Provenance = "Address \<times> Signature"

definition Provenance_source :: "Provenance \<Rightarrow> Address" where
  "Provenance_source p = fst p"

record ChainHeader =
  hdr_entry_type :: EntryType
  hdr_entry_address :: Address
  hdr_provenances :: "Provenance list"
  hdr_link :: "Address option"
  hdr_link_same_type :: "Address option"
  hdr_link_update_delete :: "Address option"
  hdr_timestamp :: Iso8601

definition ChainHeader_new ::
  "EntryType \<Rightarrow> Address \<Rightarrow> Provenance list \<Rightarrow> Address option \<Rightarrow> Address option
     \<Rightarrow> Address option \<Rightarrow> Iso8601 \<Rightarrow> ChainHeader" where
  "ChainHeader_new entry_type entry_address provenances link link_same_type link_update_delete
     timestamp =
     \<lparr> hdr_entry_type = entry_type, hdr_entry_address = entry_address,
       hdr_provenances = provenances, hdr_link = link, hdr_link_same_type = link_same_type,
       hdr_link_update_delete = link_update_delete, hdr_timestamp = timestamp \<rparr>"

record Link =
  base :: Address
  target :: Address
  link_type :: string
  tag :: string

datatype LinkActionKind = ADD | REMOVE

record LinkData =
  action_kind :: LinkActionKind
  link_of :: Link
  top_chain_header :: ChainHeader
  link_agent_id :: AgentId

definition LinkData_new_add ::
  "Address \<Rightarrow> Address \<Rightarrow> string \<Rightarrow> string \<Rightarrow> ChainHeader \<Rightarrow> AgentId \<Rightarrow> LinkData" where
  "LinkData_new_add b t tg lt hdr agent =
     \<lparr> action_kind = ADD, link_of = \<lparr> base = b, target = t, link_type = lt, tag = tg \<rparr>,
       top_chain_header = hdr, link_agent_id = agent \<rparr>"

definition LinkData_new_delete ::
  "Address \<Rightarrow> Address \<Rightarrow> string \<Rightarrow> string \<Rightarrow> ChainHeader \<Rightarrow> AgentId \<Rightarrow> LinkData" where
  "LinkData_new_delete b t tg lt hdr agent =
     \<lparr> action_kind = REMOVE, link_of = \<lparr> base = b, target = t, link_type = lt, tag = tg \<rparr>,
       top_chain_header = hdr, link_agent_id = agent \<rparr>"

definition LinkData_from_link ::
  "Link \<Rightarrow> LinkActionKind \<Rightarrow> ChainHeader \<Rightarrow> AgentId \<Rightarrow> LinkData" where
  "LinkData_from_link l kind hdr agent =
     \<lparr> action_kind = kind, link_of = l, top_chain_header = hdr, link_agent_id = agent \<rparr>"

section \<open>Capability tokens\<close>

datatype CapabilityType = Public | Transferable | Assigned

type_synonym CapFunctions = "(string \<times> string list) list"

record CapTokenClaim =
  claim_id :: string
  grantor :: Address
  token :: Address

record CapTokenGrant =
  grant_id :: string
  assignees :: "Address list option"
  grant_functions :: CapFunctions

definition grant_valid ::
  "CapabilityType \<Rightarrow> Address list option \<Rightarrow> Address list option HcResult" where
  "grant_valid cap_type assigned =
     (if (cap_type = Public \<or> cap_type = Transferable)
           \<and> (assigned \<noteq> None \<and> the assigned \<noteq> [])
      then Err (ErrorGeneric ''there must be no assignees for public or transferable grants'')
      else case cap_type of
        Assigned \<Rightarrow>
          if assigned = None \<or> the assigned = []
          then Err (ErrorGeneric ''Assigned grant must have 1 or more assignees'')
          else Ok assigned
      | Public \<Rightarrow> Ok None
      | Transferable \<Rightarrow> Ok (Some []))"

definition grant_create ::
  "string \<Rightarrow> CapabilityType \<Rightarrow> Address list option \<Rightarrow> CapFunctions \<Rightarrow> CapTokenGrant HcResult" where
  "grant_create gid cap_type assigned fns =
     and_then (grant_valid cap_type assigned) (\<lambda>a.
       Ok \<lparr> grant_id = gid, assignees = a, grant_functions = fns \<rparr>)"

definition grant_cap_type :: "CapTokenGrant \<Rightarrow> CapabilityType" where
  "grant_cap_type g =
     (case assignees g of
        None \<Rightarrow> Public
      | Some as \<Rightarrow> if as = [] then Transferable else Assigned)"

section \<open>The DNA\<close>

datatype Sharing = Public | Private | Encrypted

fun can_publish_sharing :: "Sharing \<Rightarrow> bool" where
  "can_publish_sharing Sharing.Public \<longleftrightarrow> True"
| "can_publish_sharing Sharing.Private \<longleftrightarrow> False"
| "can_publish_sharing Sharing.Encrypted \<longleftrightarrow> True"

record LinksTo =
  target_type :: string
  to_link_type :: string

record LinkedFrom =
  base_type :: string
  from_link_type :: string

record EntryTypeDef =
  def_properties :: JsonString
  sharing :: Sharing
  links_to :: "LinksTo list"
  linked_from :: "LinkedFrom list"

record FnParameter =
  parameter_type :: string
  parameter_name :: string

record FnDeclaration =
  fn_decl_name :: string
  inputs :: "FnParameter list"
  outputs :: "FnParameter list"

record TraitFns =
  trait_functions :: "string list"

datatype BridgePresence = Required | Optional

datatype BridgeReference =
    BridgeAddress Address
  | BridgeTrait "(string \<times> FnDeclaration list) list"

record Bridge =
  presence :: BridgePresence
  handle :: string
  reference :: BridgeReference

record Zome =
  zome_description :: string
  entry_types :: "(EntryType \<times> EntryTypeDef) list"
  traits :: "(string \<times> TraitFns) list"
  fn_declarations :: "FnDeclaration list"
  code :: "u8 list"
  bridges :: "Bridge list"

record Dna =
  dna_name :: string
  dna_description :: string
  dna_version :: string
  dna_uuid :: string
  dna_spec_version :: string
  dna_properties :: JsonString
  zomes :: "(string \<times> Zome) list"

definition get_required_bridges :: "Zome \<Rightarrow> Bridge list" where
  "get_required_bridges zome = filter (\<lambda>b. presence b = Required) (bridges zome)"

definition add_fn_declaration :: "Zome \<Rightarrow> string \<Rightarrow> FnParameter list \<Rightarrow> FnParameter list \<Rightarrow> Zome" where
  "add_fn_declaration zome name ins outs =
     zome\<lparr> fn_declarations := fn_declarations zome @
             [\<lparr> fn_decl_name = name, inputs = ins, outputs = outs \<rparr>] \<rparr>"

definition get_function :: "Zome \<Rightarrow> string \<Rightarrow> FnDeclaration option" where
  "get_function zome fn_name = find (\<lambda>d. fn_decl_name d = fn_name) (fn_declarations zome)"

definition is_fn_public :: "Zome \<Rightarrow> string \<Rightarrow> bool" where
  "is_fn_public zome fn_name \<longleftrightarrow>
     list_ex (\<lambda>(trait_name, fns). trait_name = ''hc_public'' \<and> fn_name \<in> set (trait_functions fns))
       (traits zome)"

definition quoted :: "string \<Rightarrow> string" where
  "quoted s = [CHR 0x27] @ s @ [CHR 0x27]"

definition get_zome :: "Dna \<Rightarrow> string \<Rightarrow> (Zome, DnaError) result" where
  "get_zome dna zome_name =
     ok_or (ZomeNotFound (''Zome '' @ quoted zome_name @ '' not found''))
       (map_of (zomes dna) zome_name)"

definition get_function_with_zome_name ::
  "Dna \<Rightarrow> string \<Rightarrow> string \<Rightarrow> (FnDeclaration, DnaError) result" where
  "get_function_with_zome_name dna zome_name fn_name =
     and_then (get_zome dna zome_name) (\<lambda>zome.
       ok_or (ZomeFunctionNotFound (''Zome function '' @ quoted fn_name @
           '' not found in Zome '' @ quoted zome_name))
         (get_function zome fn_name))"

definition get_trait_fns_with_zome_name ::
  "Dna \<Rightarrow> string \<Rightarrow> string \<Rightarrow> (TraitFns, DnaError) result" where
  "get_trait_fns_with_zome_name dna zome_name trait_name =
     and_then (get_zome dna zome_name) (\<lambda>zome.
       ok_or (TraitNotFound (''Trait '' @ quoted trait_name @ '' not found in Zome '' @ quoted zome_name))
         (map_of (traits zome) trait_name))"

definition get_wasm_from_zome_name :: "Dna \<Rightarrow> string \<Rightarrow> u8 list option" where
  "get_wasm_from_zome_name dna zome_name =
     (case get_zome dna zome_name of Inl _ \<Rightarrow> None | Inr zome \<Rightarrow> Some (code zome))"

definition get_zome_name_for_app_entry_type :: "Dna \<Rightarrow> AppEntryType \<Rightarrow> string option outcome" where
  "get_zome_name_for_app_entry_type dna app_entry_type =
     outcome_bind (has_valid_app_name app_entry_type) (\<lambda>ok.
       if \<not> ok then Panics ''assertion failed: EntryType::has_valid_app_name''
       else Returns (map_option fst
              (find (\<lambda>(_, zome). EntryType.App app_entry_type \<in> fst ` set (entry_types zome))
                (zomes dna))))"

definition get_entry_type_def :: "Dna \<Rightarrow> string \<Rightarrow> EntryTypeDef option outcome" where
  "get_entry_type_def dna entry_type_name =
     outcome_bind (has_valid_app_name entry_type_name) (\<lambda>ok.
       if \<not> ok then Panics ''assertion failed: EntryType::has_valid_app_name''
       else Returns (map_option snd
              (find (\<lambda>(t, _). t = EntryType.App entry_type_name)
                (concat (map (\<lambda>(_, zome). entry_types zome) (zomes dna))))))"

definition dna_required_bridges :: "Dna \<Rightarrow> Bridge list" where
  "dna_required_bridges dna = concat (map (\<lambda>(_, zome). get_required_bridges zome) (zomes dna))"

text \<open>\<open>verify\<close>; \<open>dbg\<close> is the debug text of the list of errors.\<close>

definition dna_verify :: "(HolochainError list \<Rightarrow> string) \<Rightarrow> Dna \<Rightarrow> unit HcResult" where
  "dna_verify dbg dna =
     (let errors = map (\<lambda>(zome_name, _). ErrorGeneric (''Zome '' @ zome_name @ '' has no code!''))
                     (filter (\<lambda>(_, zome). code zome = []) (zomes dna))
      in if errors = [] then Ok ()
         else Err (ErrorGeneric (''invalid DNA: '' @ dbg errors)))"

section \<open>Entries and their addresses\<close>

datatype Entry =
    App AppEntryType JsonString
  | Dna Dna
  | AgentId AgentId
  | Deletion Address
  | LinkAdd LinkData
  | LinkRemove LinkData "Address list"
  | LinkList "Link list"
  | ChainHeader ChainHeader
  | ChainMigrate
  | CapTokenClaim CapTokenClaim
  | CapTokenGrant CapTokenGrant

fun entry_type :: "Entry \<Rightarrow> EntryType" where
  "entry_type (Entry.App app_entry_type _) = EntryType.App app_entry_type"
| "entry_type (Entry.Dna _) = EntryType.Dna"
| "entry_type (Entry.AgentId _) = EntryType.AgentId"
| "entry_type (Entry.Deletion _) = EntryType.Deletion"
| "entry_type (Entry.LinkAdd _) = EntryType.LinkAdd"
| "entry_type (Entry.LinkRemove _ _) = EntryType.LinkRemove"
| "entry_type (Entry.LinkList _) = EntryType.LinkList"
| "entry_type (Entry.ChainHeader _) = EntryType.ChainHeader"
| "entry_type Entry.ChainMigrate = EntryType.ChainMigrate"
| "entry_type (Entry.CapTokenClaim _) = EntryType.CapTokenClaim"
| "entry_type (Entry.CapTokenGrant _) = EntryType.CapTokenGrant"

definition Link_add_entry :: "Link \<Rightarrow> ChainHeader \<Rightarrow> AgentId \<Rightarrow> Entry" where
  "Link_add_entry l hdr agent = Entry.LinkAdd (LinkData_from_link l ADD hdr agent)"

definition Link_remove_entry :: "Link \<Rightarrow> ChainHeader \<Rightarrow> AgentId \<Rightarrow> Entry" where
  "Link_remove_entry l hdr agent = Entry.LinkAdd (LinkData_from_link l REMOVE hdr agent)"

datatype EntryAspect =
    Content Entry ChainHeader
  | Header ChainHeader
  | LinkAdd LinkData ChainHeader
  | LinkRemove LinkData "Address list" ChainHeader
  | Update Entry ChainHeader
  | Deletion ChainHeader

record hasher =
  entry_hash :: "Entry \<Rightarrow> Address"
  header_hash :: "ChainHeader \<Rightarrow> Address"
  aspect_hash :: "EntryAspect \<Rightarrow> Address"

fun entry_address :: "hasher \<Rightarrow> Entry \<Rightarrow> Address" where
  "entry_address H (Entry.AgentId agent_id) = pub_sign_key agent_id"
| "entry_address H (Entry.ChainHeader chain_header) = header_hash H chain_header"
| "entry_address H e = entry_hash H e"

definition grant_token :: "hasher \<Rightarrow> CapTokenGrant \<Rightarrow> Address" where
  "grant_token H g = entry_address H (Entry.CapTokenGrant g)"

text \<open>
  Content is the JSON text of an entry or of a bare chain header; any other text
  parses as neither.  The text of a chain-header entry is that of its header.
\<close>

datatype Content =
    EntryContent Entry
  | HeaderContent ChainHeader
  | OtherContent string

fun entry_content :: "Entry \<Rightarrow> Content" where
  "entry_content (Entry.ChainHeader chain_header) = HeaderContent chain_header"
| "entry_content e = EntryContent e"

fun entry_try_from_content :: "Content \<Rightarrow> Entry HcResult" where
  "entry_try_from_content (EntryContent e) = Ok e"
| "entry_try_from_content (HeaderContent h) = Ok (Entry.ChainHeader h)"
| "entry_try_from_content (OtherContent s) = Err (SerializationError s)"

fun header_try_from_content :: "Content \<Rightarrow> ChainHeader HcResult" where
  "header_try_from_content (HeaderContent h) = Ok h"
| "header_try_from_content (EntryContent e) = Err (SerializationError [])"
| "header_try_from_content (OtherContent s) = Err (SerializationError s)"

section \<open>Aspects of entries\<close>

fun aspect_type_hint :: "EntryAspect \<Rightarrow> string" where
  "aspect_type_hint (EntryAspect.Content _ _) = ''content''"
| "aspect_type_hint (EntryAspect.Header _) = ''header''"
| "aspect_type_hint (EntryAspect.LinkAdd _ _) = ''link_add''"
| "aspect_type_hint (EntryAspect.LinkRemove _ _ _) = ''link_remove''"
| "aspect_type_hint (EntryAspect.Update _ _) = ''update''"
| "aspect_type_hint (EntryAspect.Deletion _) = ''deletion''"

fun aspect_header :: "EntryAspect \<Rightarrow> ChainHeader" where
  "aspect_header (EntryAspect.Content _ header) = header"
| "aspect_header (EntryAspect.Header header) = header"
| "aspect_header (EntryAspect.LinkAdd _ header) = header"
| "aspect_header (EntryAspect.LinkRemove _ _ header) = header"
| "aspect_header (EntryAspect.Update _ header) = header"
| "aspect_header (EntryAspect.Deletion header) = header"

definition update_delete_address :: "ChainHeader \<Rightarrow> Address HcResult" where
  "update_delete_address header =
     ok_or (ErrorGeneric ''no link_update_delete on Update/Deletion entry header.'')
       (hdr_link_update_delete header)"

fun aspect_entry_address :: "hasher \<Rightarrow> EntryAspect \<Rightarrow> Address HcResult" where
  "aspect_entry_address H (EntryAspect.Content _ header) = Ok (hdr_entry_address header)"
| "aspect_entry_address H (EntryAspect.LinkAdd link_data _) = Ok (base (link_of link_data))"
| "aspect_entry_address H (EntryAspect.LinkRemove link_data _ _) = Ok (base (link_of link_data))"
| "aspect_entry_address H (EntryAspect.Update _ header) = update_delete_address header"
| "aspect_entry_address H (EntryAspect.Deletion header) = update_delete_address header"
| "aspect_entry_address H (EntryAspect.Header header) = Ok (header_hash H header)"

section \<open>Facts\<close>

lemma entry_from_content [simp]: "entry_try_from_content (entry_content e) = Ok e"
  by (cases e) simp_all

lemma header_from_content [simp]:
  "header_try_from_content (entry_content (Entry.ChainHeader h)) = Ok h"
  by simp

definition sys_entry_name :: "string \<Rightarrow> bool" where
  "sys_entry_name s \<longleftrightarrow>
     s \<in> set [''%agent_id'', ''%deletion'', ''%dna'', ''%chain_header'', ''%link_add'',
              ''%link_remove'', ''%link_list'', ''%chain_migrate'', ''%cap_token_claim'',
              ''%cap_token_grant'']"

lemma entry_type_string_from_str: "entry_type_string (entry_type_from_str s) = s"
  by (simp add: entry_type_from_str_def)

lemma entry_type_from_str_App:
  "entry_type_from_str s = EntryType.App s \<longleftrightarrow> \<not> sys_entry_name s"
  by (auto simp: entry_type_from_str_def sys_entry_name_def)

lemma entry_type_from_str_sys: "is_sys t \<Longrightarrow> entry_type_from_str (entry_type_string t) = t"
  by (cases t) (simp_all add: is_sys_def entry_type_from_str_def)

lemma valid_app_name_not_sys: "has_valid_app_name s = Returns True \<Longrightarrow> \<not> sys_entry_name s"
  by (auto simp: has_valid_app_name_def sys_entry_name_def split: list.splits if_splits)

lemma find_concat:
  "find P (concat xss) =
     (case find (list_ex P) xss of None \<Rightarrow> None | Some xs \<Rightarrow> find P xs)"
proof (induction xss)
  case (Cons xs xss)
  have "find P (xs @ concat xss) = (if list_ex P xs then find P xs else find P (concat xss))"
    by (induction xs) auto
  with Cons show ?case by simp
qed simp

lemma find_map: "find P (map f xs) = map_option f (find (P \<circ> f) xs)"
  by (induction xs) auto

lemma find_key_map_of:
  "map_option snd (find (\<lambda>(k', _). k' = k) kvs) = map_of kvs k"
  by (induction kvs) auto

lemma find_Some_map_of:
  "distinct (map fst kvs) \<Longrightarrow> find P kvs = Some (k, v) \<Longrightarrow> map_of kvs k = Some v"
  by (auto simp: find_Some_iff intro!: map_of_is_SomeI)

definition dna_wf :: "Dna \<Rightarrow> bool" where
  "dna_wf dna \<longleftrightarrow> distinct (map fst (zomes dna))"

section \<open>Properties\<close>

text \<open>
  The name of an entry type and the entry type determine each other: reading a
  name and printing it again gives the name, and printing an entry type and reading
  it again gives the type unless it is an app type that bears the reserved name of a
  system type; a name that passes the check of app names is never reserved.
\<close>

theorem entry_type_roundtrip:
  "entry_type_string (entry_type_from_str s) = s
   \<and> (entry_type_from_str (entry_type_string t) = t
        \<longleftrightarrow> \<not> (is_app t \<and> sys_entry_name (entry_type_string t)))
   \<and> \<not> (has_valid_app_name s = Returns True \<and> sys_entry_name s)"
proof (intro conjI)
  show "entry_type_from_str (entry_type_string t) = t
        \<longleftrightarrow> \<not> (is_app t \<and> sys_entry_name (entry_type_string t))"
  proof (cases "is_app t")
    case True
    then obtain a where "t = EntryType.App a" by (cases t) auto
    then show ?thesis by (simp add: entry_type_from_str_App)
  next
    case False
    then show ?thesis by (simp add: entry_type_from_str_sys is_sys_def)
  qed
qed (use valid_app_name_not_sys entry_type_string_from_str in auto)

text \<open>
  The check of app entry names panics, instead of answering, exactly for the
  names whose first character is not ASCII: it cuts the name after its first byte.
\<close>

theorem app_name_check_panics_iff:
  "(\<exists>m. has_valid_app_name s = Panics m) \<longleftrightarrow> s \<noteq> [] \<and> (128 :: nat) \<le> of_char (hd s)"
  by (cases s) (auto simp: has_valid_app_name_def)

text \<open>
  The two searches of the DNA for an app entry type agree: the zome that is
  named as its home exists under that name, and the definition that is found is the
  one this zome gives; one search fails exactly when the other does.
\<close>

theorem entry_type_lookup_consistent:
  assumes "dna_wf dna" and "has_valid_app_name t = Returns True"
  shows "case get_zome_name_for_app_entry_type dna t of
           Returns None \<Rightarrow> get_entry_type_def dna t = Returns None
         | Returns (Some z) \<Rightarrow>
             (case get_zome dna z of
                Inr zome \<Rightarrow> get_entry_type_def dna t = Returns (map_of (entry_types zome) (EntryType.App t))
                          \<and> map_of (entry_types zome) (EntryType.App t) \<noteq> None
              | Inl _ \<Rightarrow> False)
         | Panics _ \<Rightarrow> False"
proof -
  let ?has = "\<lambda>(_ :: string, zome). EntryType.App t \<in> fst ` set (entry_types zome)"
  have ex: "list_ex (\<lambda>(k, _). k = EntryType.App t) (entry_types zome)
      \<longleftrightarrow> EntryType.App t \<in> fst ` set (entry_types zome)" for zome
    by (force simp: list_ex_iff)
  have comp: "list_ex (\<lambda>(k, _). k = EntryType.App t) \<circ> (\<lambda>(_ :: string, zome). entry_types zome) = ?has"
    by (auto simp: fun_eq_iff ex)
  have d: "get_entry_type_def dna t = Returns (case find ?has (zomes dna) of
      None \<Rightarrow> None | Some (_, zome) \<Rightarrow> map_of (entry_types zome) (EntryType.App t))"
    using assms(2)
    by (auto simp: get_entry_type_def_def find_concat find_map comp find_key_map_of
        split: option.splits)
  have n: "get_zome_name_for_app_entry_type dna t = Returns (map_option fst (find ?has (zomes dna)))"
    using assms(2) by (simp add: get_zome_name_for_app_entry_type_def)
  show ?thesis
  proof (cases "find ?has (zomes dna)")
    case None
    with d n show ?thesis by simp
  next
    case (Some p)
    obtain z zome where p: "p = (z, zome)" by (cases p)
    have "map_of (zomes dna) z = Some zome"
      using find_Some_map_of [of "zomes dna" ?has z zome] assms(1) Some p by (simp add: dna_wf_def)
    moreover have "map_of (entry_types zome) (EntryType.App t) \<noteq> None"
      using Some p by (auto simp: find_Some_iff map_of_eq_None_iff)
    ultimately show ?thesis using d n Some p by (simp add: get_zome_def)
  qed
qed

theorem entry_type_lookup_consistent_witness:
  "let def = \<lparr> def_properties = ''{}'', sharing = Sharing.Private, links_to = [], linked_from = [] \<rparr>;
       zome = \<lparr> zome_description = '''', entry_types = [(EntryType.App ''post'', def)], traits = [],
                fn_declarations = [], code = [0], bridges = [] \<rparr>;
       dna = \<lparr> dna_name = '''', dna_description = '''', dna_version = '''', dna_uuid = '''',
               dna_spec_version = '''', dna_properties = ''{}'', zomes = [(''blog'', zome)] \<rparr>
   in get_entry_type_def dna ''post'' = Returns (Some def)"
proof -
  let ?def = "\<lparr> def_properties = ''{}'', sharing = Sharing.Private, links_to = [], linked_from = [] \<rparr>"
  let ?zome = "\<lparr> zome_description = '''', entry_types = [(EntryType.App ''post'', ?def)], traits = [],
                fn_declarations = [], code = [0], bridges = [] \<rparr>"
  let ?dna = "\<lparr> dna_name = '''', dna_description = '''', dna_version = '''', dna_uuid = '''',
               dna_spec_version = '''', dna_properties = ''{}'', zomes = [(''blog'', ?zome)] \<rparr>"
  have "has_valid_app_name ''post'' = Returns True" by (simp add: has_valid_app_name_def)
  moreover have "get_zome_name_for_app_entry_type ?dna ''post'' = Returns (Some ''blog'')"
    by (simp add: get_zome_name_for_app_entry_type_def has_valid_app_name_def)
  ultimately show ?thesis
    using entry_type_lookup_consistent [of ?dna "''post''"] by (simp add: dna_wf_def get_zome_def)
qed

text \<open>
  Capability grants are created as asked for or refused: a grant that is
  created has the requested type, name and functions, and its assignees are the
  given ones when it is an assigned grant; creation is refused exactly when an
  assigned grant names nobody or another grant names somebody.
\<close>

theorem grant_create_correct:
  "case grant_create gid cap_type assigned fns of
     Inr g \<Rightarrow> grant_cap_type g = cap_type \<and> grant_id g = gid \<and> grant_functions g = fns
             \<and> (cap_type = Assigned) = (assigned \<noteq> None \<and> assigned \<noteq> Some [])
             \<and> assignees g = (if cap_type = Assigned then assigned
                              else if cap_type = CapabilityType.Public then None else Some [])
   | Inl _ \<Rightarrow> (cap_type = Assigned) = (assigned = None \<or> assigned = Some [])"
  by (cases cap_type; cases assigned)
     (auto simp: grant_create_def grant_valid_def grant_cap_type_def)

end
