(* ===== verification/Aspect_Map.thy ===== *)
theory Aspect_Map
  imports Core_Types
begin

text \<open>
  \<open>crates/net/src/aspect_map.rs\<close>: which aspects are held of which entry.  The maps
  and sets are persistent hash maps; their iteration order does not matter for any
  result, so a set is folded without one.
\<close>

section \<open>Operations\<close>

type_synonym EntryHash = Address
type_synonym AspectHash = Address
type_synonym AspectMap = "(EntryHash, AspectHash fset) fmap"

definition AspectMap_new :: AspectMap where
  "AspectMap_new = fmempty"

definition aspects_of :: "AspectMap \<Rightarrow> EntryHash \<Rightarrow> AspectHash fset" where
  "aspects_of m e = (case fmlookup m e of Some s \<Rightarrow> s | None \<Rightarrow> {||})"

text \<open>\<open>entry(e).or_insert_with(HashSet::new).insert(a)\<close>\<close>

definition insert_aspect :: "EntryHash \<times> AspectHash \<Rightarrow> AspectMap \<Rightarrow> AspectMap" where
  "insert_aspect p m = fmupd (fst p) (finsert (snd p) (aspects_of m (fst p))) m"

definition aspect_pairs :: "AspectMap \<Rightarrow> (EntryHash \<times> AspectHash) fset" where
  "aspect_pairs m = ffUnion ((\<lambda>e. Pair e |`| aspects_of m e) |`| fmdom m)"

definition from_pairs :: "(EntryHash \<times> AspectHash) fset \<Rightarrow> AspectMap" where
  "from_pairs s = ffold insert_aspect fmempty s"

definition aspect_diff :: "AspectMap \<Rightarrow> AspectMap \<Rightarrow> AspectMap" where
  "aspect_diff self other = from_pairs (aspect_pairs self |-| aspect_pairs other)"

definition aspect_contains :: "hasher \<Rightarrow> AspectMap \<Rightarrow> EntryAspect \<Rightarrow> bool outcome" where
  "aspect_contains H m aspect =
     outcome_bind (expect_ok ''Could not get entry address from aspect''
                     (aspect_entry_address H aspect)) (\<lambda>entry_addr.
       Returns (aspect_hash H aspect |\<in>| aspects_of m entry_addr))"

definition aspect_add :: "hasher \<Rightarrow> AspectMap \<Rightarrow> EntryAspect \<Rightarrow> AspectMap outcome" where
  "aspect_add H m aspect =
     outcome_bind (expect_ok ''Could not get entry address from aspect''
                     (aspect_entry_address H aspect)) (\<lambda>entry_addr.
       Returns (insert_aspect (entry_addr, aspect_hash H aspect) m))"

definition per_entry :: "AspectMap \<Rightarrow> EntryHash \<Rightarrow> AspectHash fset option" where
  "per_entry m e = fmlookup m e"

definition aspect_hashes :: "AspectMap \<Rightarrow> AspectHash fset" where
  "aspect_hashes m = ffUnion (aspects_of m |`| fmdom m)"

definition aspect_map_empty :: "AspectMap \<Rightarrow> bool" where
  "aspect_map_empty m \<longleftrightarrow> fmdom m = {||}"

definition aspect_merge :: "AspectMap \<Rightarrow> AspectMap \<Rightarrow> AspectMap" where
  "aspect_merge m1 m2 =
     fmmap_keys (\<lambda>e _. aspects_of m1 e |\<union>| aspects_of m2 e) (m1 ++\<^sub>f m2)"

text \<open>From and to maps of aspect lists; the list map is given by its entries.\<close>

definition from_vec_map :: "(EntryHash \<times> AspectHash list) list \<Rightarrow> AspectMap" where
  "from_vec_map a =
     fold (\<lambda>(e, aspects) m. fold (\<lambda>x m. insert_aspect (e, x) m) aspects m) a fmempty"

section \<open>The set of held pairs\<close>

lemma aspects_of_insert [simp]:
  "aspects_of (insert_aspect p m) e =
     (if e = fst p then finsert (snd p) (aspects_of m e) else aspects_of m e)"
  by (simp add: aspects_of_def insert_aspect_def)

lemma aspects_of_empty [simp]: "aspects_of fmempty e = {||}"
  by (simp add: aspects_of_def)

lemma aspect_pairs_iff [simp]: "(e, a) |\<in>| aspect_pairs m \<longleftrightarrow> a |\<in>| aspects_of m e"
proof -
  have "a |\<in>| aspects_of m e \<Longrightarrow> e |\<in>| fmdom m"
    by (auto simp: aspects_of_def fmlookup_dom_iff split: option.splits)
  then show ?thesis by (auto simp: aspect_pairs_def ffUnion.rep_eq)
qed

lemma aspect_pairs_insert [simp]: "aspect_pairs (insert_aspect p m) = finsert p (aspect_pairs m)"
  by (cases p) (auto simp: fset_eq_iff split: if_splits)

lemma aspect_pairs_empty [simp]: "aspect_pairs fmempty = {||}"
  by (auto simp: fset_eq_iff)

lemma insert_aspect_commute:
  "insert_aspect p (insert_aspect q m) = insert_aspect q (insert_aspect p m)"
  by (rule fmap_ext) (auto simp: insert_aspect_def aspects_of_def split: option.splits)

lemma insert_aspect_comp: "comp_fun_commute insert_aspect"
  by unfold_locales (simp add: fun_eq_iff insert_aspect_commute)

lemma from_pairs_insert:
  "p |\<notin>| s \<Longrightarrow> from_pairs (finsert p s) = insert_aspect p (from_pairs s)"
  by (simp add: from_pairs_def comp_fun_commute.ffold_finsert [OF insert_aspect_comp])

lemma aspect_pairs_from_pairs [simp]: "aspect_pairs (from_pairs s) = s"
proof (induction s)
  case empty
  then show ?case
    by (simp add: from_pairs_def comp_fun_commute.ffold_empty [OF insert_aspect_comp])
next
  case (insert p s)
  then show ?case by (simp add: from_pairs_insert)
qed

lemma aspects_of_merge [simp]:
  "aspects_of (aspect_merge m1 m2) e = aspects_of m1 e |\<union>| aspects_of m2 e"
  by (auto simp: aspects_of_def aspect_merge_def split: option.splits)

lemma aspect_pairs_merge [simp]:
  "aspect_pairs (aspect_merge m1 m2) = aspect_pairs m1 |\<union>| aspect_pairs m2"
  by (auto simp: fset_eq_iff)

lemma aspect_pairs_from_vec:
  "fset (aspect_pairs (from_vec_map a)) = (\<Union>(e, xs) \<in> set a. Pair e ` set xs)"
proof -
  have inner: "fset (aspect_pairs (fold (\<lambda>x m. insert_aspect (e, x) m) xs m))
      = fset (aspect_pairs m) \<union> Pair e ` set xs" for e xs m
    by (induction xs arbitrary: m) auto
  have "fset (aspect_pairs (fold (\<lambda>(e, xs) m. fold (\<lambda>x m. insert_aspect (e, x) m) xs m) a m))
      = fset (aspect_pairs m) \<union> (\<Union>(e, xs) \<in> set a. Pair e ` set xs)" for m
    by (induction a arbitrary: m) (auto simp: inner)
  then show ?thesis by (simp add: from_vec_map_def)
qed

text \<open>The interface of a register of held pairs, and its laws.\<close>

locale aspect_register =
  fixes pairs :: "'m \<Rightarrow> (EntryHash \<times> AspectHash) fset"
    and none :: 'm
    and insert_pair :: "EntryHash \<times> AspectHash \<Rightarrow> 'm \<Rightarrow> 'm"
    and diff :: "'m \<Rightarrow> 'm \<Rightarrow> 'm"
    and merge :: "'m \<Rightarrow> 'm \<Rightarrow> 'm"
  assumes pairs_none: "pairs none = {||}"
    and pairs_insert: "pairs (insert_pair p m) = finsert p (pairs m)"
    and pairs_diff: "pairs (diff m n) = pairs m |-| pairs n"
    and pairs_merge: "pairs (merge m n) = pairs m |\<union>| pairs n"
begin

lemma insert_all: "pairs (fold insert_pair ps m) = fset_of_list ps |\<union>| pairs m"
  by (induction ps arbitrary: m) (auto simp: pairs_insert)

lemma gossip_converges:
  "pairs (merge m (diff n m)) = pairs (merge n (diff m n))"
  by (auto simp: pairs_merge pairs_diff)

lemma diff_empty_iff: "pairs (diff m n) = {||} \<longleftrightarrow> pairs m |\<subseteq>| pairs n"
  by (auto simp: pairs_diff)

end

interpretation aspect_map: aspect_register aspect_pairs AspectMap_new insert_aspect aspect_diff
  aspect_merge
  by unfold_locales (simp_all add: aspect_diff_def AspectMap_new_def)

section \<open>Properties\<close>

text \<open>
  Reconciling two nodes by difference and merge is exact: the difference holds
  the aspects of the first map that the second lacks and nothing else, the merge
  holds those of either, and two nodes that exchange their differences end up
  holding the same aspects.
\<close>

theorem aspect_map_reconciliation:
  "aspect_pairs (aspect_diff m n) = aspect_pairs m |-| aspect_pairs n
   \<and> aspect_pairs (aspect_merge m n) = aspect_pairs m |\<union>| aspect_pairs n
   \<and> aspect_pairs (aspect_merge m (aspect_diff n m)) = aspect_pairs (aspect_merge n (aspect_diff m n))
   \<and> (aspect_map_empty (aspect_diff m n) \<longleftrightarrow> aspect_pairs m |\<subseteq>| aspect_pairs n)"
proof (intro conjI)
  have nonempty: "fmdom (from_pairs s) = fst |`| s" for s
  proof (induction s)
    case empty
    then show ?case
      by (simp add: from_pairs_def comp_fun_commute.ffold_empty [OF insert_aspect_comp])
  next
    case (insert p s)
    then show ?case by (simp add: from_pairs_insert insert_aspect_def)
  qed
  show "aspect_map_empty (aspect_diff m n) \<longleftrightarrow> aspect_pairs m |\<subseteq>| aspect_pairs n"
    by (auto simp: aspect_map_empty_def aspect_diff_def nonempty)
qed (rule aspect_map.pairs_diff aspect_map.pairs_merge aspect_map.gossip_converges)+

text \<open>
  Adding an aspect makes exactly that aspect of that entry held: afterwards the
  map contains it, every other aspect is contained as before, and adding panics only
  for an update or deletion whose header names no entry.
\<close>

theorem aspect_add_contains:
  "case aspect_add H m aspect of
     Returns m' \<Rightarrow>
       aspect_contains H m' aspect = Returns True
       \<and> (aspect_entry_address H other = aspect_entry_address H aspect
            \<and> aspect_hash H other = aspect_hash H aspect
          \<or> aspect_contains H m' other = aspect_contains H m other)
   | Panics _ \<Rightarrow>
       hdr_link_update_delete (aspect_header aspect) = None
       \<and> aspect_type_hint aspect \<in> set [''update'', ''deletion'']"
proof (cases "aspect_entry_address H aspect")
  case (Inl e)
  then show ?thesis
    by (cases aspect; cases "hdr_link_update_delete (aspect_header aspect)")
       (auto simp: aspect_add_def update_delete_address_def)
next
  case (Inr a)
  then show ?thesis
    by (cases "aspect_entry_address H other") (auto simp: aspect_add_def aspect_contains_def)
qed

end
