(* ===== verification/Sim2h_State.thy ===== *)
theory Sim2h_State
  imports Aspect_Map "HOL-Library.Char_ord" "HOL-Library.List_Lexorder"
begin

text \<open>
  \<open>crates/sim2h/src/sim2h_im_state.rs\<close> and \<open>naive_sharding.rs\<close>: what the switchboard knows of the agents that are
  connected to it and of the aspects that they hold.  A \<open>MonoRef\<close> is a shared copy of a hash; the fields that repeat
  the key of their map are left out.  Locations on the ring and their distances, random numbers, the clock and the
  order of hash maps are parameters.  The store is changed by one entry of its log after the other.
\<close>

section \<open>Sharding\<close>

type_synonym AgentPubKey = string
type_synonym SpaceHash = string
type_synonym Lib3hUri = string
type_synonym Location = u32

record sim_env =
  sim_agent_location :: "AgentPubKey \<Rightarrow> Location option"
  sim_id_location :: "string \<Rightarrow> Location"
  sim_within_arc :: "Location \<Rightarrow> Location \<Rightarrow> nat \<Rightarrow> nat \<Rightarrow> bool"
  sim_rng :: "string \<Rightarrow> string \<Rightarrow> nat \<Rightarrow> nat \<Rightarrow> nat"
  sim_clock :: int
  sim_order :: "string fset \<Rightarrow> string list"
  sim_shuffle :: "string list \<Rightarrow> string list"

text \<open>\<open>sim_within_arc\<close> compares the distance on the ring with the length of the arc that a node stores.\<close>

definition naive_sharding_should_store :: "sim_env \<Rightarrow> Location \<Rightarrow> Location \<Rightarrow> nat \<Rightarrow> nat \<Rightarrow> bool" where
  "naive_sharding_should_store E agent_loc data_addr_loc node_count redundant_count \<longleftrightarrow>
     (if node_count \<le> redundant_count then True
      else sim_within_arc E agent_loc data_addr_loc node_count redundant_count)"

definition should_store :: "sim_env \<Rightarrow> Location \<Rightarrow> Location \<Rightarrow> nat \<Rightarrow> nat \<Rightarrow> bool" where
  "should_store E agent_loc entry_loc agent_count redundancy \<longleftrightarrow>
     (if redundancy = 0 then True
      else naive_sharding_should_store E agent_loc entry_loc agent_count redundancy)"

section \<open>Spaces\<close>

definition AGENT_FETCH_ASPECTS_INTERVAL_MS :: nat where
  "AGENT_FETCH_ASPECTS_INTERVAL_MS = 5000"

definition new_ms_from_now :: "int \<Rightarrow> nat \<Rightarrow> int" where
  "new_ms_from_now now ms = now + int ms * 10 ^ 6"

definition still_pending :: "int \<Rightarrow> int \<Rightarrow> bool" where
  "still_pending now instant \<longleftrightarrow> instant > now"

record ConnectionState =
  con_agent_loc :: Location
  con_uri :: Lib3hUri
  con_next_gossip_check :: int

type_synonym Holding = "(AspectHash, AgentPubKey fset) fmap"

record EntryInfo =
  ei_entry_loc :: Location
  ei_aspects :: Holding

record Space =
  sp_redundancy :: nat
  all_aspects :: "AspectHash fset"
  entry_to_all_aspects :: "(EntryHash, EntryInfo) fmap"
  connections :: "(AgentPubKey, ConnectionState) fmap"
  uri_to_connection :: "(Lib3hUri, AgentPubKey) fmap"
  disconnect_uri :: "Lib3hUri list"
  sp_gossip_interval :: nat

definition Space_new :: "nat \<Rightarrow> nat \<Rightarrow> Space" where
  "Space_new redundancy interval =
     \<lparr> sp_redundancy = redundancy, all_aspects = {||}, entry_to_all_aspects = fmempty, connections = fmempty,
       uri_to_connection = fmempty, disconnect_uri = [], sp_gossip_interval = interval \<rparr>"

definition get_entry_location :: "sim_env \<Rightarrow> Space \<Rightarrow> EntryHash \<Rightarrow> Location" where
  "get_entry_location E s e_hash =
     (case fmlookup (entry_to_all_aspects s) e_hash of
        Some entry \<Rightarrow> ei_entry_loc entry
      | None \<Rightarrow> sim_id_location E e_hash)"

definition agent_count :: "Space \<Rightarrow> nat" where
  "agent_count s = fcard (fmdom (connections s))"

definition get_agents_that_should_hold_entry :: "sim_env \<Rightarrow> Space \<Rightarrow> EntryHash \<Rightarrow> AgentPubKey fset" where
  "get_agents_that_should_hold_entry E s e_hash =
     (if sp_redundancy s = 0 then fmdom (connections s)
      else let entry_loc = get_entry_location E s e_hash
           in fmdom (fmfilter (\<lambda>agent_id. case fmlookup (connections s) agent_id of
                Some con \<Rightarrow> should_store E (con_agent_loc con) entry_loc (agent_count s) (sp_redundancy s)
              | None \<Rightarrow> False) (connections s)))"

fun intersect_all :: "AgentPubKey fset \<Rightarrow> AgentPubKey fset list \<Rightarrow> AgentPubKey fset" where
  "intersect_all remaining_agents [] = remaining_agents"
| "intersect_all remaining_agents (holding # rest) =
     (let r = remaining_agents |\<inter>| holding in if r = {||} then {||} else intersect_all r rest)"

definition get_agents_holding_entry :: "sim_env \<Rightarrow> Space \<Rightarrow> EntryHash \<Rightarrow> AgentPubKey fset" where
  "get_agents_holding_entry E s e_hash =
     (case fmlookup (entry_to_all_aspects s) e_hash of
        None \<Rightarrow> {||}
      | Some entry \<Rightarrow>
          (case List.map_filter (fmlookup (ei_aspects entry)) (sim_order E (fmdom (ei_aspects entry))) of
             [] \<Rightarrow> {||}
           | holding # rest \<Rightarrow> intersect_all holding rest))"

definition get_agents_that_need_aspect :: "sim_env \<Rightarrow> Space \<Rightarrow> EntryHash \<Rightarrow> AspectHash \<Rightarrow> AgentPubKey fset" where
  "get_agents_that_need_aspect E s e_hash a_hash =
     (case fmlookup (entry_to_all_aspects s) e_hash of
        None \<Rightarrow> {||}
      | Some entry \<Rightarrow>
          (case fmlookup (ei_aspects entry) a_hash of
             None \<Rightarrow> {||}
           | Some holding \<Rightarrow> get_agents_that_should_hold_entry E s e_hash |-| holding))"

definition missing_aspects :: "AgentPubKey \<Rightarrow> EntryInfo \<Rightarrow> AspectHash fset" where
  "missing_aspects agent_id entry =
     fmdom (fmfilter (\<lambda>a. case fmlookup (ei_aspects entry) a of
        Some holding \<Rightarrow> agent_id |\<notin>| holding | None \<Rightarrow> False) (ei_aspects entry))"

definition get_gossip_aspects_needed_for_agent :: "sim_env \<Rightarrow> Space \<Rightarrow> AgentPubKey \<Rightarrow> AspectMap" where
  "get_gossip_aspects_needed_for_agent E s agent_id =
     (case fmlookup (connections s) agent_id of
        None \<Rightarrow> fmempty
      | Some c \<Rightarrow>
          fmmap (missing_aspects agent_id)
            (fmfilter (\<lambda>e. case fmlookup (entry_to_all_aspects s) e of
                Some entry \<Rightarrow> should_store E (con_agent_loc c) (ei_entry_loc entry) (agent_count s) (sp_redundancy s)
              | None \<Rightarrow> False) (entry_to_all_aspects s)))"

definition clear_holding :: "AgentPubKey \<Rightarrow> Space \<Rightarrow> Space" where
  "clear_holding agent_id s =
     s\<lparr> entry_to_all_aspects :=
          fmmap (\<lambda>entry. entry\<lparr> ei_aspects := fmmap (\<lambda>holding. holding |-| {|agent_id|}) (ei_aspects entry) \<rparr>)
            (entry_to_all_aspects s) \<rparr>"

text \<open>
  \<open>gen_range\<close> of the random number library panics on an empty range; a draw is named by what it is for.  The quarters
  of the interval are exact in \<open>f64\<close> below two to the power 53.
\<close>

definition gen_range :: "sim_env \<Rightarrow> string \<Rightarrow> string \<Rightarrow> nat \<Rightarrow> nat \<Rightarrow> nat outcome" where
  "gen_range E scope key low high =
     (if low < high then Returns (sim_rng E scope key low high) else Panics ''Rng.gen_range called with low >= high'')"

definition check_insert_connection :: "sim_env \<Rightarrow> AgentPubKey \<Rightarrow> Lib3hUri \<Rightarrow> Space \<Rightarrow> Space outcome" where
  "check_insert_connection E agent_id uri s =
     (case sim_agent_location E agent_id of
        None \<Rightarrow> Returns s
      | Some agent_loc \<Rightarrow>
          outcome_bind (gen_range E uri agent_id 10 (sp_gossip_interval s div 4 + 10)) (\<lambda>to_add.
            let con = \<lparr> con_agent_loc = agent_loc, con_uri = uri,
                        con_next_gossip_check = new_ms_from_now (sim_clock E) to_add \<rparr>;
                s1 = s\<lparr> connections := fmupd agent_id con (connections s) \<rparr>;
                s2 = (case fmlookup (connections s) agent_id of
                        None \<Rightarrow> s1
                      | Some old \<Rightarrow>
                          s1\<lparr> uri_to_connection := fmdrop (con_uri old) (uri_to_connection s1),
                              disconnect_uri := disconnect_uri s1 @ [con_uri old] \<rparr>)
            in Returns (clear_holding agent_id
                 (s2\<lparr> uri_to_connection := fmupd uri agent_id (uri_to_connection s2) \<rparr>))))"

definition priv_check_insert_entry_hash :: "sim_env \<Rightarrow> EntryHash \<Rightarrow> Space \<Rightarrow> Space" where
  "priv_check_insert_entry_hash E e_hash s =
     (case fmlookup (entry_to_all_aspects s) e_hash of
        Some _ \<Rightarrow> s
      | None \<Rightarrow> s\<lparr> entry_to_all_aspects := fmupd e_hash
          \<lparr> ei_entry_loc = sim_id_location E e_hash, ei_aspects = fmempty \<rparr> (entry_to_all_aspects s) \<rparr>)"

definition hold_one :: "AgentPubKey \<Rightarrow> AspectHash \<Rightarrow> Holding \<Rightarrow> Holding" where
  "hold_one agent_id a m =
     fmupd a (finsert agent_id (case fmlookup m a of Some holding \<Rightarrow> holding | None \<Rightarrow> {||})) m"

definition space_agent_holds_aspects ::
  "sim_env \<Rightarrow> AgentPubKey \<Rightarrow> EntryHash \<Rightarrow> AspectHash list \<Rightarrow> Space \<Rightarrow> Space outcome" where
  "space_agent_holds_aspects E agent_id e_hash aspects s =
     (let s1 = priv_check_insert_entry_hash E e_hash s;
          s2 = s1\<lparr> all_aspects := all_aspects s1 |\<union>| fset_of_list aspects \<rparr>
      in outcome_bind (expect ''called `Option::unwrap()` on a `None` value'' (fmlookup (entry_to_all_aspects s2) e_hash)) (\<lambda>e.
           Returns (s2\<lparr> entry_to_all_aspects := fmupd e_hash
             (e\<lparr> ei_aspects := fold (hold_one agent_id) aspects (ei_aspects e) \<rparr>) (entry_to_all_aspects s2) \<rparr>)))"

text \<open>The agents that are due for gossip, and the space with the next time for each of them.\<close>

definition gossip_due :: "sim_env \<Rightarrow> Space \<Rightarrow> AgentPubKey fset" where
  "gossip_due E s =
     fmdom (fmfilter (\<lambda>a. case fmlookup (connections s) a of
        Some con \<Rightarrow> \<not> still_pending (sim_clock E) (con_next_gossip_check con) | None \<Rightarrow> False) (connections s))"

definition space_check_gossip :: "sim_env \<Rightarrow> SpaceHash \<Rightarrow> Space \<Rightarrow> (AgentPubKey fset \<times> Space) outcome" where
  "space_check_gossip E space_hash s =
     (let low = sp_gossip_interval s * 3 div 4; high = sp_gossip_interval s * 5 div 4
      in if gossip_due E s \<noteq> {||} \<and> \<not> low < high then Panics ''Rng.gen_range called with low >= high''
         else Returns (gossip_due E s,
           s\<lparr> connections := fmmap_keys (\<lambda>a con.
                if a |\<in>| gossip_due E s
                then con\<lparr> con_next_gossip_check := new_ms_from_now (sim_clock E) (sim_rng E space_hash a low high) \<rparr>
                else con) (connections s) \<rparr>))"

section \<open>The store\<close>

record Store =
  sto_redundancy :: nat
  spaces :: "(SpaceHash, Space) fmap"
  sto_gossip_interval :: nat

definition Store_new :: "nat \<Rightarrow> nat option \<Rightarrow> Store" where
  "Store_new redundancy interval =
     \<lparr> sto_redundancy = redundancy, spaces = fmempty,
       sto_gossip_interval = (case interval of Some i \<Rightarrow> i | None \<Rightarrow> AGENT_FETCH_ASPECTS_INTERVAL_MS) \<rparr>"

text \<open>The indices of the log are not read by the store, and are left out.\<close>

datatype AolEntry =
    NewConnection SpaceHash AgentPubKey Lib3hUri
  | DropConnectionByUri Lib3hUri
  | AgentHoldsAspects SpaceHash AgentPubKey EntryHash "AspectHash list"
  | CheckGossip
  | CheckDisconnected

datatype StoreReply =
    NoReply
  | GossipReply "(SpaceHash, AgentPubKey fset) fmap"
  | DisconnectedReply "Lib3hUri list"

definition get_space_mut :: "SpaceHash \<Rightarrow> Store \<Rightarrow> Space" where
  "get_space_mut space_hash st =
     (case fmlookup (spaces st) space_hash of
        Some s \<Rightarrow> s
      | None \<Rightarrow> Space_new (sto_redundancy st) (sto_gossip_interval st))"

definition put_space :: "SpaceHash \<Rightarrow> Store \<Rightarrow> Space \<Rightarrow> Store" where
  "put_space space_hash st s = st\<lparr> spaces := fmupd space_hash s (spaces st) \<rparr>"

definition new_connection :: "sim_env \<Rightarrow> SpaceHash \<Rightarrow> AgentPubKey \<Rightarrow> Lib3hUri \<Rightarrow> Store \<Rightarrow> Store outcome" where
  "new_connection E space_hash agent_id uri st =
     outcome_bind (check_insert_connection E agent_id uri (get_space_mut space_hash st))
       (\<lambda>s. Returns (put_space space_hash st s))"

definition drop_connection_inner :: "AgentPubKey \<Rightarrow> Space \<Rightarrow> Space" where
  "drop_connection_inner agent_id s =
     (let s1 = clear_holding agent_id s
      in case fmlookup (connections s1) agent_id of
           None \<Rightarrow> s1
         | Some con \<Rightarrow>
             s1\<lparr> connections := fmdrop agent_id (connections s1),
                 uri_to_connection := fmdrop (con_uri con) (uri_to_connection s1) \<rparr>)"

definition check_drop_spaces :: "Store \<Rightarrow> Store" where
  "check_drop_spaces st =
     st\<lparr> spaces := fmfilter (\<lambda>h. case fmlookup (spaces st) h of
            Some s \<Rightarrow> connections s \<noteq> fmempty | None \<Rightarrow> False) (spaces st) \<rparr>"

definition drop_uri_in_space :: "Lib3hUri \<Rightarrow> Space \<Rightarrow> Space" where
  "drop_uri_in_space uri s =
     (case fmlookup (uri_to_connection s) uri of
        Some agent_id \<Rightarrow> drop_connection_inner agent_id s
      | None \<Rightarrow> s)"

definition drop_connection_by_uri :: "Lib3hUri \<Rightarrow> Store \<Rightarrow> Store" where
  "drop_connection_by_uri uri st =
     check_drop_spaces (st\<lparr> spaces := fmmap (drop_uri_in_space uri) (spaces st) \<rparr>)"

definition store_agent_holds_aspects ::
  "sim_env \<Rightarrow> SpaceHash \<Rightarrow> AgentPubKey \<Rightarrow> EntryHash \<Rightarrow> AspectHash list \<Rightarrow> Store \<Rightarrow> Store outcome" where
  "store_agent_holds_aspects E space_hash agent_id e_hash aspects st =
     outcome_bind (space_agent_holds_aspects E agent_id e_hash aspects (get_space_mut space_hash st))
       (\<lambda>s. Returns (put_space space_hash st s))"

fun check_gossip_spaces ::
  "sim_env \<Rightarrow> SpaceHash list \<Rightarrow> (SpaceHash, AgentPubKey fset) fmap \<Rightarrow> Store \<Rightarrow>
   ((SpaceHash, AgentPubKey fset) fmap \<times> Store) outcome" where
  "check_gossip_spaces E [] out st = Returns (out, st)"
| "check_gossip_spaces E (space_hash # rest) out st =
     outcome_bind (expect ''called `Option::unwrap()` on a `None` value'' (fmlookup (spaces st) space_hash)) (\<lambda>s.
       outcome_bind (space_check_gossip E space_hash s) (\<lambda>(agents, s').
         check_gossip_spaces E rest (if agents = {||} then out else fmupd space_hash agents out)
           (put_space space_hash st s')))"

definition store_check_gossip :: "sim_env \<Rightarrow> Store \<Rightarrow> ((SpaceHash, AgentPubKey fset) fmap \<times> Store) outcome" where
  "store_check_gossip E st = check_gossip_spaces E (sim_order E (fmdom (spaces st))) fmempty st"

definition check_disconnected :: "sim_env \<Rightarrow> Store \<Rightarrow> Lib3hUri list \<times> Store" where
  "check_disconnected E st =
     (concat (map disconnect_uri (List.map_filter (fmlookup (spaces st)) (sim_order E (fmdom (spaces st))))),
      st\<lparr> spaces := fmmap (\<lambda>s. s\<lparr> disconnect_uri := [] \<rparr>) (spaces st) \<rparr>)"

definition mutate :: "sim_env \<Rightarrow> AolEntry \<Rightarrow> Store \<Rightarrow> (Store \<times> StoreReply) outcome" where
  "mutate E aol_entry st =
     (case aol_entry of
        NewConnection space_hash agent_id uri \<Rightarrow>
          outcome_bind (new_connection E space_hash agent_id uri st) (\<lambda>st'. Returns (st', NoReply))
      | DropConnectionByUri uri \<Rightarrow> Returns (drop_connection_by_uri uri st, NoReply)
      | AgentHoldsAspects space_hash agent_id e_hash aspects \<Rightarrow>
          outcome_bind (store_agent_holds_aspects E space_hash agent_id e_hash aspects st)
            (\<lambda>st'. Returns (st', NoReply))
      | CheckGossip \<Rightarrow> outcome_bind (store_check_gossip E st) (\<lambda>(data, st'). Returns (st', GossipReply data))
      | CheckDisconnected \<Rightarrow>
          (case check_disconnected E st of (out, st') \<Rightarrow> Returns (st', DisconnectedReply out)))"

section \<open>Queries\<close>

definition store_agents_that_need_aspect ::
  "sim_env \<Rightarrow> Store \<Rightarrow> SpaceHash \<Rightarrow> EntryHash \<Rightarrow> AspectHash \<Rightarrow> AgentPubKey fset" where
  "store_agents_that_need_aspect E st space_hash e_hash a_hash =
     (case fmlookup (spaces st) space_hash of
        None \<Rightarrow> {||}
      | Some s \<Rightarrow> get_agents_that_need_aspect E s e_hash a_hash)"

definition store_gossip_aspects_needed :: "sim_env \<Rightarrow> Store \<Rightarrow> SpaceHash \<Rightarrow> AgentPubKey \<Rightarrow> AspectMap option" where
  "store_gossip_aspects_needed E st space_hash agent_id =
     map_option (\<lambda>s. get_gossip_aspects_needed_for_agent E s agent_id) (fmlookup (spaces st) space_hash)"

definition spaces_count :: "Store \<Rightarrow> nat" where
  "spaces_count st = fcard (fmdom (spaces st))"

definition lookup_joined :: "Store \<Rightarrow> SpaceHash \<Rightarrow> AgentPubKey \<Rightarrow> Lib3hUri option" where
  "lookup_joined st space_hash agent_id =
     (case fmlookup (spaces st) space_hash of
        None \<Rightarrow> None
      | Some s \<Rightarrow> map_option con_uri (fmlookup (connections s) agent_id))"

fun first_joined :: "Store \<Rightarrow> Lib3hUri \<Rightarrow> SpaceHash list \<Rightarrow> (AgentPubKey \<times> SpaceHash) option" where
  "first_joined st uri [] = None"
| "first_joined st uri (space_hash # rest) =
     (case fmlookup (spaces st) space_hash of
        None \<Rightarrow> first_joined st uri rest
      | Some s \<Rightarrow>
          (case fmlookup (uri_to_connection s) uri of
             None \<Rightarrow> first_joined st uri rest
           | Some agent_id \<Rightarrow> Some (agent_id, space_hash)))"

definition get_space_info_from_uri :: "sim_env \<Rightarrow> Store \<Rightarrow> Lib3hUri \<Rightarrow> (AgentPubKey \<times> SpaceHash) option" where
  "get_space_info_from_uri E st uri = first_joined st uri (sim_order E (fmdom (spaces st)))"

definition store_agents_that_should_hold :: "sim_env \<Rightarrow> Store \<Rightarrow> SpaceHash \<Rightarrow> EntryHash \<Rightarrow> AgentPubKey fset option" where
  "store_agents_that_should_hold E st space_hash e_hash =
     map_option (\<lambda>s. get_agents_that_should_hold_entry E s e_hash) (fmlookup (spaces st) space_hash)"

definition store_agents_holding :: "sim_env \<Rightarrow> Store \<Rightarrow> SpaceHash \<Rightarrow> EntryHash \<Rightarrow> AgentPubKey fset option" where
  "store_agents_holding E st space_hash e_hash =
     map_option (\<lambda>s. get_agents_holding_entry E s e_hash) (fmlookup (spaces st) space_hash)"

definition without_requester :: "AgentPubKey option \<Rightarrow> AgentPubKey fset \<Rightarrow> AgentPubKey fset" where
  "without_requester requester out = (case requester of Some aid \<Rightarrow> out |-| {|aid|} | None \<Rightarrow> out)"

definition query_candidates ::
  "sim_env \<Rightarrow> Store \<Rightarrow> SpaceHash \<Rightarrow> EntryHash \<Rightarrow> AgentPubKey option \<Rightarrow> AgentPubKey fset" where
  "query_candidates E st space_hash e_hash requester =
     (let out = without_requester requester
                  (case store_agents_holding E st space_hash e_hash of None \<Rightarrow> {||} | Some s \<Rightarrow> s)
      in if out \<noteq> {||} then out
         else without_requester requester
                (case store_agents_that_should_hold E st space_hash e_hash of None \<Rightarrow> out | Some s \<Rightarrow> s))"

definition get_agents_for_query ::
  "sim_env \<Rightarrow> Store \<Rightarrow> SpaceHash \<Rightarrow> EntryHash \<Rightarrow> AgentPubKey option \<Rightarrow> AgentPubKey list" where
  "get_agents_for_query E st space_hash e_hash requester =
     (let out = query_candidates E st space_hash e_hash requester
      in if out = {||}
         then (case requester of None \<Rightarrow> [] | Some aid \<Rightarrow> take 3 (sim_shuffle E (sim_order E {|aid|})))
         else take 3 (sim_shuffle E (sim_order E out)))"

section \<open>What is hashed is listed once\<close>

text \<open>Iterating over a hash map visits every key once, and a shuffle permutes.\<close>

definition lists_sets :: "sim_env \<Rightarrow> bool" where
  "lists_sets E \<longleftrightarrow> (\<forall>X. set (sim_order E X) = fset X \<and> distinct (sim_order E X)) \<and>
     (\<forall>xs. mset (sim_shuffle E xs) = mset xs)"

lemma lists_setsD:
  assumes "lists_sets E"
  shows "set (sim_order E X) = fset X" "distinct (sim_order E X)"
    "set (sim_shuffle E xs) = set xs" "distinct (sim_shuffle E xs) = distinct xs"
    "length (sim_shuffle E xs) = length xs"
proof -
  have "mset (sim_shuffle E xs) = mset xs"
    using assms by (simp add: lists_sets_def)
  then show "set (sim_shuffle E xs) = set xs" "distinct (sim_shuffle E xs) = distinct xs"
    "length (sim_shuffle E xs) = length xs"
    by (blast dest: mset_eq_setD mset_eq_imp_distinct_iff mset_eq_length)+
qed (use assms in \<open>simp_all add: lists_sets_def\<close>)

definition same_places :: "sim_env \<Rightarrow> sim_env \<Rightarrow> bool" where
  "same_places E E' \<longleftrightarrow> sim_agent_location E' = sim_agent_location E \<and> sim_id_location E' = sim_id_location E"

section \<open>Agents and entries\<close>

lemma mem_fmdom_filter: "x |\<in>| fmdom (fmfilter P m) \<longleftrightarrow> P x \<and> x |\<in>| fmdom m"
  by auto

lemma should_hold_iff:
  "a |\<in>| get_agents_that_should_hold_entry E s e \<longleftrightarrow>
     (\<exists>con. fmlookup (connections s) a = Some con \<and>
        should_store E (con_agent_loc con) (get_entry_location E s e) (agent_count s) (sp_redundancy s))"
  by (auto simp: get_agents_that_should_hold_entry_def should_store_def Let_def mem_fmdom_filter
      fmlookup_dom_iff split: option.splits)

lemma should_hold_all:
  assumes "sp_redundancy s = 0 \<or> agent_count s \<le> sp_redundancy s"
  shows "get_agents_that_should_hold_entry E s e = fmdom (connections s)"
  using assms by (auto simp: fset_eq_iff should_hold_iff should_store_def naive_sharding_should_store_def fmlookup_dom_iff)

lemma missing_aspects_iff:
  "x |\<in>| missing_aspects a i \<longleftrightarrow> (\<exists>holding. fmlookup (ei_aspects i) x = Some holding \<and> a |\<notin>| holding)"
  by (auto simp: missing_aspects_def mem_fmdom_filter fmlookup_dom_iff split: option.splits)

lemma need_aspect_iff:
  "a |\<in>| get_agents_that_need_aspect E s e x \<longleftrightarrow>
     (\<exists>con i. fmlookup (connections s) a = Some con \<and> fmlookup (entry_to_all_aspects s) e = Some i \<and>
        should_store E (con_agent_loc con) (ei_entry_loc i) (agent_count s) (sp_redundancy s) \<and>
        x |\<in>| missing_aspects a i)"
  by (auto simp: get_agents_that_need_aspect_def should_hold_iff missing_aspects_iff get_entry_location_def
      split: option.splits)

lemma gossip_needed_lookup:
  "fmlookup (get_gossip_aspects_needed_for_agent E s a) e = Some xs \<longleftrightarrow>
     (\<exists>con i. fmlookup (connections s) a = Some con \<and> fmlookup (entry_to_all_aspects s) e = Some i \<and>
        should_store E (con_agent_loc con) (ei_entry_loc i) (agent_count s) (sp_redundancy s) \<and>
        xs = missing_aspects a i)"
  by (auto simp: get_gossip_aspects_needed_for_agent_def split: option.splits)

lemma fset_intersect_all: "a |\<in>| intersect_all r hs \<longleftrightarrow> a |\<in>| r \<and> (\<forall>h\<in>set hs. a |\<in>| h)"
proof (induction hs arbitrary: r)
  case (Cons h hs)
  show ?case
  proof (cases "r |\<inter>| h = {||}")
    case True
    then have "\<not> (a |\<in>| r \<and> a |\<in>| h)" by (metis fempty_iff finterI)
    then show ?thesis using True by auto
  qed (auto simp: Cons.IH Let_def)
qed simp

lemma holding_entry_iff:
  assumes "lists_sets E"
  shows "a |\<in>| get_agents_holding_entry E s e \<longleftrightarrow>
    (\<exists>i. fmlookup (entry_to_all_aspects s) e = Some i \<and> ei_aspects i \<noteq> fmempty \<and>
       (\<forall>x holding. fmlookup (ei_aspects i) x = Some holding \<longrightarrow> a |\<in>| holding))"
proof (cases "fmlookup (entry_to_all_aspects s) e")
  case (Some i)
  define hs where "hs = List.map_filter (fmlookup (ei_aspects i)) (sim_order E (fmdom (ei_aspects i)))"
  have hs: "set hs = {h. \<exists>x. fmlookup (ei_aspects i) x = Some h}"
    unfolding hs_def List.map_filter_def
    by (auto simp: lists_setsD(1) [OF assms] fmlookup_dom_iff image_iff) (metis fmdomI option.sel)
  have empty: "hs = [] \<longleftrightarrow> ei_aspects i = fmempty"
  proof
    assume "hs = []"
    then have "fmlookup (ei_aspects i) x = None" for x
      using hs by (cases "fmlookup (ei_aspects i) x") auto
    then show "ei_aspects i = fmempty" by (intro fmap_ext) simp
  next
    assume "ei_aspects i = fmempty"
    then have "set hs = {}" using hs by simp
    then show "hs = []" by simp
  qed
  show ?thesis
  proof (cases hs)
    case Nil
    then show ?thesis using Some empty by (simp add: get_agents_holding_entry_def hs_def)
  next
    case (Cons h rest)
    then have "a |\<in>| get_agents_holding_entry E s e \<longleftrightarrow> (\<forall>h\<in>set hs. a |\<in>| h)"
      using Some by (simp add: get_agents_holding_entry_def flip: hs_def) (simp add: fset_intersect_all)
    then have "a |\<in>| get_agents_holding_entry E s e \<longleftrightarrow>
        (\<forall>x h. fmlookup (ei_aspects i) x = Some h \<longrightarrow> a |\<in>| h)"
      unfolding hs by blast
    moreover have "ei_aspects i \<noteq> fmempty" using empty Cons by simp
    ultimately show ?thesis using Some by simp
  qed
qed (simp add: get_agents_holding_entry_def)

section \<open>Invariants of every space\<close>

text \<open>
  What an invariant of a space has to be kept by, so that every store that the log reaches has it in all its spaces.
\<close>

locale space_invariant =
  fixes holds_in :: "Space \<Rightarrow> bool" and allowed :: "sim_env \<Rightarrow> bool" and configured :: "nat \<Rightarrow> nat \<Rightarrow> bool"
  assumes new_space: "configured r g \<Longrightarrow> holds_in (Space_new r g)"
    and insert_keeps: "\<lbrakk>allowed E; holds_in s; check_insert_connection E a u s = Returns s'\<rbrakk> \<Longrightarrow> holds_in s'"
    and drop_keeps: "holds_in s \<Longrightarrow> holds_in (drop_connection_inner a s)"
    and holding_keeps: "\<lbrakk>allowed E; holds_in s; space_agent_holds_aspects E a e xs s = Returns s'\<rbrakk> \<Longrightarrow> holds_in s'"
    and gossip_keeps: "\<lbrakk>allowed E; holds_in s; space_check_gossip E h s = Returns (agents, s')\<rbrakk> \<Longrightarrow> holds_in s'"
    and forget_keeps: "holds_in s \<Longrightarrow> holds_in (s\<lparr>disconnect_uri := []\<rparr>)"
begin

definition everywhere :: "Store \<Rightarrow> bool" where
  "everywhere st \<longleftrightarrow> configured (sto_redundancy st) (sto_gossip_interval st) \<and>
     (\<forall>h s. fmlookup (spaces st) h = Some s \<longrightarrow> holds_in s)"

lemma everywhereD: "everywhere st \<Longrightarrow> fmlookup (spaces st) h = Some s \<Longrightarrow> holds_in s"
  by (simp add: everywhere_def)

lemma everywhere_new:
  "configured r (sto_gossip_interval (Store_new r g)) \<Longrightarrow> everywhere (Store_new r g)"
  by (simp add: everywhere_def Store_new_def)

lemma everywhere_get: "everywhere st \<Longrightarrow> holds_in (get_space_mut h st)"
  by (auto simp: get_space_mut_def new_space everywhere_def split: option.splits)

lemma everywhere_put: "everywhere st \<Longrightarrow> holds_in s \<Longrightarrow> everywhere (put_space h st s)"
  by (auto simp: everywhere_def put_space_def)

lemma everywhere_map: "everywhere st \<Longrightarrow> (\<And>s. holds_in s \<Longrightarrow> holds_in (f s)) \<Longrightarrow> everywhere (st\<lparr>spaces := fmmap f (spaces st)\<rparr>)"
  by (auto simp: everywhere_def)

lemma everywhere_check_drop: "everywhere st \<Longrightarrow> everywhere (check_drop_spaces st)"
  by (simp add: everywhere_def check_drop_spaces_def)

lemma everywhere_gossip:
  "\<lbrakk>allowed E; everywhere st; check_gossip_spaces E hs out st = Returns (out', st')\<rbrakk> \<Longrightarrow> everywhere st'"
proof (induction hs arbitrary: out st)
  case (Cons h hs)
  from Cons.prems(3) obtain s agents s' where s: "fmlookup (spaces st) h = Some s"
    and g: "space_check_gossip E h s = Returns (agents, s')"
    and r: "check_gossip_spaces E hs (if agents = {||} then out else fmupd h agents out) (put_space h st s') = Returns (out', st')"
    by (auto simp: outcome_bind_Returns_iff)
  have "holds_in s'" using gossip_keeps [OF Cons.prems(1) everywhereD [OF Cons.prems(2) s] g] .
  then show ?case using Cons.IH [OF Cons.prems(1) everywhere_put [OF Cons.prems(2)] r] by simp
qed simp

lemma everywhere_mutate:
  assumes "allowed E" and st: "everywhere st" and m: "mutate E l st = Returns (st', reply)"
  shows "everywhere st'"
proof (cases l)
  case (NewConnection h a u)
  then show ?thesis using m
    by (auto simp: mutate_def new_connection_def outcome_bind_Returns_iff
        intro: everywhere_put [OF st] insert_keeps [OF assms(1) everywhere_get [OF st]])
next
  case (DropConnectionByUri u)
  then have "st' = check_drop_spaces (st\<lparr>spaces := fmmap (drop_uri_in_space u) (spaces st)\<rparr>)"
    using m by (simp add: mutate_def drop_connection_by_uri_def)
  then show ?thesis
    by (auto simp: drop_uri_in_space_def drop_keeps intro!: everywhere_check_drop everywhere_map [OF st] split: option.splits)
next
  case (AgentHoldsAspects h a e xs)
  then show ?thesis using m
    by (auto simp: mutate_def store_agent_holds_aspects_def outcome_bind_Returns_iff
        intro: everywhere_put [OF st] holding_keeps [OF assms(1) everywhere_get [OF st]])
next
  case CheckGossip
  then show ?thesis using m
    by (auto simp: mutate_def store_check_gossip_def outcome_bind_Returns_iff intro: everywhere_gossip [OF assms(1) st])
next
  case CheckDisconnected
  then show ?thesis using m by (auto simp: mutate_def check_disconnected_def forget_keeps intro!: everywhere_map [OF st])
qed

end

subsection \<open>Routing\<close>

text \<open>A uri that is known to belong to an agent is the one that messages to the agent are sent to.\<close>

definition routes_back :: "Space \<Rightarrow> bool" where
  "routes_back s \<longleftrightarrow> (\<forall>u a. fmlookup (uri_to_connection s) u = Some a \<longrightarrow>
     map_option con_uri (fmlookup (connections s) a) = Some u)"

lemma clear_holding_simps [simp]:
  "connections (clear_holding a s) = connections s" "uri_to_connection (clear_holding a s) = uri_to_connection s"
  "all_aspects (clear_holding a s) = all_aspects s" "sp_redundancy (clear_holding a s) = sp_redundancy s"
  "disconnect_uri (clear_holding a s) = disconnect_uri s" "sp_gossip_interval (clear_holding a s) = sp_gossip_interval s"
  by (simp_all add: clear_holding_def)

lemma insert_connections:
  assumes "check_insert_connection E a u s = Returns s'" and "sim_agent_location E a = Some loc"
  shows "\<exists>t. connections s' = fmupd a \<lparr>con_agent_loc = loc, con_uri = u, con_next_gossip_check = t\<rparr> (connections s)"
    and "uri_to_connection s' = fmupd u a (case fmlookup (connections s) a of
           None \<Rightarrow> uri_to_connection s | Some old \<Rightarrow> fmdrop (con_uri old) (uri_to_connection s))"
    and "entry_to_all_aspects s' = entry_to_all_aspects (clear_holding a s)"
    and "all_aspects s' = all_aspects s"
    and "disconnect_uri s' = disconnect_uri s @ (case fmlookup (connections s) a of None \<Rightarrow> [] | Some old \<Rightarrow> [con_uri old])"
  using assms by (cases "fmlookup (connections s) a",
      auto simp: check_insert_connection_def outcome_bind_Returns_iff Let_def clear_holding_def)+

lemma insert_nowhere: "sim_agent_location E a = None \<Longrightarrow> check_insert_connection E a u s = Returns s' \<Longrightarrow> s' = s"
  by (simp add: check_insert_connection_def)

lemma holds_aspects_simps:
  assumes "space_agent_holds_aspects E a e xs s = Returns s'"
  shows "connections s' = connections s" "uri_to_connection s' = uri_to_connection s"
    "disconnect_uri s' = disconnect_uri s" "all_aspects s' = all_aspects s |\<union>| fset_of_list xs"
    "sp_redundancy s' = sp_redundancy s" "sp_gossip_interval s' = sp_gossip_interval s"
  using assms by (auto simp: space_agent_holds_aspects_def priv_check_insert_entry_hash_def Let_def
      outcome_bind_Returns_iff split: option.splits)

lemma check_gossip_simps:
  assumes "space_check_gossip E h s = Returns (agents, s')"
  shows "uri_to_connection s' = uri_to_connection s" "entry_to_all_aspects s' = entry_to_all_aspects s"
    "all_aspects s' = all_aspects s" "agents = gossip_due E s" "disconnect_uri s' = disconnect_uri s"
    "map_option con_uri (fmlookup (connections s') a) = map_option con_uri (fmlookup (connections s) a)"
    "map_option con_agent_loc (fmlookup (connections s') a) = map_option con_agent_loc (fmlookup (connections s) a)"
  using assms by (cases "fmlookup (connections s) a", auto simp: space_check_gossip_def Let_def split: if_splits)+

interpretation routing: space_invariant routes_back "\<lambda>_. True" "\<lambda>_ _. True"
proof
  fix E s a u s'
  assume s: "routes_back s" and i: "check_insert_connection E a u s = Returns s'"
  show "routes_back s'"
  proof (cases "sim_agent_location E a")
    case None
    then show ?thesis using insert_nowhere i s by blast
  next
    case (Some loc)
    show ?thesis using s insert_connections(1,2) [OF i Some]
      by (cases "fmlookup (connections s) a") (fastforce simp: routes_back_def split: if_splits)+
  qed
next
  fix s a
  assume "routes_back s"
  then show "routes_back (drop_connection_inner a s)"
    by (cases "fmlookup (connections s) a")
      (fastforce simp: routes_back_def drop_connection_inner_def Let_def split: if_splits)+
qed (auto simp: routes_back_def Space_new_def holds_aspects_simps check_gossip_simps)

subsection \<open>Places\<close>

text \<open>The cached locations are those of the agents and entries, and every aspect of an entry is known.\<close>

definition placed :: "sim_env \<Rightarrow> Space \<Rightarrow> bool" where
  "placed E s \<longleftrightarrow>
     (\<forall>a con. fmlookup (connections s) a = Some con \<longrightarrow> sim_agent_location E a = Some (con_agent_loc con)) \<and>
     (\<forall>e i. fmlookup (entry_to_all_aspects s) e = Some i \<longrightarrow>
        ei_entry_loc i = sim_id_location E e \<and> (\<forall>x. x |\<in>| fmdom (ei_aspects i) \<longrightarrow> x |\<in>| all_aspects s))"

lemma clear_holding_entry:
  "fmlookup (entry_to_all_aspects (clear_holding a s)) e =
     map_option (\<lambda>i. i\<lparr>ei_aspects := fmmap (\<lambda>h. h |-| {|a|}) (ei_aspects i)\<rparr>) (fmlookup (entry_to_all_aspects s) e)"
  by (simp add: clear_holding_def)

lemma placed_clear: "placed E s \<Longrightarrow> placed E (clear_holding a s)"
  by (auto simp: placed_def clear_holding_entry)

lemma hold_fold_lookup:
  "fmlookup (fold (hold_one a) xs m) x =
     (if x \<in> set xs then Some (finsert a (case fmlookup m x of Some h \<Rightarrow> h | None \<Rightarrow> {||})) else fmlookup m x)"
  by (induction xs arbitrary: m) (auto simp: hold_one_def split: option.splits)

lemma hold_fold_dom: "fmdom (fold (hold_one a) xs m) = fmdom m |\<union>| fset_of_list xs"
  by (auto simp: fset_eq_iff fmlookup_dom_iff hold_fold_lookup fset_of_list_elem)

lemma holds_aspects_returns:
  "space_agent_holds_aspects E a e xs s = Returns (s\<lparr> all_aspects := all_aspects s |\<union>| fset_of_list xs,
     entry_to_all_aspects := fmupd e
       (case fmlookup (entry_to_all_aspects s) e of
          Some i \<Rightarrow> i\<lparr> ei_aspects := fold (hold_one a) xs (ei_aspects i) \<rparr>
        | None \<Rightarrow> \<lparr> ei_entry_loc = sim_id_location E e, ei_aspects = fold (hold_one a) xs fmempty \<rparr>)
       (entry_to_all_aspects s) \<rparr>)"
  by (cases "fmlookup (entry_to_all_aspects s) e")
    (auto simp: space_agent_holds_aspects_def priv_check_insert_entry_hash_def intro!: Space.equality fmap_ext)

lemma placed_holds:
  assumes "same_places E0 E" and s: "placed E0 s" and r: "space_agent_holds_aspects E a e xs s = Returns s'"
  shows "placed E0 s'"
proof -
  have loc: "sim_id_location E = sim_id_location E0" using assms(1) by (simp add: same_places_def)
  show ?thesis
  proof (cases "fmlookup (entry_to_all_aspects s) e")
    case None
    then show ?thesis using s r loc
      by (auto simp: holds_aspects_returns placed_def hold_fold_dom split: if_splits)
  next
    case (Some i)
    then have "ei_entry_loc i = sim_id_location E0 e" "\<And>x. x |\<in>| fmdom (ei_aspects i) \<Longrightarrow> x |\<in>| all_aspects s"
      using s by (auto simp: placed_def)
    then show ?thesis using s r Some loc
      by (auto simp: holds_aspects_returns placed_def hold_fold_dom split: if_splits)
  qed
qed

interpretation places: space_invariant "placed E0" "same_places E0" "\<lambda>_ _. True" for E0
proof
  fix E s a u s'
  assume E: "same_places E0 E" and s: "placed E0 s" and i: "check_insert_connection E a u s = Returns s'"
  show "placed E0 s'"
  proof (cases "sim_agent_location E a")
    case None
    then show ?thesis using insert_nowhere i s by blast
  next
    case (Some loc)
    have "placed E0 (clear_holding a s)" using s by (rule placed_clear)
    then show ?thesis using insert_connections(1,3,4) [OF i Some] Some E
      by (auto simp: placed_def same_places_def split: if_splits)
  qed
next
  fix s a
  assume "placed E0 s"
  then have "placed E0 (clear_holding a s)" by (rule placed_clear)
  then show "placed E0 (drop_connection_inner a s)"
    by (auto simp: placed_def drop_connection_inner_def Let_def split: option.splits)
next
  fix E s h agents s'
  assume s: "placed E0 s" and g: "space_check_gossip E h s = Returns (agents, s')"
  have "sim_agent_location E0 a = Some (con_agent_loc con)" if "fmlookup (connections s') a = Some con" for a con
    using s that check_gossip_simps(7) [OF g, of a] by (cases "fmlookup (connections s) a") (auto simp: placed_def)
  then show "placed E0 s'"
    using s check_gossip_simps(2,3) [OF g] by (auto simp: placed_def)
qed (fact placed_holds | simp add: placed_def Space_new_def)+

subsection \<open>Intervals\<close>

definition configured_as :: "nat \<Rightarrow> nat \<Rightarrow> Space \<Rightarrow> bool" where
  "configured_as r g s \<longleftrightarrow> sp_redundancy s = r \<and> sp_gossip_interval s = g"

interpretation config: space_invariant "configured_as r g" "\<lambda>_. True" "\<lambda>r' g'. r' = r \<and> g' = g" for r g
proof
  fix E s a u s'
  assume "configured_as r g s" "check_insert_connection E a u s = Returns s'"
  then show "configured_as r g s'"
    by (auto simp: configured_as_def check_insert_connection_def outcome_bind_Returns_iff Let_def clear_holding_def
        split: option.splits)
qed (auto simp: configured_as_def Space_new_def drop_connection_inner_def Let_def holds_aspects_simps
    space_check_gossip_def split: option.splits if_splits)

section \<open>The stores that a log reaches\<close>

text \<open>Random numbers and the clock change from entry to entry; the locations do not.\<close>

inductive store_run :: "sim_env \<Rightarrow> Store \<Rightarrow> Store \<Rightarrow> bool" for E0 :: sim_env where
  store_start: "store_run E0 st st"
| store_step: "\<lbrakk>store_run E0 st st1; same_places E0 E; mutate E l st1 = Returns (st2, reply)\<rbrakk> \<Longrightarrow> store_run E0 st st2"

lemma run_routing: "store_run E0 st st' \<Longrightarrow> routing.everywhere st \<Longrightarrow> routing.everywhere st'"
  by (induction rule: store_run.induct) (auto intro: routing.everywhere_mutate)

lemma run_places: "store_run E0 st st' \<Longrightarrow> places.everywhere E0 st \<Longrightarrow> places.everywhere E0 st'"
  by (induction rule: store_run.induct) (auto intro: places.everywhere_mutate)

lemma run_config: "store_run E0 st st' \<Longrightarrow> config.everywhere r g st \<Longrightarrow> config.everywhere r g st'"
  by (induction rule: store_run.induct) (auto intro: config.everywhere_mutate)

lemma reachable_routes:
  "store_run E0 (Store_new r g) st \<Longrightarrow> fmlookup (spaces st) h = Some s \<Longrightarrow> routes_back s"
  using run_routing routing.everywhere_new routing.everywhereD by blast

lemma reachable_placed:
  "store_run E0 (Store_new r g) st \<Longrightarrow> fmlookup (spaces st) h = Some s \<Longrightarrow> placed E0 s"
  using run_places places.everywhere_new places.everywhereD by blast

lemma reachable_config:
  assumes "store_run E0 (Store_new r g) st"
  shows "sto_redundancy st = r" "sto_gossip_interval st = sto_gossip_interval (Store_new r g)"
    "fmlookup (spaces st) h = Some s \<Longrightarrow> sp_redundancy s = r \<and> sp_gossip_interval s = sto_gossip_interval (Store_new r g)"
proof -
  have "config.everywhere r (sto_gossip_interval (Store_new r g)) st"
    using run_config [OF assms] config.everywhere_new by blast
  then show "sto_redundancy st = r" "sto_gossip_interval st = sto_gossip_interval (Store_new r g)"
    "fmlookup (spaces st) h = Some s \<Longrightarrow> sp_redundancy s = r \<and> sp_gossip_interval s = sto_gossip_interval (Store_new r g)"
    by (auto simp: config.everywhere_def configured_as_def)
qed

subsection \<open>Who a uri belongs to\<close>

lemma first_joined_Some:
  "first_joined st u hs = Some (a, h) \<Longrightarrow>
     h \<in> set hs \<and> (\<exists>s. fmlookup (spaces st) h = Some s \<and> fmlookup (uri_to_connection s) u = Some a)"
  by (induction hs) (auto split: option.splits)

lemma first_joined_None:
  "first_joined st u hs = None \<longleftrightarrow>
     (\<forall>h\<in>set hs. \<forall>s. fmlookup (spaces st) h = Some s \<longrightarrow> fmlookup (uri_to_connection s) u = None)"
  by (induction hs) (auto split: option.splits)

lemma info_None:
  assumes "lists_sets E"
  shows "get_space_info_from_uri E st u = None \<longleftrightarrow>
    (\<forall>h s. fmlookup (spaces st) h = Some s \<longrightarrow> fmlookup (uri_to_connection s) u = None)"
  by (auto simp: get_space_info_from_uri_def first_joined_None lists_setsD(1) [OF assms] fmlookup_dom_iff)

lemma drop_uri_connections:
  "connections (drop_uri_in_space u s) =
     (case fmlookup (uri_to_connection s) u of Some a \<Rightarrow> fmdrop a (connections s) | None \<Rightarrow> connections s)"
  by (auto simp: drop_uri_in_space_def drop_connection_inner_def Let_def intro!: fmap_ext split: option.splits)

lemma drop_uri_routes:
  assumes "routes_back s"
  shows "uri_to_connection (drop_uri_in_space u s) = fmdrop u (uri_to_connection s)"
proof (cases "fmlookup (uri_to_connection s) u")
  case None
  then show ?thesis by (auto simp: drop_uri_in_space_def intro!: fmap_ext)
next
  case (Some a)
  then obtain con where "fmlookup (connections s) a = Some con" "con_uri con = u"
    using assms by (auto simp: routes_back_def)
  then show ?thesis using Some by (simp add: drop_uri_in_space_def drop_connection_inner_def Let_def)
qed

lemma drop_by_uri_lookup:
  "fmlookup (spaces (drop_connection_by_uri u st)) h = Some s' \<longleftrightarrow>
     (\<exists>s. fmlookup (spaces st) h = Some s \<and> s' = drop_uri_in_space u s \<and> connections s' \<noteq> fmempty)"
  by (auto simp: drop_connection_by_uri_def check_drop_spaces_def split: option.splits)

lemma drop_by_uri_joined:
  assumes "fmlookup (spaces st) h = Some s"
  shows "lookup_joined (drop_connection_by_uri u st) h a =
    (if fmlookup (uri_to_connection s) u = Some a then None else lookup_joined st h a)"
proof -
  have "lookup_joined (drop_connection_by_uri u st) h a = map_option con_uri (fmlookup (connections (drop_uri_in_space u s)) a)"
    using assms by (auto simp: lookup_joined_def drop_connection_by_uri_def check_drop_spaces_def)
  then show ?thesis
    using assms by (simp add: drop_uri_connections lookup_joined_def split: option.splits)
qed

section \<open>An example\<close>

text \<open>One agent that joined a space of an empty store.\<close>

definition sim_example :: sim_env where
  "sim_example =
     \<lparr> sim_agent_location = (\<lambda>_. Some 0), sim_id_location = (\<lambda>_. 0), sim_within_arc = (\<lambda>_ _ _ _. True),
       sim_rng = (\<lambda>_ _ low _. low), sim_clock = 0, sim_order = sorted_list_of_fset, sim_shuffle = (\<lambda>xs. xs) \<rparr>"

definition space_example :: Space where
  "space_example =
     (Space_new 0 5000)\<lparr>
       connections := fmupd ''a'' \<lparr> con_agent_loc = 0, con_uri = ''u'', con_next_gossip_check = 10000000 \<rparr> fmempty,
       uri_to_connection := fmupd ''u'' ''a'' fmempty \<rparr>"

definition store_example :: Store where
  "store_example = \<lparr> sto_redundancy = 0, spaces = fmupd ''s'' space_example fmempty, sto_gossip_interval = 5000 \<rparr>"

lemma sim_example_lists: "lists_sets sim_example"
  by (simp add: lists_sets_def sim_example_def sorted_list_of_fset.rep_eq)

lemma same_places_refl: "same_places E E"
  by (simp add: same_places_def)

lemma store_example_joins: "mutate sim_example (NewConnection ''s'' ''a'' ''u'') (Store_new 0 None) = Returns (store_example, NoReply)"
  by (simp add: mutate_def new_connection_def get_space_mut_def put_space_def check_insert_connection_def gen_range_def
      clear_holding_def Space_new_def Store_new_def sim_example_def store_example_def space_example_def
      AGENT_FETCH_ASPECTS_INTERVAL_MS_def new_ms_from_now_def)

lemma store_example_run: "store_run sim_example (Store_new 0 None) store_example"
  using store_start same_places_refl store_example_joins by (rule store_step)

lemmas store_example_simps = store_example_def space_example_def Space_new_def

lemma sorted_list_of_fsingleton [simp]: "sorted_list_of_fset {|x|} = [x]"
  by (simp add: sorted_list_of_fset.rep_eq)

section \<open>Properties of the store\<close>

text \<open>
  The agent that a message is attributed to, by the uri it came from, is the agent of that space whose messages
  are sent to this very uri: in every store that a log reaches from the empty one, what
  \<open>get_space_info_from_uri\<close> finds for a uri is what \<open>lookup_joined\<close> sends back to it.
\<close>

theorem uri_reaches_agent:
  assumes "store_run E0 (Store_new r g) st" and "get_space_info_from_uri E st u = Some (a, h)"
  shows "lookup_joined st h a = Some u"
proof -
  obtain s where s: "fmlookup (spaces st) h = Some s" "fmlookup (uri_to_connection s) u = Some a"
    using first_joined_Some assms(2) by (fastforce simp: get_space_info_from_uri_def)
  then show ?thesis
    using reachable_routes [OF assms(1) s(1)] by (simp add: routes_back_def lookup_joined_def)
qed

theorem uri_reaches_agent_witness: "lookup_joined store_example ''s'' ''a'' = Some ''u''"
proof (rule uri_reaches_agent [OF store_example_run])
  show "get_space_info_from_uri sim_example store_example ''u'' = Some (''a'', ''s'')"
    by (simp add: get_space_info_from_uri_def store_example_simps sim_example_def)
qed

text \<open>Who holds an aspect of an entry, if the space knows it.\<close>

definition holders :: "Space \<Rightarrow> EntryHash \<Rightarrow> AspectHash \<Rightarrow> AgentPubKey fset option" where
  "holders s e x = Option.bind (fmlookup (entry_to_all_aspects s) e) (\<lambda>i. fmlookup (ei_aspects i) x)"

lemma drop_uri_holders:
  "holders (drop_uri_in_space u s) e x = map_option
     (\<lambda>agents. case fmlookup (uri_to_connection s) u of None \<Rightarrow> agents | Some a \<Rightarrow> agents |-| {|a|}) (holders s e x)"
  by (cases "fmlookup (entry_to_all_aspects s) e")
     (auto simp: holders_def drop_uri_in_space_def drop_connection_inner_def clear_holding_def Let_def option.map_ident
        split: option.split)

text \<open>
  C19.  Dropping a uri ends what the store attributes to it, and nothing else.  In every reachable store, afterwards no
  message from the uri is attributed to an agent.  In each space the agent that the uri was attributed to has no
  connection, and every other agent has the one it had.  In the spaces that remain every aspect is held by the agents
  that held it, without that agent, and those spaces all have a connection.
\<close>

theorem dropped_uri_gone:
  assumes "store_run E0 (Store_new r g) st" and "lists_sets E"
    and "mutate E (DropConnectionByUri u) st = Returns (st', reply)"
  shows "get_space_info_from_uri E st' u = None \<and>
    (\<forall>h s. fmlookup (spaces st) h = Some s \<longrightarrow>
      (\<forall>a. lookup_joined st' h a = (if fmlookup (uri_to_connection s) u = Some a then None else lookup_joined st h a))) \<and>
    (\<forall>h s s' e x. fmlookup (spaces st) h = Some s \<and> fmlookup (spaces st') h = Some s' \<longrightarrow>
      holders s' e x = map_option (\<lambda>agents. case fmlookup (uri_to_connection s) u of
          None \<Rightarrow> agents | Some a \<Rightarrow> agents |-| {|a|}) (holders s e x)) \<and>
    (\<forall>h s'. fmlookup (spaces st') h = Some s' \<longrightarrow> fmlookup (spaces st) h \<noteq> None \<and> connections s' \<noteq> fmempty)"
proof (intro conjI)
  have st': "st' = drop_connection_by_uri u st" using assms(3) by (simp add: mutate_def)
  show "get_space_info_from_uri E st' u = None"
    using reachable_routes [OF assms(1)]
    by (auto simp: info_None [OF assms(2)] st' drop_by_uri_lookup drop_uri_routes)
  show "\<forall>h s. fmlookup (spaces st) h = Some s \<longrightarrow>
      (\<forall>a. lookup_joined st' h a = (if fmlookup (uri_to_connection s) u = Some a then None else lookup_joined st h a))"
    by (simp add: st' drop_by_uri_joined)
qed (use assms(3) in \<open>auto simp: mutate_def drop_by_uri_lookup drop_uri_holders\<close>)

theorem dropped_uri_gone_witness:
  "lookup_joined store_example ''s'' ''a'' = Some ''u'' \<and>
   lookup_joined (drop_connection_by_uri ''u'' store_example) ''s'' ''a'' = None"
  using dropped_uri_gone [OF store_example_run sim_example_lists, of "''u''" "drop_connection_by_uri ''u'' store_example" NoReply]
  by (simp add: mutate_def lookup_joined_def store_example_simps)

text \<open>
  An agent whose uri was taken over by the join of another agent is not known by the uri any more: when the uri is
  dropped, it keeps its connection, over which nothing can be sent.
\<close>

theorem taken_over_uri_stays:
  "\<exists>st. store_run sim_example (Store_new 0 None) st \<and>
     lookup_joined (drop_connection_by_uri ''u'' st) ''s'' ''a'' = Some ''u''"
proof -
  define st where "st = put_space ''s'' store_example (space_example\<lparr>
     connections := fmupd ''b'' \<lparr> con_agent_loc = 0, con_uri = ''u'', con_next_gossip_check = 10000000 \<rparr> (connections space_example),
     uri_to_connection := fmupd ''u'' ''b'' fmempty \<rparr>)"
  have "mutate sim_example (NewConnection ''s'' ''b'' ''u'') store_example = Returns (st, NoReply)"
    by (auto simp: mutate_def new_connection_def get_space_mut_def put_space_def check_insert_connection_def gen_range_def
      clear_holding_def Space_new_def sim_example_def store_example_def space_example_def st_def
      AGENT_FETCH_ASPECTS_INTERVAL_MS_def new_ms_from_now_def intro!: fmap_ext)
  then have "store_run sim_example (Store_new 0 None) st"
    by (rule store_step [OF store_example_run same_places_refl])
  moreover obtain s where "fmlookup (spaces st) ''s'' = Some s" "fmlookup (uri_to_connection s) ''u'' = Some ''b''"
      "lookup_joined st ''s'' ''a'' = Some ''u''"
    by (simp add: st_def put_space_def lookup_joined_def store_example_simps)
  ultimately show ?thesis by (intro exI [of _ st]) (simp add: drop_by_uri_joined)
qed

text \<open>
  C23.  The two directions in which gossip asks who lacks what agree: an agent is among those that need an aspect of an
  entry exactly when that aspect is among those that gossip finds missing for the agent.
\<close>

theorem gossip_agrees:
  "a |\<in>| store_agents_that_need_aspect E st h e x \<longleftrightarrow>
     (\<exists>m xs. store_gossip_aspects_needed E st h a = Some m \<and> fmlookup m e = Some xs \<and> x |\<in>| xs)"
  by (cases "fmlookup (spaces st) h")
    (auto simp: store_agents_that_need_aspect_def store_gossip_aspects_needed_def need_aspect_iff gossip_needed_lookup)

text \<open>
  A query is passed on to one to three different agents.  It goes back to the agent that asked only when it is the
  only choice: then no other agent of the space holds every aspect of the entry, and none should.
\<close>

theorem query_targets:
  assumes "lists_sets E"
  shows "get_agents_for_query E st h e (Some q) \<noteq> [] \<and> distinct (get_agents_for_query E st h e (Some q)) \<and>
    length (get_agents_for_query E st h e (Some q)) \<le> 3 \<and>
    (q \<in> set (get_agents_for_query E st h e (Some q)) \<longrightarrow>
       get_agents_for_query E st h e (Some q) = [q] \<and>
       (\<forall>s a. fmlookup (spaces st) h = Some s \<and> a \<noteq> q \<longrightarrow>
          a |\<notin>| get_agents_holding_entry E s e \<and> a |\<notin>| get_agents_that_should_hold_entry E s e))"
proof (cases "query_candidates E st h e (Some q) = {||}")
  case True
  have "set (sim_shuffle E (sim_order E {|q|})) = {q}" "distinct (sim_shuffle E (sim_order E {|q|}))"
    by (simp_all add: lists_setsD [OF assms])
  then have "sim_shuffle E (sim_order E {|q|}) = [q]"
    by (metis card.empty card_insert_disjoint distinct_card empty_iff finite.emptyI length_0_conv length_Suc_conv
        list.set_intros(1) singletonD)
  then have q: "get_agents_for_query E st h e (Some q) = [q]"
    using True by (simp add: get_agents_for_query_def)
  have "a |\<notin>| get_agents_holding_entry E s e \<and> a |\<notin>| get_agents_that_should_hold_entry E s e"
    if "fmlookup (spaces st) h = Some s" "a \<noteq> q" for s a
    using True that
    by (auto simp: query_candidates_def without_requester_def store_agents_holding_def store_agents_that_should_hold_def
        Let_def split: if_splits)
  then show ?thesis using q by simp
next
  case False
  let ?xs = "sim_shuffle E (sim_order E (query_candidates E st h e (Some q)))"
  have xs: "set ?xs = fset (query_candidates E st h e (Some q))" "distinct ?xs"
    by (simp_all add: lists_setsD [OF assms])
  have "?xs \<noteq> []" using xs(1) False by (metis bot_fset.rep_eq empty_set fset_inject)
  moreover have "q \<notin> set ?xs"
    unfolding xs(1) by (auto simp: query_candidates_def without_requester_def Let_def)
  ultimately show ?thesis
    using xs(2) False by (auto simp: get_agents_for_query_def dest: in_set_takeD)
qed

theorem query_targets_witness:
  "lists_sets sim_example \<and> length (get_agents_for_query sim_example store_example ''s'' ''e'' (Some ''a'')) \<le> 3"
  using query_targets [OF sim_example_lists, of store_example "''s''" "''e''" "''a''"] sim_example_lists by simp

text \<open>
  Who should hold an entry depends only on where agents and entry are, not on what the store has cached: in every
  reachable store these are the agents with a connection whose own location is responsible for the location of the
  entry, for the number of agents of the space and the redundancy the switchboard was started with.
\<close>

theorem responsible_agents:
  assumes "store_run E0 (Store_new r g) st" and "same_places E0 E" and "fmlookup (spaces st) h = Some s"
  shows "\<exists>A. store_agents_that_should_hold E st h e = Some A \<and>
    (\<forall>a. a |\<in>| A \<longleftrightarrow> (\<exists>u loc. lookup_joined st h a = Some u \<and> sim_agent_location E a = Some loc \<and>
       should_store E loc (sim_id_location E e) (fcard (fmdom (connections s))) r))"
proof -
  have s: "placed E s" "sp_redundancy s = r"
    using reachable_placed [OF assms(1,3)] reachable_config [OF assms(1)] assms(2,3)
    by (auto simp: placed_def same_places_def)
  then have "get_entry_location E s e = sim_id_location E e"
    by (auto simp: get_entry_location_def placed_def split: option.splits)
  then show ?thesis using s assms(3)
    by (auto simp: store_agents_that_should_hold_def should_hold_iff lookup_joined_def agent_count_def placed_def)
qed

theorem responsible_agents_witness:
  "\<exists>A. store_agents_that_should_hold sim_example store_example ''s'' ''e'' = Some A \<and> ''a'' |\<in>| A"
  using responsible_agents [OF store_example_run same_places_refl, of "''s''" space_example "''e''"]
  by (auto simp: store_example_def space_example_def lookup_joined_def sim_example_def should_store_def)

lemma need_other_aspects:
  assumes "space_agent_holds_aspects E a e xs s = Returns s'" and "x \<in> set xs"
  shows "b |\<in>| get_agents_that_need_aspect E s' e x \<longleftrightarrow>
    b \<noteq> a \<and> b |\<in>| get_agents_that_should_hold_entry E s' e \<and>
    \<not> (\<exists>i holding. fmlookup (entry_to_all_aspects s) e = Some i \<and> fmlookup (ei_aspects i) x = Some holding \<and> b |\<in>| holding)"
  using assms by (cases "fmlookup (entry_to_all_aspects s) e")
    (auto simp: holds_aspects_returns get_agents_that_need_aspect_def hold_fold_lookup split: option.splits)

text \<open>
  When an agent reports the aspects it holds, the store takes note without fail; the agent then needs none of
  them, and they are needed by exactly the other agents that should hold the entry and have not reported them before.
\<close>

theorem reported_aspects_spread:
  "\<exists>st'. mutate E (AgentHoldsAspects h a e xs) st = Returns (st', NoReply) \<and>
     (\<forall>x\<in>set xs. \<forall>b. b |\<in>| store_agents_that_need_aspect E st' h e x \<longleftrightarrow>
        b \<noteq> a \<and> (\<exists>A. store_agents_that_should_hold E st' h e = Some A \<and> b |\<in>| A) \<and>
        \<not> (\<exists>s i holding. fmlookup (spaces st) h = Some s \<and> fmlookup (entry_to_all_aspects s) e = Some i \<and>
             fmlookup (ei_aspects i) x = Some holding \<and> b |\<in>| holding))"
proof -
  obtain s' where s': "space_agent_holds_aspects E a e xs (get_space_mut h st) = Returns s'"
    using holds_aspects_returns by blast
  have m: "mutate E (AgentHoldsAspects h a e xs) st = Returns (put_space h st s', NoReply)"
    by (simp add: mutate_def store_agent_holds_aspects_def s')
  have "b |\<in>| store_agents_that_need_aspect E (put_space h st s') h e x \<longleftrightarrow>
      b \<noteq> a \<and> (\<exists>A. store_agents_that_should_hold E (put_space h st s') h e = Some A \<and> b |\<in>| A) \<and>
      \<not> (\<exists>s i holding. fmlookup (spaces st) h = Some s \<and> fmlookup (entry_to_all_aspects s) e = Some i \<and>
           fmlookup (ei_aspects i) x = Some holding \<and> b |\<in>| holding)" if "x \<in> set xs" for x b
    using need_other_aspects [OF s' that, of b]
    by (simp add: store_agents_that_need_aspect_def store_agents_that_should_hold_def put_space_def get_space_mut_def
        Space_new_def split: option.splits)
  then show ?thesis using m by blast
qed

theorem reported_aspects_spread_witness:
  "\<exists>st'. mutate sim_example (AgentHoldsAspects ''s'' ''b'' ''e'' [''x'']) store_example = Returns (st', NoReply) \<and>
     ''b'' |\<notin>| store_agents_that_need_aspect sim_example st' ''s'' ''e'' ''x''"
  using reported_aspects_spread [of sim_example "''s''" "''b''" "''e''" "[''x'']" store_example] by auto

subsection \<open>Panics\<close>

lemma insert_returns:
  "4 \<le> sp_gossip_interval s \<Longrightarrow> \<exists>s'. check_insert_connection E a u s = Returns s'"
  by (auto simp: check_insert_connection_def gen_range_def Let_def split: option.splits)

lemma gossip_returns:
  assumes "0 < sp_gossip_interval s"
  shows "\<exists>agents s'. space_check_gossip E h s = Returns (agents, s')"
proof -
  have "sp_gossip_interval s * 3 div 4 < sp_gossip_interval s * 5 div 4" using assms by presburger
  then show ?thesis by (simp add: space_check_gossip_def Let_def)
qed

lemma gossip_spaces_return:
  assumes "\<And>h s. fmlookup (spaces st) h = Some s \<Longrightarrow> 0 < sp_gossip_interval s" and "set hs \<subseteq> fset (fmdom (spaces st))"
  shows "\<exists>out' st'. check_gossip_spaces E hs out st = Returns (out', st')"
  using assms
proof (induction hs arbitrary: out st)
  case (Cons h hs)
  then obtain s where s: "fmlookup (spaces st) h = Some s" by (auto simp: fmlookup_dom_iff)
  then obtain agents s' where g: "space_check_gossip E h s = Returns (agents, s')"
    using gossip_returns Cons.prems(1) by blast
  then have "sp_gossip_interval s' = sp_gossip_interval s"
    by (auto simp: space_check_gossip_def Let_def split: if_splits)
  then have "0 < sp_gossip_interval s''" if "fmlookup (spaces (put_space h st s')) h' = Some s''" for h' s''
    using that Cons.prems(1) s by (auto simp: put_space_def split: if_splits)
  then have "\<exists>out' st'. check_gossip_spaces E hs out1 (put_space h st s') = Returns (out', st')" for out1
    using Cons.prems(2) by (intro Cons.IH) (auto simp: put_space_def)
  then show ?case using s g by simp
qed simp

text \<open>
  The task that owns the store does not die: with the interval that the switchboard uses, and with any of at
  least four milliseconds, no entry of the log makes a reachable store panic.
\<close>

theorem store_never_panics:
  assumes "store_run E0 (Store_new r g) st" and "4 \<le> sto_gossip_interval (Store_new r g)" and "lists_sets E"
  shows "\<exists>st' reply. mutate E l st = Returns (st', reply)"
proof -
  note config = reachable_config [OF assms(1)]
  have every: "4 \<le> sp_gossip_interval s" if "fmlookup (spaces st) h = Some s" for h s
    using config(3) [OF that] assms(2) by simp
  have "4 \<le> sp_gossip_interval (get_space_mut h st)" for h
    using every config(2) assms(2) by (auto simp: get_space_mut_def Space_new_def split: option.splits)
  then have ins: "\<exists>s'. check_insert_connection E a u (get_space_mut h st) = Returns s'" for h a u
    by (rule insert_returns)
  have gossip: "\<exists>out' st'. store_check_gossip E st = Returns (out', st')"
    unfolding store_check_gossip_def using every
    by (intro gossip_spaces_return) (force simp: lists_setsD(1) [OF assms(3)])+
  show ?thesis
  proof (cases l)
    case (NewConnection h a u)
    then show ?thesis using ins [of a u h] by (auto simp: mutate_def new_connection_def)
  next
    case CheckGossip
    then show ?thesis using gossip by (auto simp: mutate_def)
  qed (auto simp: mutate_def store_agent_holds_aspects_def holds_aspects_returns split_beta)
qed

theorem store_never_panics_witness: "\<exists>st' reply. mutate sim_example CheckGossip store_example = Returns (st', reply)"
  by (rule store_never_panics [OF store_example_run _ sim_example_lists])
    (simp add: Store_new_def AGENT_FETCH_ASPECTS_INTERVAL_MS_def)

text \<open>
  An agent that sends its request to join once more over the connection it has gets this connection closed: its
  uri is put on the list of replaced connections, while it stays the uri that messages to the agent are sent to.
\<close>

theorem rejoin_closes_connection:
  assumes "lookup_joined st h a = Some u" and "sim_agent_location E a = Some loc" and "lists_sets E'"
    and "mutate E (NewConnection h a u) st = Returns (st1, r1)"
    and "mutate E' CheckDisconnected st1 = Returns (st2, r2)"
  shows "\<exists>us. r2 = DisconnectedReply us \<and> u \<in> set us \<and> lookup_joined st2 h a = Some u"
proof -
  obtain s con where s: "fmlookup (spaces st) h = Some s" "fmlookup (connections s) a = Some con" "con_uri con = u"
    using assms(1) by (auto simp: lookup_joined_def split: option.splits)
  obtain s1 where i: "check_insert_connection E a u s = Returns s1" and st1: "st1 = put_space h st s1"
    using assms(4) s(1) by (auto simp: mutate_def new_connection_def get_space_mut_def outcome_bind_Returns_iff)
  note ins = insert_connections [OF i assms(2)]
  have "h \<in> set (sim_order E' (fmdom (spaces st1)))" "fmlookup (spaces st1) h = Some s1"
    by (simp_all add: lists_setsD(1) [OF assms(3)] st1 put_space_def)
  moreover have "u \<in> set (disconnect_uri s1)" using ins(5) s by simp
  ultimately have "u \<in> set (fst (check_disconnected E' st1))"
    by (force simp: check_disconnected_def List.map_filter_def)
  moreover have "lookup_joined (snd (check_disconnected E' st1)) h a = Some u"
    using ins(1) by (auto simp: check_disconnected_def lookup_joined_def st1 put_space_def)
  ultimately show ?thesis using assms(5) by (auto simp: mutate_def split: prod.splits)
qed

theorem rejoin_closes_connection_witness:
  "\<exists>st1 st2 us. mutate sim_example (NewConnection ''s'' ''a'' ''u'') store_example = Returns (st1, NoReply) \<and>
     mutate sim_example CheckDisconnected st1 = Returns (st2, DisconnectedReply us) \<and>
     ''u'' \<in> set us \<and> lookup_joined st2 ''s'' ''a'' = Some ''u''"
proof -
  have j: "lookup_joined store_example ''s'' ''a'' = Some ''u''" "sim_agent_location sim_example ''a'' = Some 0"
    by (simp_all add: lookup_joined_def store_example_simps sim_example_def)
  obtain st1 where m1: "mutate sim_example (NewConnection ''s'' ''a'' ''u'') store_example = Returns (st1, NoReply)"
    by (simp add: mutate_def new_connection_def get_space_mut_def check_insert_connection_def gen_range_def sim_example_def
        store_example_simps Let_def)
  obtain st2 us where m2: "mutate sim_example CheckDisconnected st1 = Returns (st2, DisconnectedReply us)"
    by (simp add: mutate_def check_disconnected_def)
  show ?thesis using rejoin_closes_connection [OF j sim_example_lists m1 m2] m1 m2 by auto
qed

section \<open>Where connections come from\<close>

lemma gossip_spaces_joined:
  "check_gossip_spaces E hs out st = Returns (out', st') \<Longrightarrow> lookup_joined st' h a = lookup_joined st h a"
proof (induction hs arbitrary: out st)
  case (Cons k hs)
  then obtain s agents s' out1 where s: "fmlookup (spaces st) k = Some s"
    and g: "space_check_gossip E k s = Returns (agents, s')"
    and r: "check_gossip_spaces E hs out1 (put_space k st s') = Returns (out', st')"
    by (auto simp: outcome_bind_Returns_iff)
  have "lookup_joined (put_space k st s') h a = lookup_joined st h a"
    using s check_gossip_simps(6) [OF g, of a] by (auto simp: lookup_joined_def put_space_def)
  then show ?case using Cons.IH [OF r] by simp
qed simp

lemma put_get_joined:
  assumes "\<And>a. map_option con_uri (fmlookup (connections s') a) = map_option con_uri (fmlookup (connections (get_space_mut h st)) a)"
  shows "lookup_joined (put_space h st s') k a = lookup_joined st k a"
  using assms by (auto simp: lookup_joined_def put_space_def get_space_mut_def Space_new_def split: option.splits)

lemma mutate_joined:
  assumes "mutate E l st = Returns (st', reply)" and "lookup_joined st' h a = Some u"
  shows "lookup_joined st h a = Some u \<or> l = NewConnection h a u"
proof (cases l)
  case (NewConnection k b v)
  then obtain s' where i: "check_insert_connection E b v (get_space_mut k st) = Returns s'" and st': "st' = put_space k st s'"
    using assms(1) by (auto simp: mutate_def new_connection_def outcome_bind_Returns_iff)
  show ?thesis
  proof (cases "sim_agent_location E b")
    case None
    then have "s' = get_space_mut k st" using insert_nowhere i by blast
    then show ?thesis using assms(2) by (simp add: st' put_get_joined)
  next
    case (Some loc)
    then show ?thesis using assms(2) NewConnection insert_connections(1) [OF i Some]
      by (auto simp: st' lookup_joined_def put_space_def get_space_mut_def Space_new_def split: if_splits option.splits)
  qed
next
  case (DropConnectionByUri v)
  then have "st' = drop_connection_by_uri v st" using assms(1) by (simp add: mutate_def)
  then show ?thesis using assms(2) drop_by_uri_joined [of st h _ v a]
    by (cases "fmlookup (spaces st) h")
      (auto simp: lookup_joined_def drop_connection_by_uri_def check_drop_spaces_def split: if_splits)
next
  case (AgentHoldsAspects k b e xs)
  then obtain s' where "space_agent_holds_aspects E b e xs (get_space_mut k st) = Returns s'" and "st' = put_space k st s'"
    using assms(1) by (auto simp: mutate_def store_agent_holds_aspects_def outcome_bind_Returns_iff)
  then show ?thesis using assms(2) by (simp add: put_get_joined holds_aspects_simps)
next
  case CheckGossip
  then show ?thesis using assms
    by (auto simp: mutate_def store_check_gossip_def outcome_bind_Returns_iff gossip_spaces_joined)
next
  case CheckDisconnected
  then show ?thesis using assms
    by (auto simp: mutate_def check_disconnected_def lookup_joined_def option.map_comp comp_def split: option.splits)
qed

end
