(* ===== verification/Sim2h.thy ===== *)
theory Sim2h
  imports Sim2h_State
begin

text \<open>
  \<open>crates/sim2h/src/lib.rs\<close>, \<open>wire_message.rs\<close> and \<open>crypto.rs\<close>: what the switchboard does with the messages of the
  clients.  A handler is a function of the copy of the store that it reads, and gives what it does in order: messages
  to send, entries for the log of the store, connections to close, and tasks to spawn.  The protocol types of lib3h are
  given by the fields that are used; spans of the tracing library are left out.
\<close>

section \<open>Messages\<close>

type_synonym Opaque = string

record Lib3hSpaceData =
  sd_space_address :: SpaceHash
  sd_agent_id :: AgentPubKey

record Lib3hDirectMessageData =
  dmd_space_address :: SpaceHash
  dmd_to_agent_id :: AgentPubKey
  dmd_from_agent_id :: AgentPubKey
  dmd_request_id :: string
  dmd_content :: Opaque

record Lib3hEntryAspectData =
  lea_aspect_address :: AspectHash
  lea_type_hint :: string
  lea_aspect :: Opaque
  lea_publish_ts :: u64

record Lib3hEntryData =
  led_entry_address :: EntryHash
  led_aspect_list :: "Lib3hEntryAspectData list"

record Lib3hProvidedEntryData =
  pe_space_address :: SpaceHash
  pe_provider_agent_id :: AgentPubKey
  pe_entry :: Lib3hEntryData

record Lib3hFetchEntryData =
  lfe_space_address :: SpaceHash
  lfe_provider_agent_id :: AgentPubKey
  lfe_request_id :: string
  lfe_entry_address :: EntryHash
  lfe_aspect_address_list :: "AspectHash list option"

record Lib3hFetchEntryResultData =
  fr_space_address :: SpaceHash
  fr_provider_agent_id :: AgentPubKey
  fr_request_id :: string
  fr_entry :: Lib3hEntryData

record Lib3hQueryEntryData =
  lqe_space_address :: SpaceHash
  lqe_entry_address :: EntryHash
  lqe_request_id :: string
  lqe_requester_agent_id :: AgentPubKey
  lqe_query :: Opaque

record Lib3hQueryEntryResultData =
  qr_space_address :: SpaceHash
  qr_entry_address :: EntryHash
  qr_request_id :: string
  qr_requester_agent_id :: AgentPubKey
  qr_responder_agent_id :: AgentPubKey
  qr_query_result :: Opaque

record Lib3hStoreEntryAspectData =
  sea_request_id :: string
  sea_space_address :: SpaceHash
  sea_provider_agent_id :: AgentPubKey
  sea_entry_address :: EntryHash
  sea_entry_aspect :: Lib3hEntryAspectData

record Lib3hGetListData =
  gl_space_address :: SpaceHash
  gl_provider_agent_id :: AgentPubKey
  gl_request_id :: string

record Lib3hEntryListData =
  ld_space_address :: SpaceHash
  ld_provider_agent_id :: AgentPubKey
  ld_request_id :: string
  ld_address_map :: "(EntryHash \<times> AspectHash list) list"

datatype ClientToLib3h =
    C2L_Bootstrap
  | C2L_JoinSpace Lib3hSpaceData
  | C2L_LeaveSpace Lib3hSpaceData
  | C2L_SendDirectMessage Lib3hDirectMessageData
  | C2L_FetchEntry Lib3hFetchEntryData
  | C2L_PublishEntry Lib3hProvidedEntryData
  | C2L_QueryEntry Lib3hQueryEntryData

datatype ClientToLib3hResponse =
    C2LR_BootstrapSuccess
  | C2LR_JoinSpaceResult
  | C2LR_LeaveSpaceResult
  | C2LR_SendDirectMessageResult Lib3hDirectMessageData
  | C2LR_FetchEntryResult Lib3hFetchEntryResultData
  | C2LR_QueryEntryResult Lib3hQueryEntryResultData

datatype Lib3hToClient =
    L2C_Connected
  | L2C_Unbound
  | L2C_SendDirectMessageResult Lib3hDirectMessageData
  | L2C_HandleSendDirectMessage Lib3hDirectMessageData
  | L2C_HandleFetchEntry Lib3hFetchEntryData
  | L2C_HandleStoreEntryAspect Lib3hStoreEntryAspectData
  | L2C_HandleDropEntry
  | L2C_HandleQueryEntry Lib3hQueryEntryData
  | L2C_HandleGetAuthoringEntryList Lib3hGetListData
  | L2C_HandleGetGossipingEntryList Lib3hGetListData

datatype Lib3hToClientResponse =
    L2CR_HandleSendDirectMessageResult Lib3hDirectMessageData
  | L2CR_HandleFetchEntryResult Lib3hFetchEntryResultData
  | L2CR_HandleStoreEntryAspectResult
  | L2CR_HandleDropEntryResult
  | L2CR_HandleQueryEntryResult Lib3hQueryEntryResultData
  | L2CR_HandleGetAuthoringEntryListResult Lib3hEntryListData
  | L2CR_HandleGetGossipingEntryListResult Lib3hEntryListData

definition WIRE_VERSION :: u32 where
  "WIRE_VERSION = 4"

record StatusData =
  st_spaces :: nat
  st_connections :: nat
  st_joined_connections :: nat
  st_redundant_count :: nat
  st_version :: u32

record HelloData =
  hd_redundant_count :: nat
  hd_version :: u32
  hd_extra :: "string option"

datatype WireError = MessageWhileInLimbo | OtherWireError string

datatype WireMessage =
    ClientToLib3hMessage ClientToLib3h
  | ClientToLib3hResponseMessage ClientToLib3hResponse
  | Lib3hToClientMessage Lib3hToClient
  | Lib3hToClientResponseMessage Lib3hToClientResponse
  | MultiSend "Lib3hToClient list"
  | MultiSendResponse "Lib3hToClientResponse list"
  | WireErr WireError
  | Ping
  | Pong
  | Hello u32
  | HelloResponse HelloData
  | Status
  | StatusResponse StatusData
  | Ack u64
  | Debug
  | DebugResponse "(SpaceHash \<times> string) list" string

section \<open>Signed messages\<close>

record SignedWireMessage =
  sw_source :: AgentPubKey
  sw_signature :: string
  sw_payload :: Opaque

text \<open>The serialised forms, the cryptography and the listing of connections are parameters.\<close>

record sim_codec =
  read_signed :: "Opaque \<Rightarrow> (SignedWireMessage, string) result"
  read_wire :: "Opaque \<Rightarrow> (WireMessage, string) result"
  base64_decode :: "string \<Rightarrow> string option"
  hcs0_decode :: "string \<Rightarrow> (string, string) result"
  key_buffer :: "string \<Rightarrow> (string, string) result"
  sodium_verify :: "string \<Rightarrow> Opaque \<Rightarrow> string \<Rightarrow> bool"
  receipt_hash :: "Opaque \<Rightarrow> u64"
  space_json :: "Space \<Rightarrow> string"
  connection_count :: nat
  connection_text :: string

definition decode_pub_key :: "sim_codec \<Rightarrow> string \<Rightarrow> (string, string) result" where
  "decode_pub_key K pub_key_b32 = and_then (hcs0_decode K pub_key_b32) (key_buffer K)"

definition verify_bufs :: "sim_codec \<Rightarrow> string \<Rightarrow> Opaque \<Rightarrow> string \<Rightarrow> (bool, string) result" where
  "verify_bufs K pub_sign_key_b32 data signature =
     map_ok (\<lambda>pub_key. sodium_verify K signature data pub_key) (decode_pub_key K pub_sign_key_b32)"

definition sim_verify :: "sim_codec \<Rightarrow> SignedWireMessage \<Rightarrow> (bool, string) result" where
  "sim_verify K m =
     (case base64_decode K (sw_signature m) of
        None \<Rightarrow> Err ''Signature syntactically invalid''
      | Some signature \<Rightarrow> verify_bufs K (sw_source m) (sw_payload m) signature)"

definition gen_receipt :: "sim_codec \<Rightarrow> Opaque \<Rightarrow> WireMessage" where
  "gen_receipt K payload = Ack (receipt_hash K payload)"

section \<open>Handlers\<close>

text \<open>
  The tasks that are spawned, by the function whose asynchronous block they run; what follows once an entry of the log
  has been handled; and what a handler does.
\<close>

datatype sim_task =
    HandlePayload Lib3hUri Opaque
  | InSpace Lib3hUri WireMessage AgentPubKey WireMessage
  | StatusTask Lib3hUri AgentPubKey WireMessage
  | DebugTask Lib3hUri AgentPubKey WireMessage
  | JoinTask Lib3hUri AgentPubKey Lib3hSpaceData WireMessage
  | JoinedTask Lib3hUri AgentPubKey Lib3hSpaceData WireMessage
  | DmxTask AgentPubKey SpaceHash WireMessage
  | PublishTask AgentPubKey SpaceHash Lib3hProvidedEntryData
  | AuthoringTask Lib3hUri AgentPubKey SpaceHash Lib3hEntryListData
  | FetchResultTask SpaceHash Lib3hFetchEntryResultData
  | QueryTask SpaceHash Lib3hQueryEntryData
  | QueryResultTask SpaceHash Lib3hQueryEntryResultData
  | ResyncTask
  | ResyncAgents "(SpaceHash \<times> AgentPubKey) list"
  | ClosingTask
  | CloseTask "Lib3hUri list"

datatype sim_cont =
    NothingMore
  | ThenJoined Lib3hUri AgentPubKey Lib3hSpaceData WireMessage
  | ThenResync
  | ThenClose

datatype sim_effect =
    SendOut AgentPubKey Lib3hUri WireMessage
  | Mutate AolEntry sim_cont
  | CloseUri Lib3hUri
  | Spawn sim_task

fun sends_of :: "sim_effect list \<Rightarrow> (AgentPubKey \<times> Lib3hUri \<times> WireMessage) list" where
  "sends_of [] = []"
| "sends_of (SendOut a u m # es) = (a, u, m) # sends_of es"
| "sends_of (e # es) = sends_of es"

fun mutations_of :: "sim_effect list \<Rightarrow> (AolEntry \<times> sim_cont) list" where
  "mutations_of [] = []"
| "mutations_of (Mutate l k # es) = (l, k) # mutations_of es"
| "mutations_of (e # es) = mutations_of es"

fun spawned_of :: "sim_effect list \<Rightarrow> sim_task list" where
  "spawned_of [] = []"
| "spawned_of (Spawn t # es) = t # spawned_of es"
| "spawned_of (e # es) = spawned_of es"

fun closed_of :: "sim_effect list \<Rightarrow> Lib3hUri list" where
  "closed_of [] = []"
| "closed_of (CloseUri u # es) = u # closed_of es"
| "closed_of (e # es) = closed_of es"

definition disconnect :: "Lib3hUri list \<Rightarrow> sim_effect list" where
  "disconnect uris = concat (map (\<lambda>d. [Mutate (DropConnectionByUri d) NothingMore, CloseUri d]) uris)"

definition handle_message_ping :: "Lib3hUri \<Rightarrow> AgentPubKey \<Rightarrow> WireMessage \<Rightarrow> sim_effect list" where
  "handle_message_ping uri signer receipt = [SendOut signer uri Pong, SendOut signer uri receipt]"

definition handle_message_hello :: "nat \<Rightarrow> Lib3hUri \<Rightarrow> AgentPubKey \<Rightarrow> u32 \<Rightarrow> WireMessage \<Rightarrow> sim_effect list" where
  "handle_message_hello redundancy uri signer version receipt =
     [SendOut signer uri (HelloResponse \<lparr> hd_redundant_count = redundancy, hd_version = WIRE_VERSION, hd_extra = None \<rparr>),
      SendOut signer uri receipt] @
     (if version \<noteq> WIRE_VERSION then disconnect [uri] else [])"

definition handle_message :: "nat \<Rightarrow> Lib3hUri \<Rightarrow> WireMessage \<Rightarrow> AgentPubKey \<Rightarrow> WireMessage \<Rightarrow> sim_effect list" where
  "handle_message redundancy uri message signer receipt =
     (case message of
        Lib3hToClientMessage _ \<Rightarrow> []
      | ClientToLib3hResponseMessage _ \<Rightarrow> []
      | Ping \<Rightarrow> handle_message_ping uri signer receipt
      | Status \<Rightarrow> [Spawn (StatusTask uri signer receipt)]
      | Debug \<Rightarrow> [Spawn (DebugTask uri signer receipt)]
      | Hello version \<Rightarrow> handle_message_hello redundancy uri signer version receipt
      | ClientToLib3hMessage (C2L_JoinSpace data) \<Rightarrow> [Spawn (JoinTask uri signer data receipt)]
      | _ \<Rightarrow> [Spawn (InSpace uri message signer receipt)])"

definition handle_message_status ::
  "sim_codec \<Rightarrow> nat \<Rightarrow> sim_env \<Rightarrow> Store \<Rightarrow> Lib3hUri \<Rightarrow> AgentPubKey \<Rightarrow> WireMessage \<Rightarrow> sim_effect list" where
  "handle_message_status K redundancy E st uri signer receipt =
     [SendOut signer uri (StatusResponse
        \<lparr> st_spaces = spaces_count st, st_connections = connection_count K,
          st_joined_connections = sum_list (map agent_count
            (List.map_filter (fmlookup (spaces st)) (sim_order E (fmdom (spaces st))))),
          st_redundant_count = redundancy, st_version = WIRE_VERSION \<rparr>),
      SendOut signer uri receipt]"

text \<open>The files that are written for debugging are left out.  The answer is ordered by the hash of the space.\<close>

definition handle_message_debug ::
  "sim_codec \<Rightarrow> Store \<Rightarrow> Lib3hUri \<Rightarrow> AgentPubKey \<Rightarrow> WireMessage \<Rightarrow> sim_effect list" where
  "handle_message_debug K st uri signer receipt =
     [SendOut signer uri (DebugResponse
        (List.map_filter (\<lambda>h. map_option (\<lambda>s. (h, space_json K s)) (fmlookup (spaces st) h))
           (sorted_list_of_fset (fmdom (spaces st))))
        (connection_text K)),
      SendOut signer uri receipt]"

definition join_replies :: "Lib3hUri \<Rightarrow> AgentPubKey \<Rightarrow> Lib3hSpaceData \<Rightarrow> WireMessage \<Rightarrow> sim_effect list" where
  "join_replies uri signer data receipt =
     (let list_data = \<lparr> gl_space_address = sd_space_address data, gl_provider_agent_id = sd_agent_id data, gl_request_id = '''' \<rparr>
      in [SendOut signer uri receipt,
          SendOut (sd_agent_id data) uri (Lib3hToClientMessage (L2C_HandleGetGossipingEntryList list_data)),
          SendOut (sd_agent_id data) uri (Lib3hToClientMessage (L2C_HandleGetAuthoringEntryList list_data))])"

definition handle_message_join_space :: "Lib3hUri \<Rightarrow> AgentPubKey \<Rightarrow> Lib3hSpaceData \<Rightarrow> WireMessage \<Rightarrow> sim_effect list" where
  "handle_message_join_space uri signer data receipt =
     [Mutate (NewConnection (sd_space_address data) (sd_agent_id data) uri) (ThenJoined uri signer data receipt)]"

definition inner_handle_message_send_dmx ::
  "AgentPubKey \<Rightarrow> SpaceHash \<Rightarrow> SpaceHash \<Rightarrow> WireMessage \<Rightarrow> sim_effect list" where
  "inner_handle_message_send_dmx to_agent_id data_space_hash space_hash message =
     (if data_space_hash \<noteq> space_hash then [] else [Spawn (DmxTask to_agent_id space_hash message)])"

definition send_joined :: "Store \<Rightarrow> SpaceHash \<Rightarrow> AgentPubKey \<Rightarrow> WireMessage \<Rightarrow> sim_effect list" where
  "send_joined st space_hash agent_id message =
     (case lookup_joined st space_hash agent_id of
        Some to_url \<Rightarrow> [SendOut agent_id to_url message]
      | None \<Rightarrow> [])"

definition handle_message_send_dm :: "SpaceHash \<Rightarrow> Lib3hDirectMessageData \<Rightarrow> sim_effect list" where
  "handle_message_send_dm space_hash data =
     inner_handle_message_send_dmx (dmd_to_agent_id data) (dmd_space_address data) space_hash
       (Lib3hToClientMessage (L2C_HandleSendDirectMessage data))"

definition handle_message_send_dm_result :: "SpaceHash \<Rightarrow> Lib3hDirectMessageData \<Rightarrow> sim_effect list" where
  "handle_message_send_dm_result space_hash data =
     inner_handle_message_send_dmx (dmd_to_agent_id data) (dmd_space_address data) space_hash
       (Lib3hToClientMessage (L2C_SendDirectMessageResult data))"

definition store_message :: "AgentPubKey \<Rightarrow> SpaceHash \<Rightarrow> EntryHash \<Rightarrow> Lib3hEntryAspectData \<Rightarrow> Lib3hToClient" where
  "store_message provider space_hash e_address aspect =
     L2C_HandleStoreEntryAspect
       \<lparr> sea_request_id = '''', sea_space_address = space_hash, sea_provider_agent_id = provider,
         sea_entry_address = e_address, sea_entry_aspect = aspect \<rparr>"

definition handle_message_publish_entry :: "AgentPubKey \<Rightarrow> SpaceHash \<Rightarrow> Lib3hProvidedEntryData \<Rightarrow> sim_effect list" where
  "handle_message_publish_entry signer space_hash data =
     (if pe_space_address data \<noteq> space_hash then [] else [Spawn (PublishTask signer space_hash data)])"

definition publish_task :: "sim_env \<Rightarrow> Store \<Rightarrow> AgentPubKey \<Rightarrow> SpaceHash \<Rightarrow> Lib3hProvidedEntryData \<Rightarrow> sim_effect list" where
  "publish_task E st signer space_hash data =
     (let e_address = led_entry_address (pe_entry data);
          multi_message = map (store_message signer space_hash e_address) (led_aspect_list (pe_entry data))
      in if multi_message = [] then []
         else case store_agents_that_should_hold E st space_hash e_address of
                None \<Rightarrow> []
              | Some send_to \<Rightarrow>
                  concat (map (\<lambda>agent_id. send_joined st space_hash agent_id (MultiSend multi_message))
                    (sim_order E send_to)))"

definition handle_message_list_data :: "AgentPubKey \<Rightarrow> SpaceHash \<Rightarrow> Lib3hEntryListData \<Rightarrow> sim_effect list" where
  "handle_message_list_data signer space_hash list_data =
     (if signer \<noteq> ld_provider_agent_id list_data \<or> ld_space_address list_data \<noteq> space_hash then []
      else concat (map (\<lambda>(e, aspects). if aspects = [] then []
                         else [Mutate (AgentHoldsAspects space_hash signer e aspects) NothingMore])
             (ld_address_map list_data)))"

definition handle_message_authoring_entry_list ::
  "Lib3hUri \<Rightarrow> AgentPubKey \<Rightarrow> SpaceHash \<Rightarrow> Lib3hEntryListData \<Rightarrow> sim_effect list" where
  "handle_message_authoring_entry_list uri signer space_hash list_data =
     (if signer \<noteq> ld_provider_agent_id list_data \<or> ld_space_address list_data \<noteq> space_hash then []
      else [Spawn (AuthoringTask uri signer space_hash list_data)])"

definition authoring_task ::
  "sim_env \<Rightarrow> Store \<Rightarrow> Lib3hUri \<Rightarrow> AgentPubKey \<Rightarrow> SpaceHash \<Rightarrow> Lib3hEntryListData \<Rightarrow> sim_effect list" where
  "authoring_task E st uri signer space_hash list_data =
     (let multi_message = concat (map (\<lambda>(e, aspects).
            let aspect_list = filter (\<lambda>x. store_agents_that_need_aspect E st space_hash e x \<noteq> {||}) aspects
            in if aspect_list = [] then []
               else [L2C_HandleFetchEntry
                       \<lparr> lfe_space_address = space_hash, lfe_provider_agent_id = signer, lfe_request_id = '''',
                         lfe_entry_address = e, lfe_aspect_address_list = Some aspect_list \<rparr>])
            (ld_address_map list_data))
      in if multi_message = [] then [] else [SendOut signer uri (MultiSend multi_message)])"

definition handle_message_fetch_entry_result :: "AgentPubKey \<Rightarrow> SpaceHash \<Rightarrow> Lib3hFetchEntryResultData \<Rightarrow> sim_effect list" where
  "handle_message_fetch_entry_result signer space_hash fetch_result =
     (if signer \<noteq> fr_provider_agent_id fetch_result \<or> fr_space_address fetch_result \<noteq> space_hash then []
      else [Spawn (FetchResultTask space_hash fetch_result)])"

definition push_message ::
  "SpaceHash \<Rightarrow> EntryHash \<Rightarrow> Lib3hEntryAspectData \<Rightarrow> AgentPubKey \<Rightarrow>
   (AgentPubKey, Lib3hToClient list) fmap \<Rightarrow> (AgentPubKey, Lib3hToClient list) fmap" where
  "push_message space_hash e aspect agent_id m =
     fmupd agent_id ((case fmlookup m agent_id of Some ms \<Rightarrow> ms | None \<Rightarrow> []) @ [store_message agent_id space_hash e aspect]) m"

definition collect_messages ::
  "sim_env \<Rightarrow> Store \<Rightarrow> SpaceHash \<Rightarrow> Lib3hEntryData \<Rightarrow> (AgentPubKey, Lib3hToClient list) fmap" where
  "collect_messages E st space_hash entry =
     fold (\<lambda>aspect. fold (push_message space_hash (led_entry_address entry) aspect)
             (sim_order E (store_agents_that_need_aspect E st space_hash (led_entry_address entry) (lea_aspect_address aspect))))
       (led_aspect_list entry) fmempty"

definition fetch_result_task :: "sim_env \<Rightarrow> Store \<Rightarrow> SpaceHash \<Rightarrow> Lib3hFetchEntryResultData \<Rightarrow> sim_effect list" where
  "fetch_result_task E st space_hash fetch_result =
     (let to_agent = collect_messages E st space_hash (fr_entry fetch_result)
      in concat (map (\<lambda>agent_id. case fmlookup to_agent agent_id of
           Some multi_message \<Rightarrow> send_joined st space_hash agent_id (MultiSend multi_message)
         | None \<Rightarrow> []) (sim_order E (fmdom to_agent))))"

definition handle_message_query_entry :: "AgentPubKey \<Rightarrow> SpaceHash \<Rightarrow> Lib3hQueryEntryData \<Rightarrow> sim_effect list" where
  "handle_message_query_entry signer space_hash query_data =
     (if signer \<noteq> lqe_requester_agent_id query_data \<or> lqe_space_address query_data \<noteq> space_hash then []
      else [Spawn (QueryTask space_hash query_data)])"

definition query_task :: "sim_env \<Rightarrow> Store \<Rightarrow> SpaceHash \<Rightarrow> Lib3hQueryEntryData \<Rightarrow> sim_effect list outcome" where
  "query_task E st space_hash query_data =
     (case get_agents_for_query E st space_hash (lqe_entry_address query_data) (Some (lqe_requester_agent_id query_data)) of
        [] \<Rightarrow> Panics ''index out of bounds''
      | query_target # _ \<Rightarrow>
          Returns (send_joined st space_hash query_target (Lib3hToClientMessage (L2C_HandleQueryEntry query_data))))"

definition handle_message_query_entry_result :: "AgentPubKey \<Rightarrow> SpaceHash \<Rightarrow> Lib3hQueryEntryResultData \<Rightarrow> sim_effect list" where
  "handle_message_query_entry_result signer space_hash query_result =
     (if signer \<noteq> qr_responder_agent_id query_result \<or> qr_space_address query_result \<noteq> space_hash then []
      else [Spawn (QueryResultTask space_hash query_result)])"

definition client_to_lib3h :: "ClientToLib3h \<Rightarrow> Lib3hUri \<Rightarrow> AgentPubKey \<Rightarrow> SpaceHash \<Rightarrow> sim_effect list" where
  "client_to_lib3h data uri signer space_hash =
     (case data of
        C2L_LeaveSpace _ \<Rightarrow> disconnect [uri]
      | C2L_SendDirectMessage dm_data \<Rightarrow> handle_message_send_dm space_hash dm_data
      | C2L_PublishEntry d \<Rightarrow> handle_message_publish_entry signer space_hash d
      | C2L_QueryEntry query_data \<Rightarrow> handle_message_query_entry signer space_hash query_data
      | _ \<Rightarrow> [])"

definition lib3h_to_client_response :: "Lib3hToClientResponse \<Rightarrow> Lib3hUri \<Rightarrow> AgentPubKey \<Rightarrow> SpaceHash \<Rightarrow> sim_effect list" where
  "lib3h_to_client_response data uri signer space_hash =
     (case data of
        L2CR_HandleSendDirectMessageResult dm_data \<Rightarrow> handle_message_send_dm_result space_hash dm_data
      | L2CR_HandleGetAuthoringEntryListResult list_data \<Rightarrow>
          handle_message_list_data signer space_hash list_data @
          handle_message_authoring_entry_list uri signer space_hash list_data
      | L2CR_HandleGetGossipingEntryListResult list_data \<Rightarrow> handle_message_list_data signer space_hash list_data
      | L2CR_HandleFetchEntryResult fetch_result \<Rightarrow> handle_message_fetch_entry_result signer space_hash fetch_result
      | L2CR_HandleQueryEntryResult query_result \<Rightarrow> handle_message_query_entry_result signer space_hash query_result
      | _ \<Rightarrow> [])"

definition handle_in_space :: "sim_env \<Rightarrow> Store \<Rightarrow> Lib3hUri \<Rightarrow> WireMessage \<Rightarrow> AgentPubKey \<Rightarrow> WireMessage \<Rightarrow> sim_effect list" where
  "handle_in_space E st uri message signer receipt =
     (case get_space_info_from_uri E st uri of
        None \<Rightarrow> disconnect [uri]
      | Some (agent_id, space_hash) \<Rightarrow>
          if agent_id \<noteq> signer then []
          else SendOut signer uri receipt #
            (case message of
               ClientToLib3hMessage data \<Rightarrow> client_to_lib3h data uri signer space_hash
             | Lib3hToClientResponseMessage data \<Rightarrow> lib3h_to_client_response data uri signer space_hash
             | MultiSendResponse messages \<Rightarrow>
                 concat (map (\<lambda>data. lib3h_to_client_response data uri signer space_hash) messages)
             | _ \<Rightarrow> []))"

section \<open>Gossip\<close>

type_synonym EntriesAlreadyFetched = "(EntryHash, int) fmap"

definition check_already_fetched :: "int \<Rightarrow> EntryHash \<Rightarrow> EntriesAlreadyFetched \<Rightarrow> bool \<times> EntriesAlreadyFetched" where
  "check_already_fetched now e entries =
     (let kept = fmfilter (\<lambda>k. case fmlookup entries k of Some t \<Rightarrow> (now - t) div 10 ^ 6 < 1000 | None \<Rightarrow> False) entries
      in if e |\<in>| fmdom kept then (True, kept) else (False, fmupd e now kept))"

text \<open>No request is made when the chosen agent has no connection.\<close>

definition fetch_request :: "sim_env \<Rightarrow> Store \<Rightarrow> SpaceHash \<Rightarrow> EntryHash \<Rightarrow> sim_effect list" where
  "fetch_request E st space_hash e =
     (case get_agents_for_query E st space_hash e None of
        [] \<Rightarrow> []
      | query_agent # _ \<Rightarrow>
          send_joined st space_hash query_agent (Lib3hToClientMessage (L2C_HandleFetchEntry
            \<lparr> lfe_space_address = space_hash, lfe_provider_agent_id = query_agent, lfe_request_id = '''',
              lfe_entry_address = e, lfe_aspect_address_list = None \<rparr>)))"

fun fetch_entries ::
  "sim_env \<Rightarrow> Store \<Rightarrow> SpaceHash \<Rightarrow> AspectMap \<Rightarrow> EntryHash list \<Rightarrow> EntriesAlreadyFetched \<Rightarrow>
   sim_effect list \<times> EntriesAlreadyFetched" where
  "fetch_entries E st space_hash gossip_aspects [] fetched = ([], fetched)"
| "fetch_entries E st space_hash gossip_aspects (e # rest) fetched =
     (if fmlookup gossip_aspects e = None \<or> fmlookup gossip_aspects e = Some {||}
      then fetch_entries E st space_hash gossip_aspects rest fetched
      else case check_already_fetched (sim_clock E) e fetched of
             (True, fetched') \<Rightarrow> fetch_entries E st space_hash gossip_aspects rest fetched'
           | (False, fetched') \<Rightarrow>
               (case fetch_entries E st space_hash gossip_aspects rest fetched' of
                  (out, fetched'') \<Rightarrow> (fetch_request E st space_hash e @ out, fetched'')))"

definition fetch_entry_data ::
  "sim_env \<Rightarrow> Store \<Rightarrow> SpaceHash \<Rightarrow> AspectMap \<Rightarrow> EntriesAlreadyFetched \<Rightarrow> sim_effect list \<times> EntriesAlreadyFetched" where
  "fetch_entry_data E st space_hash gossip_aspects fetched =
     fetch_entries E st space_hash gossip_aspects (sim_order E (fmdom gossip_aspects)) fetched"

text \<open>One turn of the loop over the agents that are due; the loop yields before each.\<close>

definition resync_agent ::
  "sim_env \<Rightarrow> Store \<Rightarrow> SpaceHash \<Rightarrow> AgentPubKey \<Rightarrow> EntriesAlreadyFetched \<Rightarrow> sim_effect list \<times> EntriesAlreadyFetched" where
  "resync_agent E st space_hash agent_id fetched =
     (case store_gossip_aspects_needed E st space_hash agent_id of
        None \<Rightarrow> ([], fetched)
      | Some gossip_aspects \<Rightarrow> fetch_entry_data E st space_hash gossip_aspects fetched)"

definition resync_order :: "sim_env \<Rightarrow> (SpaceHash, AgentPubKey fset) fmap \<Rightarrow> (SpaceHash \<times> AgentPubKey) list" where
  "resync_order E agents_needing_gossip =
     concat (map (\<lambda>h. case fmlookup agents_needing_gossip h of
         Some agents \<Rightarrow> map (Pair h) (sim_order E agents) | None \<Rightarrow> [])
       (sim_order E (fmdom agents_needing_gossip)))"

section \<open>Payloads\<close>

fun is_join :: "WireMessage \<Rightarrow> bool" where
  "is_join (ClientToLib3hMessage (C2L_JoinSpace _)) = True"
| "is_join _ = False"

definition handle_payload :: "sim_codec \<Rightarrow> nat \<Rightarrow> Lib3hUri \<Rightarrow> Opaque \<Rightarrow> sim_effect list outcome" where
  "handle_payload K redundancy url payload =
     (case and_then (read_signed K payload) (\<lambda>signed_message.
             map_ok (Pair signed_message) (read_wire K (sw_payload signed_message))) of
        Inl _ \<Rightarrow> Returns (disconnect [url])
      | Inr (signed_message, wire_message) \<Rightarrow>
          outcome_bind (if is_join wire_message
                        then expect_ok ''called `Result::unwrap()` on an `Err` value'' (sim_verify K signed_message)
                        else Returns True) (\<lambda>result.
            Returns (if \<not> result then disconnect [url]
                     else handle_message redundancy url wire_message (sw_source signed_message)
                            (gen_receipt K (sw_payload signed_message)))))"

datatype WsFrame =
    Text string
  | Binary Opaque
  | WsPing
  | WsPong
  | Close

definition handle_recv_data :: "Lib3hUri \<Rightarrow> WsFrame \<Rightarrow> sim_effect list" where
  "handle_recv_data uri data =
     (case data of
        Text _ \<Rightarrow> disconnect [uri]
      | Binary b \<Rightarrow> [Spawn (HandlePayload uri b)]
      | WsPing \<Rightarrow> []
      | WsPong \<Rightarrow> []
      | Close \<Rightarrow> disconnect [uri])"

datatype ConMgrEvent =
    ConDisconnect Lib3hUri
  | ConReceiveData Lib3hUri WsFrame

text \<open>A batch of at most a hundred events; what was disconnected is dropped after all of them.\<close>

fun event_effects :: "ConMgrEvent list \<Rightarrow> Lib3hUri list \<Rightarrow> sim_effect list" where
  "event_effects [] dropped = disconnect dropped"
| "event_effects (ConDisconnect uri # evts) dropped = event_effects evts (dropped @ [uri])"
| "event_effects (ConReceiveData uri data # evts) dropped = handle_recv_data uri data @ event_effects evts dropped"

definition check_incoming_messages :: "ConMgrEvent list \<Rightarrow> sim_effect list \<times> ConMgrEvent list" where
  "check_incoming_messages evts = (event_effects (take 100 evts) [], drop 100 evts)"

section \<open>Tasks\<close>

fun run_task ::
  "sim_codec \<Rightarrow> sim_env \<Rightarrow> nat \<Rightarrow> Store \<Rightarrow> EntriesAlreadyFetched \<Rightarrow> sim_task \<Rightarrow>
   (sim_effect list \<times> EntriesAlreadyFetched) outcome" where
  "run_task K E r st f (HandlePayload url payload) =
     outcome_bind (handle_payload K r url payload) (\<lambda>es. Returns (es, f))"
| "run_task K E r st f (InSpace uri message signer receipt) = Returns (handle_in_space E st uri message signer receipt, f)"
| "run_task K E r st f (StatusTask uri signer receipt) = Returns (handle_message_status K r E st uri signer receipt, f)"
| "run_task K E r st f (DebugTask uri signer receipt) = Returns (handle_message_debug K st uri signer receipt, f)"
| "run_task K E r st f (JoinTask uri signer data receipt) = Returns (handle_message_join_space uri signer data receipt, f)"
| "run_task K E r st f (JoinedTask uri signer data receipt) = Returns (join_replies uri signer data receipt, f)"
| "run_task K E r st f (DmxTask to_agent_id space_hash message) = Returns (send_joined st space_hash to_agent_id message, f)"
| "run_task K E r st f (PublishTask signer space_hash data) = Returns (publish_task E st signer space_hash data, f)"
| "run_task K E r st f (AuthoringTask uri signer space_hash list_data) =
     Returns (authoring_task E st uri signer space_hash list_data, f)"
| "run_task K E r st f (FetchResultTask space_hash fetch_result) = Returns (fetch_result_task E st space_hash fetch_result, f)"
| "run_task K E r st f (QueryTask space_hash query_data) =
     outcome_bind (query_task E st space_hash query_data) (\<lambda>es. Returns (es, f))"
| "run_task K E r st f (QueryResultTask space_hash query_result) =
     Returns (send_joined st space_hash (qr_requester_agent_id query_result)
       (ClientToLib3hResponseMessage (C2LR_QueryEntryResult query_result)), f)"
| "run_task K E r st f ResyncTask = Returns ([Mutate CheckGossip ThenResync], f)"
| "run_task K E r st f (ResyncAgents []) = Returns ([], f)"
| "run_task K E r st f (ResyncAgents ((h, a) # rest)) =
     (case resync_agent E st h a f of (es, f') \<Rightarrow> Returns (es @ [Spawn (ResyncAgents rest)], f'))"
| "run_task K E r st f ClosingTask = Returns ([Mutate CheckDisconnected ThenClose], f)"
| "run_task K E r st f (CloseTask uris) = Returns (disconnect uris @ [Spawn ClosingTask], f)"

text \<open>What follows an entry of the log, with the reply of the store.\<close>

fun continue_with :: "sim_env \<Rightarrow> sim_cont \<Rightarrow> StoreReply \<Rightarrow> sim_task list" where
  "continue_with E (ThenJoined uri signer data receipt) reply = [JoinedTask uri signer data receipt]"
| "continue_with E ThenResync (GossipReply agents) = [ResyncAgents (resync_order E agents)]"
| "continue_with E ThenClose (DisconnectedReply uris) = [CloseTask uris]"
| "continue_with E k reply = []"

section \<open>The switchboard\<close>

text \<open>
  The task that owns the store handles the entries in the order they were sent.  For each it spawns a task that writes
  a copy of the store to where the handlers read it, and then lets the sender go on: these may run in any order.
\<close>

record sim2h =
  own_store :: Store
  read_store :: Store
  log_queue :: "(AolEntry \<times> sim_cont) list"
  copies :: "(Store \<times> sim_task list) list"
  tasks :: "sim_task list"
  fetched :: EntriesAlreadyFetched
  sent :: "(AgentPubKey \<times> Lib3hUri \<times> WireMessage) list"
  closed :: "Lib3hUri list"
  applied :: "AolEntry list"
  received :: "(Lib3hUri \<times> Opaque) list"

definition Sim2h_new :: "nat \<Rightarrow> sim2h" where
  "Sim2h_new redundancy =
     \<lparr> own_store = Store_new redundancy None, read_store = Store_new redundancy None, log_queue = [], copies = [],
       tasks = [ClosingTask], fetched = fmempty, sent = [], closed = [], applied = [], received = [] \<rparr>"

definition perform :: "sim_effect list \<Rightarrow> sim2h \<Rightarrow> sim2h" where
  "perform es w =
     w\<lparr> log_queue := log_queue w @ mutations_of es, tasks := tasks w @ spawned_of es,
        sent := sent w @ sends_of es, closed := closed w @ closed_of es \<rparr>"

definition payloads_of :: "ConMgrEvent list \<Rightarrow> (Lib3hUri \<times> Opaque) list" where
  "payloads_of evts = List.map_filter (\<lambda>evt. case evt of ConReceiveData u (Binary b) \<Rightarrow> Some (u, b) | _ \<Rightarrow> None) evts"

inductive sim_step :: "sim_codec \<Rightarrow> sim_env \<Rightarrow> nat \<Rightarrow> sim2h \<Rightarrow> sim2h \<Rightarrow> bool" for K :: sim_codec and E0 :: sim_env and r :: nat where
  step_events: "check_incoming_messages evts = (es, rest) \<Longrightarrow>
    sim_step K E0 r w (perform es (w\<lparr> received := received w @ payloads_of (take 100 evts) \<rparr>))"
| step_resync: "sim_step K E0 r w (w\<lparr> tasks := tasks w @ [ResyncTask] \<rparr>)"
| step_task: "\<lbrakk>tasks w = ts @ t # us; same_places E0 E; run_task K E r (read_store w) (fetched w) t = Returns (es, f)\<rbrakk> \<Longrightarrow>
    sim_step K E0 r w (perform es (w\<lparr> tasks := ts @ us, fetched := f \<rparr>))"
| step_store: "\<lbrakk>log_queue w = (l, k) # q; same_places E0 E; mutate E l (own_store w) = Returns (st, reply)\<rbrakk> \<Longrightarrow>
    sim_step K E0 r w (w\<lparr> own_store := st, log_queue := q, copies := copies w @ [(st, continue_with E k reply)],
      applied := applied w @ [l] \<rparr>)"
| step_copy: "\<lbrakk>copies w = cs @ (st, next) # ds\<rbrakk> \<Longrightarrow>
    sim_step K E0 r w (w\<lparr> read_store := st, copies := cs @ ds, tasks := tasks w @ next \<rparr>)"

inductive sim_reach :: "sim_codec \<Rightarrow> sim_env \<Rightarrow> nat \<Rightarrow> sim2h \<Rightarrow> bool" for K :: sim_codec and E0 :: sim_env and r :: nat where
  reach_new: "sim_reach K E0 r (Sim2h_new r)"
| reach_step: "sim_reach K E0 r w \<Longrightarrow> sim_step K E0 r w w' \<Longrightarrow> sim_reach K E0 r w'"

section \<open>What every reachable switchboard keeps\<close>

text \<open>The spaces that a message speaks of.\<close>

fun spaces_of_client :: "Lib3hToClient \<Rightarrow> SpaceHash list" where
  "spaces_of_client (L2C_SendDirectMessageResult d) = [dmd_space_address d]"
| "spaces_of_client (L2C_HandleSendDirectMessage d) = [dmd_space_address d]"
| "spaces_of_client (L2C_HandleFetchEntry d) = [lfe_space_address d]"
| "spaces_of_client (L2C_HandleStoreEntryAspect d) = [sea_space_address d]"
| "spaces_of_client (L2C_HandleQueryEntry d) = [lqe_space_address d]"
| "spaces_of_client (L2C_HandleGetAuthoringEntryList d) = [gl_space_address d]"
| "spaces_of_client (L2C_HandleGetGossipingEntryList d) = [gl_space_address d]"
| "spaces_of_client _ = []"

fun spaces_of :: "WireMessage \<Rightarrow> SpaceHash list" where
  "spaces_of (Lib3hToClientMessage m) = spaces_of_client m"
| "spaces_of (MultiSend ms) = concat (map spaces_of_client ms)"
| "spaces_of (ClientToLib3hResponseMessage (C2LR_QueryEntryResult d)) = [qr_space_address d]"
| "spaces_of _ = []"

text \<open>A request to join that came from a uri, under a signature that verifies.\<close>

definition join_requested :: "sim_codec \<Rightarrow> (Lib3hUri \<times> Opaque) list \<Rightarrow> SpaceHash \<Rightarrow> AgentPubKey \<Rightarrow> Lib3hUri \<Rightarrow> bool" where
  "join_requested K rcv h a u \<longleftrightarrow>
     (\<exists>payload m d. (u, payload) \<in> set rcv \<and> read_signed K payload = Ok m \<and>
        read_wire K (sw_payload m) = Ok (ClientToLib3hMessage (C2L_JoinSpace d)) \<and> sim_verify K m = Ok True \<and>
        sd_space_address d = h \<and> sd_agent_id d = a)"

fun task_ok :: "sim_codec \<Rightarrow> (Lib3hUri \<times> Opaque) list \<Rightarrow> AolEntry list \<Rightarrow> sim_task \<Rightarrow> bool" where
  "task_ok K rcv app (HandlePayload u p) \<longleftrightarrow> (u, p) \<in> set rcv"
| "task_ok K rcv app (InSpace u m s receipt) \<longleftrightarrow> spaces_of receipt = []"
| "task_ok K rcv app (StatusTask u s receipt) \<longleftrightarrow> spaces_of receipt = []"
| "task_ok K rcv app (DebugTask u s receipt) \<longleftrightarrow> spaces_of receipt = []"
| "task_ok K rcv app (JoinTask u s d receipt) \<longleftrightarrow>
     spaces_of receipt = [] \<and> join_requested K rcv (sd_space_address d) (sd_agent_id d) u"
| "task_ok K rcv app (JoinedTask u s d receipt) \<longleftrightarrow>
     spaces_of receipt = [] \<and> NewConnection (sd_space_address d) (sd_agent_id d) u \<in> set app"
| "task_ok K rcv app (DmxTask a h m) \<longleftrightarrow> set (spaces_of m) \<subseteq> {h}"
| "task_ok K rcv app (AuthoringTask u a h d) \<longleftrightarrow> NewConnection h a u \<in> set app"
| "task_ok K rcv app (QueryTask h q) \<longleftrightarrow> lqe_space_address q = h"
| "task_ok K rcv app (QueryResultTask h q) \<longleftrightarrow> qr_space_address q = h"
| "task_ok K rcv app _ \<longleftrightarrow> True"

fun log_ok :: "sim_codec \<Rightarrow> (Lib3hUri \<times> Opaque) list \<Rightarrow> AolEntry list \<Rightarrow> AolEntry \<Rightarrow> bool" where
  "log_ok K rcv app (NewConnection h a u) \<longleftrightarrow> join_requested K rcv h a u"
| "log_ok K rcv app (AgentHoldsAspects h a e xs) \<longleftrightarrow> (\<exists>u. NewConnection h a u \<in> set app)"
| "log_ok K rcv app _ \<longleftrightarrow> True"

fun cont_ok :: "AolEntry \<Rightarrow> sim_cont \<Rightarrow> bool" where
  "cont_ok l (ThenJoined u s d receipt) \<longleftrightarrow>
     spaces_of receipt = [] \<and> l = NewConnection (sd_space_address d) (sd_agent_id d) u"
| "cont_ok l _ \<longleftrightarrow> True"

fun effect_ok :: "sim_codec \<Rightarrow> (Lib3hUri \<times> Opaque) list \<Rightarrow> AolEntry list \<Rightarrow> sim_effect \<Rightarrow> bool" where
  "effect_ok K rcv app (SendOut a u m) \<longleftrightarrow> (\<forall>h\<in>set (spaces_of m). NewConnection h a u \<in> set app)"
| "effect_ok K rcv app (Mutate l k) \<longleftrightarrow> log_ok K rcv app l \<and> cont_ok l k"
| "effect_ok K rcv app (Spawn t) \<longleftrightarrow> task_ok K rcv app t"
| "effect_ok K rcv app (CloseUri u) \<longleftrightarrow> True"

definition joined_logged :: "AolEntry list \<Rightarrow> Store \<Rightarrow> bool" where
  "joined_logged app st \<longleftrightarrow> (\<forall>h a u. lookup_joined st h a = Some u \<longrightarrow> NewConnection h a u \<in> set app)"

lemma disconnect_ok: "\<forall>e\<in>set (disconnect us). effect_ok K rcv app e"
  by (auto simp: disconnect_def)

lemma send_joined_ok:
  assumes "joined_logged app st" and "set (spaces_of m) \<subseteq> {h}" and "e \<in> set (send_joined st h a m)"
  shows "effect_ok K rcv app e"
  using assms by (cases "lookup_joined st h a") (auto simp: send_joined_def joined_logged_def)

lemma spaces_of_store [simp]: "spaces_of_client (store_message a h e x) = [h]"
  by (simp add: store_message_def)

lemma publish_ok:
  assumes "joined_logged app st" and "e \<in> set (publish_task E st a h d)"
  shows "effect_ok K rcv app e"
  using assms by (auto simp: publish_task_def Let_def split: if_splits option.splits
      intro!: send_joined_ok [OF assms(1), of "MultiSend _" h])

lemma push_messages_spaces:
  assumes "\<And>a ms x. fmlookup m a = Some ms \<Longrightarrow> x \<in> set ms \<Longrightarrow> spaces_of_client x = [h]"
    and "fmlookup (fold (push_message h e y) as m) a = Some ms" and "x \<in> set ms"
  shows "spaces_of_client x = [h]"
  using assms
proof (induction as arbitrary: m)
  case (Cons b as)
  have "spaces_of_client x = [h]" if "fmlookup (push_message h e y b m) a = Some ms" "x \<in> set ms" for a ms x
    using that Cons.prems(1) by (auto simp: push_message_def split: option.splits if_splits)
  then show ?case using Cons.IH [of "push_message h e y b m"] Cons.prems(2,3) by simp
qed simp

lemma collect_spaces:
  assumes "fmlookup (collect_messages E st h entry) a = Some ms" and "x \<in> set ms"
  shows "spaces_of_client x = [h]"
proof -
  have "spaces_of_client x = [h]"
    if "\<And>a ms x. fmlookup m a = Some ms \<Longrightarrow> x \<in> set ms \<Longrightarrow> spaces_of_client x = [h]"
      "fmlookup (fold (\<lambda>y. fold (push_message h e y) (f y)) xs m) a = Some ms" "x \<in> set ms" for e f xs m
    using that
  proof (induction xs arbitrary: m)
    case (Cons y xs)
    have "spaces_of_client x = [h]" if "fmlookup (fold (push_message h e y) (f y) m) a = Some ms" "x \<in> set ms" for a ms x
      using push_messages_spaces [OF Cons.prems(1) that] .
    then show ?case using Cons.IH [of "fold (push_message h e y) (f y) m"] Cons.prems(2,3) by simp
  qed simp
  from this [of fmempty] show ?thesis using assms unfolding collect_messages_def by simp
qed

lemma fetch_result_ok:
  assumes "joined_logged app st" and "e \<in> set (fetch_result_task E st h d)"
  shows "effect_ok K rcv app e"
proof -
  obtain a ms where ms: "fmlookup (collect_messages E st h (fr_entry d)) a = Some ms"
    and e: "e \<in> set (send_joined st h a (MultiSend ms))"
    using assms(2) by (auto simp: fetch_result_task_def Let_def split: option.splits dest: sym)
  have "set (spaces_of (MultiSend ms)) \<subseteq> {h}" using collect_spaces [OF ms] by auto
  then show ?thesis using send_joined_ok [OF assms(1) _ e] by blast
qed

lemma authoring_ok:
  assumes "NewConnection h a u \<in> set app" and "e \<in> set (authoring_task E st u a h d)"
  shows "effect_ok K rcv app e"
  using assms by (auto simp: authoring_task_def Let_def split: if_splits)

lemma fetch_request_ok:
  assumes "joined_logged app st" and "x \<in> set (fetch_request E st h e)"
  shows "effect_ok K rcv app x"
  using assms(2) by (auto simp: fetch_request_def split: list.splits intro!: send_joined_ok [OF assms(1), of "Lib3hToClientMessage _" h])

lemma fetch_entries_ok:
  assumes "joined_logged app st"
  shows "\<forall>x\<in>set (fst (fetch_entries E st h m es f)). effect_ok K rcv app x"
proof (induction es arbitrary: f)
  case (Cons e es)
  obtain b f' where c: "check_already_fetched (sim_clock E) e f = (b, f')" by fastforce
  have "\<forall>x\<in>set (fst (fetch_entries E st h m es f')). effect_ok K rcv app x" by (rule Cons.IH)
  then show ?case using fetch_request_ok [OF assms] Cons.IH [of f]
    by (cases b) (auto simp: c split_beta)
qed simp

lemma resync_ok:
  assumes "joined_logged app st"
  shows "\<forall>x\<in>set (fst (resync_agent E st h a f)). effect_ok K rcv app x"
  by (auto simp: resync_agent_def fetch_entry_data_def fetch_entries_ok [OF assms] split: option.splits)

lemma response_ok:
  assumes "NewConnection h a u \<in> set app" and "e \<in> set (lib3h_to_client_response d u a h)"
  shows "effect_ok K rcv app e"
  using assms by (auto simp: lib3h_to_client_response_def handle_message_send_dm_result_def inner_handle_message_send_dmx_def
      handle_message_list_data_def handle_message_authoring_entry_list_def handle_message_fetch_entry_result_def
      handle_message_query_entry_result_def split: Lib3hToClientResponse.splits if_splits)

lemma client_ok:
  assumes "e \<in> set (client_to_lib3h d u a h)"
  shows "effect_ok K rcv app e"
  using assms disconnect_ok [of "[u]"]
  by (auto simp: client_to_lib3h_def handle_message_send_dm_def inner_handle_message_send_dmx_def
      handle_message_publish_entry_def handle_message_query_entry_def split: ClientToLib3h.splits if_splits)

lemma in_space_ok:
  assumes "joined_logged app st" and "\<And>h s. fmlookup (spaces st) h = Some s \<Longrightarrow> routes_back s"
    and "spaces_of receipt = []" and e: "e \<in> set (handle_in_space E st u m a receipt)"
  shows "effect_ok K rcv app e"
proof (cases "get_space_info_from_uri E st u")
  case None
  then show ?thesis using e disconnect_ok by (auto simp: handle_in_space_def)
next
  case (Some ah)
  then obtain b h where ah: "get_space_info_from_uri E st u = Some (b, h)" by (cases ah) auto
  then obtain s where "fmlookup (spaces st) h = Some s" "fmlookup (uri_to_connection s) u = Some b"
    using first_joined_Some by (fastforce simp: get_space_info_from_uri_def)
  then have "lookup_joined st h b = Some u"
    using assms(2) by (auto simp: routes_back_def lookup_joined_def)
  then have "NewConnection h b u \<in> set app" using assms(1) by (simp add: joined_logged_def)
  then show ?thesis using e ah assms(3) response_ok client_ok
    by (auto simp: handle_in_space_def split: if_splits WireMessage.splits)
qed

lemma message_ok:
  assumes "is_join m \<Longrightarrow> join_requested K rcv (sd_space_address (case m of ClientToLib3hMessage (C2L_JoinSpace d) \<Rightarrow> d))
      (sd_agent_id (case m of ClientToLib3hMessage (C2L_JoinSpace d) \<Rightarrow> d)) u"
    and "spaces_of receipt = []" and "e \<in> set (handle_message r u m a receipt)"
  shows "effect_ok K rcv app e"
  using assms disconnect_ok [of "[u]"]
  by (cases m) (auto simp: handle_message_def handle_message_ping_def handle_message_hello_def
      split: ClientToLib3h.splits if_splits)

lemma payload_ok:
  assumes "(u, p) \<in> set rcv" and p: "handle_payload K r u p = Returns es" and "e \<in> set es"
  shows "effect_ok K rcv app e"
proof (cases "and_then (read_signed K p) (\<lambda>m. map_ok (Pair m) (read_wire K (sw_payload m)))")
  case (Inl x)
  then show ?thesis using p assms(3) disconnect_ok by (auto simp: handle_payload_def)
next
  case (Inr mw)
  obtain m w where mw: "mw = (m, w)" by (cases mw)
  have read: "read_signed K p = Ok m" "read_wire K (sw_payload m) = Ok w"
    using Inr mw by (auto simp: result_iffs)
  obtain b where b: "(if is_join w then expect_ok ''called `Result::unwrap()` on an `Err` value'' (sim_verify K m)
        else Returns True) = Returns b"
    and es: "es = (if \<not> b then disconnect [u] else handle_message r u w (sw_source m) (gen_receipt K (sw_payload m)))"
    using p Inr mw by (auto simp: handle_payload_def outcome_bind_Returns_iff)
  show ?thesis
  proof (cases b)
    case False
    then show ?thesis using es assms(3) disconnect_ok by auto
  next
    case True
    show ?thesis
    proof (rule message_ok)
      show "spaces_of (gen_receipt K (sw_payload m)) = []" by (simp add: gen_receipt_def)
      show "e \<in> set (handle_message r u w (sw_source m) (gen_receipt K (sw_payload m)))" using True es assms(3) by simp
      assume j: "is_join w"
      then have "sim_verify K m = Ok True" using b True by simp
      then show "join_requested K rcv (sd_space_address (case w of ClientToLib3hMessage (C2L_JoinSpace d) \<Rightarrow> d))
          (sd_agent_id (case w of ClientToLib3hMessage (C2L_JoinSpace d) \<Rightarrow> d)) u"
        using j read assms(1) by (cases w rule: is_join.cases) (auto simp: join_requested_def)
    qed
  qed
qed

lemma query_ok:
  assumes "joined_logged app st" and "query_task E st h q = Returns es" and "lqe_space_address q = h" and "e \<in> set es"
  shows "effect_ok K rcv app e"
  using assms(2-4)
  by (auto simp: query_task_def split: list.splits intro!: send_joined_ok [OF assms(1), of "Lib3hToClientMessage _" h])

lemma run_task_ok:
  assumes "run_task K E r st f t = Returns (es, f')" and "task_ok K rcv app t" and "joined_logged app st"
    and "\<And>h s. fmlookup (spaces st) h = Some s \<Longrightarrow> routes_back s" and "e \<in> set es"
  shows "effect_ok K rcv app e"
proof (cases t)
  case (HandlePayload u p)
  then show ?thesis using assms(1,2,5) payload_ok by (auto simp: outcome_bind_Returns_iff)
next
  case (InSpace u m a receipt)
  then show ?thesis using assms(1,2,5) in_space_ok [OF assms(3,4)] by auto
next
  case (PublishTask a h d)
  then show ?thesis using assms(1,5) publish_ok [OF assms(3)] by auto
next
  case (AuthoringTask u a h d)
  then show ?thesis using assms(1,2,5) authoring_ok by auto
next
  case (FetchResultTask h d)
  then show ?thesis using assms(1,5) fetch_result_ok [OF assms(3)] by auto
next
  case (QueryTask h q)
  then show ?thesis using assms(1,2,5) query_ok [OF assms(3)] by (auto simp: outcome_bind_Returns_iff)
next
  case (ResyncAgents as)
  show ?thesis
  proof (cases as)
    case Nil
    then show ?thesis using ResyncAgents assms(1,5) by simp
  next
    case (Cons ha rest)
    then have "es = fst (resync_agent E st (fst ha) (snd ha) f) @ [Spawn (ResyncAgents rest)]"
      using ResyncAgents assms(1) by (cases ha) (auto simp: split_beta)
    then show ?thesis using assms(5) resync_ok [OF assms(3), of E "fst ha" "snd ha" f K rcv] by auto
  qed
next
  case (DmxTask a h m)
  then show ?thesis using assms(1,2,5) send_joined_ok [OF assms(3), of m h] by auto
next
  case (QueryResultTask h q)
  then show ?thesis using assms(1,2,5)
      send_joined_ok [OF assms(3), of "ClientToLib3hResponseMessage (C2LR_QueryEntryResult q)" h] by auto
next
  case (CloseTask us)
  then show ?thesis using assms(1,5) disconnect_ok by auto
qed (use assms(1,2,5) in \<open>auto simp: handle_message_status_def handle_message_debug_def handle_message_join_space_def
    join_replies_def Let_def\<close>)

subsection \<open>The invariant\<close>

definition sim_ok :: "sim_codec \<Rightarrow> sim_env \<Rightarrow> nat \<Rightarrow> sim2h \<Rightarrow> bool" where
  "sim_ok K E0 r w \<longleftrightarrow>
     (\<forall>st\<in>{own_store w, read_store w} \<union> fst ` set (copies w).
        store_run E0 (Store_new r None) st \<and> joined_logged (applied w) st) \<and>
     (\<forall>t\<in>set (tasks w). task_ok K (received w) (applied w) t) \<and>
     (\<forall>(st, ts)\<in>set (copies w). \<forall>t\<in>set ts. task_ok K (received w) (applied w) t) \<and>
     (\<forall>(l, k)\<in>set (log_queue w). log_ok K (received w) (applied w) l \<and> cont_ok l k) \<and>
     (\<forall>l\<in>set (applied w). log_ok K (received w) (applied w) l) \<and>
     (\<forall>(a, u, m)\<in>set (sent w). effect_ok K (received w) (applied w) (SendOut a u m))"

lemma join_requested_mono: "join_requested K rcv h a u \<Longrightarrow> set rcv \<subseteq> set rcv' \<Longrightarrow> join_requested K rcv' h a u"
  by (auto simp: join_requested_def)

lemma task_ok_mono:
  "task_ok K rcv app t \<Longrightarrow> set rcv \<subseteq> set rcv' \<Longrightarrow> set app \<subseteq> set app' \<Longrightarrow> task_ok K rcv' app' t"
  by (cases t) (auto intro: join_requested_mono)

lemma log_ok_mono:
  "log_ok K rcv app l \<Longrightarrow> set rcv \<subseteq> set rcv' \<Longrightarrow> set app \<subseteq> set app' \<Longrightarrow> log_ok K rcv' app' l"
  by (cases l) (auto intro: join_requested_mono)

lemma effect_ok_mono:
  "effect_ok K rcv app e \<Longrightarrow> set rcv \<subseteq> set rcv' \<Longrightarrow> set app \<subseteq> set app' \<Longrightarrow> effect_ok K rcv' app' e"
  by (cases e) (auto intro: task_ok_mono log_ok_mono)

lemma sim_ok_mono:
  assumes "sim_ok K E0 r w" and "set (received w) \<subseteq> set rcv"
  shows "sim_ok K E0 r (w\<lparr>received := rcv\<rparr>)"
proof -
  have t: "task_ok K rcv (applied w) t" if "task_ok K (received w) (applied w) t" for t
    by (rule task_ok_mono [OF that assms(2)]) simp
  have g: "log_ok K rcv (applied w) l" if "log_ok K (received w) (applied w) l" for l
    by (rule log_ok_mono [OF that assms(2)]) simp
  have e: "effect_ok K rcv (applied w) e" if "effect_ok K (received w) (applied w) e" for e
    by (rule effect_ok_mono [OF that assms(2)]) simp
  show ?thesis
    using assms(1) t g e unfolding sim_ok_def by (auto simp del: effect_ok.simps split: prod.splits)
qed

lemma mem_effects:
  "(a, u, m) \<in> set (sends_of es) \<longleftrightarrow> SendOut a u m \<in> set es"
  "(l, k) \<in> set (mutations_of es) \<longleftrightarrow> Mutate l k \<in> set es"
  "t \<in> set (spawned_of es) \<longleftrightarrow> Spawn t \<in> set es"
proof -
  show "(a, u, m) \<in> set (sends_of es) \<longleftrightarrow> SendOut a u m \<in> set es" by (induction es rule: sends_of.induct) auto
  show "(l, k) \<in> set (mutations_of es) \<longleftrightarrow> Mutate l k \<in> set es" by (induction es rule: mutations_of.induct) auto
  show "t \<in> set (spawned_of es) \<longleftrightarrow> Spawn t \<in> set es" by (induction es rule: spawned_of.induct) auto
qed

lemma perform_ok:
  assumes "sim_ok K E0 r w" and "\<And>e. e \<in> set es \<Longrightarrow> effect_ok K (received w) (applied w) e"
  shows "sim_ok K E0 r (perform es w)"
proof -
  have "effect_ok K (received w) (applied w) (SendOut a u m)" if "(a, u, m) \<in> set (sends_of es)" for a u m
    using that assms(2) by (simp add: mem_effects del: effect_ok.simps)
  moreover have "log_ok K (received w) (applied w) l \<and> cont_ok l k" if "(l, k) \<in> set (mutations_of es)" for l k
    using that assms(2) [of "Mutate l k"] by (simp add: mem_effects)
  moreover have "task_ok K (received w) (applied w) t" if "t \<in> set (spawned_of es)" for t
    using that assms(2) [of "Spawn t"] by (simp add: mem_effects)
  ultimately show ?thesis
    using assms(1) unfolding sim_ok_def perform_def by (auto simp del: effect_ok.simps split: prod.splits)
qed

lemma event_effects_ok:
  assumes "e \<in> set (event_effects evts dropped)"
  shows "effect_ok K (rcv @ payloads_of evts) app e"
  using assms
proof (induction evts dropped rule: event_effects.induct)
  case (1 dropped)
  then show ?case using disconnect_ok by auto
next
  case (2 u evts dropped)
  then show ?case by (auto simp: payloads_of_def List.map_filter_simps)
next
  case (3 u d evts dropped)
  have sub: "set (rcv @ payloads_of evts) \<subseteq> set (rcv @ payloads_of (ConReceiveData u d # evts))"
    by (auto simp: payloads_of_def List.map_filter_simps split: WsFrame.splits)
  show ?case
  proof (cases "e \<in> set (event_effects evts dropped)")
    case True
    then show ?thesis using 3(1) sub effect_ok_mono by blast
  next
    case False
    then have "e \<in> set (handle_recv_data u d)" using 3(2) by simp
    then show ?thesis using disconnect_ok [of "[u]"]
      by (cases d) (auto simp: handle_recv_data_def payloads_of_def List.map_filter_simps)
  qed
qed

lemma sim_ok_tasks:
  assumes "sim_ok K E0 r w" and "set ts \<subseteq> set (tasks w) \<union> Collect (task_ok K (received w) (applied w))"
  shows "sim_ok K E0 r (w\<lparr>tasks := ts, fetched := f\<rparr>)" "sim_ok K E0 r (w\<lparr>tasks := ts\<rparr>)"
  using assms unfolding sim_ok_def by (auto simp del: effect_ok.simps split: prod.splits)

lemma sim_ok_store:
  assumes w: "sim_ok K E0 r w" and q: "log_queue w = (l, k) # q" and "same_places E0 E"
    and m: "mutate E l (own_store w) = Returns (st, reply)"
  shows "sim_ok K E0 r (w\<lparr> own_store := st, log_queue := q, copies := copies w @ [(st, continue_with E k reply)],
      applied := applied w @ [l] \<rparr>)"
proof -
  have l: "log_ok K (received w) (applied w) l" "cont_ok l k" using w q by (auto simp: sim_ok_def)
  have own: "store_run E0 (Store_new r None) (own_store w)" "joined_logged (applied w) (own_store w)"
    using w by (auto simp: sim_ok_def)
  have st: "store_run E0 (Store_new r None) st" using own(1) assms(3) m by (rule store_step)
  have logged: "joined_logged (applied w @ [l]) st"
    using own(2) mutate_joined [OF m] unfolding joined_logged_def by fastforce
  have old: "joined_logged (applied w @ [l]) st'" if "joined_logged (applied w) st'" for st'
    using that by (auto simp: joined_logged_def)
  have conts: "task_ok K (received w) (applied w @ [l]) t" if "t \<in> set (continue_with E k reply)" for t
    using that l(2) by (cases k; cases reply) auto
  have t: "task_ok K (received w) (applied w @ [l]) t" if "task_ok K (received w) (applied w) t" for t
    by (rule task_ok_mono [OF that]) auto
  have g: "log_ok K (received w) (applied w @ [l]) x" if "log_ok K (received w) (applied w) x" for x
    by (rule log_ok_mono [OF that]) auto
  have e: "effect_ok K (received w) (applied w @ [l]) x" if "effect_ok K (received w) (applied w) x" for x
    by (rule effect_ok_mono [OF that]) auto
  show ?thesis
    using w q st logged old conts t g e l(1) unfolding sim_ok_def
    by (auto simp del: effect_ok.simps split: prod.splits)
qed

lemma sim_ok_step: "sim_step K E0 r w w' \<Longrightarrow> sim_ok K E0 r w \<Longrightarrow> sim_ok K E0 r w'"
proof (induction rule: sim_step.induct)
  case (step_events evts es rest w)
  then have "es = event_effects (take 100 evts) []" by (simp add: check_incoming_messages_def)
  then show ?case
    using step_events event_effects_ok by (intro perform_ok sim_ok_mono) auto
next
  case (step_resync w)
  then show ?case by (intro sim_ok_tasks) auto
next
  case (step_task w ts t us E es f)
  have t: "task_ok K (received w) (applied w) t" and st: "joined_logged (applied w) (read_store w)"
    and run: "store_run E0 (Store_new r None) (read_store w)"
    using step_task by (auto simp: sim_ok_def)
  have "effect_ok K (received w) (applied w) e" if "e \<in> set es" for e
    using run_task_ok [OF step_task(3) t st _ that] reachable_routes [OF run] by blast
  then show ?case using step_task by (intro perform_ok sim_ok_tasks) auto
next
  case (step_store w l k q E st reply)
  then show ?case by (intro sim_ok_store) auto
next
  case (step_copy w cs st nt ds)
  then show ?case unfolding sim_ok_def by (auto simp del: effect_ok.simps split: prod.splits)
qed

lemma sim_ok_reach: "sim_reach K E0 r w \<Longrightarrow> sim_ok K E0 r w"
proof (induction rule: sim_reach.induct)
  case reach_new
  show ?case by (simp add: sim_ok_def Sim2h_new_def joined_logged_def lookup_joined_def Store_new_def store_start)
next
  case (reach_step w w')
  then show ?case using sim_ok_step by blast
qed

section \<open>An example\<close>

text \<open>A client that joins a space, and the switchboard after each step of the way.\<close>

definition join_example :: Lib3hSpaceData where
  "join_example = \<lparr> sd_space_address = ''s'', sd_agent_id = ''a'' \<rparr>"

definition codec_example :: sim_codec where
  "codec_example =
     \<lparr> read_signed = (\<lambda>p. Ok \<lparr> sw_source = ''a'', sw_signature = ''sig'', sw_payload = p \<rparr>),
       read_wire = (\<lambda>p. if p = ''join'' then Ok (ClientToLib3hMessage (C2L_JoinSpace join_example)) else Err ''json''),
       base64_decode = (\<lambda>s. if s = ''?'' then None else Some s), hcs0_decode = Ok, key_buffer = Ok,
       sodium_verify = (\<lambda>_ _ _. True), receipt_hash = (\<lambda>_. 7), space_json = (\<lambda>_. ''{}''),
       connection_count = 1, connection_text = '''' \<rparr>"

lemmas example_simps = codec_example_def join_example_def Sim2h_new_def perform_def

lemma example_received: "sim_reach codec_example sim_example 0
    ((Sim2h_new 0)\<lparr> tasks := [ClosingTask, HandlePayload ''u'' ''join''], received := [(''u'', ''join'')] \<rparr>)"
  using reach_step [OF reach_new step_events [of "[ConReceiveData ''u'' (Binary ''join'')]"
        "[Spawn (HandlePayload ''u'' ''join'')]" "[]"], of codec_example sim_example 0]
  by (simp add: check_incoming_messages_def handle_recv_data_def disconnect_def payloads_of_def List.map_filter_simps
      Sim2h_new_def perform_def)

lemma example_verified: "sim_reach codec_example sim_example 0
    ((Sim2h_new 0)\<lparr> tasks := [ClosingTask, JoinTask ''u'' ''a'' join_example (Ack 7)], received := [(''u'', ''join'')] \<rparr>)"
  using reach_step [OF example_received step_task [of _ "[ClosingTask]" "HandlePayload ''u'' ''join''" "[]" sim_example sim_example
        codec_example 0 "[Spawn (JoinTask ''u'' ''a'' join_example (Ack 7))]" fmempty]]
  by (simp add: handle_payload_def handle_message_def gen_receipt_def sim_verify_def verify_bufs_def decode_pub_key_def
      same_places_refl example_simps)

lemma example_queued: "sim_reach codec_example sim_example 0
    ((Sim2h_new 0)\<lparr> tasks := [ClosingTask], received := [(''u'', ''join'')],
       log_queue := [(NewConnection ''s'' ''a'' ''u'', ThenJoined ''u'' ''a'' join_example (Ack 7))] \<rparr>)"
  using reach_step [OF example_verified step_task [of _ "[ClosingTask]" "JoinTask ''u'' ''a'' join_example (Ack 7)" "[]"
        sim_example sim_example codec_example 0
        "[Mutate (NewConnection ''s'' ''a'' ''u'') (ThenJoined ''u'' ''a'' join_example (Ack 7))]" fmempty]]
  by (simp add: handle_message_join_space_def same_places_refl example_simps)

lemma example_stored: "sim_reach codec_example sim_example 0
    ((Sim2h_new 0)\<lparr> tasks := [ClosingTask], received := [(''u'', ''join'')], own_store := store_example,
       copies := [(store_example, [JoinedTask ''u'' ''a'' join_example (Ack 7)])], applied := [NewConnection ''s'' ''a'' ''u''] \<rparr>)"
  using reach_step [OF example_queued step_store [of _ "NewConnection ''s'' ''a'' ''u''" "ThenJoined ''u'' ''a'' join_example (Ack 7)"
        "[]" sim_example sim_example store_example NoReply]]
  by (simp add: store_example_joins same_places_refl example_simps)

lemma example_copied: "sim_reach codec_example sim_example 0
    ((Sim2h_new 0)\<lparr> tasks := [ClosingTask, JoinedTask ''u'' ''a'' join_example (Ack 7)], received := [(''u'', ''join'')],
       own_store := store_example, read_store := store_example, applied := [NewConnection ''s'' ''a'' ''u''] \<rparr>)"
  using reach_step [OF example_stored step_copy [of _ "[]" store_example "[JoinedTask ''u'' ''a'' join_example (Ack 7)]" "[]"]]
  by (simp add: example_simps)

lemma example_joined: "\<exists>w. sim_reach codec_example sim_example 0 w \<and> read_store w = store_example \<and>
    received w = [(''u'', ''join'')] \<and> sent w = sends_of (join_replies ''u'' ''a'' join_example (Ack 7))"
  using reach_step [OF example_copied step_task [of _ "[ClosingTask]" "JoinedTask ''u'' ''a'' join_example (Ack 7)" "[]"
        sim_example sim_example codec_example 0 "join_replies ''u'' ''a'' join_example (Ack 7)" fmempty]]
  by (force simp: same_places_refl example_simps)

section \<open>Properties of the switchboard\<close>



text \<open>
  C39.  The signature of a request to join is that of whoever sent it, and nothing compares this key with the agent that
  the request names: a client with any key of its own joins as any other agent.
\<close>

theorem join_as_other_agent:
  assumes "read_signed K p = Ok m" and "read_wire K (sw_payload m) = Ok (ClientToLib3hMessage (C2L_JoinSpace d))"
    and "sim_verify K m = Ok True" and "sw_source m \<noteq> sd_agent_id d"
  shows "\<exists>t k. handle_payload K r u p = Returns [Spawn t] \<and>
    run_task K E r st f t = Returns ([Mutate (NewConnection (sd_space_address d) (sd_agent_id d) u) k], f)"
  using assms by (simp add: handle_payload_def handle_message_def handle_message_join_space_def)

theorem join_as_other_agent_witness:
  "\<exists>t k. handle_payload (codec_example\<lparr> read_signed := \<lambda>p. Ok \<lparr> sw_source = ''m'', sw_signature = ''sig'', sw_payload = p \<rparr> \<rparr>)
      0 ''u'' ''join'' = Returns [Spawn t] \<and>
    run_task codec_example sim_example 0 store_example fmempty t =
      Returns ([Mutate (NewConnection ''s'' ''a'' ''u'') k], fmempty)"
proof -
  let ?K = "codec_example\<lparr> read_signed := \<lambda>p. Ok \<lparr> sw_source = ''m'', sw_signature = ''sig'', sw_payload = p \<rparr> \<rparr>"
  obtain t k where t: "handle_payload ?K 0 ''u'' ''join'' = Returns [Spawn t]"
    "run_task ?K sim_example 0 store_example fmempty t = Returns ([Mutate (NewConnection ''s'' ''a'' ''u'') k], fmempty)"
    using join_as_other_agent [of ?K "''join''" "\<lparr> sw_source = ''m'', sw_signature = ''sig'', sw_payload = ''join'' \<rparr>" join_example
        0 "''u''" sim_example store_example fmempty]
    by (auto simp: codec_example_def join_example_def sim_verify_def verify_bufs_def decode_pub_key_def)
  then have "t = JoinTask ''u'' ''m'' join_example (Ack 7)"
    by (simp add: handle_payload_def handle_message_def codec_example_def sim_verify_def verify_bufs_def
        decode_pub_key_def gen_receipt_def)
  then show ?thesis using t by (auto simp: handle_message_join_space_def join_example_def)
qed

text \<open>
  C38.  A payload brings the process down, since a panic is fatal, exactly when it is a request to join whose signature
  cannot be checked: a signature that is not base64, or a source that is no key.
\<close>

theorem payload_panics_iff:
  "(\<exists>msg. handle_payload K r u p = Panics msg) \<longleftrightarrow>
     (\<exists>m d. read_signed K p = Ok m \<and> read_wire K (sw_payload m) = Ok (ClientToLib3hMessage (C2L_JoinSpace d)) \<and>
        (base64_decode K (sw_signature m) = None \<or> (\<exists>e. decode_pub_key K (sw_source m) = Err e)))"
proof (cases "and_then (read_signed K p) (\<lambda>m. map_ok (Pair m) (read_wire K (sw_payload m)))")
  case (Inl x)
  then have "\<not> (\<exists>m w. read_signed K p = Ok m \<and> read_wire K (sw_payload m) = Ok w)" by auto
  then show ?thesis using Inl by (auto simp: handle_payload_def)
next
  case (Inr mw)
  obtain m w where mw: "mw = (m, w)" by (cases mw)
  have read: "read_signed K p = Ok m" "read_wire K (sw_payload m) = Ok w"
    using Inr mw by (auto simp: result_iffs)
  have verify: "(\<exists>msg. expect_ok x (sim_verify K m) = Panics msg) \<longleftrightarrow>
      base64_decode K (sw_signature m) = None \<or> (\<exists>e. decode_pub_key K (sw_source m) = Err e)" for x
    by (cases "base64_decode K (sw_signature m)"; cases "decode_pub_key K (sw_source m)")
      (auto simp: sim_verify_def verify_bufs_def)
  have "(\<exists>msg. handle_payload K r u p = Panics msg) \<longleftrightarrow>
      is_join w \<and> (\<exists>msg. expect_ok ''called `Result::unwrap()` on an `Err` value'' (sim_verify K m) = Panics msg)"
    using Inr mw by (cases "sim_verify K m") (auto simp: handle_payload_def)
  moreover have "is_join w \<longleftrightarrow> (\<exists>d. w = ClientToLib3hMessage (C2L_JoinSpace d))"
    by (cases w rule: is_join.cases) auto
  ultimately show ?thesis using read verify by auto
qed

subsection \<open>Publishing\<close>

lemma sends_of_append [simp]: "sends_of (xs @ ys) = sends_of xs @ sends_of ys"
  by (induction xs rule: sends_of.induct) auto

lemma should_hold_joined:
  "store_agents_that_should_hold E st h e = Some A \<Longrightarrow> a |\<in>| A \<Longrightarrow> \<exists>u. lookup_joined st h a = Some u"
  by (auto simp: store_agents_that_should_hold_def lookup_joined_def should_hold_iff split: option.splits)

lemma sends_to_joined:
  assumes "\<And>a. a \<in> set as \<Longrightarrow> \<exists>u. lookup_joined st h a = Some u"
  shows "sends_of (concat (map (\<lambda>a. send_joined st h a (f a)) as)) = map (\<lambda>a. (a, the (lookup_joined st h a), f a)) as"
  using assms
proof (induction as)
  case (Cons a as)
  then obtain u where "lookup_joined st h a = Some u" by auto
  then show ?case using Cons by (simp add: send_joined_def)
qed simp

text \<open>
  C20.  A published entry goes to all who should hold it: every agent that is responsible for the entry, the author
  included, is sent one message, to the uri it joined with, that has all aspects of the entry in their order; no one else is.
\<close>

theorem publish_reaches_responsible:
  assumes "lists_sets E" and "led_aspect_list (pe_entry d) \<noteq> []"
    and "store_agents_that_should_hold E st h (led_entry_address (pe_entry d)) = Some A"
  shows "mset (sends_of (publish_task E st signer h d)) =
      image_mset (\<lambda>a. (a, the (lookup_joined st h a),
        MultiSend (map (store_message signer h (led_entry_address (pe_entry d))) (led_aspect_list (pe_entry d)))))
        (mset_set (fset A)) \<and>
    (\<forall>a. a |\<in>| A \<longrightarrow> lookup_joined st h a \<noteq> None)"
proof -
  have joined: "\<exists>u. lookup_joined st h a = Some u" if "a |\<in>| A" for a
    using should_hold_joined [OF assms(3) that] .
  have "mset (sim_order E A) = mset_set (fset A)"
    using lists_setsD(1,2) [OF assms(1), of A] by (metis mset_set_set)
  moreover have "sends_of (publish_task E st signer h d) = map (\<lambda>a. (a, the (lookup_joined st h a),
        MultiSend (map (store_message signer h (led_entry_address (pe_entry d))) (led_aspect_list (pe_entry d))))) (sim_order E A)"
    using assms(2,3) joined sends_to_joined [of "sim_order E A" st h "\<lambda>_. MultiSend (map
        (store_message signer h (led_entry_address (pe_entry d))) (led_aspect_list (pe_entry d)))"]
    by (simp add: publish_task_def Let_def lists_setsD(1) [OF assms(1)])
  ultimately show ?thesis using joined by auto
qed

definition aspect_example :: Lib3hEntryAspectData where
  "aspect_example = \<lparr> lea_aspect_address = ''x'', lea_type_hint = ''t'', lea_aspect = ''{}'', lea_publish_ts = 0 \<rparr>"

definition published_example :: Lib3hProvidedEntryData where
  "published_example = \<lparr> pe_space_address = ''s'', pe_provider_agent_id = ''b'',
     pe_entry = \<lparr> led_entry_address = ''e'', led_aspect_list = [aspect_example] \<rparr> \<rparr>"

theorem publish_reaches_responsible_witness:
  "mset (sends_of (publish_task sim_example store_example ''b'' ''s'' published_example)) =
     {#(''a'', ''u'', MultiSend [store_message ''b'' ''s'' ''e'' aspect_example])#}"
proof -
  have A: "store_agents_that_should_hold sim_example store_example ''s'' ''e'' = Some {|''a''|}"
    by (simp add: store_agents_that_should_hold_def store_example_simps get_agents_that_should_hold_entry_def)
  have "lookup_joined store_example ''s'' ''a'' = Some ''u''"
    by (simp add: lookup_joined_def store_example_simps)
  then show ?thesis
    using publish_reaches_responsible [OF sim_example_lists, of published_example store_example "''s''" "{|''a''|}" "''b''"] A
    by (simp add: published_example_def)
qed

subsection \<open>Fetched entries\<close>

lemma push_lookup:
  assumes "distinct as"
  shows "fmlookup (fold (push_message h e x) as m) a =
    (if a \<in> set as then Some ((case fmlookup m a of Some ms \<Rightarrow> ms | None \<Rightarrow> []) @ [store_message a h e x]) else fmlookup m a)"
  using assms by (induction as arbitrary: m) (auto simp: push_message_def)

lemma collect_lookup_from:
  assumes "\<And>x. distinct (f x)"
  shows "fmlookup (fold (\<lambda>x. fold (push_message h e x) (f x)) xs m) a =
    (if \<exists>x\<in>set xs. a \<in> set (f x)
     then Some ((case fmlookup m a of Some ms \<Rightarrow> ms | None \<Rightarrow> []) @ map (store_message a h e) (filter (\<lambda>x. a \<in> set (f x)) xs))
     else fmlookup m a)"
proof (induction xs arbitrary: m)
  case (Cons x xs)
  have "filter (\<lambda>x. a \<in> set (f x)) xs = []" if "\<forall>y\<in>set xs. a \<notin> set (f y)"
    using that by (simp add: filter_empty_conv)
  then show ?case using Cons.IH by (auto simp: push_lookup [OF assms])
qed simp

lemma collect_lookup:
  assumes "lists_sets E"
  shows "fmlookup (collect_messages E st h entry) a =
    (let xs = filter (\<lambda>x. a |\<in>| store_agents_that_need_aspect E st h (led_entry_address entry) (lea_aspect_address x))
       (led_aspect_list entry)
     in if xs = [] then None else Some (map (store_message a h (led_entry_address entry)) xs))"
  by (auto simp: collect_messages_def collect_lookup_from lists_setsD [OF assms] filter_empty_conv)

text \<open>
  C21.  The aspects that a fetch brings are passed on to who lacks them: an agent is sent a message exactly when it has a
  connection and needs one of them, and the message has all the aspects it needs, and no others, in their order.
\<close>

theorem fetched_aspects_delivered:
  assumes "lists_sets E"
  shows "(a, u, m) \<in> set (sends_of (fetch_result_task E st h d)) \<longleftrightarrow>
    lookup_joined st h a = Some u \<and>
    (\<exists>xs. xs = filter (\<lambda>x. a |\<in>| store_agents_that_need_aspect E st h (led_entry_address (fr_entry d)) (lea_aspect_address x))
         (led_aspect_list (fr_entry d)) \<and>
       xs \<noteq> [] \<and> m = MultiSend (map (store_message a h (led_entry_address (fr_entry d))) xs))"
proof -
  have "(a, u, m) \<in> set (sends_of (fetch_result_task E st h d)) \<longleftrightarrow>
      (\<exists>ms. fmlookup (collect_messages E st h (fr_entry d)) a = Some ms \<and> lookup_joined st h a = Some u \<and> m = MultiSend ms)"
    unfolding mem_effects fetch_result_task_def Let_def
    by (auto simp: send_joined_def lists_setsD(1) [OF assms] fmlookup_dom_iff split: option.splits dest: sym)
  then show ?thesis by (auto simp: collect_lookup [OF assms] Let_def)
qed

definition fetched_example :: Lib3hFetchEntryResultData where
  "fetched_example = \<lparr> fr_space_address = ''s'', fr_provider_agent_id = ''b'', fr_request_id = '''',
     fr_entry = pe_entry published_example \<rparr>"

text \<open>The store of the example after another agent has reported the aspect.\<close>

definition reported_example :: Store where
  "reported_example = put_space ''s'' store_example
     (space_example\<lparr> all_aspects := {|''x''|}, entry_to_all_aspects := fmupd ''e''
        \<lparr> ei_entry_loc = 0, ei_aspects = fmupd ''x'' {|''b''|} fmempty \<rparr> fmempty \<rparr>)"

theorem fetched_aspects_delivered_witness:
  "(''a'', ''u'', MultiSend [store_message ''a'' ''s'' ''e'' aspect_example])
     \<in> set (sends_of (fetch_result_task sim_example reported_example ''s'' fetched_example))"
  unfolding fetched_aspects_delivered [OF sim_example_lists]
  by (simp add: lookup_joined_def reported_example_def store_example_simps put_space_def fetched_example_def
      published_example_def aspect_example_def store_agents_that_need_aspect_def get_agents_that_need_aspect_def
      get_agents_that_should_hold_entry_def)

subsection \<open>Gossip\<close>

definition recently_fetched :: "int \<Rightarrow> EntriesAlreadyFetched \<Rightarrow> EntryHash \<Rightarrow> bool" where
  "recently_fetched now f e \<longleftrightarrow> (\<exists>t. fmlookup f e = Some t \<and> (now - t) div 10 ^ 6 < 1000)"

lemma check_already_fetched_fst: "fst (check_already_fetched now e f) \<longleftrightarrow> recently_fetched now f e"
  by (auto simp: check_already_fetched_def recently_fetched_def Let_def split: option.splits)

lemma check_already_fetched_other:
  "e' \<noteq> e \<Longrightarrow> recently_fetched now (snd (check_already_fetched now e f)) e' \<longleftrightarrow> recently_fetched now f e'"
  by (auto simp: check_already_fetched_def recently_fetched_def Let_def split: option.splits)

lemma check_already_fetched_self: "recently_fetched now (snd (check_already_fetched now e f)) e"
  by (auto simp: check_already_fetched_def recently_fetched_def Let_def split: option.splits)

lemma fetch_entries_exact:
  assumes "distinct es" and "\<And>e. e \<in> set es \<Longrightarrow> fmlookup m e \<noteq> None"
  shows "fst (fetch_entries E st h m es f) =
      concat (map (fetch_request E st h) (filter (\<lambda>e. fmlookup m e \<noteq> Some {||} \<and> \<not> recently_fetched (sim_clock E) f e) es)) \<and>
    (\<forall>e. recently_fetched (sim_clock E) (snd (fetch_entries E st h m es f)) e \<longleftrightarrow>
      recently_fetched (sim_clock E) f e \<or> e \<in> set es \<and> fmlookup m e \<noteq> Some {||})"
  using assms
proof (induction es arbitrary: f)
  case (Cons e es)
  show ?case
  proof (cases "fmlookup m e = Some {||}")
    case True
    then show ?thesis using Cons by auto
  next
    case False
    obtain y where y: "fmlookup m e = Some y" "y \<noteq> {||}" using False Cons.prems(2) [of e] by auto
    define f' where "f' = snd (check_already_fetched (sim_clock E) e f)"
    have c: "check_already_fetched (sim_clock E) e f = (recently_fetched (sim_clock E) f e, f')"
      by (simp add: prod_eq_iff check_already_fetched_fst f'_def)
    have r: "recently_fetched (sim_clock E) f' e' \<longleftrightarrow> e' = e \<or> recently_fetched (sim_clock E) f e'" for e'
      using check_already_fetched_other check_already_fetched_self by (cases "e' = e") (auto simp: f'_def)
    have flt: "filter (\<lambda>e. fmlookup m e \<noteq> Some {||} \<and> \<not> recently_fetched (sim_clock E) f' e) es =
        filter (\<lambda>e. fmlookup m e \<noteq> Some {||} \<and> \<not> recently_fetched (sim_clock E) f e) es"
      using Cons.prems(1) by (intro filter_cong) (auto simp: r)
    have ih: "fst (fetch_entries E st h m es f') = concat (map (fetch_request E st h)
          (filter (\<lambda>e. fmlookup m e \<noteq> Some {||} \<and> \<not> recently_fetched (sim_clock E) f e) es))"
      "recently_fetched (sim_clock E) (snd (fetch_entries E st h m es f')) e' \<longleftrightarrow>
        recently_fetched (sim_clock E) f' e' \<or> e' \<in> set es \<and> fmlookup m e' \<noteq> Some {||}" for e'
      using Cons.IH [of f'] Cons.prems flt by auto
    show ?thesis
    proof (cases "recently_fetched (sim_clock E) f e")
      case True
      then show ?thesis using ih by (auto simp: c r y)
    next
      case notyet: False
      then show ?thesis using ih by (auto simp: c r y split_beta)
    qed
  qed
qed simp

text \<open>A fetch goes to an agent that holds the entry, or to one that should if no agent does.\<close>

definition fetch_candidates :: "sim_env \<Rightarrow> Space \<Rightarrow> EntryHash \<Rightarrow> AgentPubKey fset" where
  "fetch_candidates E s e =
     (if get_agents_holding_entry E s e = {||} then get_agents_that_should_hold_entry E s e
      else get_agents_holding_entry E s e)"

lemma fetch_request_sends:
  assumes "lists_sets E" and "fmlookup (spaces st) h = Some s" and "a |\<in>| get_agents_that_should_hold_entry E s e"
  shows "\<exists>q. q |\<in>| fetch_candidates E s e \<and> fetch_request E st h e =
    (case lookup_joined st h q of
       None \<Rightarrow> []
     | Some u \<Rightarrow> [SendOut q u (Lib3hToClientMessage (L2C_HandleFetchEntry
         \<lparr> lfe_space_address = h, lfe_provider_agent_id = q, lfe_request_id = '''', lfe_entry_address = e,
           lfe_aspect_address_list = None \<rparr>))])"
proof -
  have cand: "query_candidates E st h e None = fetch_candidates E s e"
    using assms(2) by (simp add: query_candidates_def without_requester_def store_agents_holding_def
        store_agents_that_should_hold_def fetch_candidates_def)
  have "fetch_candidates E s e \<noteq> {||}" using assms(3) by (auto simp: fetch_candidates_def)
  moreover let ?xs = "sim_shuffle E (sim_order E (fetch_candidates E s e))"
  have xs: "set ?xs = fset (fetch_candidates E s e)" by (simp add: lists_setsD [OF assms(1)])
  ultimately obtain q qs where q: "?xs = q # qs" by (cases ?xs) (auto simp: bot_fset.rep_eq fset_eq_iff)
  moreover have "get_agents_for_query E st h e None = take 3 ?xs"
    using \<open>fetch_candidates E s e \<noteq> {||}\<close> by (simp add: get_agents_for_query_def cand)
  ultimately have "fetch_request E st h e = send_joined st h q (Lib3hToClientMessage (L2C_HandleFetchEntry
         \<lparr> lfe_space_address = h, lfe_provider_agent_id = q, lfe_request_id = '''', lfe_entry_address = e,
           lfe_aspect_address_list = None \<rparr>))"
    by (simp add: fetch_request_def)
  moreover have "q |\<in>| fetch_candidates E s e" using xs q by auto
  ultimately show ?thesis by (intro exI [of _ q]) (simp add: send_joined_def)
qed

text \<open>
  C22.  A round of gossip for an agent considers the entries of which the agent lacks an aspect and that were not asked
  for in the last second, each of them once and no other.  For each it picks an agent that holds the entry, or one that
  should if no agent does, and sends this agent one request for the whole entry if it has a connection, and nothing if it
  has none.  Afterwards the entries of the round count as asked for, in either case.
\<close>

theorem gossip_round_exact:
  assumes "lists_sets E" and "fmlookup (spaces st) h = Some s"
  shows "\<exists>es q. distinct es \<and>
    (\<forall>e. e \<in> set es \<longleftrightarrow> (\<exists>x. a |\<in>| store_agents_that_need_aspect E st h e x) \<and> \<not> recently_fetched (sim_clock E) f e) \<and>
    (\<forall>e\<in>set es. q e |\<in>| (if get_agents_holding_entry E s e = {||} then get_agents_that_should_hold_entry E s e
                          else get_agents_holding_entry E s e)) \<and>
    fst (resync_agent E st h a f) = concat (map (\<lambda>e. case lookup_joined st h (q e) of
        None \<Rightarrow> []
      | Some u \<Rightarrow> [SendOut (q e) u (Lib3hToClientMessage (L2C_HandleFetchEntry
          \<lparr> lfe_space_address = h, lfe_provider_agent_id = q e, lfe_request_id = '''', lfe_entry_address = e,
            lfe_aspect_address_list = None \<rparr>))]) es) \<and>
    (\<forall>e. recently_fetched (sim_clock E) (snd (resync_agent E st h a f)) e \<longleftrightarrow> recently_fetched (sim_clock E) f e \<or> e \<in> set es)"
proof -
  define m where "m = get_gossip_aspects_needed_for_agent E s a"
  let ?o = "sim_order E (fmdom m)"
  let ?es = "filter (\<lambda>e. fmlookup m e \<noteq> Some {||} \<and> \<not> recently_fetched (sim_clock E) f e) ?o"
  have o: "distinct ?o" "set ?o = fset (fmdom m)" by (simp_all add: lists_setsD [OF assms(1)])
  have r: "resync_agent E st h a f = fetch_entries E st h m ?o f"
    using assms(2) by (simp add: resync_agent_def fetch_entry_data_def store_gossip_aspects_needed_def m_def)
  have need: "(\<exists>x. a |\<in>| store_agents_that_need_aspect E st h e x) \<longleftrightarrow> (\<exists>xs. fmlookup m e = Some xs \<and> xs \<noteq> {||})" for e
    using assms(2) by (auto simp: m_def store_agents_that_need_aspect_def need_aspect_iff gossip_needed_lookup fset_eq_iff)
  have ex: "fst (fetch_entries E st h m ?o f) = concat (map (fetch_request E st h) ?es)"
    "recently_fetched (sim_clock E) (snd (fetch_entries E st h m ?o f)) e \<longleftrightarrow>
      recently_fetched (sim_clock E) f e \<or> e \<in> set ?o \<and> fmlookup m e \<noteq> Some {||}" for e
    using fetch_entries_exact [OF o(1), of m E st h f] o(2) by (auto simp: fmlookup_dom_iff)
  have mem: "e \<in> set ?es \<longleftrightarrow> (\<exists>x. a |\<in>| store_agents_that_need_aspect E st h e x) \<and> \<not> recently_fetched (sim_clock E) f e" for e
    by (auto simp: need o(2) fmlookup_dom_iff)
  have should: "a |\<in>| get_agents_that_should_hold_entry E s e" if "e \<in> set ?es" for e
    using that assms(2) unfolding mem
    by (auto simp: store_agents_that_need_aspect_def get_agents_that_need_aspect_def split: option.splits)
  have "\<forall>e\<in>set ?es. \<exists>q. q |\<in>| fetch_candidates E s e \<and> fetch_request E st h e = (case lookup_joined st h q of
        None \<Rightarrow> []
      | Some u \<Rightarrow> [SendOut q u (Lib3hToClientMessage (L2C_HandleFetchEntry
          \<lparr> lfe_space_address = h, lfe_provider_agent_id = q, lfe_request_id = '''', lfe_entry_address = e,
            lfe_aspect_address_list = None \<rparr>))])"
    using fetch_request_sends [OF assms should] by blast
  from bchoice [OF this] obtain q where q: "\<forall>e\<in>set ?es. q e |\<in>| fetch_candidates E s e \<and>
      fetch_request E st h e = (case lookup_joined st h (q e) of
        None \<Rightarrow> []
      | Some u \<Rightarrow> [SendOut (q e) u (Lib3hToClientMessage (L2C_HandleFetchEntry
          \<lparr> lfe_space_address = h, lfe_provider_agent_id = q e, lfe_request_id = '''', lfe_entry_address = e,
            lfe_aspect_address_list = None \<rparr>))])" by blast
  have sends: "fst (resync_agent E st h a f) = concat (map (\<lambda>e. case lookup_joined st h (q e) of
        None \<Rightarrow> []
      | Some u \<Rightarrow> [SendOut (q e) u (Lib3hToClientMessage (L2C_HandleFetchEntry
          \<lparr> lfe_space_address = h, lfe_provider_agent_id = q e, lfe_request_id = '''', lfe_entry_address = e,
            lfe_aspect_address_list = None \<rparr>))]) ?es)"
    unfolding r ex(1) using q by (intro arg_cong [of _ _ concat] map_cong) auto
  have recent: "recently_fetched (sim_clock E) (snd (resync_agent E st h a f)) e \<longleftrightarrow> recently_fetched (sim_clock E) f e \<or> e \<in> set ?es" for e
    using ex(2) [of e] by (auto simp: r)
  show ?thesis
    using o(1) mem q sends recent by (intro exI [of _ ?es] exI [of _ q]) (simp add: fetch_candidates_def)
qed

text \<open>The store of the example with a second agent, which holds what the first lacks.\<close>

definition gossip_space :: Space where
  "gossip_space = space_example\<lparr> all_aspects := {|''x''|},
     connections := fmupd ''b'' \<lparr> con_agent_loc = 0, con_uri = ''v'', con_next_gossip_check = 0 \<rparr> (connections space_example),
     entry_to_all_aspects := fmupd ''e'' \<lparr> ei_entry_loc = 0, ei_aspects = fmupd ''x'' {|''b''|} fmempty \<rparr> fmempty \<rparr>"

definition gossip_example :: Store where
  "gossip_example = put_space ''s'' store_example gossip_space"

theorem gossip_round_exact_witness:
  "SendOut ''b'' ''v'' (Lib3hToClientMessage (L2C_HandleFetchEntry
      \<lparr> lfe_space_address = ''s'', lfe_provider_agent_id = ''b'', lfe_request_id = '''', lfe_entry_address = ''e'',
        lfe_aspect_address_list = None \<rparr>)) \<in> set (fst (resync_agent sim_example gossip_example ''s'' ''a'' fmempty))"
proof -
  have s: "fmlookup (spaces gossip_example) ''s'' = Some gossip_space" by (simp add: gossip_example_def put_space_def)
  have joined: "lookup_joined gossip_example ''s'' ''b'' = Some ''v''" by (simp add: lookup_joined_def s gossip_space_def)
  have b: "get_agents_holding_entry sim_example gossip_space ''e'' = {|''b''|}"
    by (simp add: get_agents_holding_entry_def gossip_space_def sim_example_def map_filter_simps)
  have "''a'' |\<in>| store_agents_that_need_aspect sim_example gossip_example ''s'' ''e'' ''x''"
    by (simp add: store_agents_that_need_aspect_def s get_agents_that_need_aspect_def gossip_space_def
        get_agents_that_should_hold_entry_def store_example_simps)
  moreover have "\<not> recently_fetched (sim_clock sim_example) fmempty ''e''" by (simp add: recently_fetched_def)
  ultimately have mem: "(\<exists>x. ''a'' |\<in>| store_agents_that_need_aspect sim_example gossip_example ''s'' ''e'' x) \<and>
      \<not> recently_fetched (sim_clock sim_example) fmempty ''e''" by blast
  from gossip_round_exact [OF sim_example_lists s, of "''a''" fmempty] show ?thesis
  proof (elim exE conjE)
    fix es q
    assume es: "\<forall>e. e \<in> set es \<longleftrightarrow> (\<exists>x. ''a'' |\<in>| store_agents_that_need_aspect sim_example gossip_example ''s'' e x) \<and>
        \<not> recently_fetched (sim_clock sim_example) fmempty e"
      and q: "\<forall>e\<in>set es. q e |\<in>| (if get_agents_holding_entry sim_example gossip_space e = {||}
        then get_agents_that_should_hold_entry sim_example gossip_space e
        else get_agents_holding_entry sim_example gossip_space e)"
      and r: "fst (resync_agent sim_example gossip_example ''s'' ''a'' fmempty) =
        concat (map (\<lambda>e. case lookup_joined gossip_example ''s'' (q e) of
          None \<Rightarrow> []
        | Some u \<Rightarrow> [SendOut (q e) u (Lib3hToClientMessage (L2C_HandleFetchEntry
            \<lparr> lfe_space_address = ''s'', lfe_provider_agent_id = q e, lfe_request_id = '''', lfe_entry_address = e,
              lfe_aspect_address_list = None \<rparr>))]) es)"
    have e: "''e'' \<in> set es" using es mem by blast
    have "q ''e'' = ''b''" using bspec [OF q e] by (simp add: b)
    then show ?thesis unfolding r set_concat set_map using e joined by (intro UN_I [OF imageI [OF e]]) simp
  qed
qed

end
