(* ===== verification/Sim2h_Worker.thy ===== *)
theory Sim2h_Worker
  imports Sim2h "HOL-Library.Sublist"
begin

text \<open>
  \<open>crates/net/src/sim2h_worker.rs\<close>: the side of a node that speaks with the switchboard.  It keeps the messages for
  the switchboard in a buffer until they are acknowledged, connects again with growing delays, collects what can be
  sent together, and answers the core itself where it can.  The socket, the serialised forms, signing and the clock are
  parameters; spans and metrics are left out.
\<close>

section \<open>Messages of the core\<close>

record Lib3hGenericResultData =
  gr_request_id :: string
  gr_space_address :: SpaceHash
  gr_to_agent_id :: AgentPubKey
  gr_result_info :: Opaque

datatype Lib3hClientMessage =
    LCP_SuccessResult Lib3hGenericResultData
  | LCP_Connect string
  | LCP_JoinSpace Lib3hSpaceData
  | LCP_LeaveSpace Lib3hSpaceData
  | LCP_SendDirectMessage Lib3hDirectMessageData
  | LCP_HandleSendDirectMessageResult Lib3hDirectMessageData
  | LCP_FetchEntry Lib3hFetchEntryData
  | LCP_HandleFetchEntryResult Lib3hFetchEntryResultData
  | LCP_PublishEntry Lib3hProvidedEntryData
  | LCP_QueryEntry Lib3hQueryEntryData
  | LCP_HandleQueryEntryResult Lib3hQueryEntryResultData
  | LCP_HandleGetAuthoringEntryListResult Lib3hEntryListData
  | LCP_HandleGetGossipingEntryListResult Lib3hEntryListData
  | LCP_Shutdown

datatype Lib3hServerMessage =
    LSP_FailureResult Lib3hGenericResultData
  | LSP_HandleStoreEntryAspect Lib3hStoreEntryAspectData
  | LSP_HandleFetchEntry Lib3hFetchEntryData
  | LSP_HandleQueryEntry Lib3hQueryEntryData
  | LSP_QueryEntryResult Lib3hQueryEntryResultData
  | LSP_Other string

section \<open>The worker\<close>

definition INITIAL_CONNECTION_TIMEOUT_MS :: u64 where
  "INITIAL_CONNECTION_TIMEOUT_MS = 2000"

definition MAX_CONNECTION_TIMEOUT_MS :: u64 where
  "MAX_CONNECTION_TIMEOUT_MS = 60000"

definition SIM2H_WORKER_INTERNAL_REQUEST_ID :: string where
  "SIM2H_WORKER_INTERNAL_REQUEST_ID = ''SIM2H_WORKER''"

definition RESEND_WIRE_MESSAGE_MS :: int where
  "RESEND_WIRE_MESSAGE_MS = 10000"

definition BATCHING_INTERVAL_MS :: int where
  "BATCHING_INTERVAL_MS = 1000"

text \<open>Reading gives no frame where the socket would block.\<close>

record 'c worker_ops =
  wo_connect :: "Lib3hUri \<Rightarrow> u64 \<Rightarrow> 'c option"
  wo_check_ready :: "'c \<Rightarrow> (bool, string) result \<times> 'c"
  wo_write :: "'c \<Rightarrow> Opaque \<Rightarrow> (unit, string) result \<times> 'c"
  wo_read :: "'c \<Rightarrow> (WsFrame option, string) result \<times> 'c"
  wo_sign :: "string \<Rightarrow> (string, string) result"
  wo_print :: "WireMessage \<Rightarrow> Opaque"
  wo_print_signed :: "SignedWireMessage \<Rightarrow> Opaque"
  wo_read_wire :: "Opaque \<Rightarrow> (WireMessage, string) result"
  wo_hash :: "Opaque \<Rightarrow> u64"
  wo_from_client :: "Lib3hToClient \<Rightarrow> Lib3hServerMessage"
  wo_from_response :: "ClientToLib3hResponse \<Rightarrow> Lib3hServerMessage"
  wo_order :: "string fset \<Rightarrow> string list"
  wo_now :: int

record BufferedMessage =
  bm_wire_message :: WireMessage
  bm_hash :: u64
  bm_last_sent :: "int option"

definition buffered :: "WireMessage \<Rightarrow> BufferedMessage" where
  "buffered m = \<lparr> bm_wire_message = m, bm_hash = 0, bm_last_sent = None \<rparr>"

record 'c Sim2hWorker =
  wk_connection :: "'c option"
  wk_inbox :: "Lib3hClientMessage list"
  wk_to_core :: "Lib3hServerMessage list"
  wk_server_url :: Lib3hUri
  wk_space_data :: "Lib3hSpaceData option"
  wk_agent_id :: AgentPubKey
  time_of_last_connection_attempt :: int
  connection_timeout_backoff :: u64
  reconnect_interval :: u64
  time_of_last_batching :: int
  outgoing_fetch_entry_results :: "Lib3hToClientResponse list"
  outgoing_fat_acks :: AspectMap
  outgoing_message_buffer :: "BufferedMessage list"
  initial_authoring_list :: "Lib3hEntryListData option"
  initial_gossiping_list :: "Lib3hEntryListData option"
  has_self_stored_authored_aspects :: bool
  is_full_sync_DHT :: bool

definition elapsed_ms_below :: "int \<Rightarrow> int \<Rightarrow> int \<Rightarrow> bool" where
  "elapsed_ms_below now t ms \<longleftrightarrow> now - t < ms * 10 ^ 6"

definition inner_set_backoff :: "u64 \<Rightarrow> 'c Sim2hWorker \<Rightarrow> 'c Sim2hWorker" where
  "inner_set_backoff b w = w\<lparr> connection_timeout_backoff := b, reconnect_interval := b \<rparr>"

text \<open>
  The doubling wraps at 64 bits, as it does in a release build; a debug build panics there instead, which takes more
  than fifty failed attempts in a row.
\<close>

definition backoff :: "'c Sim2hWorker \<Rightarrow> 'c Sim2hWorker" where
  "backoff w =
     (let new_backoff = max MAX_CONNECTION_TIMEOUT_MS (connection_timeout_backoff w * 2)
      in if connection_timeout_backoff w \<noteq> new_backoff
         then inner_set_backoff (connection_timeout_backoff w * 2) w else w)"

definition reset_backoff :: "'c Sim2hWorker \<Rightarrow> 'c Sim2hWorker" where
  "reset_backoff w =
     (if connection_timeout_backoff w > INITIAL_CONNECTION_TIMEOUT_MS
      then inner_set_backoff INITIAL_CONNECTION_TIMEOUT_MS w else w)"

definition connection_ready :: "'c worker_ops \<Rightarrow> 'c Sim2hWorker \<Rightarrow> bool \<times> 'c Sim2hWorker" where
  "connection_ready P w =
     (case wk_connection w of
        Some c \<Rightarrow>
          (case wo_check_ready P c of
             (Inr ready, c') \<Rightarrow> (ready, w\<lparr> wk_connection := Some c' \<rparr>)
           | (Inl e, c') \<Rightarrow> (False, w\<lparr> wk_connection := None \<rparr>))
      | None \<Rightarrow> (False, w))"

fun stays_on_reconnect :: "WireMessage \<Rightarrow> bool" where
  "stays_on_reconnect (ClientToLib3hResponseMessage (C2LR_SendDirectMessageResult _)) = False"
| "stays_on_reconnect (ClientToLib3hMessage (C2L_SendDirectMessage _)) = False"
| "stays_on_reconnect _ = True"

definition prepend_wire_message :: "WireMessage \<Rightarrow> 'c Sim2hWorker \<Rightarrow> 'c Sim2hWorker" where
  "prepend_wire_message message w =
     w\<lparr> outgoing_message_buffer := buffered message #
          filter (\<lambda>m. stays_on_reconnect (bm_wire_message m))
            (map (\<lambda>m. m\<lparr> bm_last_sent := None \<rparr>) (outgoing_message_buffer w)) \<rparr>"

definition check_reconnect :: "'c worker_ops \<Rightarrow> 'c Sim2hWorker \<Rightarrow> 'c Sim2hWorker" where
  "check_reconnect P w =
     (case connection_ready P w of
        (True, w1) \<Rightarrow> reset_backoff w1
      | (False, w1) \<Rightarrow>
          if elapsed_ms_below (wo_now P) (time_of_last_connection_attempt w1) (uint (reconnect_interval w1)) then w1
          else let w2 = (backoff w1)\<lparr> time_of_last_connection_attempt := wo_now P, wk_connection := None \<rparr>
               in case wo_connect P (wk_server_url w2) (connection_timeout_backoff w2) of
                    None \<Rightarrow> w2
                  | Some c \<Rightarrow>
                      let w3 = w2\<lparr> wk_connection := Some c \<rparr>
                      in case wk_space_data w3 of
                           None \<Rightarrow> w3
                         | Some space_data \<Rightarrow>
                             prepend_wire_message (ClientToLib3hMessage (C2L_JoinSpace space_data)) w3)"

definition check_batched_messages :: "'c worker_ops \<Rightarrow> 'c Sim2hWorker \<Rightarrow> 'c Sim2hWorker" where
  "check_batched_messages P w =
     (if elapsed_ms_below (wo_now P) (time_of_last_batching w) BATCHING_INTERVAL_MS then w
      else let acks = (if aspect_map_empty (outgoing_fat_acks w) then None
                       else map_option (\<lambda>d. L2CR_HandleGetGossipingEntryListResult
                              \<lparr> ld_space_address = sd_space_address d, ld_provider_agent_id = sd_agent_id d, ld_request_id = '''',
                                ld_address_map = map (\<lambda>e. (e, wo_order P (aspects_of (outgoing_fat_acks w) e)))
                                  (wo_order P (fmdom (outgoing_fat_acks w))) \<rparr>) (wk_space_data w));
               msgs = (case acks of Some m \<Rightarrow> [m] | None \<Rightarrow> []) @ outgoing_fetch_entry_results w;
               w1 = w\<lparr> time_of_last_batching := wo_now P,
                       outgoing_fat_acks := (if acks = None then outgoing_fat_acks w else AspectMap_new),
                       outgoing_fetch_entry_results := [] \<rparr>
           in if msgs = [] then w1
              else w1\<lparr> outgoing_message_buffer := outgoing_message_buffer w1 @ [buffered (MultiSendResponse msgs)] \<rparr>)"

text \<open>A check that finds the connection ready leaves one, so that the case without one, below, is not reached.\<close>

definition try_send_from_outgoing_buffer :: "'c worker_ops \<Rightarrow> 'c Sim2hWorker \<Rightarrow> bool \<times> 'c Sim2hWorker" where
  "try_send_from_outgoing_buffer P w =
     (case outgoing_message_buffer w of
        [] \<Rightarrow> (False, w)
      | m # rest \<Rightarrow>
          (case connection_ready P w of
             (False, w1) \<Rightarrow> (False, w1)
           | (True, w1) \<Rightarrow>
               if (case bm_last_sent m of
                     Some t \<Rightarrow> elapsed_ms_below (wo_now P) t RESEND_WIRE_MESSAGE_MS | None \<Rightarrow> False)
               then (False, w1)
               else let payload = wo_print P (bm_wire_message m)
                    in case (if is_join (bm_wire_message m) then wo_sign P payload else Ok ''null'') of
                         Inl e \<Rightarrow> (False, w1)
                       | Inr signature \<Rightarrow>
                           (case wk_connection w1 of
                              None \<Rightarrow> (False, w1)
                            | Some c \<Rightarrow>
                                (case wo_write P c (wo_print_signed P
                                        \<lparr> sw_source = wk_agent_id w1, sw_signature = signature, sw_payload = payload \<rparr>) of
                                   (Inl e, c') \<Rightarrow> (True, check_reconnect P (w1\<lparr> wk_connection := None \<rparr>))
                                 | (Inr _, c') \<Rightarrow>
                                     (True, w1\<lparr> wk_connection := Some c',
                                        outgoing_message_buffer := m\<lparr> bm_hash := wo_hash P payload,
                                          bm_last_sent := Some (wo_now P) \<rparr> # rest \<rparr>)))))"

definition send_wire_message :: "WireMessage \<Rightarrow> 'c Sim2hWorker \<Rightarrow> 'c Sim2hWorker" where
  "send_wire_message message w =
     (let queue = w\<lparr> outgoing_message_buffer := outgoing_message_buffer w @ [buffered message] \<rparr>
      in case message of
           Lib3hToClientResponseMessage (L2CR_HandleFetchEntryResult d) \<Rightarrow>
             w\<lparr> outgoing_fetch_entry_results := outgoing_fetch_entry_results w @ [L2CR_HandleFetchEntryResult d] \<rparr>
         | Lib3hToClientResponseMessage (L2CR_HandleGetGossipingEntryListResult entry_data) \<Rightarrow>
             (if ld_request_id entry_data = ''''
              then w\<lparr> outgoing_fat_acks := aspect_merge (outgoing_fat_acks w) (from_vec_map (ld_address_map entry_data)) \<rparr>
              else queue)
         | _ \<Rightarrow> queue)"

definition push_core :: "Lib3hServerMessage list \<Rightarrow> 'c Sim2hWorker \<Rightarrow> 'c Sim2hWorker" where
  "push_core ms w = w\<lparr> wk_to_core := wk_to_core w @ ms \<rparr>"

definition is_autonomous_node :: "'c worker_ops \<Rightarrow> 'c Sim2hWorker \<Rightarrow> bool \<times> 'c Sim2hWorker" where
  "is_autonomous_node P w =
     (if is_full_sync_DHT w then (True, w)
      else case connection_ready P w of (ready, w1) \<Rightarrow> (\<not> ready, w1))"

definition self_fetches :: "Lib3hEntryListData \<Rightarrow> Lib3hEntryListData \<Rightarrow> Lib3hServerMessage list" where
  "self_fetches authoring_list gossiping_list =
     concat (map (\<lambda>(e, authored).
         if (case map_of (ld_address_map gossiping_list) e of
               Some gossiping_aspects \<Rightarrow> fold remove1 gossiping_aspects authored = []
             | None \<Rightarrow> False)
         then []
         else [LSP_HandleFetchEntry
                 \<lparr> lfe_space_address = ld_space_address authoring_list, lfe_provider_agent_id = ld_provider_agent_id authoring_list,
                   lfe_request_id = SIM2H_WORKER_INTERNAL_REQUEST_ID, lfe_entry_address = e,
                   lfe_aspect_address_list = Some authored \<rparr>])
       (ld_address_map authoring_list))"

definition self_store_authored_aspects :: "'c Sim2hWorker \<Rightarrow> 'c Sim2hWorker" where
  "self_store_authored_aspects w =
     (case (has_self_stored_authored_aspects w, initial_gossiping_list w, initial_authoring_list w) of
        (False, Some gossiping_list, Some authoring_list) \<Rightarrow>
          push_core (self_fetches authoring_list gossiping_list)
            (w\<lparr> initial_authoring_list := None, initial_gossiping_list := None, has_self_stored_authored_aspects := True \<rparr>)
      | _ \<Rightarrow> w)"

definition store_back :: "SpaceHash \<Rightarrow> AgentPubKey \<Rightarrow> Lib3hEntryData \<Rightarrow> Lib3hServerMessage list" where
  "store_back space_address provider entry =
     map (\<lambda>aspect. LSP_HandleStoreEntryAspect
         \<lparr> sea_request_id = '''', sea_space_address = space_address, sea_provider_agent_id = provider,
           sea_entry_address = led_entry_address entry, sea_entry_aspect = aspect \<rparr>)
       (led_aspect_list entry)"

definition handle_client_message :: "'c worker_ops \<Rightarrow> Lib3hClientMessage \<Rightarrow> 'c Sim2hWorker \<Rightarrow> 'c Sim2hWorker outcome" where
  "handle_client_message P data w =
     (case data of
        LCP_SuccessResult d \<Rightarrow> Returns (push_core [LSP_FailureResult d] w)
      | LCP_Connect request_id \<Rightarrow>
          Returns (push_core [LSP_FailureResult
            \<lparr> gr_request_id = request_id, gr_space_address = '''', gr_to_agent_id = '''', gr_result_info = '''' \<rparr>] w)
      | LCP_JoinSpace d \<Rightarrow>
          Returns (send_wire_message (ClientToLib3hMessage (C2L_JoinSpace d)) (w\<lparr> wk_space_data := Some d \<rparr>))
      | LCP_LeaveSpace d \<Rightarrow> Returns (send_wire_message (ClientToLib3hMessage (C2L_LeaveSpace d)) w)
      | LCP_SendDirectMessage d \<Rightarrow> Returns (send_wire_message (ClientToLib3hMessage (C2L_SendDirectMessage d)) w)
      | LCP_HandleSendDirectMessageResult d \<Rightarrow>
          Returns (send_wire_message (Lib3hToClientResponseMessage (L2CR_HandleSendDirectMessageResult d)) w)
      | LCP_FetchEntry d \<Rightarrow> Panics ''FetchEntry send by core - this should never happen''
      | LCP_HandleFetchEntryResult d \<Rightarrow>
          Returns (if fr_request_id d = SIM2H_WORKER_INTERNAL_REQUEST_ID
                   then push_core (store_back (fr_space_address d) (fr_provider_agent_id d) (fr_entry d)) w
                   else send_wire_message (Lib3hToClientResponseMessage (L2CR_HandleFetchEntryResult d)) w)
      | LCP_PublishEntry d \<Rightarrow>
          Returns (send_wire_message (ClientToLib3hMessage (C2L_PublishEntry d))
            (push_core (store_back (pe_space_address d) (pe_provider_agent_id d) (pe_entry d)) w))
      | LCP_QueryEntry d \<Rightarrow>
          (case is_autonomous_node P w of (autonomous, w1) \<Rightarrow>
             Returns (if autonomous then push_core [LSP_HandleQueryEntry d] w1
                      else send_wire_message (ClientToLib3hMessage (C2L_QueryEntry d)) w1))
      | LCP_HandleQueryEntryResult d \<Rightarrow>
          (case is_autonomous_node P w of (autonomous, w1) \<Rightarrow>
             Returns (if autonomous then push_core [LSP_QueryEntryResult d] w1
                      else send_wire_message (Lib3hToClientResponseMessage (L2CR_HandleQueryEntryResult d)) w1))
      | LCP_HandleGetAuthoringEntryListResult d \<Rightarrow>
          (case is_autonomous_node P (w\<lparr> initial_authoring_list := Some d \<rparr>) of (autonomous, w1) \<Rightarrow>
             Returns (send_wire_message (Lib3hToClientResponseMessage (L2CR_HandleGetAuthoringEntryListResult d))
               (if autonomous then self_store_authored_aspects w1 else w1)))
      | LCP_HandleGetGossipingEntryListResult d \<Rightarrow>
          (case is_autonomous_node P (w\<lparr> initial_gossiping_list := Some d \<rparr>) of (autonomous, w1) \<Rightarrow>
             Returns (send_wire_message (Lib3hToClientResponseMessage (L2CR_HandleGetGossipingEntryListResult d))
               (if autonomous then self_store_authored_aspects w1 else w1)))
      | LCP_Shutdown \<Rightarrow> Returns w)"

definition handle_ack :: "u64 \<Rightarrow> 'c Sim2hWorker \<Rightarrow> 'c Sim2hWorker" where
  "handle_ack h w =
     (case outgoing_message_buffer w of
        m # rest \<Rightarrow> if bm_hash m = h then w\<lparr> outgoing_message_buffer := rest \<rparr> else w
      | [] \<Rightarrow> w)"

definition handle_server_message :: "'c worker_ops \<Rightarrow> WireMessage \<Rightarrow> 'c Sim2hWorker \<Rightarrow> 'c Sim2hWorker outcome" where
  "handle_server_message P message w =
     (case message of
        Ping \<Rightarrow> Returns (send_wire_message Pong w)
      | Lib3hToClientMessage m \<Rightarrow> Returns (push_core [wo_from_client P m] w)
      | MultiSend messages \<Rightarrow> Returns (push_core (map (wo_from_client P) messages) w)
      | ClientToLib3hResponseMessage m \<Rightarrow> Returns (push_core [wo_from_response P m] w)
      | WireErr MessageWhileInLimbo \<Rightarrow>
          Returns (case wk_space_data w of
             Some space_data \<Rightarrow> send_wire_message (ClientToLib3hMessage (C2L_JoinSpace space_data)) w
           | None \<Rightarrow> w)
      | HelloResponse response \<Rightarrow>
          if WIRE_VERSION \<noteq> hd_version response then Panics ''WIRE_VERSION does not match - cannot continue''
          else Returns (w\<lparr> is_full_sync_DHT := (hd_redundant_count response = 0) \<rparr>)
      | Ack h \<Rightarrow> Returns (handle_ack h w)
      | _ \<Rightarrow> Returns w)"

fun handle_client_messages :: "'c worker_ops \<Rightarrow> Lib3hClientMessage list \<Rightarrow> 'c Sim2hWorker \<Rightarrow> 'c Sim2hWorker outcome" where
  "handle_client_messages P [] w = Returns w"
| "handle_client_messages P (m # ms) w = outcome_bind (handle_client_message P m w) (handle_client_messages P ms)"

definition read_server :: "'c worker_ops \<Rightarrow> 'c Sim2hWorker \<Rightarrow> (bool \<times> 'c Sim2hWorker) outcome" where
  "read_server P w =
     outcome_bind (expect ''called `Option::unwrap()` on a `None` value'' (wk_connection w)) (\<lambda>c.
       case wo_read P c of
         (Inr (Some (Binary payload)), c') \<Rightarrow>
           (case wo_read_wire P payload of
              Inr wire_message \<Rightarrow>
                outcome_bind (handle_server_message P wire_message (w\<lparr> wk_connection := Some c' \<rparr>)) (\<lambda>w'. Returns (True, w'))
            | Inl _ \<Rightarrow> Returns (True, w\<lparr> wk_connection := Some c' \<rparr>))
       | (Inr (Some _), c') \<Rightarrow> Returns (True, w\<lparr> wk_connection := Some c' \<rparr>)
       | (Inr None, c') \<Rightarrow> Returns (False, w\<lparr> wk_connection := Some c' \<rparr>)
       | (Inl e, c') \<Rightarrow> Returns (False, check_reconnect P (w\<lparr> wk_connection := None \<rparr>)))"

text \<open>
  A tick gives the messages that it hands to the handler of the core.  The clock is read once for the whole tick, where
  the code reads it at every comparison; ticks are short against the intervals that are compared.
\<close>

definition worker_tick ::
  "'c worker_ops \<Rightarrow> 'c Sim2hWorker \<Rightarrow> (bool \<times> Lib3hServerMessage list \<times> 'c Sim2hWorker) outcome" where
  "worker_tick P w =
     outcome_bind
       (case connection_ready P w of
          (True, w1) \<Rightarrow>
            (case try_send_from_outgoing_buffer P (check_batched_messages P (reset_backoff w1)) of
               (did_send, w2) \<Rightarrow> outcome_bind (read_server P w2) (\<lambda>(did_read, w3). Returns (did_send \<or> did_read, w3)))
        | (False, w1) \<Rightarrow> Returns (False, check_reconnect P w1)) (\<lambda>(did, w3).
     outcome_bind (handle_client_messages P (wk_inbox w3) (w3\<lparr> wk_inbox := [] \<rparr>)) (\<lambda>w4.
       Returns (did \<or> wk_inbox w3 \<noteq> [] \<or> wk_to_core w4 \<noteq> [], wk_to_core w4, w4\<lparr> wk_to_core := [] \<rparr>)))"

definition worker_receive :: "Lib3hClientMessage \<Rightarrow> 'c Sim2hWorker \<Rightarrow> 'c Sim2hWorker" where
  "worker_receive data w = w\<lparr> wk_inbox := wk_inbox w @ [data] \<rparr>"

definition Sim2hWorker_new :: "'c worker_ops \<Rightarrow> Lib3hUri \<Rightarrow> AgentPubKey \<Rightarrow> 'c Sim2hWorker" where
  "Sim2hWorker_new P url agent =
     check_reconnect P (send_wire_message (Hello WIRE_VERSION)
       \<lparr> wk_connection = None, wk_inbox = [], wk_to_core = [], wk_server_url = url, wk_space_data = None, wk_agent_id = agent,
         time_of_last_connection_attempt = wo_now P - uint INITIAL_CONNECTION_TIMEOUT_MS * 10 ^ 6,
         connection_timeout_backoff = INITIAL_CONNECTION_TIMEOUT_MS, reconnect_interval = INITIAL_CONNECTION_TIMEOUT_MS,
         time_of_last_batching = wo_now P, outgoing_fetch_entry_results = [], outgoing_fat_acks = AspectMap_new,
         outgoing_message_buffer = [], initial_authoring_list = None, initial_gossiping_list = None,
         has_self_stored_authored_aspects = False, is_full_sync_DHT = False \<rparr>)"

section \<open>What stays in the buffer\<close>

text \<open>
  The messages that are not dropped on a new connection, in their order; and that the hash of a buffered message is that
  of its payload, or still 0 when the message was not written yet.
\<close>

definition lasting :: "'c Sim2hWorker \<Rightarrow> WireMessage list" where
  "lasting w = filter stays_on_reconnect (map bm_wire_message (outgoing_message_buffer w))"

definition hashes_ok :: "'c worker_ops \<Rightarrow> 'c Sim2hWorker \<Rightarrow> bool" where
  "hashes_ok P w \<longleftrightarrow> (\<forall>m\<in>set (outgoing_message_buffer w).
     bm_hash m = wo_hash P (wo_print P (bm_wire_message m)) \<or> bm_hash m = 0 \<and> bm_last_sent m = None)"

definition buffer_grows :: "'c worker_ops \<Rightarrow> 'c Sim2hWorker \<Rightarrow> 'c Sim2hWorker \<Rightarrow> bool" where
  "buffer_grows P w w' \<longleftrightarrow> subseq (lasting w) (lasting w') \<and> (hashes_ok P w \<longrightarrow> hashes_ok P w')"

lemma buffer_grows_same: "outgoing_message_buffer w' = outgoing_message_buffer w \<Longrightarrow> buffer_grows P w w'"
  by (simp add: buffer_grows_def lasting_def hashes_ok_def)

lemma buffer_grows_trans: "buffer_grows P w1 w2 \<Longrightarrow> buffer_grows P w2 w3 \<Longrightarrow> buffer_grows P w1 w3"
  unfolding buffer_grows_def using subseq_order.order_trans by blast

lemma buffer_grows_hashes: "buffer_grows P w w' \<Longrightarrow> hashes_ok P w \<Longrightarrow> hashes_ok P w'"
  by (simp add: buffer_grows_def)

lemma buffer_grows_push:
  "outgoing_message_buffer w' = outgoing_message_buffer w @ [buffered m] \<Longrightarrow> buffer_grows P w w'"
  by (auto simp: buffer_grows_def lasting_def hashes_ok_def buffered_def)

lemma buffer_grows_prepend: "buffer_grows P w (prepend_wire_message m w)"
  by (auto simp: buffer_grows_def lasting_def hashes_ok_def prepend_wire_message_def buffered_def filter_map comp_def)

lemma backoff_buffer [simp]:
  "outgoing_message_buffer (inner_set_backoff b w) = outgoing_message_buffer w"
  "outgoing_message_buffer (backoff w) = outgoing_message_buffer w"
  "outgoing_message_buffer (reset_backoff w) = outgoing_message_buffer w"
  by (simp_all add: inner_set_backoff_def backoff_def reset_backoff_def Let_def)

lemma connection_ready_buffer:
  "connection_ready P w = (b, w') \<Longrightarrow> outgoing_message_buffer w' = outgoing_message_buffer w"
  by (auto simp: connection_ready_def split: option.splits prod.splits sum.splits)

lemma connection_ready_True: "connection_ready P w = (True, w') \<Longrightarrow> wk_connection w' \<noteq> None"
  by (auto simp: connection_ready_def split: option.splits prod.splits sum.splits)

lemma check_reconnect_grows: "buffer_grows P w (check_reconnect P w)"
proof -
  obtain b w1 where c: "connection_ready P w = (b, w1)" by fastforce
  have same: "outgoing_message_buffer w1 = outgoing_message_buffer w" using c by (rule connection_ready_buffer)
  define w2 where "w2 = (backoff w1)\<lparr>time_of_last_connection_attempt := wo_now P, wk_connection := None\<rparr>"
  have w2: "buffer_grows P w w2" by (rule buffer_grows_same) (simp add: w2_def same)
  have w3: "buffer_grows P w (w2\<lparr>wk_connection := Some x\<rparr>)" for x by (rule buffer_grows_same) (simp add: w2_def same)
  have w4: "buffer_grows P w (prepend_wire_message m (w2\<lparr>wk_connection := Some x\<rparr>))" for m x
    using w3 buffer_grows_prepend by (rule buffer_grows_trans)
  have w1: "buffer_grows P w w1" "buffer_grows P w (reset_backoff w1)"
    by (rule buffer_grows_same, simp add: same)+
  show ?thesis
    using w1 w2 w3 w4 by (cases b) (auto simp: check_reconnect_def c w2_def [symmetric] Let_def split: option.splits)
qed

lemma check_batched_grows: "buffer_grows P w (check_batched_messages P w)"
  unfolding check_batched_messages_def Let_def
  by (auto intro: buffer_grows_same buffer_grows_push [of _ _ "MultiSendResponse _"] split: option.splits)

lemma try_send_grows:
  assumes "try_send_from_outgoing_buffer P w = (b, w')"
  shows "buffer_grows P w w'"
proof (cases "outgoing_message_buffer w")
  case Nil
  then show ?thesis using assms by (auto simp: try_send_from_outgoing_buffer_def intro: buffer_grows_same)
next
  case (Cons m rest)
  obtain r w1 where c: "connection_ready P w = (r, w1)" by fastforce
  have same: "outgoing_message_buffer w1 = outgoing_message_buffer w" using c by (rule connection_ready_buffer)
  have w1: "buffer_grows P w w1" "buffer_grows P w (w1\<lparr>wk_connection := None\<rparr>)"
    by (rule buffer_grows_same, simp add: same)+
  have rec: "buffer_grows P w (check_reconnect P (w1\<lparr>wk_connection := None\<rparr>))"
    using w1(2) check_reconnect_grows by (rule buffer_grows_trans)
  have sent: "buffer_grows P w (w1\<lparr>wk_connection := x, outgoing_message_buffer :=
      m\<lparr>bm_hash := wo_hash P (wo_print P (bm_wire_message m)), bm_last_sent := t\<rparr> # rest\<rparr>)" for x t
    using Cons by (auto simp: buffer_grows_def lasting_def hashes_ok_def)
  show ?thesis
    using assms w1 rec sent
    by (cases r) (auto simp: try_send_from_outgoing_buffer_def Cons c Let_def split: if_splits option.splits sum.splits prod.splits)
qed

lemma send_wire_message_grows: "buffer_grows P w (send_wire_message m w)"
proof -
  have "buffer_grows P w (w\<lparr>outgoing_message_buffer := outgoing_message_buffer w @ [buffered m]\<rparr>)"
    by (rule buffer_grows_push) simp
  then show ?thesis
    by (auto simp: send_wire_message_def Let_def intro: buffer_grows_same
        split: WireMessage.splits Lib3hToClientResponse.splits)
qed

lemma push_core_grows [simp]: "outgoing_message_buffer (push_core ms w) = outgoing_message_buffer w"
  by (simp add: push_core_def)

lemma self_store_buffer [simp]: "outgoing_message_buffer (self_store_authored_aspects w) = outgoing_message_buffer w"
  by (auto simp: self_store_authored_aspects_def split: option.splits bool.splits)

lemma autonomous_buffer: "is_autonomous_node P w = (b, w') \<Longrightarrow> outgoing_message_buffer w' = outgoing_message_buffer w"
  by (auto simp: is_autonomous_node_def dest: connection_ready_buffer split: if_splits prod.splits)

lemma send_after_grows:
  "outgoing_message_buffer w1 = outgoing_message_buffer w \<Longrightarrow> buffer_grows P w (send_wire_message m w1)"
  using buffer_grows_same send_wire_message_grows buffer_grows_trans by blast

lemma client_message_grows:
  assumes "handle_client_message P m w = Returns w'"
  shows "buffer_grows P w w'"
  using assms
  by (cases m) (auto simp: handle_client_message_def dest!: autonomous_buffer
      intro: buffer_grows_same send_after_grows split: if_splits prod.splits)

lemma client_messages_grow: "handle_client_messages P ms w = Returns w' \<Longrightarrow> buffer_grows P w w'"
proof (induction ms arbitrary: w)
  case (Cons m ms)
  then show ?case using client_message_grows buffer_grows_trans by (fastforce simp: outcome_bind_Returns_iff)
qed (simp add: buffer_grows_same)

text \<open>The first message leaves on an acknowledgement that has its hash.\<close>

definition acknowledged :: "'c worker_ops \<Rightarrow> u64 \<Rightarrow> 'c Sim2hWorker \<Rightarrow> 'c Sim2hWorker \<Rightarrow> bool" where
  "acknowledged P h w w' \<longleftrightarrow>
     (\<exists>m rest. outgoing_message_buffer w = m # rest \<and> bm_hash m = h \<and>
        subseq (filter stays_on_reconnect (map bm_wire_message rest)) (lasting w')) \<and> (hashes_ok P w \<longrightarrow> hashes_ok P w')"

lemma server_message_grows:
  assumes "handle_server_message P m w = Returns w'"
  shows "buffer_grows P w w' \<or> (\<exists>h. m = Ack h \<and> acknowledged P h w w')"
proof (cases "\<exists>h. m = Ack h")
  case True
  then obtain h where h: "m = Ack h" by blast
  then have w': "w' = handle_ack h w" using assms by (simp add: handle_server_message_def)
  show ?thesis
    by (cases "outgoing_message_buffer w")
      (auto simp: h w' handle_ack_def acknowledged_def lasting_def hashes_ok_def intro: buffer_grows_same)
next
  case False
  then show ?thesis using assms
    by (cases m) (auto simp: handle_server_message_def intro: buffer_grows_same send_wire_message_grows
        split: WireError.splits option.splits if_splits)
qed

lemma read_server_grows:
  assumes "read_server P w = Returns (b, w')"
  shows "buffer_grows P w w' \<or>
    (\<exists>c payload c' h. wk_connection w = Some c \<and> wo_read P c = (Ok (Some (Binary payload)), c') \<and>
       wo_read_wire P payload = Ok (Ack h) \<and> acknowledged P h w w')"
proof -
  obtain c where c: "wk_connection w = Some c"
    and r: "(case wo_read P c of
         (Inr (Some (Binary payload)), c') \<Rightarrow>
           (case wo_read_wire P payload of
              Inr wire_message \<Rightarrow>
                outcome_bind (handle_server_message P wire_message (w\<lparr> wk_connection := Some c' \<rparr>)) (\<lambda>w'. Returns (True, w'))
            | Inl _ \<Rightarrow> Returns (True, w\<lparr> wk_connection := Some c' \<rparr>))
       | (Inr (Some _), c') \<Rightarrow> Returns (True, w\<lparr> wk_connection := Some c' \<rparr>)
       | (Inr None, c') \<Rightarrow> Returns (False, w\<lparr> wk_connection := Some c' \<rparr>)
       | (Inl e, c') \<Rightarrow> Returns (False, check_reconnect P (w\<lparr> wk_connection := None \<rparr>))) = Returns (b, w')"
    using assms by (auto simp: read_server_def outcome_bind_Returns_iff)
  have set_con: "buffer_grows P w (w\<lparr>wk_connection := x\<rparr>)" for x by (rule buffer_grows_same) simp
  show ?thesis
  proof (cases "\<exists>payload c' m. wo_read P c = (Ok (Some (Binary payload)), c') \<and> wo_read_wire P payload = Ok m")
    case True
    then obtain payload c' m where read: "wo_read P c = (Ok (Some (Binary payload)), c')" "wo_read_wire P payload = Ok m"
      by blast
    then have "handle_server_message P m (w\<lparr>wk_connection := Some c'\<rparr>) = Returns w'"
      using r by (auto simp: outcome_bind_Returns_iff)
    then consider "buffer_grows P (w\<lparr>wk_connection := Some c'\<rparr>) w'"
      | h where "m = Ack h" "acknowledged P h (w\<lparr>wk_connection := Some c'\<rparr>) w'"
      using server_message_grows by blast
    then show ?thesis
    proof cases
      case 1
      then show ?thesis using set_con buffer_grows_trans by blast
    next
      case 2
      then show ?thesis using c read by (auto simp: acknowledged_def hashes_ok_def)
    qed
  next
    case False
    have "buffer_grows P w (check_reconnect P (w\<lparr>wk_connection := None\<rparr>))"
      using set_con check_reconnect_grows by (rule buffer_grows_trans)
    then show ?thesis using r False set_con
      by (auto split: prod.splits sum.splits option.splits WsFrame.splits)
  qed
qed

section \<open>Properties of the worker\<close>

text \<open>
  The states of a worker: it is made, takes messages of the core, and runs ticks.  The socket and the clock may answer
  anything in each of them; printing and hashing are the same functions throughout.
\<close>

inductive worker_reaches :: "(WireMessage \<Rightarrow> Opaque) \<Rightarrow> (Opaque \<Rightarrow> u64) \<Rightarrow> 'c Sim2hWorker \<Rightarrow> bool"
  for print :: "WireMessage \<Rightarrow> Opaque" and hash :: "Opaque \<Rightarrow> u64" where
  worker_new: "wo_print P = print \<Longrightarrow> wo_hash P = hash \<Longrightarrow> worker_reaches print hash (Sim2hWorker_new P url agent)"
| worker_received: "worker_reaches print hash w \<Longrightarrow> worker_reaches print hash (worker_receive m w)"
| worker_ticked: "worker_reaches print hash w \<Longrightarrow> wo_print P = print \<Longrightarrow> wo_hash P = hash \<Longrightarrow>
    worker_tick P w = Returns (did, out, w') \<Longrightarrow> worker_reaches print hash w'"

text \<open>What the socket and the buffer are when a tick reads from the switchboard.\<close>

definition before_read :: "'c worker_ops \<Rightarrow> 'c Sim2hWorker \<Rightarrow> 'c Sim2hWorker" where
  "before_read P w = snd (try_send_from_outgoing_buffer P (check_batched_messages P (reset_backoff (snd (connection_ready P w)))))"

lemma before_read_grows: "buffer_grows P w (before_read P w)"
proof -
  obtain b w1 where c: "connection_ready P w = (b, w1)" by fastforce
  obtain ds w2 where t: "try_send_from_outgoing_buffer P (check_batched_messages P (reset_backoff w1)) = (ds, w2)" by fastforce
  have "buffer_grows P w (reset_backoff w1)" using connection_ready_buffer [OF c] by (simp add: buffer_grows_same)
  then show ?thesis
    using buffer_grows_trans [OF buffer_grows_trans [OF _ check_batched_grows] try_send_grows [OF t]] by (simp add: before_read_def c t)
qed

lemma tick_grows:
  assumes "worker_tick P w = Returns (did, out, w')"
  shows "buffer_grows P w w' \<or>
    (\<exists>c payload c' h w3. fst (connection_ready P w) \<and> wk_connection (before_read P w) = Some c \<and>
       wo_read P c = (Ok (Some (Binary payload)), c') \<and> wo_read_wire P payload = Ok (Ack h) \<and>
       acknowledged P h (before_read P w) w3 \<and> buffer_grows P w3 w')"
proof -
  obtain b w1 where c: "connection_ready P w = (b, w1)" by fastforce
  have w1: "buffer_grows P w w1" using connection_ready_buffer [OF c] by (rule buffer_grows_same)
  obtain d w3 w4 where w3: "(case b of
          True \<Rightarrow> (case try_send_from_outgoing_buffer P (check_batched_messages P (reset_backoff w1)) of
               (did_send, w2) \<Rightarrow> outcome_bind (read_server P w2) (\<lambda>(did_read, w3). Returns (did_send \<or> did_read, w3)))
        | False \<Rightarrow> Returns (False, check_reconnect P w1)) = Returns (d, w3)"
    and w4: "handle_client_messages P (wk_inbox w3) (w3\<lparr>wk_inbox := []\<rparr>) = Returns w4" and w': "w' = w4\<lparr>wk_to_core := []\<rparr>"
    using assms c by (cases b) (auto simp: worker_tick_def outcome_bind_Returns_iff)
  have "buffer_grows P w3 (w3\<lparr>wk_inbox := []\<rparr>)" "buffer_grows P w4 w'" by (rule buffer_grows_same, simp add: w')+
  then have last: "buffer_grows P w3 w'" using client_messages_grow [OF w4] buffer_grows_trans by blast
  show ?thesis
  proof (cases b)
    case False
    then have "buffer_grows P w w3" using w3 buffer_grows_trans [OF w1 check_reconnect_grows] by simp
    then show ?thesis using last buffer_grows_trans by blast
  next
    case True
    then obtain dr where r: "read_server P (before_read P w) = Returns (dr, w3)"
      using w3 by (auto simp: before_read_def c outcome_bind_Returns_iff split: prod.splits)
    have ready: "fst (connection_ready P w)" using c True by simp
    from read_server_grows [OF r] show ?thesis
    proof
      assume "buffer_grows P (before_read P w) w3"
      then have "buffer_grows P w w3" by (rule buffer_grows_trans [OF before_read_grows])
      then have "buffer_grows P w w'" using last by (rule buffer_grows_trans)
      then show ?thesis ..
    qed (use ready last in blast)
  qed
qed

lemma tick_hashes: "worker_tick P w = Returns (did, out, w') \<Longrightarrow> hashes_ok P w \<Longrightarrow> hashes_ok P w'"
  using tick_grows [of P w did out w'] before_read_grows [of P w] by (auto simp: buffer_grows_def acknowledged_def)

lemma hashes_ok_cong: "wo_print P = wo_print Q \<Longrightarrow> wo_hash P = wo_hash Q \<Longrightarrow> hashes_ok P w = hashes_ok Q w"
  by (simp add: hashes_ok_def)

lemma reached_hashes: "worker_reaches (wo_print P) (wo_hash P) w \<Longrightarrow> hashes_ok P w"
proof (induction rule: worker_reaches.induct)
  case (worker_new Q url agent)
  have "hashes_ok Q (Sim2hWorker_new Q url agent)"
    unfolding Sim2hWorker_new_def
    by (rule buffer_grows_hashes [OF check_reconnect_grows], rule buffer_grows_hashes [OF send_wire_message_grows])
       (simp add: hashes_ok_def)
  then show ?case using hashes_ok_cong worker_new by metis
next
  case (worker_received w m)
  then show ?case by (simp add: hashes_ok_def worker_receive_def)
next
  case (worker_ticked w Q did out w')
  then show ?case using tick_hashes [of Q w did out w'] hashes_ok_cong [of Q P] by simp
qed

text \<open>
  C9.  A message for the switchboard stays in the buffer until it is acknowledged.  In every state a worker reaches, a
  tick that does not panic keeps the messages that are not dropped on a new connection, in their order, save one case: the
  first message of the buffer leaves when the tick reads, from its connection, an acknowledgement with the hash of the
  payload of this message, or, if this message was not written on the connection, an acknowledgement of 0.
\<close>

theorem messages_kept_until_acknowledged:
  assumes "worker_reaches (wo_print P) (wo_hash P) w" and "worker_tick P w = Returns (did, out, w')"
  shows "subseq (lasting w) (lasting w') \<or>
    (\<exists>(m :: BufferedMessage) rest c payload c' h.
       fst (connection_ready P w) \<and> outgoing_message_buffer (before_read P w) = m # rest \<and>
       subseq (lasting w) (filter stays_on_reconnect (map bm_wire_message (m # rest))) \<and>
       subseq (filter stays_on_reconnect (map bm_wire_message rest)) (lasting w') \<and>
       wk_connection (before_read P w) = Some c \<and>
       wo_read P c = (Ok (Some (Binary payload)), c') \<and> wo_read_wire P payload = Ok (Ack h) \<and>
       (h = wo_hash P (wo_print P (bm_wire_message m)) \<or> h = 0 \<and> bm_last_sent m = None))"
proof (cases "buffer_grows P w w'")
  case True
  then show ?thesis by (simp add: buffer_grows_def)
next
  case False
  then obtain c payload c' h w3 where r: "fst (connection_ready P w)" "wk_connection (before_read P w) = Some c"
      "wo_read P c = (Ok (Some (Binary payload)), c')" "wo_read_wire P payload = Ok (Ack h)"
    and ack: "acknowledged P h (before_read P w) w3" and last: "buffer_grows P w3 w'"
    using tick_grows [OF assms(2)] by blast
  obtain m rest where m: "outgoing_message_buffer (before_read P w) = m # rest" "bm_hash m = h"
    and rest: "subseq (filter stays_on_reconnect (map bm_wire_message rest)) (lasting w3)"
    using ack by (auto simp: acknowledged_def)
  have g: "subseq (lasting w) (lasting (before_read P w))" "hashes_ok P (before_read P w)"
    using before_read_grows [of P w] reached_hashes [OF assms(1)] by (simp_all add: buffer_grows_def)
  have hash: "h = wo_hash P (wo_print P (bm_wire_message m)) \<or> h = 0 \<and> bm_last_sent m = None"
    using g(2) m by (simp add: hashes_ok_def)
  have kept: "subseq (filter stays_on_reconnect (map bm_wire_message rest)) (lasting w')"
    using rest last subseq_order.order_trans by (auto simp: buffer_grows_def)
  have before: "subseq (lasting w) (filter stays_on_reconnect (map bm_wire_message (m # rest)))"
    using g(1) m(1) by (simp add: lasting_def)
  show ?thesis by (rule disjI2, intro exI conjI) (fact r(1) m(1) before kept r(2) r(3) r(4) hash)+
qed

text \<open>
  An acknowledgement of 0 takes out the first message although it was never written, and with it the request to join
  that a new connection puts before all else.
\<close>

theorem zero_ack_drops_unsent:
  "handle_server_message P (Ack 0) (prepend_wire_message m w) =
     Returns ((prepend_wire_message m w)\<lparr> outgoing_message_buffer := tl (outgoing_message_buffer (prepend_wire_message m w)) \<rparr>)"
  by (simp add: handle_server_message_def handle_ack_def prepend_wire_message_def buffered_def)

text \<open>
  The delay between attempts to connect has no upper bound: every failed attempt doubles it, so that it passes the
  maximum that is declared for it after five.
\<close>

theorem backoff_ignores_maximum:
  "connection_timeout_backoff (backoff w) = 2 * connection_timeout_backoff w \<and>
   (connection_timeout_backoff w = INITIAL_CONNECTION_TIMEOUT_MS \<longrightarrow>
      connection_timeout_backoff ((backoff ^^ 5) w) > MAX_CONNECTION_TIMEOUT_MS)"
proof -
  have double: "connection_timeout_backoff (backoff v) = 2 * connection_timeout_backoff v" for v :: "'a Sim2hWorker"
  proof -
    let ?b = "connection_timeout_backoff v"
    have "?b \<noteq> max MAX_CONNECTION_TIMEOUT_MS (?b * 2)"
    proof
      assume eq: "?b = max MAX_CONNECTION_TIMEOUT_MS (?b * 2)"
      then have "?b = MAX_CONNECTION_TIMEOUT_MS \<or> ?b = ?b * 2" by (metis max_def)
      then have "?b = 60000 \<or> ?b = 0" by (auto simp: MAX_CONNECTION_TIMEOUT_MS_def mult_2_right)
      then show False using eq by (auto simp: MAX_CONNECTION_TIMEOUT_MS_def max_def)
    qed
    then show ?thesis by (simp add: backoff_def inner_set_backoff_def Let_def)
  qed
  have "connection_timeout_backoff ((backoff ^^ 5) w) = 32 * connection_timeout_backoff w"
    by (simp add: numeral_eq_Suc double)
  then show ?thesis using double by (simp add: INITIAL_CONNECTION_TIMEOUT_MS_def MAX_CONNECTION_TIMEOUT_MS_def)
qed

subsection \<open>An example\<close>

text \<open>A socket that is always ready, takes what is written, and brings nothing.\<close>

definition ops_example :: "unit worker_ops" where
  "ops_example =
     \<lparr> wo_connect = (\<lambda>_ _. Some ()), wo_check_ready = (\<lambda>c. (Ok True, c)), wo_write = (\<lambda>c _. (Ok (), c)),
       wo_read = (\<lambda>c. (Ok None, c)), wo_sign = (\<lambda>_. Ok ''sig''), wo_print = (\<lambda>m. if m = MultiSendResponse [] then ''wire'' else ''?''),
       wo_print_signed = sw_payload, wo_read_wire = (\<lambda>_. Err ''json''), wo_hash = (\<lambda>_. 7),
       wo_from_client = (\<lambda>_. LSP_Other ''''), wo_from_response = (\<lambda>_. LSP_Other ''''),
       wo_order = sorted_list_of_fset, wo_now = 10 ^ 10 \<rparr>"

definition worker_example :: "unit Sim2hWorker" where
  "worker_example =
     \<lparr> wk_connection = Some (), wk_inbox = [], wk_to_core = [], wk_server_url = ''wss'', wk_space_data = Some join_example,
       wk_agent_id = ''a'', time_of_last_connection_attempt = 0, connection_timeout_backoff = 2000, reconnect_interval = 2000,
       time_of_last_batching = 10 ^ 10, outgoing_fetch_entry_results = [], outgoing_fat_acks = fmempty,
       outgoing_message_buffer = [buffered (MultiSendResponse [])], initial_authoring_list = None,
       initial_gossiping_list = None, has_self_stored_authored_aspects = False, is_full_sync_DHT = False \<rparr>"

lemmas worker_simps = worker_tick_def read_server_def try_send_from_outgoing_buffer_def check_batched_messages_def
  reset_backoff_def connection_ready_def elapsed_ms_below_def BATCHING_INTERVAL_MS_def RESEND_WIRE_MESSAGE_MS_def
  INITIAL_CONNECTION_TIMEOUT_MS_def buffered_def

theorem messages_kept_until_acknowledged_witness:
  "let w = Sim2hWorker_new ops_example ''wss'' ''a'' in
     worker_reaches (wo_print ops_example) (wo_hash ops_example) w \<and>
     (\<exists>did out w'. worker_tick ops_example w = Returns (did, out, w') \<and> lasting w = [Hello WIRE_VERSION] \<and>
        subseq [Hello WIRE_VERSION] (lasting w'))"
proof -
  let ?w = "Sim2hWorker_new ops_example ''wss'' ''a''"
  have reached: "worker_reaches (wo_print ops_example) (wo_hash ops_example) ?w" by (rule worker_new) (rule refl)+
  have w: "?w = worker_example\<lparr> wk_space_data := None, connection_timeout_backoff := 4000, reconnect_interval := 4000,
      time_of_last_connection_attempt := 10 ^ 10, outgoing_message_buffer := [buffered (Hello WIRE_VERSION)] \<rparr>"
    by (simp add: Sim2hWorker_new_def check_reconnect_def connection_ready_def elapsed_ms_below_def send_wire_message_def
        Let_def backoff_def inner_set_backoff_def INITIAL_CONNECTION_TIMEOUT_MS_def MAX_CONNECTION_TIMEOUT_MS_def max_def
        ops_example_def worker_example_def AspectMap_new_def)
  obtain did out w' where t: "worker_tick ops_example ?w = Returns (did, out, w')"
    unfolding w by (simp add: worker_simps inner_set_backoff_def ops_example_def worker_example_def)
  have "lasting ?w = [Hello WIRE_VERSION]" by (simp add: w lasting_def buffered_def)
  then show ?thesis using messages_kept_until_acknowledged [OF reached t] reached t by (auto simp: ops_example_def)
qed

theorem backoff_ignores_maximum_witness: "connection_timeout_backoff ((backoff ^^ 5) worker_example) > MAX_CONNECTION_TIMEOUT_MS"
  using backoff_ignores_maximum [of worker_example] by (simp add: worker_example_def INITIAL_CONNECTION_TIMEOUT_MS_def)

subsection \<open>Errors of the socket\<close>

lemma reconnect_fails:
  assumes "wk_connection w = None" and "\<And>url ms. wo_connect P url ms = None"
  shows "wk_connection (check_reconnect P w) = None"
  using assms by (auto simp: check_reconnect_def connection_ready_def Let_def backoff_def inner_set_backoff_def)

text \<open>
  C40.  A node panics when the switchboard goes away: if a message is due, the write of it fails, and no new connection
  can be made, then the tick that tried to write goes on to read from a connection that is not there.
\<close>

theorem failed_write_panics:
  assumes "wk_connection w = Some c" and "\<And>x. wo_check_ready P x = (Ok True, x)"
    and "outgoing_message_buffer w = m # rest" and "bm_last_sent m = None" and "\<not> is_join (bm_wire_message m)"
    and "\<And>x bytes. \<exists>e y. wo_write P x bytes = (Err e, y)" and "\<And>url ms. wo_connect P url ms = None"
  shows "\<exists>msg. worker_tick P w = Panics msg"
proof -
  have r: "connection_ready P v = (True, v)" if "wk_connection v = Some x" for v x
    using that assms(2) by (simp add: connection_ready_def)
  define v where "v = check_batched_messages P (reset_backoff w)"
  have v: "wk_connection v = Some c" "\<exists>rest'. outgoing_message_buffer v = m # rest'"
    using assms(1,3) by (auto simp: v_def check_batched_messages_def reset_backoff_def inner_set_backoff_def Let_def)
  obtain rest' where rest': "outgoing_message_buffer v = m # rest'" using v(2) by blast
  obtain e y where "wo_write P c (wo_print_signed P \<lparr>sw_source = wk_agent_id v, sw_signature = ''null'',
      sw_payload = wo_print P (bm_wire_message m)\<rparr>) = (Err e, y)"
    using assms(6) by blast
  then have "try_send_from_outgoing_buffer P v = (True, check_reconnect P (v\<lparr>wk_connection := None\<rparr>))"
    by (simp add: try_send_from_outgoing_buffer_def rest' r [OF v(1)] assms(4,5) v(1))
  moreover have "wk_connection (check_reconnect P (v\<lparr>wk_connection := None\<rparr>)) = None"
    using assms(7) by (intro reconnect_fails) simp_all
  ultimately show ?thesis
    by (simp add: worker_tick_def r [OF assms(1)] v_def [symmetric] read_server_def)
qed

theorem failed_write_panics_witness:
  "\<exists>msg. worker_tick (ops_example\<lparr> wo_connect := \<lambda>_ _. None, wo_write := \<lambda>c _. (Err ''broken pipe'', c) \<rparr>) worker_example = Panics msg"
  by (rule failed_write_panics [where m = "buffered (MultiSendResponse [])"])
    (simp_all add: worker_example_def ops_example_def buffered_def)

text \<open>
  A node that connects again while its request to join has not been acknowledged has two of them for the same
  connection, the first of which comes before all else.
\<close>

theorem reconnect_joins_twice:
  assumes "wk_connection w = None" and "wk_space_data w = Some d"
    and "ClientToLib3hMessage (C2L_JoinSpace d) \<in> set (map bm_wire_message (outgoing_message_buffer w))"
    and "\<not> elapsed_ms_below (wo_now P) (time_of_last_connection_attempt w) (uint (reconnect_interval w))"
    and "\<And>url ms. wo_connect P url ms = Some c"
  shows "\<exists>rest. map bm_wire_message (outgoing_message_buffer (check_reconnect P w)) = ClientToLib3hMessage (C2L_JoinSpace d) # rest \<and>
    ClientToLib3hMessage (C2L_JoinSpace d) \<in> set rest"
proof -
  have "map bm_wire_message (outgoing_message_buffer (check_reconnect P w)) = ClientToLib3hMessage (C2L_JoinSpace d) #
      filter stays_on_reconnect (map bm_wire_message (outgoing_message_buffer w))"
    using assms(1,2,4,5)
    by (simp add: check_reconnect_def connection_ready_def prepend_wire_message_def buffered_def backoff_def
        inner_set_backoff_def Let_def filter_map comp_def)
  then show ?thesis using assms(3) by auto
qed

theorem reconnect_joins_twice_witness:
  "\<exists>rest. map bm_wire_message (outgoing_message_buffer (check_reconnect ops_example (worker_example\<lparr> wk_connection := None,
       outgoing_message_buffer := [buffered (ClientToLib3hMessage (C2L_JoinSpace join_example))] \<rparr>))) =
     ClientToLib3hMessage (C2L_JoinSpace join_example) # rest \<and>
   ClientToLib3hMessage (C2L_JoinSpace join_example) \<in> set rest"
  by (rule reconnect_joins_twice) (simp_all add: worker_example_def ops_example_def buffered_def elapsed_ms_below_def)

section \<open>Worker and switchboard\<close>

text \<open>The messages that the switchboard takes from who has joined.\<close>

fun needs_space :: "WireMessage \<Rightarrow> bool" where
  "needs_space (ClientToLib3hMessage (C2L_JoinSpace _)) = False"
| "needs_space (ClientToLib3hMessage _) = True"
| "needs_space (Lib3hToClientResponseMessage _) = True"
| "needs_space (MultiSendResponse _) = True"
| "needs_space Pong = True"
| "needs_space _ = False"

lemma needs_space_handled: "needs_space m \<Longrightarrow> \<not> is_join m \<and> handle_message r u m a receipt = [Spawn (InSpace u m a receipt)]"
  by (cases m rule: needs_space.cases) (auto simp: handle_message_def)

text \<open>
  C10.  What the worker sends is acknowledged so that it leaves the buffer: when the first message of the buffer has been
  written, the switchboard, to which the same bytes come over a connection that joined as this agent, answers with a
  receipt that removes just this message.  The serialised forms read back as what was printed, and both sides hash alike.
\<close>

theorem receipt_takes_message_out:
  assumes "wk_connection w = Some c" and "wo_check_ready P c = (Ok True, c)"
    and "outgoing_message_buffer w = m # rest" and "bm_last_sent m = None" and "needs_space (bm_wire_message m)"
    and "wo_write P c bytes = (Ok (), c)"
    and "bytes = wo_print_signed P \<lparr> sw_source = wk_agent_id w, sw_signature = ''null'', sw_payload = wo_print P (bm_wire_message m) \<rparr>"
    and "read_signed K bytes = Ok \<lparr> sw_source = wk_agent_id w, sw_signature = ''null'', sw_payload = wo_print P (bm_wire_message m) \<rparr>"
    and "read_wire K (wo_print P (bm_wire_message m)) = Ok (bm_wire_message m)"
    and "receipt_hash K = wo_hash P" and "get_space_info_from_uri E st u = Some (wk_agent_id w, h)"
  shows "\<exists>w1 t es hash w2. try_send_from_outgoing_buffer P w = (True, w1) \<and>
    handle_payload K r u bytes = Returns [Spawn t] \<and> run_task K E r st f t = Returns (es, f) \<and>
    SendOut (wk_agent_id w) u (Ack hash) \<in> set es \<and>
    handle_server_message P (Ack hash) w1 = Returns w2 \<and> outgoing_message_buffer w2 = rest"
proof -
  let ?p = "wo_print P (bm_wire_message m)"
  let ?receipt = "Ack (wo_hash P ?p)"
  define w1 where "w1 = w\<lparr> outgoing_message_buffer := m\<lparr> bm_hash := wo_hash P ?p, bm_last_sent := Some (wo_now P) \<rparr> # rest \<rparr>"
  have m: "\<not> is_join (bm_wire_message m)"
    "handle_message r u (bm_wire_message m) (wk_agent_id w) ?receipt = [Spawn (InSpace u (bm_wire_message m) (wk_agent_id w) ?receipt)]"
    using needs_space_handled [OF assms(5)] by auto
  have "w\<lparr>wk_connection := Some c\<rparr> = w" using assms(1) by simp
  then have "try_send_from_outgoing_buffer P w = (True, w1)"
    using assms(1-4,6) m(1)
    by (simp add: try_send_from_outgoing_buffer_def connection_ready_def w1_def flip: assms(7))
  moreover have "handle_payload K r u bytes = Returns [Spawn (InSpace u (bm_wire_message m) (wk_agent_id w) ?receipt)]"
    using assms(7-10) m by (simp add: handle_payload_def gen_receipt_def)
  moreover have "run_task K E r st f (InSpace u (bm_wire_message m) (wk_agent_id w) ?receipt) =
      Returns (handle_in_space E st u (bm_wire_message m) (wk_agent_id w) ?receipt, f)" by simp
  moreover have "SendOut (wk_agent_id w) u ?receipt \<in> set (handle_in_space E st u (bm_wire_message m) (wk_agent_id w) ?receipt)"
    using assms(11) by (simp add: handle_in_space_def)
  moreover have "handle_server_message P ?receipt w1 = Returns (w1\<lparr> outgoing_message_buffer := rest \<rparr>)"
    by (simp add: handle_server_message_def handle_ack_def w1_def)
  ultimately show ?thesis by fastforce
qed

definition codec_reading :: sim_codec where
  "codec_reading = codec_example\<lparr> read_signed := \<lambda>p. Ok \<lparr> sw_source = ''a'', sw_signature = ''null'', sw_payload = p \<rparr>,
     read_wire := \<lambda>_. Ok (MultiSendResponse []) \<rparr>"

theorem receipt_takes_message_out_witness:
  "\<exists>w1 t es hash w2. try_send_from_outgoing_buffer ops_example worker_example = (True, w1) \<and>
    handle_payload codec_reading 0 ''u'' ''wire'' = Returns [Spawn t] \<and>
    run_task codec_reading sim_example 0 store_example fmempty t = Returns (es, fmempty) \<and>
    SendOut (wk_agent_id worker_example) ''u'' (Ack hash) \<in> set es \<and>
    handle_server_message ops_example (Ack hash) w1 = Returns w2 \<and> outgoing_message_buffer w2 = []"
proof (rule receipt_takes_message_out)
  show "get_space_info_from_uri sim_example store_example ''u'' = Some (wk_agent_id worker_example, ''s'')"
    by (simp add: get_space_info_from_uri_def store_example_simps sim_example_def worker_example_def)
  show "outgoing_message_buffer worker_example = [buffered (MultiSendResponse [])]" by (simp add: worker_example_def)
qed (simp_all add: worker_example_def ops_example_def buffered_def codec_reading_def codec_example_def fun_eq_iff)

end
