(* ===== verification/Content_Store.thy ===== *)
theory Content_Store
  imports Core_Types
begin

text \<open>
  \<open>crates/core/src/content_store.rs\<close>: reading and adding content through a
  content-addressable storage.  The storage is a backend of the persistence library,
  given by its operations \<open>add\<close> and \<open>fetch\<close>; the locale states what a content store
  relies on.  A storage is shared behind a lock, so it is threaded through every
  operation that can change it, failing ones included.
\<close>

section \<open>The storage and its clients\<close>

record 'c cas_ops =
  cas_add :: "'c \<Rightarrow> Address \<Rightarrow> Content \<Rightarrow> (unit, PersistenceError) result \<times> 'c"
  cas_fetch :: "'c \<Rightarrow> Address \<Rightarrow> (Content option, PersistenceError) result"

definition get_raw :: "'c cas_ops \<Rightarrow> 'c \<Rightarrow> Address \<Rightarrow> Content option HcResult" where
  "get_raw ops cas address = map_err error_from_persistence (cas_fetch ops cas address)"

definition get_entry :: "'c cas_ops \<Rightarrow> 'c \<Rightarrow> Address \<Rightarrow> Entry option HcResult" where
  "get_entry ops cas address =
     and_then (get_raw ops cas address) (\<lambda>r.
       case r of
         Some json \<Rightarrow> and_then (entry_try_from_content json) (\<lambda>entry. Ok (Some entry))
       | None \<Rightarrow> Ok None)"

definition contains_content :: "'c cas_ops \<Rightarrow> 'c \<Rightarrow> Address \<Rightarrow> bool HcResult" where
  "contains_content ops cas address =
     and_then (get_raw ops cas address) (\<lambda>r. Ok (r \<noteq> None))"

definition add_entry :: "hasher \<Rightarrow> 'c cas_ops \<Rightarrow> 'c \<Rightarrow> Entry \<Rightarrow> unit HcResult \<times> 'c" where
  "add_entry H ops cas entry =
     (let (r, cas') = cas_add ops cas (entry_address H entry) (entry_content entry)
      in (map_err error_from_persistence r, cas'))"

definition add_header :: "hasher \<Rightarrow> 'c cas_ops \<Rightarrow> 'c \<Rightarrow> ChainHeader \<Rightarrow> unit HcResult \<times> 'c" where
  "add_header H ops cas header =
     (let (r, cas') = cas_add ops cas (header_hash H header) (HeaderContent header)
      in (map_err error_from_persistence r, cas'))"

section \<open>What a storage promises\<close>

locale content_addressable =
  fixes ops :: "'c cas_ops"
  assumes fetch_added: "cas_add ops cas a x = (Ok (), cas') \<Longrightarrow>
      cas_fetch ops cas' b = (if b = a then Ok (Some x) else cas_fetch ops cas b)"
    and fetch_failed: "cas_add ops cas a x = (Err e, cas') \<Longrightarrow> cas_fetch ops cas' b = cas_fetch ops cas b"
begin

lemma get_added_entry:
  "add_entry H ops cas e = (Ok (), cas') \<Longrightarrow> get_entry ops cas' (entry_address H e) = Ok (Some e)"
  by (auto simp: add_entry_def get_entry_def get_raw_def fetch_added split: prod.splits)

lemma fetch_added_entry:
  "add_entry H ops cas e = (Ok (), cas') \<Longrightarrow>
     cas_fetch ops cas' b =
       (if b = entry_address H e then Ok (Some (entry_content e)) else cas_fetch ops cas b)"
  by (auto simp: add_entry_def fetch_added split: prod.splits)

lemma fetch_added_header:
  "add_header H ops cas h = (Ok (), cas') \<Longrightarrow>
     cas_fetch ops cas' b =
       (if b = header_hash H h then Ok (Some (HeaderContent h)) else cas_fetch ops cas b)"
  by (auto simp: add_header_def fetch_added split: prod.splits)

lemma contains_added:
  "add_entry H ops cas e = (Ok (), cas') \<Longrightarrow> contains_content ops cas' (entry_address H e) = Ok True"
  by (auto simp: add_entry_def contains_content_def get_raw_def fetch_added split: prod.splits)

end

text \<open>A storage in memory: a map from addresses to contents that never fails.\<close>

definition map_cas :: "(Address, Content) fmap cas_ops" where
  "map_cas = \<lparr> cas_add = (\<lambda>c a x. (Ok (), fmupd a x c)), cas_fetch = (\<lambda>c a. Ok (fmlookup c a)) \<rparr>"

lemma map_cas_simps [simp]:
  "cas_add map_cas c a x = (Ok (), fmupd a x c)"
  "cas_fetch map_cas c a = Ok (fmlookup c a)"
  by (simp_all add: map_cas_def)

interpretation map_cas: content_addressable map_cas
  by unfold_locales auto

end
