(* ===== verification/Eav.thy ===== *)
theory Eav
  imports Core_Types
begin

text \<open>
  \<open>crates/core_types/src/eav/\<close> and \<open>crud_status.rs\<close>: attributes and their printed
  form, the entity-attribute-value index, and the example storage that resolves
  index collisions.  An index is a nanosecond clock reading; its overflow is not
  modelled.
\<close>

section \<open>Attributes\<close>

datatype Attribute =
    CrudStatus
  | CrudLink
  | EntryHeader
  | Link
  | LinkTag string string
  | RemovedLink Address string string
  | PendingEntry
  | Target

datatype AttributeError = Unrecognized string | ParseError

fun attribute_string :: "Attribute \<Rightarrow> string" where
  "attribute_string CrudStatus = ''crud-status''"
| "attribute_string CrudLink = ''crud-link''"
| "attribute_string EntryHeader = ''entry-header''"
| "attribute_string Link = ''link''"
| "attribute_string (LinkTag lt tg) = ''link__'' @ lt @ ''__'' @ tg"
| "attribute_string (RemovedLink a lt tg) = ''removed_link__'' @ a @ ''__'' @ lt @ ''__'' @ tg"
| "attribute_string PendingEntry = ''pending-entry''"
| "attribute_string Target = ''target''"

text \<open>
  The regular expressions \<open>^link__(.*)__(.*)$\<close> and
  \<open>^removed_link__(.*)__(.*)__(.*)$\<close>: a dot matches anything but a newline, and a
  group takes as much as it can, from left to right.
\<close>

fun split_last :: "string \<Rightarrow> (string \<times> string) option" where
  "split_last [] = None"
| "split_last (c # s) =
     (case split_last s of
        Some (a, b) \<Rightarrow> Some (c # a, b)
      | None \<Rightarrow> (case s of
                   d # r \<Rightarrow> if c = CHR ''_'' \<and> d = CHR ''_'' then Some ([], r) else None
                 | [] \<Rightarrow> None))"

fun split_last2 :: "string \<Rightarrow> (string \<times> string \<times> string) option" where
  "split_last2 [] = None"
| "split_last2 (c # s) =
     (case split_last2 s of
        Some (a, b) \<Rightarrow> Some (c # a, b)
      | None \<Rightarrow> (case s of
                   d # r \<Rightarrow> if c = CHR ''_'' \<and> d = CHR ''_''
                            then map_option (\<lambda>(b, t). ([], b, t)) (split_last r) else None
                 | [] \<Rightarrow> None))"

definition no_newline :: "string \<Rightarrow> bool" where
  "no_newline s \<longleftrightarrow> CHR 0x0A \<notin> set s"

definition link_regex :: "string \<Rightarrow> (string \<times> string) option" where
  "link_regex s =
     (if take 6 s = ''link__'' \<and> no_newline (drop 6 s) then split_last (drop 6 s) else None)"

definition removed_link_regex :: "string \<Rightarrow> (string \<times> string \<times> string) option" where
  "removed_link_regex s =
     (if take 14 s = ''removed_link__'' \<and> no_newline (drop 14 s) then split_last2 (drop 14 s)
      else None)"

definition attribute_try_from :: "string \<Rightarrow> (Attribute, AttributeError) result" where
  "attribute_try_from s =
     (case link_regex s of
        Some (lt, tg) \<Rightarrow> Ok (LinkTag lt tg)
      | None \<Rightarrow>
          (case removed_link_regex s of
             Some (a, lt, tg) \<Rightarrow> Ok (RemovedLink a lt tg)
           | None \<Rightarrow>
               if s = ''crud-status'' then Ok CrudStatus
               else if s = ''crud-link'' then Ok CrudLink
               else if s = ''entry-header'' then Ok EntryHeader
               else if s = ''link'' then Ok Link
               else if s = ''pending-entry'' then Ok PendingEntry
               else if s = ''target'' then Ok Target
               else Err (Unrecognized s)))"

fun attribute_error_to_error :: "AttributeError \<Rightarrow> HolochainError" where
  "attribute_error_to_error (Unrecognized a) = ErrorGeneric (''Unknown attribute: '' @ a)"
| "attribute_error_to_error ParseError = ErrorGeneric ''Could not parse attribute, bad regex match''"

section \<open>The index\<close>

type_synonym Index = int

record EntityAttributeValueIndex =
  eav_entity :: Address
  eav_attribute :: Attribute
  eav_value :: Address
  eav_index :: Index

definition forbidden_in_name :: "char set" where
  "forbidden_in_name = set [CHR ''/'', CHR '':'', CHR ''*'', CHR ''?'', CHR ''<'', CHR ''>'',
     CHR 0x22, CHR 0x27, CHR 0x5C, CHR ''|'', CHR ''+'']"

definition validate_name :: "string \<Rightarrow> (unit, PersistenceError) result" where
  "validate_name name =
     (if list_ex (\<lambda>c. c \<in> forbidden_in_name) name then Err (PErrorGeneric ''Attribute name invalid'')
      else Ok ())"

fun validate_attribute :: "Attribute \<Rightarrow> (unit, PersistenceError) result" where
  "validate_attribute (LinkTag name _) = validate_name name"
| "validate_attribute (RemovedLink _ name _) = validate_name name"
| "validate_attribute _ = Ok ()"

text \<open>
  \<open>EntityAttributeValueIndex::new\<close> belongs to the persistence library and is the
  parameter \<open>mk\<close>; it stamps the index with its own clock.
\<close>

type_synonym eavi_maker =
  "Address \<Rightarrow> Attribute \<Rightarrow> Address \<Rightarrow> (EntityAttributeValueIndex, PersistenceError) result"

definition eavi_new :: "eavi_maker \<Rightarrow> eavi_maker" where
  "eavi_new mk entity attr val =
     and_then (validate_attribute attr) (\<lambda>_. mk entity attr val)"

section \<open>Crud status\<close>

datatype CrudStatus = Live | Rejected | Deleted | Modified | Locked

fun crud_status_string :: "CrudStatus \<Rightarrow> string" where
  "crud_status_string Live = ''live''"
| "crud_status_string Rejected = ''rejected''"
| "crud_status_string Deleted = ''deleted''"
| "crud_status_string Modified = ''modified''"
| "crud_status_string Locked = ''locked''"

definition crud_status_from_str :: "string \<Rightarrow> (CrudStatus, string) result" where
  "crud_status_from_str s =
     (if s = ''live'' then Ok Live
      else if s = ''rejected'' then Ok Rejected
      else if s = ''deleted'' then Ok Deleted
      else if s = ''modified'' then Ok Modified
      else if s = ''locked'' then Ok Locked
      else Err ''failed to deserialize CrudStatus enum'')"

definition create_crud_status_eav ::
  "eavi_maker \<Rightarrow> Address \<Rightarrow> CrudStatus \<Rightarrow> (EntityAttributeValueIndex, PersistenceError) result" where
  "create_crud_status_eav mk address status =
     mk address Attribute.CrudStatus (crud_status_string status)"

definition create_crud_link_eav ::
  "eavi_maker \<Rightarrow> Address \<Rightarrow> Address \<Rightarrow> (EntityAttributeValueIndex, PersistenceError) result" where
  "create_crud_link_eav mk from_addr to_addr = mk from_addr CrudLink to_addr"

section \<open>The example storage\<close>

type_synonym eav_set = "EntityAttributeValueIndex fset"

function increment_key_till_no_collision ::
  "EntityAttributeValueIndex \<Rightarrow> eav_set \<Rightarrow> EntityAttributeValueIndex" where
  "increment_key_till_no_collision eav stored =
     (if eav_index eav |\<in>| eav_index |`| stored
      then increment_key_till_no_collision (eav\<lparr> eav_index := eav_index eav + 1 \<rparr>) stored
      else eav)"
  by auto

termination
proof (relation "measure (\<lambda>(eav, stored). card {i \<in> eav_index ` fset stored. eav_index eav \<le> i})")
  fix eav :: EntityAttributeValueIndex and stored :: eav_set
  assume "eav_index eav |\<in>| eav_index |`| stored"
  then have "eav_index eav \<in> {i \<in> eav_index ` fset stored. eav_index eav \<le> i}" by auto
  moreover have "eav_index eav \<notin> {i \<in> eav_index ` fset stored. eav_index eav + 1 \<le> i}" by simp
  moreover have "{i \<in> eav_index ` fset stored. eav_index eav + 1 \<le> i}
      \<subseteq> {i \<in> eav_index ` fset stored. eav_index eav \<le> i}" by auto
  ultimately have "{i \<in> eav_index ` fset stored. eav_index eav + 1 \<le> i}
      \<subset> {i \<in> eav_index ` fset stored. eav_index eav \<le> i}" by blast
  then show "((eav\<lparr> eav_index := eav_index eav + 1 \<rparr>, stored), eav, stored)
      \<in> measure (\<lambda>(eav, stored). card {i \<in> eav_index ` fset stored. eav_index eav \<le> i})"
    by (simp add: psubset_card_mono)
qed simp

declare increment_key_till_no_collision.simps [simp del]

definition example_add_eavi ::
  "eav_set \<Rightarrow> EntityAttributeValueIndex \<Rightarrow> EntityAttributeValueIndex option HcResult \<times> eav_set" where
  "example_add_eavi storage eav =
     (let new_eav = increment_key_till_no_collision eav storage
      in (Ok (Some new_eav), finsert new_eav storage))"

text \<open>\<open>EaviQuery::run\<close> belongs to the persistence library.\<close>

definition example_fetch_eavi :: "('q \<Rightarrow> eav_set \<Rightarrow> eav_set) \<Rightarrow> eav_set \<Rightarrow> 'q \<Rightarrow> eav_set HcResult" where
  "example_fetch_eavi run storage query = Ok (run query storage)"

section \<open>Reading attributes back\<close>

abbreviation us :: char where "us \<equiv> CHR ''_''"

definition clean_tag :: "string \<Rightarrow> bool" where
  "clean_tag s \<longleftrightarrow> split_last (us # s) = None"

declare split_last.simps(2) [simp del] split_last2.simps(2) [simp del]

lemmas split_last_Cons = split_last.simps(2)
lemmas split_last2_Cons = split_last2.simps(2)

lemma split_last_append_Some:
  "split_last (us # b) = None \<Longrightarrow> split_last (a @ us # us # b) = Some (a, b)"
proof (induction a)
  case Nil
  then show ?case by (simp add: split_last_Cons [of us "us # b"])
next
  case (Cons c a)
  then show ?case by (simp add: split_last_Cons [of c])
qed

lemma split_last_tl_None: "split_last (c # s) = None \<Longrightarrow> split_last s = None"
  by (cases "split_last s") (auto simp: split_last_Cons [of c])

lemma split_last_no_pair: "split_last (c # d # s) = None \<Longrightarrow> \<not> (c = us \<and> d = us)"
  by (cases "split_last (d # s)") (auto simp: split_last_Cons [of c])

lemma split_last2_None: "split_last s = None \<Longrightarrow> split_last2 s = None"
proof (induction s)
  case (Cons c s)
  then have "split_last2 s = None" using split_last_tl_None by simp
  moreover have "\<not> (c = us \<and> d = us)" if "s = d # r" for d r
    using Cons.prems that by (blast dest: split_last_no_pair)
  ultimately show ?case by (auto simp: split_last2_Cons [of c] split: list.splits)
qed simp

lemma split_last2_one_separator:
  "split_last w = None \<Longrightarrow> clean_tag tg \<Longrightarrow> split_last2 (w @ us # us # tg) = None"
proof (induction w)
  case Nil
  then have "split_last (us # tg) = None" by (simp add: clean_tag_def)
  then have "split_last2 (us # tg) = None" "split_last tg = None"
    by (rule split_last2_None, rule split_last_tl_None)
  then show ?case by (simp add: split_last2_Cons [of us "us # tg"])
next
  case (Cons c w)
  then have IH: "split_last2 (w @ us # us # tg) = None"
    using split_last_tl_None by simp
  show ?case
  proof (cases w)
    case Nil
    with IH Cons.prems(2) show ?thesis
      by (simp add: split_last2_Cons [of c] clean_tag_def)
  next
    case (Cons d v)
    with Cons.prems(1) have "\<not> (c = us \<and> d = us)" by (simp add: split_last_no_pair)
    with IH Cons show ?thesis by (auto simp: split_last2_Cons [of c])
  qed
qed

lemma split_last2_append_Some:
  assumes "clean_tag lt" and "clean_tag tg"
  shows "split_last2 (a @ us # us # lt @ us # us # tg) = Some (a, lt, tg)"
proof (induction a)
  case Nil
  have "split_last2 ((us # lt) @ us # us # tg) = None"
    using assms unfolding clean_tag_def by (intro split_last2_one_separator) (simp_all add: clean_tag_def)
  moreover have "split_last (lt @ us # us # tg) = Some (lt, tg)"
    using assms(2) by (intro split_last_append_Some) (simp add: clean_tag_def)
  ultimately show ?case by (simp add: split_last2_Cons [of us "us # lt @ us # us # tg"])
next
  case (Cons c a)
  then show ?case by (simp add: split_last2_Cons [of c])
qed

fun clean_attribute :: "Attribute \<Rightarrow> bool" where
  "clean_attribute (LinkTag lt tg) \<longleftrightarrow> clean_tag tg \<and> no_newline lt \<and> no_newline tg"
| "clean_attribute (RemovedLink a lt tg) \<longleftrightarrow>
     clean_tag lt \<and> clean_tag tg \<and> no_newline a \<and> no_newline lt \<and> no_newline tg"
| "clean_attribute _ \<longleftrightarrow> True"

lemma no_newline_append [simp]: "no_newline (a @ b) \<longleftrightarrow> no_newline a \<and> no_newline b"
  by (auto simp: no_newline_def)

lemma no_newline_us [simp]: "no_newline (us # s) \<longleftrightarrow> no_newline s"
  by (simp add: no_newline_def)

lemma link_regex_printed:
  "link_regex (''link__'' @ lt @ ''__'' @ tg) =
     (if no_newline lt \<and> no_newline tg then split_last (lt @ us # us # tg) else None)"
  by (simp add: link_regex_def)

text \<open>
  An attribute read back from its printed form is the attribute, for every
  attribute whose link tag has no double underscore, does not begin with one, and
  holds no newline (and for removed links the same of the link type).
\<close>

theorem attribute_roundtrip:
  assumes "clean_attribute a"
  shows "attribute_try_from (attribute_string a) = Ok a"
proof (cases a)
  case (LinkTag lt tg)
  with assms have "link_regex (attribute_string a) = Some (lt, tg)"
    by (simp only: attribute_string.simps link_regex_printed clean_attribute.simps)
       (simp add: clean_tag_def split_last_append_Some)
  with LinkTag show ?thesis by (simp add: attribute_try_from_def)
next
  case (RemovedLink d lt tg)
  with assms have "removed_link_regex (attribute_string a) = Some (d, lt, tg)"
    by (simp add: removed_link_regex_def split_last2_append_Some)
  moreover have "link_regex (attribute_string a) = None"
    using RemovedLink by (simp add: link_regex_def)
  ultimately show ?thesis using RemovedLink by (simp add: attribute_try_from_def)
qed (simp_all add: attribute_try_from_def link_regex_def removed_link_regex_def)

theorem attribute_roundtrip_witness:
  "attribute_try_from (attribute_string (LinkTag ''friend_of'' ''since_2019''))
     = Ok (LinkTag ''friend_of'' ''since_2019'')"
  by (rule attribute_roundtrip) (simp add: clean_tag_def no_newline_def split_last_Cons)

text \<open>
  Printing attributes is ambiguous for link tags with a double underscore: the
  part before it moves into the link type, so the attribute of one link reads back
  as that of another.
\<close>

theorem attribute_string_ambiguous:
  "attribute_string (LinkTag lt (x @ ''__'' @ y)) = attribute_string (LinkTag (lt @ ''__'' @ x) y)
   \<and> attribute_try_from (attribute_string (LinkTag ''likes'' ''a__b'')) = Ok (LinkTag ''likes__a'' ''b'')"
  by (simp add: attribute_try_from_def link_regex_def no_newline_def split_last_Cons)

section \<open>The append-only index\<close>

lemma increment_key_spec:
  "\<exists>n. increment_key_till_no_collision eav stored = eav\<lparr> eav_index := eav_index eav + int n \<rparr>
       \<and> eav_index eav + int n |\<notin>| eav_index |`| stored
       \<and> (\<forall>k<n. eav_index eav + int k |\<in>| eav_index |`| stored)"
proof (induction eav stored rule: increment_key_till_no_collision.induct)
  case (1 eav stored)
  show ?case
  proof (cases "eav_index eav |\<in>| eav_index |`| stored")
    case True
    with 1 obtain n where n:
      "increment_key_till_no_collision (eav\<lparr> eav_index := eav_index eav + 1 \<rparr>) stored
         = eav\<lparr> eav_index := eav_index eav + 1 + int n \<rparr>"
      "eav_index eav + 1 + int n |\<notin>| eav_index |`| stored"
      "\<forall>k<n. eav_index eav + 1 + int k |\<in>| eav_index |`| stored" by auto
    have "eav_index eav + int k |\<in>| eav_index |`| stored" if "k < Suc n" for k
    proof (cases k)
      case 0
      with True show ?thesis by simp
    next
      case (Suc j)
      with that n(3) have "eav_index eav + 1 + int j |\<in>| eav_index |`| stored" by simp
      with Suc show ?thesis by (simp add: algebra_simps)
    qed
    moreover have "increment_key_till_no_collision eav stored
        = increment_key_till_no_collision (eav\<lparr> eav_index := eav_index eav + 1 \<rparr>) stored"
      using True by (subst increment_key_till_no_collision.simps) simp
    ultimately show ?thesis
      using n by (intro exI [of _ "Suc n"]) (simp add: algebra_simps)
  next
    case False
    then show ?thesis
      by (intro exI [of _ 0], subst increment_key_till_no_collision.simps) simp
  qed
qed

definition distinct_indices :: "eav_set \<Rightarrow> bool" where
  "distinct_indices stored \<longleftrightarrow> inj_on eav_index (fset stored)"

text \<open>The contract of an append-only index, with the set of what it holds.\<close>

locale eav_storage =
  fixes contents :: "'s \<Rightarrow> eav_set"
    and add :: "'s \<Rightarrow> EntityAttributeValueIndex \<Rightarrow> EntityAttributeValueIndex option HcResult \<times> 's"
  assumes add_ok: "add s e = (Ok (Some e'), s') \<Longrightarrow>
      contents s' = finsert e' (contents s) \<and> eav_index e' |\<notin>| eav_index |`| contents s
      \<and> (\<exists>n. e' = e\<lparr> eav_index := eav_index e + int n \<rparr>)"
    and add_keeps: "contents s |\<subseteq>| contents (snd (add s e))"
    and add_new: "add s e = (Ok None, s') \<or> add s e = (Err x, s') \<Longrightarrow> contents s' = contents s"
begin

lemma add_distinct:
  assumes "distinct_indices (contents s)"
  shows "distinct_indices (contents (snd (add s e)))"
proof (cases "add s e")
  case (Pair r s')
  show ?thesis
  proof (cases "\<exists>e'. r = Ok (Some e')")
    case True
    then obtain e' where "r = Ok (Some e')" ..
    with Pair have "contents s' = finsert e' (contents s)" "eav_index e' |\<notin>| eav_index |`| contents s"
      using add_ok [of s e e' s'] by simp_all
    with Pair assms show ?thesis by (auto simp: distinct_indices_def)
  next
    case False
    then obtain x where "r = Ok None \<or> r = Err x" by (cases r) auto
    with Pair assms show ?thesis using add_new [of s e s' x] by auto
  qed
qed

lemma add_all_keeps: "contents s |\<subseteq>| contents (fold (\<lambda>e s. snd (add s e)) es s)"
proof (induction es arbitrary: s)
  case (Cons e es)
  then show ?case using add_keeps [of s e] by (auto intro: order_trans)
qed simp

lemma add_all_distinct:
  "distinct_indices (contents s) \<Longrightarrow> distinct_indices (contents (fold (\<lambda>e s. snd (add s e)) es s))"
  by (induction es arbitrary: s) (simp_all add: add_distinct)

end

interpretation example_eav: eav_storage "\<lambda>s. s" example_add_eavi
proof
  fix s e e' s'
  assume "example_add_eavi s e = (Ok (Some e'), s')"
  then have "e' = increment_key_till_no_collision e s" "s' = finsert e' s"
    by (auto simp: example_add_eavi_def Let_def)
  with increment_key_spec [of e s]
  show "s' = finsert e' s \<and> eav_index e' |\<notin>| eav_index |`| s
      \<and> (\<exists>n. e' = e\<lparr> eav_index := eav_index e + int n \<rparr>)" by auto
qed (auto simp: example_add_eavi_def Let_def)

text \<open>
  The index only grows and never confuses two entries: adding any sequence of
  values to an empty index keeps every value already there and gives all of them
  distinct indices.
\<close>

theorem eav_append_only:
  "fold (\<lambda>e s. snd (example_add_eavi s e)) es {||}
     |\<subseteq>| fold (\<lambda>e s. snd (example_add_eavi s e)) (es @ later) {||}
   \<and> distinct_indices (fold (\<lambda>e s. snd (example_add_eavi s e)) (es @ later) {||})"
proof
  show "fold (\<lambda>e s. snd (example_add_eavi s e)) es {||}
     |\<subseteq>| fold (\<lambda>e s. snd (example_add_eavi s e)) (es @ later) {||}"
    by (simp add: example_eav.add_all_keeps)
  show "distinct_indices (fold (\<lambda>e s. snd (example_add_eavi s e)) (es @ later) {||})"
    by (rule example_eav.add_all_distinct) (simp add: distinct_indices_def)
qed

text \<open>
  A value is added under the first free index from its own on: the added value
  has the same entity, attribute and value, no stored value has its index, and every
  index skipped on the way was taken.
\<close>

theorem eav_add_first_free:
  "\<exists>n. example_add_eavi stored eav =
         (Ok (Some (eav\<lparr> eav_index := eav_index eav + int n \<rparr>)),
          finsert (eav\<lparr> eav_index := eav_index eav + int n \<rparr>) stored)
       \<and> eav_index eav + int n |\<notin>| eav_index |`| stored
       \<and> list_all (\<lambda>k. eav_index eav + int k |\<in>| eav_index |`| stored) [0..<n]"
proof -
  obtain n where "increment_key_till_no_collision eav stored
        = eav\<lparr> eav_index := eav_index eav + int n \<rparr>"
    "eav_index eav + int n |\<notin>| eav_index |`| stored"
    "\<forall>k<n. eav_index eav + int k |\<in>| eav_index |`| stored"
    using increment_key_spec by blast
  then show ?thesis
    by (intro exI [of _ n]) (auto simp: example_add_eavi_def list_all_iff Let_def)
qed

end
