(* ===== verification/Pending_Validations.thy ===== *)
theory Pending_Validations
  imports Core_Types
begin

text \<open>
  \<open>crates/core/src/dht/pending_validations.rs\<close>, \<open>network/entry_with_header.rs\<close> and
  \<open>entry/validation_dependencies.rs\<close>: what waits for validation, the entries it
  depends on, and its conversion from and to the aspects that the network sends.
\<close>

section \<open>Data\<close>

type_synonym ProcessUniqueId = nat
type_synonym SystemTime = int
type_synonym Duration = int

record EntryWithHeader =
  ewh_entry :: Entry
  ewh_header :: ChainHeader

definition try_from_entry_and_header ::
  "hasher \<Rightarrow> Entry \<Rightarrow> ChainHeader \<Rightarrow> EntryWithHeader HcResult" where
  "try_from_entry_and_header H entry header =
     (if entry_address H entry \<noteq> hdr_entry_address header
      then Err (ValidationFailed ''Entry/Header mismatch'')
      else Ok \<lparr> ewh_entry = entry, ewh_header = header \<rparr>)"

datatype ValidatingWorkflow = HoldEntry | HoldLink | RemoveLink | UpdateEntry | RemoveEntry

fun workflow_string :: "ValidatingWorkflow \<Rightarrow> string" where
  "workflow_string HoldEntry = ''HoldEntry''"
| "workflow_string HoldLink = ''HoldLink''"
| "workflow_string RemoveLink = ''RemoveLink''"
| "workflow_string UpdateEntry = ''UpdateEntry''"
| "workflow_string RemoveEntry = ''RemoveEntry''"

definition workflow_try_from :: "string \<Rightarrow> ValidatingWorkflow HcResult" where
  "workflow_try_from s =
     (if s = ''HoldEntry'' then Ok HoldEntry
      else if s = ''HoldLink'' then Ok HoldLink
      else if s = ''RemoveLink'' then Ok RemoveLink
      else if s = ''UpdateEntry'' then Ok UpdateEntry
      else if s = ''RemoveEntry'' then Ok RemoveEntry
      else Err (SerializationError ''No ValidatingWorkflow''))"

record PendingValidation =
  entry_with_header :: EntryWithHeader
  dependencies :: "Address list"
  workflow :: ValidatingWorkflow
  uuid :: ProcessUniqueId

record ValidationTimeout =
  time_of_dispatch :: SystemTime
  delay :: Duration

record PendingValidationWithTimeout =
  pending :: PendingValidation
  timeout :: "ValidationTimeout option"

section \<open>Dependencies\<close>

definition get_validation_dependencies :: "EntryWithHeader \<Rightarrow> Address list" where
  "get_validation_dependencies ewh =
     (case ewh_entry ewh of
        Entry.App _ _ \<Rightarrow>
          (case hdr_link_update_delete (ewh_header ewh) of
             Some entry_to_update \<Rightarrow> [entry_to_update]
           | None \<Rightarrow> [])
      | Entry.LinkAdd link_data \<Rightarrow> [base (link_of link_data), target (link_of link_data)]
      | Entry.LinkRemove link_data _ \<Rightarrow> [base (link_of link_data), target (link_of link_data)]
      | Entry.ChainHeader chain_header \<Rightarrow>
          (case hdr_link chain_header of Some prev_addr \<Rightarrow> [prev_addr] | None \<Rightarrow> [])
      | Entry.Deletion deleted_entry_address \<Rightarrow> [deleted_entry_address]
      | _ \<Rightarrow> [])"

text \<open>\<open>new\<close> takes the unique id it stamps as an argument.\<close>

definition PendingValidation_new ::
  "ProcessUniqueId \<Rightarrow> EntryWithHeader \<Rightarrow> ValidatingWorkflow \<Rightarrow> PendingValidation" where
  "PendingValidation_new u ewh w =
     \<lparr> entry_with_header = ewh, dependencies = get_validation_dependencies ewh,
       workflow = w, uuid = u \<rparr>"

definition PendingValidation_same :: "ProcessUniqueId \<Rightarrow> PendingValidation \<Rightarrow> PendingValidation" where
  "PendingValidation_same u p = p\<lparr> uuid := u \<rparr>"

section \<open>From and to aspects\<close>

fun pending_try_from :: "hasher \<Rightarrow> ProcessUniqueId \<Rightarrow> EntryAspect \<Rightarrow> PendingValidation HcResult" where
  "pending_try_from H u (EntryAspect.Content entry header) =
     and_then (try_from_entry_and_header H entry header) (\<lambda>ewh.
       Ok (PendingValidation_new u ewh HoldEntry))"
| "pending_try_from H u (EntryAspect.Header _) = Err (NotImplemented ''EntryAspect::Header'')"
| "pending_try_from H u (EntryAspect.LinkAdd link_data header) =
     and_then (try_from_entry_and_header H (Entry.LinkAdd link_data) header) (\<lambda>ewh.
       Ok (PendingValidation_new u ewh HoldLink))"
| "pending_try_from H u (EntryAspect.LinkRemove link_data links_to_remove header) =
     and_then (try_from_entry_and_header H (Entry.LinkRemove link_data links_to_remove) header)
       (\<lambda>ewh. Ok (PendingValidation_new u ewh RemoveLink))"
| "pending_try_from H u (EntryAspect.Update entry header) =
     and_then (try_from_entry_and_header H entry header) (\<lambda>ewh.
       Ok (PendingValidation_new u ewh UpdateEntry))"
| "pending_try_from H u (EntryAspect.Deletion header) =
     and_then (ok_or (ValidationFailed ''Deletion header is missing deletion link'')
                 (hdr_link_update_delete header)) (\<lambda>deleted_entry_address.
     and_then (try_from_entry_and_header H (Entry.Deletion deleted_entry_address) header) (\<lambda>ewh.
       Ok (PendingValidation_new u ewh RemoveEntry)))"

definition pending_to_aspect :: "PendingValidation \<Rightarrow> EntryAspect outcome" where
  "pending_to_aspect p =
     (let entry = ewh_entry (entry_with_header p); header = ewh_header (entry_with_header p)
      in case workflow p of
           HoldEntry \<Rightarrow> Returns (EntryAspect.Content entry header)
         | HoldLink \<Rightarrow>
             (case entry of
                Entry.LinkAdd link_data \<Rightarrow> Returns (EntryAspect.LinkAdd link_data header)
              | _ \<Rightarrow> Panics ''unwrap_to!'')
         | RemoveLink \<Rightarrow>
             (case entry of
                Entry.LinkRemove link_data links \<Rightarrow> Returns (EntryAspect.LinkRemove link_data links header)
              | _ \<Rightarrow> Panics ''unwrap_to!'')
         | UpdateEntry \<Rightarrow> Returns (EntryAspect.Update entry header)
         | RemoveEntry \<Rightarrow> Returns (EntryAspect.Deletion header))"

section \<open>Properties\<close>

lemma try_from_entry_and_header_Ok_iff:
  "try_from_entry_and_header H entry header = Ok ewh \<longleftrightarrow>
     entry_address H entry = hdr_entry_address header
     \<and> ewh = \<lparr> ewh_entry = entry, ewh_header = header \<rparr>"
  by (auto simp: try_from_entry_and_header_def)

lemma workflow_roundtrip: "workflow_try_from (workflow_string w) = Ok w"
  by (cases w) (simp_all add: workflow_try_from_def)

text \<open>
  An aspect that the network sends survives its time in the validation queue:
  every aspect accepted as a pending validation is turned back, when it is validated,
  into the same aspect, without a panic; its entry is the one its header names; and
  it waits for the dependencies of that entry.
\<close>

theorem pending_aspect_roundtrip:
  assumes "pending_try_from H u aspect = Ok p"
  shows "pending_to_aspect p = Returns aspect
         \<and> ewh_header (entry_with_header p) = aspect_header aspect
         \<and> entry_address H (ewh_entry (entry_with_header p)) = hdr_entry_address (aspect_header aspect)
         \<and> dependencies p = get_validation_dependencies (entry_with_header p)"
  using assms
  by (cases aspect)
     (auto simp: pending_to_aspect_def PendingValidation_new_def result_iffs
       try_from_entry_and_header_Ok_iff)

theorem pending_aspect_roundtrip_witness:
  "let H = \<lparr> entry_hash = (\<lambda>_. ''Qm1''), header_hash = (\<lambda>_. ''Qm2''), aspect_hash = (\<lambda>_. ''Qm3'') \<rparr>;
       h = ChainHeader_new (EntryType.App ''post'') ''Qm1'' [] None None (Some ''Qm0'') 0;
       p = PendingValidation_new 7 \<lparr> ewh_entry = Entry.App ''post'' ''x'', ewh_header = h \<rparr> UpdateEntry
   in pending_to_aspect p = Returns (EntryAspect.Update (Entry.App ''post'' ''x'') h)
      \<and> dependencies p = [''Qm0'']"
proof -
  let ?H = "\<lparr> entry_hash = (\<lambda>_. ''Qm1''), header_hash = (\<lambda>_. ''Qm2''), aspect_hash = (\<lambda>_. ''Qm3'') \<rparr>"
  let ?h = "ChainHeader_new (EntryType.App ''post'') ''Qm1'' [] None None (Some ''Qm0'') 0"
  let ?p = "PendingValidation_new 7 \<lparr> ewh_entry = Entry.App ''post'' ''x'', ewh_header = ?h \<rparr> UpdateEntry"
  have "pending_try_from ?H 7 (EntryAspect.Update (Entry.App ''post'' ''x'') ?h) = Ok ?p"
    by (simp add: try_from_entry_and_header_def ChainHeader_new_def)
  from pending_aspect_roundtrip [OF this] show ?thesis
    by (simp add: PendingValidation_new_def get_validation_dependencies_def ChainHeader_new_def)
qed

end
