(* ===== verification/Action.thy ===== *)
theory Action
  imports Eav Pending_Validations
begin

text \<open>
  \<open>crates/core/src/action.rs\<close> and the payloads of its actions, from
  \<open>core_types/src/network/query.rs\<close>, \<open>core_types/src/validation.rs\<close>,
  \<open>core/src/nucleus/mod.rs\<close> and \<open>core/src/network/direct_message.rs\<close>.  The records of
  the network protocol have the fields the sources use.  An action wrapper is its
  action with the id that identifies it.
\<close>

section \<open>Zome calls\<close>

datatype ZomeApiFunction =
    MissingNo
  | Debug
  | CommitAppEntry
  | GetAppEntry
  | UpdateEntry
  | RemoveEntry
  | InitGlobals
  | Call
  | LinkEntries
  | GetLinks
  | GetLinksCount
  | Query
  | EntryAddress
  | Send
  | Sleep
  | RemoveLink
  | Crypto
  | SignOneTime
  | VerifySignature
  | KeystoreList
  | KeystoreNewRandom
  | KeystoreDeriveSeed
  | KeystoreDeriveKey
  | KeystoreSign
  | KeystoreGetPublicKey
  | CommitCapabilityGrant
  | CommitCapabilityClaim
  | EmitSignal
  | Meta

record HdkFnCall =
  hdk_function :: ZomeApiFunction
  hdk_parameters :: JsonString

type_synonym HdkFnCallResult = "(JsonString, string) result"

record CapabilityRequest =
  cap_token :: Address
  cap_provenance :: Provenance

record ZomeFnCall =
  call_id :: ProcessUniqueId
  zome_name :: string
  cap :: CapabilityRequest
  fn_name :: string
  call_parameters :: JsonString

definition same_fn_as :: "ZomeFnCall \<Rightarrow> ZomeFnCall \<Rightarrow> bool" where
  "same_fn_as c d \<longleftrightarrow> zome_name c = zome_name d \<and> cap c = cap d \<and> fn_name c = fn_name d"

type_synonym ZomeFnResult = "JsonString HcResult"

record ExecuteZomeFnResponse =
  response_call :: ZomeFnCall
  response_result :: ZomeFnResult

record Initialization =
  public_token :: "Address option"
  payload :: "string option"

section \<open>Queries\<close>

datatype SortOrder = Ascending | Descending

record TimePagination =
  from_time :: Iso8601
  time_limit :: nat

record SizePagination =
  page_number :: nat
  page_size :: nat

datatype Pagination = Size SizePagination | Time TimePagination

record GetLinksQueryConfiguration =
  links_headers :: bool
  pagination :: "Pagination option"
  sort_order :: "SortOrder option"

datatype GetLinksNetworkQuery = Count | Links GetLinksQueryConfiguration

record GetLinkData =
  gl_address :: Address
  gl_crud_status :: CrudStatus
  gl_target :: Address
  gl_tag :: string
  gl_headers :: "ChainHeader list option"

datatype GetLinksNetworkResult = LinksCount nat | LinksFound "GetLinkData list"

datatype NetworkQuery =
    GetEntry
  | GetLinks "string option" "string option" "CrudStatus option" GetLinksNetworkQuery

record EntryWithMeta =
  meta_entry :: Entry
  meta_crud_status :: CrudStatus
  maybe_link_update_delete :: "Address option"

record EntryWithMetaAndHeader =
  entry_with_meta :: EntryWithMeta
  meta_headers :: "ChainHeader list"

datatype NetworkQueryResult =
    EntryResult "EntryWithMetaAndHeader option"
  | LinksResult GetLinksNetworkResult "string option" "string option"

record GetLinksKey =
  base_address :: Address
  key_link_type :: "string option"
  key_tag :: "string option"
  links_key_id :: string

record GetEntryKey =
  get_address :: Address
  entry_key_id :: string

datatype QueryKey = EntryKey GetEntryKey | LinksKey GetLinksKey

datatype QueryPayload =
    EntryPayload
  | LinksPayload "CrudStatus option" GetLinksNetworkQuery

section \<open>Validation packages and direct messages\<close>

record ValidationPackage =
  vp_chain_header :: ChainHeader
  source_chain_entries :: "Entry list option"
  source_chain_headers :: "ChainHeader list option"
  custom :: "string option"

definition only_header :: "ChainHeader \<Rightarrow> ValidationPackage" where
  "only_header header =
     \<lparr> vp_chain_header = header, source_chain_entries = None, source_chain_headers = None,
       custom = None \<rparr>"

datatype ValidationPackageDefinition =
    DefEntry
  | DefChainEntries
  | DefChainHeaders
  | DefChainFull
  | DefCustom string

record ValidationKey =
  vk_address :: Address
  vk_id :: string

record CustomDirectMessage =
  cdm_zome :: string
  cdm_payload :: "(string, string) result"

datatype DirectMessage =
    Custom CustomDirectMessage
  | RequestValidationPackage ValidationKey
  | ValidationPackageMessage "ValidationPackage option"

record DirectMessageData =
  dm_address :: Address
  dm_message :: DirectMessage
  dm_msg_id :: string
  dm_is_response :: bool

section \<open>Protocol data\<close>

record FetchEntryData =
  fe_request_id :: string
  fe_entry_address :: Address

record QueryEntryData =
  qe_request_id :: string
  qe_requester_agent_id :: Address
  qe_entry_address :: Address

record EntryListData =
  el_request_id :: string
  el_address_map :: "(Address \<times> Address list) list"

datatype P2pBackendKind = GhostEngineMemory | LIB3H | SIM2H | LegacyInMemory

text \<open>The configurations of foreign backends are their text.\<close>

datatype BackendConfig =
    JsonConfig string
  | Lib3hConfig string
  | MemoryConfig string
  | Sim2hConfig string

record P2pConfig =
  backend_kind :: P2pBackendKind
  backend_config :: BackendConfig
  maybe_end_user_config :: "string option"

record NetworkSettings =
  ns_p2p_config :: P2pConfig
  ns_dna_address :: Address
  ns_agent_id :: string

type_synonym HoldAspectAttemptId = "ProcessUniqueId \<times> ProcessUniqueId"

datatype HoldingWorkflowQueueing = Processing | Waiting Duration | Done

section \<open>Actions\<close>

datatype Action =
    Prune
  | ClearActionResponse string
  | Commit Entry "Address option" "Provenance list"
  | QueueHoldingWorkflow PendingValidation "(SystemTime \<times> Duration) option"
  | RemoveQueuedHoldingWorkflow HoldingWorkflowQueueing PendingValidation
  | HoldAspect EntryAspect HoldAspectAttemptId
  | CrudStatusAction EntryWithHeader CrudStatus
  | InitNetwork NetworkSettings
  | ShutdownNetwork
  | Publish Address
  | PublishHeaderEntry Address
  | QueryAction QueryKey QueryPayload "(SystemTime \<times> Duration) option"
  | QueryTimeout QueryKey
  | RespondQuery QueryEntryData NetworkQueryResult
  | HandleQuery NetworkQueryResult QueryKey
  | ClearQueryResult QueryKey
  | RespondFetch FetchEntryData "EntryAspect list"
  | SendDirectMessage DirectMessageData "(SystemTime \<times> Duration) option"
  | SendDirectMessageTimeout string
  | ResolveDirectConnection string
  | GetValidationPackage ValidationKey ChainHeader
  | GetValidationPackageTimeout ValidationKey
  | HandleGetValidationPackage Address ValidationKey "ValidationPackage option"
  | ClearValidationPackageResult ValidationKey
  | HandleCustomSendResponse string "(string, string) result"
  | ClearCustomSendResponse string
  | RespondAuthoringList EntryListData
  | RespondGossipList EntryListData
  | InitializeChain Dna
  | ReturnInitializationResult "(Initialization, string) result"
  | QueueZomeFunctionCall ZomeFnCall
  | ReturnZomeFunctionResult ExecuteZomeFnResponse
  | TraceInvokeHdkFunction ZomeFnCall HdkFnCall
  | TraceReturnHdkFunction ZomeFnCall HdkFnCall HdkFnCallResult
  | ClearZomeFunctionCall ZomeFnCall
  | Ping

record ActionWrapper =
  action :: Action
  action_id :: string

section \<open>Responses to actions\<close>

record 'a ActionResponse =
  created_at :: SystemTime
  response :: 'a

definition from_millis :: "int \<Rightarrow> Duration" where
  "from_millis ms = ms * 1000000"

definition ACTION_PRUNE_MS :: int where
  "ACTION_PRUNE_MS = 60000"

text \<open>\<open>SystemTime::elapsed\<close> fails when the time lies in the future.\<close>

definition elapsed :: "SystemTime \<Rightarrow> SystemTime \<Rightarrow> Duration option" where
  "elapsed now t = (if t \<le> now then Some (now - t) else None)"

definition response_expired :: "SystemTime \<Rightarrow> 'a ActionResponse \<Rightarrow> bool" where
  "response_expired now r \<longleftrightarrow>
     (case elapsed now (created_at r) of
        Some e \<Rightarrow> e > from_millis ACTION_PRUNE_MS
      | None \<Rightarrow> False)"

end
