(* ===== verification/Dht_Store.thy ===== *)
theory Dht_Store
  imports Aspect_Map Content_Store Action
begin

text \<open>
  \<open>crates/core/src/dht/dht_store.rs\<close>: the DHT slice of the state.  The record holds
  what the slice owns: the map of held aspects, the results of hold attempts, and the
  two queues of holding workflows.  The content storage and the index are shared with
  every clone of the slice, so they are arguments and results of the operations that
  use them.  The index is given by its operations; its query engine, its clock and
  the Unicode tables behind \<open>to_uppercase\<close> are parameters.
\<close>

section \<open>The slice\<close>

datatype IndexFilter = LatestByAttribute | Range "Index option" "Index option"

record EaviQuery =
  q_entity :: "Address option"
  q_attribute :: "Attribute \<Rightarrow> bool"
  q_value :: "Address option"
  q_index :: IndexFilter
  q_tombstone :: "(Attribute \<Rightarrow> bool) option"

record 'e eav_ops =
  eav_add :: "'e \<Rightarrow> EntityAttributeValueIndex
     \<Rightarrow> (EntityAttributeValueIndex option, PersistenceError) result \<times> 'e"
  eav_fetch :: "'e \<Rightarrow> EaviQuery \<Rightarrow> (EntityAttributeValueIndex list, PersistenceError) result"
  eavi_make :: eavi_maker
  eavi_make_with_index :: "Address \<Rightarrow> Attribute \<Rightarrow> Address \<Rightarrow> Index
     \<Rightarrow> (EntityAttributeValueIndex, PersistenceError) result"

record DhtStore =
  holding_map :: AspectMap
  holding_attempt_results :: "(HoldAspectAttemptId, unit HcResult) fmap"
  queued_holding_workflows :: "PendingValidationWithTimeout list"
  in_process_holding_workflows :: "PendingValidationWithTimeout list"

definition DhtStore_new :: DhtStore where
  "DhtStore_new =
     \<lparr> holding_map = AspectMap_new, holding_attempt_results = fmempty,
       queued_holding_workflows = [], in_process_holding_workflows = [] \<rparr>"

record DhtStoreSnapshot =
  snap_holding_map :: AspectMap
  snap_queued :: "PendingValidationWithTimeout list"
  snap_in_process :: "PendingValidationWithTimeout list"

definition dht_snapshot :: "DhtStore \<Rightarrow> DhtStoreSnapshot" where
  "dht_snapshot store =
     \<lparr> snap_holding_map = holding_map store, snap_queued = queued_holding_workflows store,
       snap_in_process = in_process_holding_workflows store \<rparr>"

definition RETRY_VALIDATION_DURATION_MIN :: Duration where
  "RETRY_VALIDATION_DURATION_MIN = from_millis 15000"

definition DhtStore_new_from_snapshot :: "SystemTime \<Rightarrow> DhtStoreSnapshot \<Rightarrow> DhtStore" where
  "DhtStore_new_from_snapshot now snapshot =
     DhtStore_new\<lparr> holding_map := snap_holding_map snapshot,
       queued_holding_workflows :=
         map (\<lambda>item. item\<lparr> timeout := Some \<lparr> time_of_dispatch = now, delay = RETRY_VALIDATION_DURATION_MIN \<rparr> \<rparr>)
           (snap_in_process snapshot @ snap_queued snapshot) \<rparr>"

section \<open>Links, metas and headers\<close>

definition links_attribute_filter ::
  "(string \<Rightarrow> string) \<Rightarrow> string option \<Rightarrow> string option \<Rightarrow> Attribute \<Rightarrow> bool" where
  "links_attribute_filter upper lt tg attr =
     (let matches = (\<lambda>query_link_type query_tag.
            (case lt of Some l \<Rightarrow> l = query_link_type | None \<Rightarrow> True)
            \<and> (case tg of Some t \<Rightarrow> upper t = upper query_tag | None \<Rightarrow> True))
      in case attr of
           LinkTag query_link_type query_tag \<Rightarrow> matches query_link_type query_tag
         | RemovedLink _ query_link_type query_tag \<Rightarrow> matches query_link_type query_tag
         | _ \<Rightarrow> False)"

definition create_get_links_eavi_query ::
  "(string \<Rightarrow> string) \<Rightarrow> Address \<Rightarrow> string option \<Rightarrow> string option \<Rightarrow> EaviQuery" where
  "create_get_links_eavi_query upper address lt tg =
     \<lparr> q_entity = Some address, q_attribute = links_attribute_filter upper lt tg, q_value = None,
       q_index = LatestByAttribute,
       q_tombstone = Some (\<lambda>attr. case attr of RemovedLink _ _ _ \<Rightarrow> True | _ \<Rightarrow> False) \<rparr>"

definition fetch_eavi :: "'e eav_ops \<Rightarrow> 'e \<Rightarrow> EaviQuery \<Rightarrow> EntityAttributeValueIndex list HcResult" where
  "fetch_eavi E eav query = map_err error_from_persistence (eav_fetch E eav query)"

definition add_eavi ::
  "'e eav_ops \<Rightarrow> 'e \<Rightarrow> EntityAttributeValueIndex \<Rightarrow> EntityAttributeValueIndex option HcResult \<times> 'e" where
  "add_eavi E eav e = (let (r, eav') = eav_add E eav e in (map_err error_from_persistence r, eav'))"

definition paginate :: "Pagination option \<Rightarrow> EntityAttributeValueIndex list \<Rightarrow> EntityAttributeValueIndex list" where
  "paginate pg es =
     (case pg of
        Some (Time tp) \<Rightarrow> take (time_limit tp) (dropWhile (\<lambda>e. from_time tp \<ge> eav_index e) es)
      | Some (Size sp) \<Rightarrow>
          take (page_size sp) (drop ((page_size sp * page_number sp) mod (usize_max + 1)) es)
      | None \<Rightarrow> es)"

definition sorted_links :: "SortOrder option \<Rightarrow> 'a list \<Rightarrow> 'a list" where
  "sorted_links order es =
     (case (case order of Some d \<Rightarrow> d | None \<Rightarrow> Descending) of
        Ascending \<Rightarrow> es
      | Descending \<Rightarrow> rev es)"

definition link_crud :: "EntityAttributeValueIndex \<Rightarrow> EntityAttributeValueIndex \<times> CrudStatus" where
  "link_crud e = (case eav_attribute e of LinkTag _ _ \<Rightarrow> (e, Live) | _ \<Rightarrow> (e, Deleted))"

definition get_links ::
  "(string \<Rightarrow> string) \<Rightarrow> 'e eav_ops \<Rightarrow> 'e \<Rightarrow> Address \<Rightarrow> string option \<Rightarrow> string option
     \<Rightarrow> CrudStatus option \<Rightarrow> GetLinksQueryConfiguration
     \<Rightarrow> (EntityAttributeValueIndex \<times> CrudStatus) list HcResult" where
  "get_links upper E eav address lt tg crud_filter configuration =
     and_then (fetch_eavi E eav (create_get_links_eavi_query upper address lt tg)) (\<lambda>filtered.
       Ok (filter (\<lambda>(_, c). case crud_filter of Some crud \<Rightarrow> crud = c | None \<Rightarrow> True)
             (map link_crud
               (paginate (pagination configuration)
                 (sorted_links (sort_order configuration) filtered)))))"

definition get_all_metas :: "'e eav_ops \<Rightarrow> 'e \<Rightarrow> Address \<Rightarrow> EntityAttributeValueIndex list HcResult" where
  "get_all_metas E eav address =
     fetch_eavi E eav
       \<lparr> q_entity = Some address,
         q_attribute = (\<lambda>attr. case attr of
            LinkTag _ _ \<Rightarrow> True | RemovedLink _ _ _ \<Rightarrow> True | CrudLink \<Rightarrow> True
          | Attribute.CrudStatus \<Rightarrow> True | _ \<Rightarrow> False),
         q_value = None, q_index = Range (Some 0) (Some (2 ^ 63 - 1)), q_tombstone = None \<rparr>"

text \<open>\<open>collect::<Result<Vec<_>, _>>\<close>: the first error, or all values.\<close>

fun collect_results :: "('a, 'x) result list \<Rightarrow> ('a list, 'x) result" where
  "collect_results [] = Ok []"
| "collect_results (r # rs) = and_then r (\<lambda>a. map_ok (\<lambda>as. a # as) (collect_results rs))"

definition header_query :: "Address \<Rightarrow> EaviQuery" where
  "header_query entry_addr =
     \<lparr> q_entity = Some entry_addr, q_attribute = (\<lambda>a. a = EntryHeader), q_value = None,
       q_index = LatestByAttribute, q_tombstone = None \<rparr>"

fun as_chain_header :: "Entry \<Rightarrow> ChainHeader HcResult" where
  "as_chain_header (Entry.ChainHeader chain_header) = Ok chain_header"
| "as_chain_header _ = Err (ErrorGeneric ''Unexpected non-chain_header entry'')"

definition dht_get_headers ::
  "'c cas_ops \<Rightarrow> 'e eav_ops \<Rightarrow> 'c \<Rightarrow> 'e \<Rightarrow> Address \<Rightarrow> ChainHeader list HcResult" where
  "dht_get_headers C E cas eav entry_addr =
     and_then (fetch_eavi E eav (header_query entry_addr)) (\<lambda>es.
     and_then (collect_results (map (\<lambda>e. get_entry C cas (eav_value e)) es)) (\<lambda>found.
       collect_results (map as_chain_header (List.map_filter id found))))"

definition add_header_for_entry ::
  "hasher \<Rightarrow> 'c cas_ops \<Rightarrow> 'e eav_ops \<Rightarrow> 'c \<times> 'e \<Rightarrow> Entry \<Rightarrow> ChainHeader \<Rightarrow> unit HcResult \<times> 'c \<times> 'e" where
  "add_header_for_entry H C E = (\<lambda>(cas, eav) entry header.
     (case map_err error_from_persistence
             (eavi_make E (entry_address H entry) EntryHeader (header_hash H header)) of
        Inl e \<Rightarrow> (Err e, cas, eav)
      | Inr eavi \<Rightarrow>
          (case add_header H C cas header of
             (Inl e, cas') \<Rightarrow> (Err e, cas', eav)
           | (Inr _, cas') \<Rightarrow>
               (case add_eavi E eav eavi of
                  (Inl e, eav') \<Rightarrow> (Err e, cas', eav')
                | (Inr _, eav') \<Rightarrow> (Ok (), cas', eav')))))"

section \<open>Held aspects\<close>

definition mark_aspect_as_held :: "hasher \<Rightarrow> EntryAspect \<Rightarrow> DhtStore \<Rightarrow> DhtStore outcome" where
  "mark_aspect_as_held H aspect store =
     outcome_bind (aspect_add H (holding_map store) aspect) (\<lambda>m.
       Returns (store\<lparr> holding_map := m \<rparr>))"

definition mark_hold_aspect_complete ::
  "HoldAspectAttemptId \<Rightarrow> unit HcResult \<Rightarrow> DhtStore \<Rightarrow> DhtStore" where
  "mark_hold_aspect_complete hid result store =
     store\<lparr> holding_attempt_results := fmupd hid result (holding_attempt_results store) \<rparr>"

definition hold_aspec_request_complete :: "DhtStore \<Rightarrow> HoldAspectAttemptId \<Rightarrow> unit HcResult option" where
  "hold_aspec_request_complete store hid = fmlookup (holding_attempt_results store) hid"

section \<open>The queues\<close>

text \<open>Equality of pending validations compares entries by their address.\<close>

definition same_pending :: "hasher \<Rightarrow> PendingValidation \<Rightarrow> PendingValidation \<Rightarrow> bool" where
  "same_pending H p q \<longleftrightarrow>
     entry_address H (ewh_entry (entry_with_header p)) = entry_address H (ewh_entry (entry_with_header q))
     \<and> ewh_header (entry_with_header p) = ewh_header (entry_with_header q)
     \<and> dependencies p = dependencies q \<and> workflow p = workflow q \<and> uuid p = uuid q"

definition pending_address :: "hasher \<Rightarrow> PendingValidationWithTimeout \<Rightarrow> Address" where
  "pending_address H p = entry_address H (ewh_entry (entry_with_header (pending p)))"

definition free_pending_filter ::
  "hasher \<Rightarrow> PendingValidationWithTimeout list \<Rightarrow> PendingValidationWithTimeout \<Rightarrow> bool" where
  "free_pending_filter H queue p \<longleftrightarrow>
     list_all (\<lambda>dep_addr. dep_addr \<notin> pending_address H ` set queue) (dependencies (pending p))"

definition still_delayed :: "SystemTime \<Rightarrow> PendingValidationWithTimeout \<Rightarrow> bool" where
  "still_delayed now p \<longleftrightarrow>
     (case timeout p of
        Some t \<Rightarrow> (case elapsed now (time_of_dispatch t) of
                     Some time_elapsed \<Rightarrow> time_elapsed < delay t
                   | None \<Rightarrow> False)
      | None \<Rightarrow> False)"

definition next_queued_holding_workflow ::
  "hasher \<Rightarrow> SystemTime \<Rightarrow> DhtStore \<Rightarrow> (PendingValidation \<times> Duration option) option" where
  "next_queued_holding_workflow H now store =
     (let queue = queued_holding_workflows store
      in case dropWhile (still_delayed now) (filter (free_pending_filter H queue) queue) of
           [] \<Rightarrow> None
         | p # _ \<Rightarrow> Some (pending p, map_option delay (timeout p)))"

definition has_exact :: "hasher \<Rightarrow> PendingValidationWithTimeout list \<Rightarrow> PendingValidation \<Rightarrow> bool" where
  "has_exact H queue p \<longleftrightarrow> list_ex (\<lambda>c. same_pending H (pending c) p) queue"

definition has_exact_queued_holding_workflow :: "hasher \<Rightarrow> DhtStore \<Rightarrow> PendingValidation \<Rightarrow> bool" where
  "has_exact_queued_holding_workflow H store = has_exact H (queued_holding_workflows store)"

definition has_exact_in_process_holding_workflow :: "hasher \<Rightarrow> DhtStore \<Rightarrow> PendingValidation \<Rightarrow> bool" where
  "has_exact_in_process_holding_workflow H store = has_exact H (in_process_holding_workflows store)"

definition workflow_key :: "PendingValidation \<Rightarrow> ChainHeader \<times> ValidatingWorkflow" where
  "workflow_key p = (ewh_header (entry_with_header p), workflow p)"

definition has_same_queued_holding_worfkow :: "DhtStore \<Rightarrow> PendingValidation \<Rightarrow> bool" where
  "has_same_queued_holding_worfkow store p \<longleftrightarrow>
     list_ex (\<lambda>c. workflow_key (pending c) = workflow_key p) (queued_holding_workflows store)"

definition has_same_in_process_holding_worfkow :: "DhtStore \<Rightarrow> PendingValidation \<Rightarrow> bool" where
  "has_same_in_process_holding_worfkow store p \<longleftrightarrow>
     list_ex (\<lambda>c. workflow_key (pending c) = workflow_key p) (in_process_holding_workflows store)"

fun update_queued_holding_workflow ::
  "hasher \<Rightarrow> SystemTime \<Rightarrow> HoldingWorkflowQueueing \<Rightarrow> PendingValidation \<Rightarrow> DhtStore \<Rightarrow> DhtStore" where
  "update_queued_holding_workflow H now (Waiting d) item store =
     (case remove_first (\<lambda>p. same_pending H (pending p) item) (in_process_holding_workflows store) of
        None \<Rightarrow> store
      | Some (p, rest) \<Rightarrow>
          store\<lparr> in_process_holding_workflows := rest,
                 queued_holding_workflows := queued_holding_workflows store @
                   [p\<lparr> timeout := Some \<lparr> time_of_dispatch = now, delay = d \<rparr> \<rparr>] \<rparr>)"
| "update_queued_holding_workflow H now Processing item store =
     (case remove_first (\<lambda>p. same_pending H (pending p) item) (queued_holding_workflows store) of
        None \<Rightarrow> store
      | Some (p, rest) \<Rightarrow>
          store\<lparr> queued_holding_workflows := rest,
                 in_process_holding_workflows := in_process_holding_workflows store @ [p] \<rparr>)"
| "update_queued_holding_workflow H now Done item store =
     (case remove_first (\<lambda>p. same_pending H (pending p) item) (in_process_holding_workflows store) of
        None \<Rightarrow> store
      | Some (p, rest) \<Rightarrow> store\<lparr> in_process_holding_workflows := rest \<rparr>)"

text \<open>What the future that awaits a queue update polls for.\<close>

fun queue_update_ready :: "hasher \<Rightarrow> HoldingWorkflowQueueing \<Rightarrow> PendingValidation \<Rightarrow> DhtStore \<Rightarrow> bool" where
  "queue_update_ready H Processing item store \<longleftrightarrow>
     \<not> (has_exact_queued_holding_workflow H store item
        \<or> \<not> has_exact_in_process_holding_workflow H store item)"
| "queue_update_ready H (Waiting _) item store \<longleftrightarrow>
     \<not> (\<not> has_exact_queued_holding_workflow H store item
        \<or> has_exact_in_process_holding_workflow H store item)"
| "queue_update_ready H Done item store \<longleftrightarrow> \<not> has_exact_in_process_holding_workflow H store item"

section \<open>The queues keep one workflow per header\<close>

abbreviation workflows :: "DhtStore \<Rightarrow> PendingValidationWithTimeout list" where
  "workflows s \<equiv> queued_holding_workflows s @ in_process_holding_workflows s"

definition queues_ok :: "DhtStore \<Rightarrow> bool" where
  "queues_ok s \<longleftrightarrow> distinct (map (\<lambda>p. workflow_key (pending p)) (workflows s))"

lemma same_pending_key: "same_pending H p q \<Longrightarrow> workflow_key p = workflow_key q"
  by (simp add: same_pending_def workflow_key_def)

lemma same_pending_refl [simp]: "same_pending H p p"
  by (simp add: same_pending_def)

lemma same_pending_sym: "same_pending H p q \<Longrightarrow> same_pending H q p"
  by (simp add: same_pending_def)

lemma same_pending_trans: "same_pending H p q \<Longrightarrow> same_pending H q r \<Longrightarrow> same_pending H p r"
  by (simp add: same_pending_def)

lemma queues_ok_mset:
  assumes "image_mset (\<lambda>p. workflow_key (pending p)) (mset (workflows s'))
           \<subseteq># image_mset (\<lambda>p. workflow_key (pending p)) (mset (workflows s))"
    and "queues_ok s"
  shows "queues_ok s'"
proof -
  have "distinct (map (\<lambda>p. workflow_key (pending p)) (workflows s))"
    using assms(2) by (simp only: queues_ok_def)
  moreover have "mset (map (\<lambda>p. workflow_key (pending p)) (workflows s'))
      \<subseteq># mset (map (\<lambda>p. workflow_key (pending p)) (workflows s))"
    using assms(1) by (simp only: mset_map)
  ultimately show ?thesis
    unfolding queues_ok_def by (rule distinct_mset_subset)
qed

lemma update_keys_mset:
  "image_mset (\<lambda>p. workflow_key (pending p)) (mset (workflows (update_queued_holding_workflow H now c item s)))
   \<subseteq># image_mset (\<lambda>p. workflow_key (pending p)) (mset (workflows s))"
  by (cases "(H, now, c, item, s)" rule: update_queued_holding_workflow.cases)
     (auto split: option.splits dest!: remove_first_mset)

lemma queues_ok_update [inv_pres]:
  "queues_ok s \<Longrightarrow> queues_ok (update_queued_holding_workflow H now c item s)"
  by (rule queues_ok_mset [OF update_keys_mset])

lemma queues_ok_new [inv_pres]: "queues_ok DhtStore_new"
  by (simp add: queues_ok_def DhtStore_new_def)

lemma queues_ok_restore [inv_pres]:
  "queues_ok s \<Longrightarrow> queues_ok (DhtStore_new_from_snapshot now (dht_snapshot s))"
  by (rule queues_ok_mset)
     (auto simp: DhtStore_new_from_snapshot_def dht_snapshot_def DhtStore_new_def
       multiset.map_comp comp_def)

section \<open>Moving workflows between the queues\<close>

lemma has_exact_iff: "has_exact H queue p \<longleftrightarrow> (\<exists>c \<in> set queue. same_pending H (pending c) p)"
  by (simp add: has_exact_def list_ex_iff)

lemma queues_ok_unique:
  assumes "queues_ok s" "mset (workflows s) = add_mset p rest" "q \<in># rest"
  shows "workflow_key (pending q) \<noteq> workflow_key (pending p)"
  using distinct_map_unique [of "\<lambda>p. workflow_key (pending p)" "workflows s"] assms
  unfolding queues_ok_def by blast

text \<open>Every move takes one workflow out of one queue and leaves the others alone.\<close>

lemma remove_exact:
  assumes "queues_ok s" "has_exact H queue item" "mset (workflows s) = mset queue + mset others"
  obtains us p vs where
    "remove_first (\<lambda>p. same_pending H (pending p) item) queue = Some (p, us @ vs)"
    "same_pending H (pending p) item" "queue = us @ p # vs"
    "\<not> has_exact H (us @ vs) item" "\<not> has_exact H others item"
proof -
  from assms(2) obtain p rest where
    rf: "remove_first (\<lambda>p. same_pending H (pending p) item) queue = Some (p, rest)"
    by (cases "remove_first (\<lambda>p. same_pending H (pending p) item) queue")
       (auto simp: has_exact_iff remove_first_None)
  obtain us vs where m: "queue = us @ p # vs" "rest = us @ vs" "same_pending H (pending p) item"
    using rf by (rule remove_first_Some) blast
  have "\<not> same_pending H (pending q) item" if "q \<in># mset rest + mset others" for q
  proof
    assume "same_pending H (pending q) item"
    with m have "workflow_key (pending q) = workflow_key (pending p)"
      using same_pending_key by metis
    moreover have "mset (workflows s) = add_mset p (mset rest + mset others)"
      using assms(3) m by simp
    ultimately show False using queues_ok_unique [OF assms(1)] that by blast
  qed
  with rf m show ?thesis by (intro that [of p us vs]) (auto simp: has_exact_iff)
qed

definition expected_in :: "HoldingWorkflowQueueing \<Rightarrow> hasher \<Rightarrow> DhtStore \<Rightarrow> PendingValidation \<Rightarrow> bool" where
  "expected_in c H s item \<longleftrightarrow>
     (case c of
        Processing \<Rightarrow> has_exact_queued_holding_workflow H s item
      | _ \<Rightarrow> has_exact_in_process_holding_workflow H s item)"

lemma update_Processing_completes:
  assumes "queues_ok s" "has_exact H (queued_holding_workflows s) item"
    and s': "s' = update_queued_holding_workflow H now Processing item s"
  shows "queue_update_ready H Processing item s'
    \<and> (\<exists>us q vs. same_pending H (pending q) item \<and> queued_holding_workflows s = us @ q # vs
        \<and> s' = s\<lparr> queued_holding_workflows := us @ vs,
                    in_process_holding_workflows := in_process_holding_workflows s @ [q] \<rparr>)"
  using assms(1,2) mset_append
  by (rule remove_exact)
     (auto simp: s' has_exact_queued_holding_workflow_def has_exact_in_process_holding_workflow_def has_exact_iff)

lemma update_Waiting_completes:
  assumes "queues_ok s" "has_exact H (in_process_holding_workflows s) item"
    and s': "s' = update_queued_holding_workflow H now (Waiting d) item s"
  shows "queue_update_ready H (Waiting d) item s'
    \<and> (\<exists>us q vs. same_pending H (pending q) item \<and> in_process_holding_workflows s = us @ q # vs
        \<and> s' = s\<lparr> in_process_holding_workflows := us @ vs, queued_holding_workflows := queued_holding_workflows s @
                    [q\<lparr> timeout := Some \<lparr> time_of_dispatch = now, delay = d \<rparr> \<rparr>] \<rparr>)"
  using assms(1,2) mset_append [THEN trans, OF add.commute]
  by (rule remove_exact)
     (auto simp: s' has_exact_queued_holding_workflow_def has_exact_in_process_holding_workflow_def has_exact_iff)

lemma update_Done_completes:
  assumes "queues_ok s" "has_exact H (in_process_holding_workflows s) item"
    and s': "s' = update_queued_holding_workflow H now Done item s"
  shows "queue_update_ready H Done item s'
    \<and> (\<exists>us q vs. same_pending H (pending q) item \<and> in_process_holding_workflows s = us @ q # vs
        \<and> s' = s\<lparr> in_process_holding_workflows := us @ vs \<rparr>)"
  using assms(1,2) mset_append [THEN trans, OF add.commute]
  by (rule remove_exact)
     (auto simp: s' has_exact_in_process_holding_workflow_def has_exact_iff)

text \<open>
  C31.  A queue update of a workflow that is where the update expects it, in queues without two workflows of the same kind
  for the same header, changes the queues for this workflow alone: starting it moves it from its place in
  the waiting queue to the end of the one in process, retrying moves it back to the end of the waiting queue with the time
  of now and the delay of the update, finishing removes it; all other workflows keep their places, and the rest of the
  slice stays.  Afterwards the condition that the future awaiting the update polls for holds.
\<close>

theorem queue_update_completes:
  assumes "queues_ok s" and "expected_in c H s item"
  shows "let s' = update_queued_holding_workflow H now c item s
         in queue_update_ready H c item s'
            \<and> (\<exists>us q vs. same_pending H (pending q) item
               \<and> (case c of
                    Processing \<Rightarrow> queued_holding_workflows s = us @ q # vs
                      \<and> s' = s\<lparr> queued_holding_workflows := us @ vs,
                                  in_process_holding_workflows := in_process_holding_workflows s @ [q] \<rparr>
                  | Waiting d \<Rightarrow> in_process_holding_workflows s = us @ q # vs
                      \<and> s' = s\<lparr> in_process_holding_workflows := us @ vs,
                                  queued_holding_workflows := queued_holding_workflows s @
                                    [q\<lparr> timeout := Some \<lparr> time_of_dispatch = now, delay = d \<rparr> \<rparr>] \<rparr>
                  | Done \<Rightarrow> in_process_holding_workflows s = us @ q # vs
                      \<and> s' = s\<lparr> in_process_holding_workflows := us @ vs \<rparr>))"
  using assms(2) update_Processing_completes [OF assms(1) _ refl]
    update_Waiting_completes [OF assms(1) _ refl] update_Done_completes [OF assms(1) _ refl]
  by (cases c)
     (simp_all only: expected_in_def has_exact_queued_holding_workflow_def Let_def
       has_exact_in_process_holding_workflow_def HoldingWorkflowQueueing.simps simp_thms)

text \<open>Sample workflows, for the concrete instances of the theorems.\<close>

definition sample_hasher :: hasher where
  "sample_hasher =
     \<lparr> entry_hash = (\<lambda>e. case e of Entry.App t v \<Rightarrow> v | _ \<Rightarrow> ''Qm''), header_hash = hdr_entry_address,
       aspect_hash = (\<lambda>_. ''Qa'') \<rparr>"

definition sample_pending :: "string \<Rightarrow> Address option \<Rightarrow> PendingValidation" where
  "sample_pending v upd =
     PendingValidation_new 1
       \<lparr> ewh_entry = Entry.App ''post'' v,
         ewh_header = ChainHeader_new (EntryType.App ''post'') v [] None None upd 0 \<rparr> HoldEntry"

definition sample_workflow :: "string \<Rightarrow> Address option \<Rightarrow> PendingValidationWithTimeout" where
  "sample_workflow v upd = \<lparr> pending = sample_pending v upd, timeout = None \<rparr>"

lemmas sample_simps = sample_hasher_def sample_pending_def sample_workflow_def
  PendingValidation_new_def get_validation_dependencies_def ChainHeader_new_def

theorem queue_update_completes_witness:
  "let s = DhtStore_new\<lparr> queued_holding_workflows := [sample_workflow ''Q1'' None, sample_workflow ''Q2'' None] \<rparr>
   in queue_update_ready sample_hasher Processing (sample_pending ''Q2'' None)
        (update_queued_holding_workflow sample_hasher 0 Processing (sample_pending ''Q2'' None) s)"
proof -
  let ?s = "DhtStore_new\<lparr> queued_holding_workflows := [sample_workflow ''Q1'' None, sample_workflow ''Q2'' None] \<rparr>"
  have "queues_ok ?s"
    by (simp add: queues_ok_def DhtStore_new_def workflow_key_def sample_simps)
  moreover have "expected_in Processing sample_hasher ?s (sample_pending ''Q2'' None)"
    by (simp add: expected_in_def has_exact_queued_holding_workflow_def has_exact_iff sample_workflow_def)
  ultimately show ?thesis
    using queue_update_completes [of ?s Processing sample_hasher "sample_pending ''Q2'' None" 0]
    unfolding Let_def by blast
qed

section \<open>Which workflow runs next\<close>

definition runnable :: "hasher \<Rightarrow> SystemTime \<Rightarrow> DhtStore \<Rightarrow> PendingValidationWithTimeout \<Rightarrow> bool" where
  "runnable H now s p \<longleftrightarrow> free_pending_filter H (queued_holding_workflows s) p \<and> \<not> still_delayed now p"

lemma next_queued_None:
  "next_queued_holding_workflow H now s = None \<longleftrightarrow>
     (\<forall>p \<in> set (queued_holding_workflows s). \<not> runnable H now s p)"
proof -
  let ?q = "queued_holding_workflows s"
  have "next_queued_holding_workflow H now s = None \<longleftrightarrow>
      dropWhile (still_delayed now) (filter (free_pending_filter H ?q) ?q) = []"
    by (cases "dropWhile (still_delayed now) (filter (free_pending_filter H ?q) ?q)")
       (simp_all add: next_queued_holding_workflow_def Let_def del: dropWhile_eq_Nil_conv)
  then show ?thesis by (simp only: dropWhile_filter_Nil runnable_def) blast
qed

lemma next_queued_Some:
  assumes "next_queued_holding_workflow H now s = Some (p, d)"
  shows "\<exists>us item vs. queued_holding_workflows s = us @ item # vs
           \<and> p = pending item \<and> d = map_option delay (timeout item)
           \<and> runnable H now s item \<and> (\<forall>u \<in> set us. \<not> runnable H now s u)"
proof -
  let ?q = "queued_holding_workflows s"
  from assms obtain item ys where
    dw: "dropWhile (still_delayed now) (filter (free_pending_filter H ?q) ?q) = item # ys"
    and p: "p = pending item" "d = map_option delay (timeout item)"
    by (auto simp: next_queued_holding_workflow_def Let_def split: list.splits)
  from dw show ?thesis
    by (rule dropWhile_filter_split) (use p in \<open>auto simp: runnable_def\<close>)
qed

text \<open>
  The next workflow to run is the first one in the waiting queue that can run:
  none of the entries it depends on is itself waiting, and its delay has passed; and
  none is returned exactly when no waiting workflow can run.
\<close>

theorem next_queued_is_first_runnable:
  "case next_queued_holding_workflow H now s of
     Some (p, d) \<Rightarrow>
       (\<exists>us item vs. queued_holding_workflows s = us @ item # vs
          \<and> p = pending item \<and> d = map_option delay (timeout item)
          \<and> runnable H now s item \<and> filter (runnable H now s) us = [])
   | None \<Rightarrow> filter (runnable H now s) (queued_holding_workflows s) = []"
  by (auto simp: next_queued_None filter_empty_conv split: option.splits dest!: next_queued_Some)

text \<open>
  C32.  Validation makes progress: when no delay is running and the dependencies among
  the waiting workflows have no cycle, a non-empty queue always has a next workflow.
\<close>

theorem next_queued_progress:
  fixes rank :: "Address \<Rightarrow> nat"
  assumes nonempty: "queued_holding_workflows s \<noteq> []"
    and elapsed: "\<forall>p \<in> set (queued_holding_workflows s). \<not> still_delayed now p"
    and acyclic: "\<forall>p \<in> set (queued_holding_workflows s). \<forall>dep \<in> set (dependencies (pending p)).
      rank dep < rank (pending_address H p)"
  shows "next_queued_holding_workflow H now s \<noteq> None"
proof -
  let ?q = "queued_holding_workflows s"
  obtain p where p: "p \<in> set ?q" "\<And>q. q \<in> set ?q \<Longrightarrow> rank (pending_address H p) \<le> rank (pending_address H q)"
    using nonempty arg_min_if_finite [of "set ?q" "\<lambda>p. rank (pending_address H p)"]
    by (metis arg_min_least finite_set set_empty)
  have "dep \<notin> pending_address H ` set ?q" if "dep \<in> set (dependencies (pending p))" for dep
    using acyclic p that by (metis image_iff linorder_not_le)
  then have "runnable H now s p"
    using p(1) elapsed by (simp add: runnable_def free_pending_filter_def list_all_iff)
  with p(1) show ?thesis by (auto simp: next_queued_None)
qed

theorem next_queued_progress_witness:
  "next_queued_holding_workflow sample_hasher 5
     (DhtStore_new\<lparr> queued_holding_workflows := [sample_workflow ''Q12'' (Some ''Q1''), sample_workflow ''Q1'' None] \<rparr>)
   \<noteq> None"
  by (rule next_queued_progress [where rank = length])
     (simp_all add: DhtStore_new_def still_delayed_def pending_address_def sample_simps)

text \<open>
  A waiting workflow whose entry depends on its own address is never the next one,
  whatever time passes: an update of an entry to its own address starves.
\<close>

theorem self_dependent_never_next:
  assumes "pending_address H item \<in> set (dependencies (pending item))"
    and "item \<in> set (queued_holding_workflows s)"
  shows "next_queued_holding_workflow H now s \<noteq> Some (pending item, d)"
proof
  assume "next_queued_holding_workflow H now s = Some (pending item, d)"
  then obtain it where it: "pending item = pending it" "runnable H now s it"
    using next_queued_Some by metis
  then have "pending_address H item \<notin> pending_address H ` set (queued_holding_workflows s)"
    using assms(1) by (auto simp: runnable_def free_pending_filter_def list_all_iff)
  with assms(2) show False by blast
qed

theorem self_dependent_never_next_witness:
  "next_queued_holding_workflow sample_hasher 99
     (DhtStore_new\<lparr> queued_holding_workflows := [sample_workflow ''Q1'' (Some ''Q1'')] \<rparr>)
   \<noteq> Some (pending (sample_workflow ''Q1'' (Some ''Q1'')), None)"
  by (rule self_dependent_never_next)
     (simp_all add: DhtStore_new_def pending_address_def sample_simps)

section \<open>Restoring a snapshot\<close>

text \<open>
  A restart loses nothing and waits before it resumes: restoring the snapshot of a
  store keeps the held aspects, puts every workflow that was waiting or in process
  into the waiting queue with those in process first, and lets none of them run
  before the minimal retry delay is over.
\<close>

theorem restore_requeues_all:
  "let s' = DhtStore_new_from_snapshot now (dht_snapshot s)
   in holding_map s' = holding_map s
      \<and> map pending (queued_holding_workflows s') =
          map pending (in_process_holding_workflows s @ queued_holding_workflows s)
      \<and> in_process_holding_workflows s' = []
      \<and> (\<forall>t. now \<le> t \<and> t < now + RETRY_VALIDATION_DURATION_MIN
           \<longrightarrow> next_queued_holding_workflow H t s' = None)"
proof -
  let ?s = "DhtStore_new_from_snapshot now (dht_snapshot s)"
  have "still_delayed t p"
    if "now \<le> t" "t < now + RETRY_VALIDATION_DURATION_MIN" "p \<in> set (queued_holding_workflows ?s)" for t p
    using that by (auto simp: still_delayed_def elapsed_def DhtStore_new_from_snapshot_def)
  then show ?thesis
    by (auto simp: next_queued_None runnable_def DhtStore_new_from_snapshot_def DhtStore_new_def
        dht_snapshot_def)
qed

theorem restore_requeues_all_witness:
  "next_queued_holding_workflow sample_hasher 7
     (DhtStore_new_from_snapshot 5 (dht_snapshot
        (DhtStore_new\<lparr> in_process_holding_workflows := [sample_workflow ''Q1'' None] \<rparr>))) = None"
  using restore_requeues_all [of 5 "DhtStore_new\<lparr> in_process_holding_workflows := [sample_workflow ''Q1'' None] \<rparr>"]
  unfolding Let_def
  by (simp add: RETRY_VALIDATION_DURATION_MIN_def from_millis_def)

section \<open>Paging links\<close>

lemma concat_pages:
  "concat (map (\<lambda>k. take n (drop (n * k) xs)) [0..<m]) = take (n * m) xs"
proof (induction m)
  case (Suc m)
  have "take (n * m) xs @ take n (drop (n * m) xs) = take (n * m + n) xs" by (rule take_add [symmetric])
  with Suc show ?case by (simp add: add.commute)
qed simp

text \<open>
  Paging by size covers the links without gaps or repetitions: the pages 0 to m-1
  put together are the first m pages' worth of the sorted links, all of them once m
  pages are enough.
\<close>

theorem size_pages_tile:
  assumes "n * m \<le> usize_max"
  shows "concat (map (\<lambda>k. paginate (Some (Size \<lparr> page_number = k, page_size = n \<rparr>)) es) [0..<m]) = take (n * m) es"
proof -
  have "n * k mod (usize_max + 1) = n * k" if "k < m" for k
  proof -
    from that have "n * k \<le> n * m" by simp
    with assms have "n * k < usize_max + 1" by linarith
    then show ?thesis by (rule mod_less)
  qed
  then have "map (\<lambda>k. paginate (Some (Size \<lparr> page_number = k, page_size = n \<rparr>)) es) [0..<m]
      = map (\<lambda>k. take n (drop (n * k) es)) [0..<m]"
    by (simp add: paginate_def)
  then show ?thesis by (simp only: concat_pages)
qed

theorem size_pages_tile_witness:
  "let es = map (\<lambda>i. \<lparr> eav_entity = ''Q1'', eav_attribute = CrudLink, eav_value = ''Q2'', eav_index = i \<rparr>) [1, 2, 3]
   in concat (map (\<lambda>k. paginate (Some (Size \<lparr> page_number = k, page_size = 2 \<rparr>)) es) [0..<2]) = es"
  using size_pages_tile [of 2 2 "map (\<lambda>i. \<lparr> eav_entity = ''Q1'', eav_attribute = CrudLink, eav_value = ''Q2'',
      eav_index = i \<rparr>) [1, 2, 3]"]
  unfolding Let_def by (simp add: usize_max_def)

text \<open>
  Time paging depends on the order.  In ascending order it returns the links made
  after the given time; in descending order, the default, it returns the newest links
  and ignores the time as soon as one link is newer than it.
\<close>

theorem time_paging_by_order:
  assumes "sorted_wrt (\<lambda>a b. eav_index a \<le> eav_index b) es"
  shows "paginate (Some (Time tp)) (sorted_links (Some Ascending) es)
           = take (time_limit tp) (filter (\<lambda>e. from_time tp < eav_index e) es)
         \<and> paginate (Some (Time tp)) (sorted_links None es)
           = (if es \<noteq> [] \<and> from_time tp < eav_index (last es) then take (time_limit tp) (rev es) else [])"
proof
  have "dropWhile (\<lambda>e. eav_index e \<le> from_time tp) es = filter (\<lambda>e. from_time tp < eav_index e) es"
    using assms by (induction es) (auto intro!: filter_True [symmetric] dest: less_le_trans)
  then show "paginate (Some (Time tp)) (sorted_links (Some Ascending) es)
           = take (time_limit tp) (filter (\<lambda>e. from_time tp < eav_index e) es)"
    by (simp add: paginate_def sorted_links_def)
next
  show "paginate (Some (Time tp)) (sorted_links None es)
      = (if es \<noteq> [] \<and> from_time tp < eav_index (last es) then take (time_limit tp) (rev es) else [])"
  proof (cases es rule: rev_cases)
    case (snoc ys y)
    have "dropWhile (\<lambda>e. eav_index e \<le> from_time tp) (rev ys) = []" if "eav_index y \<le> from_time tp"
      using assms that by (fastforce simp: snoc sorted_wrt_append dropWhile_eq_Nil_conv)
    then show ?thesis by (simp add: snoc paginate_def sorted_links_def linorder_not_less)
  qed (simp add: paginate_def sorted_links_def)
qed

theorem time_paging_by_order_witness:
  "let old = \<lparr> eav_entity = ''Q1'', eav_attribute = CrudLink, eav_value = ''Q2'', eav_index = 1 \<rparr>;
       new = \<lparr> eav_entity = ''Q1'', eav_attribute = CrudLink, eav_value = ''Q3'', eav_index = 9 \<rparr>
   in paginate (Some (Time \<lparr> from_time = 5, time_limit = 10 \<rparr>)) (sorted_links None [old, new]) = [new, old]"
  using time_paging_by_order
    [of "[\<lparr> eav_entity = ''Q1'', eav_attribute = CrudLink, eav_value = ''Q2'', eav_index = 1 \<rparr>,
          \<lparr> eav_entity = ''Q1'', eav_attribute = CrudLink, eav_value = ''Q3'', eav_index = 9 \<rparr>]"
        "\<lparr> from_time = 5, time_limit = 10 \<rparr>"]
  by simp

end
