(* ===== verification/Dht_Reducers.thy ===== *)
theory Dht_Reducers
  imports Dht_Store
begin

text \<open>
  \<open>crates/core/src/dht/dht_reducers.rs\<close> and \<open>dht_inner_reducers.rs\<close>: the reducers of
  the DHT slice.  A reducer returns the new slice, or None to keep the old one, and
  the shared storages as it leaves them: what a failing reducer wrote to them stays.
\<close>

section \<open>Inner reducers\<close>

datatype LinkModification = Add | Remove

definition reduce_store_entry_inner ::
  "hasher \<Rightarrow> 'c cas_ops \<Rightarrow> 'e eav_ops \<Rightarrow> 'c \<times> 'e \<Rightarrow> Entry \<Rightarrow> unit HcResult \<times> 'c \<times> 'e" where
  "reduce_store_entry_inner H C E = (\<lambda>(cas, eav) entry.
     (case add_entry H C cas entry of
        (Inl e, cas') \<Rightarrow> (Err (ErrorGeneric ''err/dht: dht::reduce_store_entry_inner() FAILED''), cas', eav)
      | (Inr _, cas') \<Rightarrow>
          (case create_crud_status_eav (eavi_make E) (entry_address H entry) Live of
             Inl e \<Rightarrow> (Err (error_from_persistence e), cas', eav)
           | Inr status_eav \<Rightarrow>
               (case add_eavi E eav status_eav of
                  (Inl e, eav') \<Rightarrow>
                    (Err (ErrorGeneric ''err/dht: dht::reduce_store_entry_inner() FAILED''), cas', eav')
                | (Inr _, eav') \<Rightarrow> (Ok (), cas', eav')))))"

definition link_attribute :: "LinkData \<Rightarrow> LinkModification \<Rightarrow> ChainHeader \<Rightarrow> Attribute" where
  "link_attribute l link_modification header =
     (case link_modification of
        Add \<Rightarrow> LinkTag (link_type (link_of l)) (tag (link_of l))
      | Remove \<Rightarrow> RemovedLink (hdr_entry_address header) (link_type (link_of l)) (tag (link_of l)))"

definition reduce_add_remove_link_inner ::
  "'c cas_ops \<Rightarrow> 'e eav_ops \<Rightarrow> 'c \<Rightarrow> 'e \<Rightarrow> LinkData \<Rightarrow> Address \<Rightarrow> LinkModification \<Rightarrow> ChainHeader
     \<Rightarrow> Address HcResult \<times> 'e" where
  "reduce_add_remove_link_inner C E cas eav l address link_modification header =
     (case contains_content C cas (base (link_of l)) of
        Inl e \<Rightarrow> (Err e, eav)
      | Inr False \<Rightarrow> (Err (ErrorGeneric ''Base for link not found''), eav)
      | Inr True \<Rightarrow>
          (case eavi_make_with_index E (base (link_of l)) (link_attribute l link_modification header)
                  address (hdr_timestamp header) of
             Inl e \<Rightarrow> (Err (error_from_persistence e), eav)
           | Inr eavi \<Rightarrow>
               (case add_eavi E eav eavi of
                  (Inl e, eav') \<Rightarrow> (Err e, eav')
                | (Inr _, eav') \<Rightarrow> (Ok (base (link_of l)), eav'))))"

definition reduce_update_entry_inner ::
  "'e eav_ops \<Rightarrow> 'e \<Rightarrow> Address \<Rightarrow> Address \<Rightarrow> Address HcResult \<times> 'e" where
  "reduce_update_entry_inner E eav old_address new_address =
     (case create_crud_status_eav (eavi_make E) old_address Modified of
        Inl e \<Rightarrow> (Err (error_from_persistence e), eav)
      | Inr new_status_eav \<Rightarrow>
          (case add_eavi E eav new_status_eav of
             (Inl e, eav') \<Rightarrow> (Err e, eav')
           | (Inr _, eav') \<Rightarrow>
               (case create_crud_link_eav (eavi_make E) old_address new_address of
                  Inl e \<Rightarrow> (Err (error_from_persistence e), eav')
                | Inr crud_link_eav \<Rightarrow>
                    (case add_eavi E eav' crud_link_eav of
                       (Inl e, eav'') \<Rightarrow> (Err e, eav'')
                     | (Inr _, eav'') \<Rightarrow> (Ok new_address, eav'')))))"

definition crud_status_query :: "Address \<Rightarrow> EaviQuery" where
  "crud_status_query address =
     \<lparr> q_entity = Some address, q_attribute = (\<lambda>a. a = Attribute.CrudStatus), q_value = None,
       q_index = LatestByAttribute, q_tombstone = None \<rparr>"

definition reduce_remove_entry_inner ::
  "'c cas_ops \<Rightarrow> 'e eav_ops \<Rightarrow> 'c \<Rightarrow> 'e \<Rightarrow> Address \<Rightarrow> Address HcResult \<times> 'e" where
  "reduce_remove_entry_inner C E cas eav latest_deleted_address =
     (case and_then (get_entry C cas latest_deleted_address)
             (ok_or (ErrorGeneric ''trying to remove a missing entry'')) of
        Inl e \<Rightarrow> (Err e, eav)
      | Inr entry \<Rightarrow>
          if is_sys (entry_type entry)
          then (Err (ErrorGeneric ''trying to remove a system entry type''), eav)
          else (case fetch_eavi E eav (crud_status_query latest_deleted_address) of
                  Inl e \<Rightarrow> (Err e, eav)
                | Inr status_eavs \<Rightarrow>
                    if filter (\<lambda>e. crud_status_from_str (eav_value e) \<noteq> Ok Live) status_eavs \<noteq> []
                    then (Err (ErrorGeneric ''entry_status != CrudStatus::Live''), eav)
                    else (case create_crud_status_eav (eavi_make E) latest_deleted_address Deleted of
                            Inl _ \<Rightarrow> (Err (ErrorGeneric ''Could not create eav''), eav)
                          | Inr new_status_eav \<Rightarrow>
                              (case add_eavi E eav new_status_eav of
                                 (Inl e, eav') \<Rightarrow> (Err e, eav')
                               | (Inr _, eav') \<Rightarrow> (Ok latest_deleted_address, eav')))))"

section \<open>Commit and hold\<close>

definition dht_reduce_commit_entry ::
  "hasher \<Rightarrow> 'c cas_ops \<Rightarrow> 'e eav_ops \<Rightarrow> 'c \<times> 'e \<Rightarrow> DhtStore \<Rightarrow> Entry \<Rightarrow> DhtStore option \<times> 'c \<times> 'e" where
  "dht_reduce_commit_entry H C E st old_store entry =
     (case reduce_store_entry_inner H C E st entry of
        (Inr _, st') \<Rightarrow> (Some old_store, st')
      | (Inl e, st') \<Rightarrow> (None, st'))"

definition hold_error :: "string \<Rightarrow> HolochainError \<Rightarrow> HolochainError" where
  "hold_error kind e = ErrorGeneric (''EntryAspect::'' @ kind @ '' hold error: '' @ error_string e)"

text \<open>The fold over the links that a \<open>LinkRemove\<close> aspect removes: the last error wins.\<close>

definition hold_link_removals ::
  "'c cas_ops \<Rightarrow> 'e eav_ops \<Rightarrow> 'c \<Rightarrow> LinkData \<Rightarrow> ChainHeader \<Rightarrow> Address list
     \<Rightarrow> unit HcResult \<times> 'e \<Rightarrow> unit HcResult \<times> 'e" where
  "hold_link_removals C E cas l header =
     fold (\<lambda>link_address (hold_result, eav).
       case reduce_add_remove_link_inner C E cas eav l link_address Remove header of
         (Inl e, eav') \<Rightarrow> (Err (hold_error ''LinkRemove'' e), eav')
       | (Inr _, eav') \<Rightarrow> (hold_result, eav'))"

text \<open>
  What holding an aspect does to the storages: None when the reducer returns early
  because the header of a stored entry could not be added, else the result of the hold.
\<close>

definition hold_result :: "string \<Rightarrow> 'a HcResult \<Rightarrow> unit HcResult option" where
  "hold_result kind r = Some (case r of Inl e \<Rightarrow> Err (hold_error kind e) | Inr _ \<Rightarrow> Ok ())"

fun hold_in_storage ::
  "hasher \<Rightarrow> 'c cas_ops \<Rightarrow> 'e eav_ops \<Rightarrow> 'c \<times> 'e \<Rightarrow> EntryAspect \<Rightarrow> unit HcResult option \<times> 'c \<times> 'e" where
  "hold_in_storage H C E st (EntryAspect.Content entry header) =
     (case reduce_store_entry_inner H C E st entry of
        (Inl e, st') \<Rightarrow> (hold_result ''Content'' (Err e :: unit HcResult), st')
      | (Inr _, st') \<Rightarrow>
          (case add_header_for_entry H C E st' entry header of
             (Inl _, st'') \<Rightarrow> (None, st'')
           | (Inr _, st'') \<Rightarrow> (Some (Ok ()), st'')))"
| "hold_in_storage H C E (cas, eav) (EntryAspect.LinkAdd link_data header) =
     (let (r, eav') = reduce_add_remove_link_inner C E cas eav link_data
                        (entry_address H (Entry.LinkAdd link_data)) Add header
      in (hold_result ''LinkAdd'' r, cas, eav'))"
| "hold_in_storage H C E (cas, eav) (EntryAspect.LinkRemove link_data links_to_remove header) =
     (let (r, eav') = hold_link_removals C E cas link_data header links_to_remove (Ok (), eav)
      in (Some r, cas, eav'))"
| "hold_in_storage H C E (cas, eav) (EntryAspect.Update entry header) =
     (case hdr_link_update_delete header of
        Some crud_link \<Rightarrow>
          (let (r, eav') = reduce_update_entry_inner E eav crud_link (entry_address H entry)
           in (hold_result ''Update'' r, cas, eav'))
      | None \<Rightarrow>
          (Some (Err (ErrorGeneric ''EntryAspect::Update without crud_link in header received!'')), cas, eav))"
| "hold_in_storage H C E (cas, eav) (EntryAspect.Deletion header) =
     (case hdr_link_update_delete header of
        Some crud_link \<Rightarrow>
          (let (r, eav') = reduce_remove_entry_inner C E cas eav crud_link
           in (hold_result ''Deletion'' r, cas, eav'))
      | None \<Rightarrow>
          (Some (Err (ErrorGeneric ''EntryAspect::Deletion without crud_link in header received!'')), cas, eav))"
| "hold_in_storage H C E st (EntryAspect.Header _) =
     (Some (Err (ErrorGeneric ''Got EntryAspect::Header which is not implemented.'')), st)"

definition reduce_hold_aspect ::
  "hasher \<Rightarrow> 'c cas_ops \<Rightarrow> 'e eav_ops \<Rightarrow> 'c \<times> 'e \<Rightarrow> DhtStore \<Rightarrow> EntryAspect \<Rightarrow> HoldAspectAttemptId
     \<Rightarrow> (DhtStore option \<times> 'c \<times> 'e) outcome" where
  "reduce_hold_aspect H C E st old_store aspect hid =
     (let (r, st') = hold_in_storage H C E st aspect
      in case r of
           None \<Rightarrow> Returns (None, st')
         | Some (Inr _) \<Rightarrow>
             outcome_bind (mark_aspect_as_held H aspect old_store) (\<lambda>store.
               Returns (Some (mark_hold_aspect_complete hid (Ok ()) store), st'))
         | Some (Inl e) \<Rightarrow> Returns (Some (mark_hold_aspect_complete hid (Err e) old_store), st'))"

text \<open>What the future that awaits a hold polls for.\<close>

definition hold_aspect_poll :: "DhtStore \<Rightarrow> HoldAspectAttemptId \<Rightarrow> unit HcResult option" where
  "hold_aspect_poll store hid = hold_aspec_request_complete store hid"

section \<open>Queues\<close>

definition reduce_queue_holding_workflow ::
  "hasher \<Rightarrow> DhtStore \<Rightarrow> PendingValidation \<Rightarrow> (SystemTime \<times> Duration) option \<Rightarrow> DhtStore option outcome" where
  "reduce_queue_holding_workflow H old_store p maybe_delay =
     outcome_bind (pending_to_aspect p) (\<lambda>entry_aspect.
     outcome_bind (aspect_contains H (holding_map old_store) entry_aspect) (\<lambda>held.
       if held then Returns None
       else if has_same_queued_holding_worfkow old_store p then Returns None
       else if has_same_in_process_holding_worfkow old_store p then Returns None
       else Returns (Some (old_store\<lparr> queued_holding_workflows := queued_holding_workflows old_store @
              [\<lparr> pending = p,
                 timeout = map_option (\<lambda>(t, d). \<lparr> time_of_dispatch = t, delay = d \<rparr>) maybe_delay \<rparr>] \<rparr>))))"

definition prune_key :: "PendingValidationWithTimeout \<Rightarrow> ValidatingWorkflow \<times> Address" where
  "prune_key p = (workflow (pending p), hdr_entry_address (ewh_header (entry_with_header (pending p))))"

definition dht_reduce_prune :: "DhtStore \<Rightarrow> DhtStore option" where
  "dht_reduce_prune old_store =
     (let pruned_queue = unique_by prune_key (queued_holding_workflows old_store)
      in if length pruned_queue < length (queued_holding_workflows old_store)
         then Some (old_store\<lparr> queued_holding_workflows := pruned_queue \<rparr>)
         else None)"

definition reduce_remove_queued_holding_workflow ::
  "hasher \<Rightarrow> SystemTime \<Rightarrow> DhtStore \<Rightarrow> HoldingWorkflowQueueing \<Rightarrow> PendingValidation \<Rightarrow> DhtStore option" where
  "reduce_remove_queued_holding_workflow H now old_store state p =
     Some (update_queued_holding_workflow H now state p old_store)"

section \<open>The reducer of the slice\<close>

definition dht_resolve_reducer ::
  "hasher \<Rightarrow> 'c cas_ops \<Rightarrow> 'e eav_ops \<Rightarrow> SystemTime \<Rightarrow> 'c \<times> 'e \<Rightarrow> DhtStore \<Rightarrow> Action
     \<Rightarrow> (DhtStore option \<times> 'c \<times> 'e) outcome" where
  "dht_resolve_reducer H C E now st old_store a =
     (case a of
        Commit entry _ _ \<Rightarrow> Returns (dht_reduce_commit_entry H C E st old_store entry)
      | HoldAspect aspect hid \<Rightarrow> reduce_hold_aspect H C E st old_store aspect hid
      | QueueHoldingWorkflow p maybe_delay \<Rightarrow>
          outcome_bind (reduce_queue_holding_workflow H old_store p maybe_delay) (\<lambda>r. Returns (r, st))
      | RemoveQueuedHoldingWorkflow state p \<Rightarrow>
          Returns (reduce_remove_queued_holding_workflow H now old_store state p, st)
      | Prune \<Rightarrow> Returns (dht_reduce_prune old_store, st)
      | _ \<Rightarrow> Returns (None, st))"

definition dht_reduce ::
  "hasher \<Rightarrow> 'c cas_ops \<Rightarrow> 'e eav_ops \<Rightarrow> SystemTime \<Rightarrow> 'c \<times> 'e \<Rightarrow> DhtStore \<Rightarrow> ActionWrapper
     \<Rightarrow> (DhtStore \<times> 'c \<times> 'e) outcome" where
  "dht_reduce H C E now st old_store w =
     outcome_bind (dht_resolve_reducer H C E now st old_store (action w)) (\<lambda>(r, st').
       Returns (case r of None \<Rightarrow> old_store | Some new_store \<Rightarrow> new_store, st'))"

section \<open>Reachable slices\<close>

text \<open>
  A slice changes by reducing any action at any time, with the storages in any state,
  and by a restart from its own snapshot.
\<close>

inductive dht_reachable :: "hasher \<Rightarrow> 'c cas_ops \<Rightarrow> 'e eav_ops \<Rightarrow> DhtStore \<Rightarrow> bool"
  for H C E where
  init: "dht_reachable H C E DhtStore_new"
| step: "dht_reachable H C E s \<Longrightarrow> dht_reduce H C E now st s w = Returns (s', st') \<Longrightarrow>
         dht_reachable H C E s'"
| restart: "dht_reachable H C E s \<Longrightarrow>
            dht_reachable H C E (DhtStore_new_from_snapshot now (dht_snapshot s))"

lemma reduce_hold_aspect_queues [frame]:
  "reduce_hold_aspect H C E st s aspect hid = Returns (Some s', st') \<Longrightarrow>
     queued_holding_workflows s' = queued_holding_workflows s
     \<and> in_process_holding_workflows s' = in_process_holding_workflows s"
  by (auto simp: reduce_hold_aspect_def mark_aspect_as_held_def mark_hold_aspect_complete_def
      outcome_bind_Returns_iff split: prod.splits option.splits sum.splits)

lemma queues_ok_cong:
  "queued_holding_workflows s' = queued_holding_workflows s \<Longrightarrow>
   in_process_holding_workflows s' = in_process_holding_workflows s \<Longrightarrow> queues_ok s \<Longrightarrow> queues_ok s'"
  by (simp add: queues_ok_def)

lemma queues_ok_queue [inv_pres]:
  "reduce_queue_holding_workflow H s p d = Returns (Some s') \<Longrightarrow> queues_ok s \<Longrightarrow> queues_ok s'"
proof -
  assume "reduce_queue_holding_workflow H s p d = Returns (Some s')" and ok: "queues_ok s"
  then obtain t where
    s': "s' = s\<lparr> queued_holding_workflows := queued_holding_workflows s @ [\<lparr> pending = p, timeout = t \<rparr>] \<rparr>"
    and "\<not> has_same_queued_holding_worfkow s p" "\<not> has_same_in_process_holding_worfkow s p"
    by (auto simp: reduce_queue_holding_workflow_def outcome_bind_Returns_iff split: if_splits)
  then have new: "workflow_key p \<notin> (\<lambda>c. workflow_key (pending c)) ` set (workflows s)"
    by (auto simp: has_same_queued_holding_worfkow_def has_same_in_process_holding_worfkow_def
        list_ex_iff image_iff)
  have "mset (map (\<lambda>c. workflow_key (pending c)) (workflows s'))
      = mset (workflow_key p # map (\<lambda>c. workflow_key (pending c)) (workflows s))"
    by (simp add: s')
  moreover have "distinct (workflow_key p # map (\<lambda>c. workflow_key (pending c)) (workflows s))"
    using new ok unfolding queues_ok_def by (simp only: distinct.simps list.set_map) simp
  ultimately show "queues_ok s'"
    unfolding queues_ok_def using mset_eq_imp_distinct_iff by metis
qed

lemma queues_ok_prune [inv_pres]:
  assumes "dht_reduce_prune s = Some s'" "queues_ok s"
  shows "queues_ok s'"
  using assms unique_by_from_distinct_map [of "\<lambda>p. workflow_key (pending p)" "queued_holding_workflows s"]
    unique_by_from_subset [of prune_key "{}" "queued_holding_workflows s"]
  by (fastforce simp: dht_reduce_prune_def queues_ok_def Let_def split: if_splits)

lemma queues_ok_reduce [inv_pres]:
  assumes "dht_reduce H C E now st s w = Returns (s', st')" "queues_ok s"
  shows "queues_ok s'"
proof -
  from assms(1) obtain r where
    r: "dht_resolve_reducer H C E now st s (action w) = Returns (r, st')"
      "s' = (case r of None \<Rightarrow> s | Some n \<Rightarrow> n)"
    by (auto simp: dht_reduce_def outcome_bind_Returns_iff)
  have "queues_ok n" if "r = Some n" for n
    using r(1) assms(2) unfolding that dht_resolve_reducer_def
    by (cases "action w")
       (auto simp: dht_reduce_commit_entry_def reduce_remove_queued_holding_workflow_def
         outcome_bind_Returns_iff split: prod.splits sum.splits
         intro: inv_pres queues_ok_cong dest: reduce_hold_aspect_queues)
  with r(2) assms(2) show ?thesis by (cases r) simp_all
qed

lemma reachable_queues_ok: "dht_reachable H C E s \<Longrightarrow> queues_ok s"
  by (induction rule: dht_reachable.induct) (auto intro: inv_pres)

text \<open>
  C30.  Whatever is queued, held, retried, finished, pruned or restored, and in whatever
  order, the two queues of a reachable slice never hold two workflows of the same
  kind for the same header: no aspect is validated twice at the same time.
\<close>

theorem no_duplicate_workflows:
  assumes "dht_reachable H C E s"
  shows "distinct (map (\<lambda>p. (ewh_header (entry_with_header (pending p)), workflow (pending p)))
                     (queued_holding_workflows s @ in_process_holding_workflows s))"
  using reachable_queues_ok [OF assms] by (simp add: queues_ok_def workflow_key_def)

text \<open>An index in memory: the log of what was added.\<close>

definition log_eav :: "EntityAttributeValueIndex list eav_ops" where
  "log_eav =
     \<lparr> eav_add = (\<lambda>es i. (Ok (Some i), es @ [i])),
       eav_fetch = (\<lambda>es q. Ok (filter (\<lambda>i. (q_entity q = None \<or> q_entity q = Some (eav_entity i))
          \<and> q_attribute q (eav_attribute i) \<and> (q_value q = None \<or> q_value q = Some (eav_value i))) es)),
       eavi_make = (\<lambda>a t v. Ok \<lparr> eav_entity = a, eav_attribute = t, eav_value = v, eav_index = 0 \<rparr>),
       eavi_make_with_index = (\<lambda>a t v n. Ok \<lparr> eav_entity = a, eav_attribute = t, eav_value = v, eav_index = n \<rparr>) \<rparr>"

theorem no_duplicate_workflows_witness:
  "\<exists>s :: DhtStore. queued_holding_workflows s = [sample_workflow ''Q1'' None]
      \<and> distinct (map (\<lambda>p. (ewh_header (entry_with_header (pending p)), workflow (pending p)))
                    (queued_holding_workflows s @ in_process_holding_workflows s))"
proof -
  let ?s = "DhtStore_new\<lparr> queued_holding_workflows := [sample_workflow ''Q1'' None] \<rparr>"
  let ?w = "\<lparr> action = QueueHoldingWorkflow (sample_pending ''Q1'' None) None, action_id = ''a'' \<rparr>"
  have "dht_reduce sample_hasher map_cas log_eav 0 (fmempty, []) DhtStore_new ?w = Returns (?s, fmempty, [])"
    by (simp add: dht_reduce_def dht_resolve_reducer_def reduce_queue_holding_workflow_def
        pending_to_aspect_def aspect_contains_def DhtStore_new_def AspectMap_new_def
        has_same_queued_holding_worfkow_def has_same_in_process_holding_worfkow_def sample_simps)
  with dht_reachable.init have "dht_reachable sample_hasher map_cas log_eav ?s"
    by (rule dht_reachable.step)
  note d = no_duplicate_workflows [OF this]
  show ?thesis by (rule exI [of _ ?s], rule conjI, simp, rule d)
qed

section \<open>Holding\<close>

lemma hold_in_storage_address:
  "hold_in_storage H C E st aspect = (Some (Ok ()), st') \<Longrightarrow> \<exists>a. aspect_entry_address H aspect = Ok a"
  by (cases "(H, C, E, st, aspect)" rule: hold_in_storage.cases)
     (auto simp: update_delete_address_def split: option.splits)

lemma hold_in_storage_unanswered:
  assumes "hold_in_storage H C E st aspect = (None, st')"
  shows "\<exists>entry header st1 e. aspect = EntryAspect.Content entry header
    \<and> reduce_store_entry_inner H C E st entry = (Ok (), st1) \<and> add_header_for_entry H C E st1 entry header = (Err e, st')"
  using assms
  by (cases "(H, C, E, st, aspect)" rule: hold_in_storage.cases)
     (auto simp: hold_result_def split: option.splits prod.splits sum.splits)


text \<open>
  A hold whose entry is stored but whose header is not leaves its future waiting:
  reducing the action changes the storages but records no answer for the attempt.
\<close>

theorem hold_header_failure_unanswered:
  assumes "reduce_store_entry_inner H C E st entry = (Ok (), st1)"
    and "add_header_for_entry H C E st1 entry header = (Err e, st2)"
    and "hold_aspect_poll s hid = None"
  shows "\<exists>s'. dht_reduce H C E now st s \<lparr> action = HoldAspect (EntryAspect.Content entry header) hid, action_id = i \<rparr>
                = Returns (s', st2) \<and> hold_aspect_poll s' hid = None"
  using assms by (simp add: dht_reduce_def dht_resolve_reducer_def reduce_hold_aspect_def)

theorem hold_header_failure_unanswered_witness:
  "let E = log_eav\<lparr> eavi_make := (\<lambda>a t v. if t = EntryHeader then Err (PErrorGeneric ''no header'')
         else Ok \<lparr> eav_entity = a, eav_attribute = t, eav_value = v, eav_index = 0 \<rparr>) \<rparr>;
       p = entry_with_header (sample_pending ''Q1'' None);
       w = \<lparr> action = HoldAspect (EntryAspect.Content (ewh_entry p) (ewh_header p)) (1, 2), action_id = ''a'' \<rparr>
   in \<exists>s' st2. dht_reduce sample_hasher map_cas E 0 (fmempty, []) DhtStore_new w = Returns (s', st2)
               \<and> hold_aspect_poll s' (1, 2) = None"
proof -
  let ?E = "log_eav\<lparr> eavi_make := (\<lambda>a t v. if t = EntryHeader then Err (PErrorGeneric ''no header'')
         else Ok \<lparr> eav_entity = a, eav_attribute = t, eav_value = v, eav_index = 0 \<rparr>) \<rparr>"
  let ?p = "entry_with_header (sample_pending ''Q1'' None)"
  let ?e = "ewh_entry ?p"
  let ?st1 = "(fmupd ''Q1'' (entry_content ?e) fmempty,
      [\<lparr> eav_entity = ''Q1'', eav_attribute = Attribute.CrudStatus, eav_value = ''live'', eav_index = 0 \<rparr>])"
  have "reduce_store_entry_inner sample_hasher map_cas ?E (fmempty, []) ?e = (Ok (), ?st1)"
    by (simp add: reduce_store_entry_inner_def add_entry_def add_eavi_def create_crud_status_eav_def
        log_eav_def sample_simps)
  moreover have "add_header_for_entry sample_hasher map_cas ?E ?st1 ?e (ewh_header ?p)
      = (Err (error_from_persistence (PErrorGeneric ''no header'')), ?st1)"
    by (simp add: add_header_for_entry_def)
  moreover have "hold_aspect_poll DhtStore_new (1, 2) = None"
    by (simp add: hold_aspect_poll_def hold_aspec_request_complete_def DhtStore_new_def)
  ultimately have "\<exists>s'. dht_reduce sample_hasher map_cas ?E 0 (fmempty, []) DhtStore_new
      \<lparr> action = HoldAspect (EntryAspect.Content ?e (ewh_header ?p)) (1, 2), action_id = ''a'' \<rparr>
      = Returns (s', ?st1) \<and> hold_aspect_poll s' (1, 2) = None"
    by (rule hold_header_failure_unanswered)
  then show ?thesis unfolding Let_def by blast
qed

section \<open>The life of an entry\<close>

text \<open>
  What the status checks rely on of the index: an index entry keeps the entity, attribute
  and value it is made of, a status that was added is among the statuses that are
  fetched, and adding anything else does not touch them.
\<close>

locale status_index =
  fixes E :: "'e eav_ops"
  assumes made: "eavi_make E a t v = Ok i \<Longrightarrow> eav_entity i = a \<and> eav_attribute i = t \<and> eav_value i = v"
    and added_status: "eav_add E eav i = (Ok r, eav') \<Longrightarrow> eav_attribute i = Attribute.CrudStatus \<Longrightarrow>
      \<exists>es i'. eav_fetch E eav' (crud_status_query (eav_entity i)) = Ok es \<and> i' \<in> set es
              \<and> eav_value i' = eav_value i"
    and kept_status: "eav_add E eav i = (r', eav') \<Longrightarrow> eav_attribute i \<noteq> Attribute.CrudStatus \<Longrightarrow>
      eav_fetch E eav' (crud_status_query a) = eav_fetch E eav (crud_status_query a)"
begin

definition not_live :: "'e \<Rightarrow> Address \<Rightarrow> bool" where
  "not_live eav a \<longleftrightarrow>
     (\<exists>es i. fetch_eavi E eav (crud_status_query a) = Ok es \<and> i \<in> set es
             \<and> crud_status_from_str (eav_value i) \<noteq> Ok Live)"

lemma add_status_not_live:
  assumes "create_crud_status_eav (eavi_make E) a status = Ok i" "add_eavi E eav i = (Ok r, eav')"
    and "status \<noteq> Live"
  shows "not_live eav' a"
proof -
  have i: "eav_entity i = a" "eav_attribute i = Attribute.CrudStatus" "eav_value i = crud_status_string status"
    using made assms(1) by (auto simp: create_crud_status_eav_def)
  from assms(2) have "eav_add E eav i = (Ok r, eav')" by (simp add: add_eavi_def split: prod.splits)
  from added_status [OF this i(2)] i assms(3) show ?thesis
    by (cases status) (auto simp: not_live_def fetch_eavi_def crud_status_from_str_def)
qed

lemma not_live_kept:
  "not_live eav a \<Longrightarrow> add_eavi E eav i = (r, eav') \<Longrightarrow> eav_attribute i \<noteq> Attribute.CrudStatus \<Longrightarrow> not_live eav' a"
  by (auto simp: not_live_def fetch_eavi_def add_eavi_def kept_status split: prod.splits)

lemma remove_not_live: "not_live eav a \<Longrightarrow> \<exists>e. reduce_remove_entry_inner C E cas eav a = (Err e, eav)"
  by (auto simp: reduce_remove_entry_inner_def not_live_def filter_empty_conv split: sum.splits)

lemma removed_not_live: "reduce_remove_entry_inner C E cas eav a = (Ok x, eav') \<Longrightarrow> not_live eav' a"
  by (auto simp: reduce_remove_entry_inner_def split: sum.splits prod.splits if_splits
      intro: add_status_not_live)

lemma updated_not_live:
  assumes "reduce_update_entry_inner E eav a b = (Ok x, eav')"
  shows "not_live eav' a"
proof -
  from assms obtain i r eav1 j r' where
    i: "create_crud_status_eav (eavi_make E) a Modified = Ok i" "add_eavi E eav i = (Ok r, eav1)"
    and j: "create_crud_link_eav (eavi_make E) a b = Ok j" "add_eavi E eav1 j = (Ok r', eav')"
    by (auto simp: reduce_update_entry_inner_def split: sum.splits prod.splits)
  from i have "not_live eav1 a" by (rule add_status_not_live) simp
  moreover from j(1) have "eav_attribute j = CrudLink"
    using made by (simp add: create_crud_link_eav_def)
  ultimately show ?thesis using j(2) not_live_kept by simp
qed

end

interpretation log_eav: status_index log_eav
  by unfold_locales (auto simp: log_eav_def crud_status_query_def)

text \<open>
  Only a live entry can be deleted: over an index that returns the statuses added to
  it, holding the deletion of an entry that was already deleted, or that was updated,
  fails and changes neither the index nor the held aspects.
\<close>

theorem delete_only_live:
  assumes "status_index E"
    and "reduce_remove_entry_inner C E cas eav a = (Ok x, eav') \<or> reduce_update_entry_inner E eav a b = (Ok y, eav')"
    and "hdr_link_update_delete header = Some a"
  shows "\<exists>e s'. reduce_hold_aspect H C E (cas', eav') s (EntryAspect.Deletion header) hid
                  = Returns (Some s', cas', eav')
                \<and> holding_map s' = holding_map s \<and> hold_aspect_poll s' hid = Some (Err e)"
proof -
  have "status_index.not_live E eav' a"
    using assms(1,2) status_index.removed_not_live status_index.updated_not_live by metis
  then obtain e where "reduce_remove_entry_inner C E cas' eav' a = (Err e, eav')"
    using status_index.remove_not_live [OF assms(1)] by metis
  with assms(3) show ?thesis
    by (simp add: reduce_hold_aspect_def hold_result_def mark_hold_aspect_complete_def
        hold_aspect_poll_def hold_aspec_request_complete_def)
qed

theorem delete_only_live_witness:
  "let header = ewh_header (entry_with_header (sample_pending ''Q2'' (Some ''Q1'')));
       cas = fmupd ''Q1'' (entry_content (Entry.App ''post'' ''Q1'')) fmempty;
       eav = [\<lparr> eav_entity = ''Q1'', eav_attribute = Attribute.CrudStatus, eav_value = ''deleted'', eav_index = 0 \<rparr>]
   in \<exists>e s'. reduce_hold_aspect sample_hasher map_cas log_eav (cas, eav) DhtStore_new
                 (EntryAspect.Deletion header) (1, 2) = Returns (Some s', cas, eav)
             \<and> holding_map s' = holding_map DhtStore_new \<and> hold_aspect_poll s' (1, 2) = Some (Err e)"
proof -
  let ?cas = "fmupd ''Q1'' (entry_content (Entry.App ''post'' ''Q1'')) fmempty"
  let ?eav = "[\<lparr> eav_entity = ''Q1'', eav_attribute = Attribute.CrudStatus, eav_value = ''deleted'', eav_index = 0 \<rparr>]"
  have "reduce_remove_entry_inner map_cas log_eav ?cas [] ''Q1'' = (Ok ''Q1'', ?eav)"
    by (simp add: reduce_remove_entry_inner_def get_entry_def get_raw_def is_sys_def fetch_eavi_def
        add_eavi_def create_crud_status_eav_def log_eav_def)
  moreover have "hdr_link_update_delete (ewh_header (entry_with_header (sample_pending ''Q2'' (Some ''Q1'')))) = Some ''Q1''"
    by (simp add: sample_simps)
  ultimately show ?thesis
    unfolding Let_def by (intro delete_only_live [OF log_eav.status_index_axioms]) auto
qed

section \<open>Pruning\<close>

text \<open>
  Pruning the waiting queue keeps, in order, the first workflow of every pair of
  workflow kind and entry address, and nothing else; every pair that was waiting still is.
\<close>

theorem prune_keeps_first:
  "let s' = (case dht_reduce_prune s of None \<Rightarrow> s | Some n \<Rightarrow> n)
   in queued_holding_workflows s' = unique_by prune_key (queued_holding_workflows s)
      \<and> distinct (map prune_key (queued_holding_workflows s'))
      \<and> prune_key ` set (queued_holding_workflows s') = prune_key ` set (queued_holding_workflows s)
      \<and> in_process_holding_workflows s' = in_process_holding_workflows s"
proof -
  let ?q = "queued_holding_workflows s"
  let ?s = "case dht_reduce_prune s of None \<Rightarrow> s | Some n \<Rightarrow> n"
  have "queued_holding_workflows ?s = unique_by prune_key ?q"
  proof (cases "length (unique_by prune_key ?q) < length ?q")
    case False
    then have "unique_by prune_key ?q = ?q"
      using unique_by_from_length [of prune_key "{}" ?q] by (intro unique_by_from_fixed) simp
    then show ?thesis by (simp add: dht_reduce_prune_def)
  qed (simp add: dht_reduce_prune_def)
  moreover have "in_process_holding_workflows ?s = in_process_holding_workflows s"
    by (simp add: dht_reduce_prune_def Let_def)
  ultimately show ?thesis
    using unique_by_from_distinct [of prune_key "{}" ?q] unique_by_from_keys [of prune_key "{}" ?q]
    unfolding Let_def by simp
qed

end
