(* ===== verification/Chain_Store.thy ===== *)
theory Chain_Store
  imports Content_Store
begin

text \<open>
  \<open>crates/core/src/agent/chain_store.rs\<close>: the two iterators over the source chain,
  along \<open>link\<close> and along \<open>link_same_type\<close>, and the query that chooses between them.

  An iterator is the header it will return next.  It reads the storage as it
  advances, which can panic; on links that run in a circle it never ends, and the
  value of a loop that never ends is \<open>None\<close>.
\<close>

section \<open>Iterators\<close>

type_synonym 'a run = "'a outcome option"

definition run_bind :: "'a run \<Rightarrow> ('a \<Rightarrow> 'b run) \<Rightarrow> 'b run" where
  "run_bind r f =
     Option.bind r (\<lambda>x. case x of Returns a \<Rightarrow> f a | Panics m \<Rightarrow> Some (Panics m))"

definition fetch_linked :: "'c cas_ops \<Rightarrow> 'c \<Rightarrow> Address \<Rightarrow> ChainHeader option outcome" where
  "fetch_linked ops cas address =
     outcome_bind (expect_ok ''failed to fetch from CAS'' (cas_fetch ops cas address)) (\<lambda>r.
       case r of
         None \<Rightarrow> Returns None
       | Some content \<Rightarrow>
           outcome_bind (expect_ok ''failed to load ChainHeader from Content''
                           (header_try_from_content content)) (\<lambda>h. Returns (Some h)))"

text \<open>The new value of \<open>current\<close> in \<open>next\<close>, for an iterator that follows \<open>link\<close>.\<close>

definition advance ::
  "(ChainHeader \<Rightarrow> Address option) \<Rightarrow> 'c cas_ops \<Rightarrow> 'c \<Rightarrow> ChainHeader \<Rightarrow> ChainHeader option outcome"
where
  "advance link ops cas h =
     (case link h of None \<Rightarrow> Returns None | Some a \<Rightarrow> fetch_linked ops cas a)"

text \<open>\<open>filter(P).take(n).collect()\<close>, without a bound when \<open>n\<close> is \<open>None\<close>.\<close>

fun take_less :: "nat option \<Rightarrow> nat option" where
  "take_less None = None"
| "take_less (Some n) = Some (n - 1)"

partial_function (option) iter_collect ::
  "(ChainHeader \<Rightarrow> Address option) \<Rightarrow> 'c cas_ops \<Rightarrow> 'c \<Rightarrow> (ChainHeader \<Rightarrow> bool) \<Rightarrow> nat option
     \<Rightarrow> ChainHeader option \<Rightarrow> ChainHeader list run" where
  "iter_collect link ops cas P n cur =
     (if n = Some 0 then Some (Returns [])
      else case cur of
        None \<Rightarrow> Some (Returns [])
      | Some h \<Rightarrow>
          (case advance link ops cas h of
             Panics m \<Rightarrow> Some (Panics m)
           | Returns nxt \<Rightarrow>
               if P h
               then Option.bind (iter_collect link ops cas P (take_less n) nxt) (\<lambda>r.
                      Some (outcome_bind r (\<lambda>hs. Returns (h # hs))))
               else iter_collect link ops cas P n nxt))"

definition first_header :: "ChainHeader list \<Rightarrow> ChainHeader option" where
  "first_header hs = (case hs of [] \<Rightarrow> None | h # _ \<Rightarrow> Some h)"

definition iter_find ::
  "'c cas_ops \<Rightarrow> 'c \<Rightarrow> (ChainHeader \<Rightarrow> bool) \<Rightarrow> ChainHeader option \<Rightarrow> ChainHeader option run" where
  "iter_find ops cas P start =
     run_bind (iter_collect hdr_link ops cas P (Some 1) start) (\<lambda>hs.
       Some (Returns (first_header hs)))"

text \<open>\<open>iter_type\<close>: the iterator along \<open>link_same_type\<close> from the first header of the type.\<close>

definition iter_type_collect ::
  "'c cas_ops \<Rightarrow> 'c \<Rightarrow> ChainHeader option \<Rightarrow> EntryType \<Rightarrow> (ChainHeader \<Rightarrow> bool) \<Rightarrow> nat option
     \<Rightarrow> ChainHeader list run" where
  "iter_type_collect ops cas start t P n =
     run_bind (iter_find ops cas (\<lambda>h. hdr_entry_type h = t) start) (\<lambda>cur.
       iter_collect hdr_link_same_type ops cas P n cur)"

section \<open>Queries\<close>

record ChainStoreQueryOptions =
  query_start :: nat
  query_limit :: nat
  query_headers :: bool

datatype ChainStoreQueryResult =
    Addresses "Address list"
  | Headers "ChainHeader list"

definition is_glob :: "char \<Rightarrow> bool" where
  "is_glob c \<longleftrightarrow> c \<in> set ''./*[]{}''"

definition is_glob_str :: "string \<Rightarrow> bool" where
  "is_glob_str s \<longleftrightarrow> list_ex is_glob s"

definition query_result :: "bool \<Rightarrow> ChainHeader list \<Rightarrow> ChainStoreQueryResult" where
  "query_result headers hs = (if headers then Headers hs else Addresses (map hdr_entry_address hs))"

text \<open>
  \<open>glob\<close> is the matcher the glob library builds from the patterns, or \<open>None\<close> when a
  pattern does not compile.
\<close>

definition chain_query ::
  "(string list \<Rightarrow> (string \<Rightarrow> bool) option) \<Rightarrow> 'c cas_ops \<Rightarrow> 'c \<Rightarrow> ChainHeader option \<Rightarrow> string list
     \<Rightarrow> ChainStoreQueryOptions \<Rightarrow> (ChainStoreQueryResult, RibosomeErrorCode) result run" where
  "chain_query glob ops cas start names options =
     (let skip = query_start options;
          limit = (if query_limit options = 0 then usize_max else query_limit options);
          page = (\<lambda>r. run_bind r (\<lambda>hs.
            Some (Returns (Ok (query_result (query_headers options) (drop skip hs))))));
          n = Some (skip + limit)
      in if names = [] \<or> names = [''''] \<or> names = [''**'']
         then page (iter_collect hdr_link ops cas (\<lambda>_. True) n start)
         else if length names = 1 \<and> \<not> is_glob_str (hd names)
         then page (iter_type_collect ops cas start (entry_type_from_str (hd names)) (\<lambda>_. True) n)
         else (case glob names of
                 None \<Rightarrow> Some (Returns (Err UnknownEntryType))
               | Some matches \<Rightarrow>
                   page (iter_collect hdr_link ops cas
                           (\<lambda>h. matches (entry_type_string (hdr_entry_type h))) n start)))"

section \<open>Well-formed chains\<close>

text \<open>A chain is the list of its headers, newest first.\<close>

definition stored_headers :: "hasher \<Rightarrow> 'c cas_ops \<Rightarrow> 'c \<Rightarrow> ChainHeader list \<Rightarrow> bool" where
  "stored_headers H ops cas hs \<longleftrightarrow>
     list_all (\<lambda>h. cas_fetch ops cas (header_hash H h) = Ok (Some (HeaderContent h))) hs"

fun path :: "hasher \<Rightarrow> (ChainHeader \<Rightarrow> Address option) \<Rightarrow> ChainHeader list \<Rightarrow> bool" where
  "path H link [] \<longleftrightarrow> True"
| "path H link [h] \<longleftrightarrow> link h = None"
| "path H link (h # h' # hs) \<longleftrightarrow> link h = Some (header_hash H h') \<and> path H link (h' # hs)"

fun same_type_links :: "hasher \<Rightarrow> ChainHeader list \<Rightarrow> bool" where
  "same_type_links H [] \<longleftrightarrow> True"
| "same_type_links H (h # hs) \<longleftrightarrow>
     hdr_link_same_type h =
       map_option (header_hash H) (find (\<lambda>h'. hdr_entry_type h' = hdr_entry_type h) hs)
     \<and> same_type_links H hs"

definition chain_ok :: "hasher \<Rightarrow> 'c cas_ops \<Rightarrow> 'c \<Rightarrow> ChainHeader list \<Rightarrow> bool" where
  "chain_ok H ops cas hs \<longleftrightarrow>
     stored_headers H ops cas hs \<and> path H hdr_link hs \<and> same_type_links H hs"

definition take_opt :: "nat option \<Rightarrow> 'a list \<Rightarrow> 'a list" where
  "take_opt n xs = (case n of None \<Rightarrow> xs | Some k \<Rightarrow> take k xs)"

lemma run_bind_simps:
  "run_bind None f = None"
  "run_bind (Some (Returns a)) f = f a"
  "run_bind (Some (Panics m)) f = Some (Panics m)"
  by (simp_all add: run_bind_def)

lemma run_bind_Returns_iff:
  "run_bind r f = Some (Returns b) \<longleftrightarrow> (\<exists>a. r = Some (Returns a) \<and> f a = Some (Returns b))"
  by (cases r) (auto simp: run_bind_def split: outcome.splits)

lemma run_bind_assoc: "run_bind (run_bind r f) g = run_bind r (\<lambda>a. run_bind (f a) g)"
  by (cases r) (auto simp: run_bind_def split: outcome.splits)

lemma path_Cons:
  "path H link (h # hs) \<longleftrightarrow> link h = map_option (header_hash H) (first_header hs) \<and> path H link hs"
  by (cases hs) (auto simp: first_header_def)

lemma stored_headers_filter:
  "stored_headers H ops cas hs \<Longrightarrow> stored_headers H ops cas (filter P hs)"
  by (auto simp: stored_headers_def list_all_iff)

lemma advance_path:
  assumes "path H link (h # hs)" and "stored_headers H ops cas hs"
  shows "advance link ops cas h = Returns (first_header hs)"
  using assms
  by (cases hs) (auto simp: advance_def fetch_linked_def first_header_def stored_headers_def path_Cons)

lemma iter_collect_path:
  assumes "path H link hs" and "stored_headers H ops cas hs"
  shows "iter_collect link ops cas P n (first_header hs) = Some (Returns (take_opt n (filter P hs)))"
  using assms
proof (induction hs arbitrary: n)
  case Nil
  then show ?case
    by (subst iter_collect.simps) (simp add: first_header_def take_opt_def split: option.splits)
next
  case (Cons h hs)
  have adv: "advance link ops cas h = Returns (first_header hs)"
    using Cons.prems by (intro advance_path) (auto simp: stored_headers_def)
  have IH: "iter_collect link ops cas P k (first_header hs) = Some (Returns (take_opt k (filter P hs)))" for k
    using Cons by (auto simp: path_Cons stored_headers_def)
  have fh: "first_header (h # hs) = Some h" by (simp add: first_header_def)
  show ?case
  proof (cases "n = Some 0")
    case True
    then show ?thesis by (subst iter_collect.simps) (simp add: take_opt_def)
  next
    case False
    then have "P h \<Longrightarrow> take_opt n (filter P (h # hs)) = h # take_opt (take_less n) (filter P hs)"
      by (cases n) (auto simp: take_opt_def take_Cons')
    with False show ?thesis
      by (subst iter_collect.simps) (simp add: fh adv IH)
  qed
qed

lemma path_same_type:
  "same_type_links H hs \<Longrightarrow> path H hdr_link_same_type (filter (\<lambda>h. hdr_entry_type h = t) hs)"
proof (induction hs)
  case (Cons h hs)
  have "find P hs = first_header (filter P hs)" for P
    by (simp add: find_filter_hd first_header_def)
  with Cons show ?case by (simp add: path_Cons)
qed simp

lemma iter_find_chain:
  assumes "chain_ok H ops cas hs"
  shows "iter_find ops cas P (first_header hs) = Some (Returns (find P hs))"
proof -
  have "first_header (take 1 (filter P hs)) = find P hs"
    by (cases "filter P hs") (simp_all add: find_filter_hd first_header_def)
  moreover have "iter_collect hdr_link ops cas P (Some 1) (first_header hs)
      = Some (Returns (take_opt (Some 1) (filter P hs)))"
    using assms by (intro iter_collect_path [of H]) (simp_all add: chain_ok_def)
  ultimately show ?thesis by (simp add: iter_find_def run_bind_def take_opt_def)
qed

lemma iter_type_chain:
  assumes "chain_ok H ops cas hs"
  shows "iter_type_collect ops cas (first_header hs) t P n =
           Some (Returns (take_opt n (filter P (filter (\<lambda>h. hdr_entry_type h = t) hs))))"
proof -
  let ?T = "filter (\<lambda>h. hdr_entry_type h = t) hs"
  have "find (\<lambda>h. hdr_entry_type h = t) hs = first_header ?T"
    by (simp add: find_filter_hd first_header_def)
  moreover have "iter_collect hdr_link_same_type ops cas P n (first_header ?T)
      = Some (Returns (take_opt n (filter P ?T)))"
    using assms
    by (intro iter_collect_path [of H]) (simp_all add: chain_ok_def path_same_type stored_headers_filter)
  ultimately show ?thesis
    using iter_find_chain [OF assms]
    by (simp add: iter_type_collect_def run_bind_def del: filter_filter)
qed

text \<open>The headers a query selects.\<close>

definition selects ::
  "(string list \<Rightarrow> (string \<Rightarrow> bool) option) \<Rightarrow> string list \<Rightarrow> (ChainHeader \<Rightarrow> bool) option" where
  "selects glob names =
     (if names = [] \<or> names = [''''] \<or> names = [''**''] then Some (\<lambda>_. True)
      else if length names = 1 \<and> \<not> is_glob_str (hd names)
      then Some (\<lambda>h. hdr_entry_type h = entry_type_from_str (hd names))
      else map_option (\<lambda>m h. m (entry_type_string (hdr_entry_type h))) (glob names))"

section \<open>Properties\<close>

text \<open>
  The fast iterator over one entry type, which jumps along \<open>link_same_type\<close>,
  visits exactly the headers that the slow scan along \<open>link\<close> would find, in the same
  order, on every well-formed chain; it neither panics nor runs forever.
\<close>

theorem iter_type_equals_filtered_scan:
  assumes "chain_ok H ops cas hs"
  shows "iter_type_collect ops cas (first_header hs) t (\<lambda>_. True) n
           = iter_collect hdr_link ops cas (\<lambda>h. hdr_entry_type h = t) n (first_header hs)
         \<and> iter_type_collect ops cas (first_header hs) t (\<lambda>_. True) None
           = Some (Returns (filter (\<lambda>h. hdr_entry_type h = t) hs))"
  using assms iter_collect_path [of H hdr_link hs ops cas]
  by (simp add: iter_type_chain chain_ok_def take_opt_def)

theorem iter_type_equals_filtered_scan_witness:
  "let H = \<lparr> entry_hash = (\<lambda>_. ''e''), header_hash = (\<lambda>h. CHR ''h'' # hdr_entry_address h),
             aspect_hash = (\<lambda>_. ''a'') \<rparr>;
       h1 = ChainHeader_new EntryType.Dna ''1'' [] None None None 0;
       h2 = ChainHeader_new EntryType.AgentId ''2'' [] (Some ''h1'') None None 1;
       h3 = ChainHeader_new EntryType.Dna ''3'' [] (Some ''h2'') (Some ''h1'') None 2;
       cas = fmap_of_list [(''h1'', HeaderContent h1), (''h2'', HeaderContent h2), (''h3'', HeaderContent h3)]
   in iter_type_collect map_cas cas (Some h3) EntryType.Dna (\<lambda>_. True) None
        = Some (Returns [h3, h1])"
proof -
  let ?H = "\<lparr> entry_hash = (\<lambda>_. ''e''), header_hash = (\<lambda>h. CHR ''h'' # hdr_entry_address h),
             aspect_hash = (\<lambda>_. ''a'') \<rparr>"
  let ?h1 = "ChainHeader_new EntryType.Dna ''1'' [] None None None 0"
  let ?h2 = "ChainHeader_new EntryType.AgentId ''2'' [] (Some ''h1'') None None 1"
  let ?h3 = "ChainHeader_new EntryType.Dna ''3'' [] (Some ''h2'') (Some ''h1'') None 2"
  let ?cas = "fmap_of_list [(''h1'', HeaderContent ?h1), (''h2'', HeaderContent ?h2), (''h3'', HeaderContent ?h3)]"
  have "chain_ok ?H map_cas ?cas [?h3, ?h2, ?h1]"
    by (simp add: chain_ok_def stored_headers_def ChainHeader_new_def)
  then have "iter_type_collect map_cas ?cas (first_header [?h3, ?h2, ?h1]) EntryType.Dna (\<lambda>_. True) None
      = Some (Returns (filter (\<lambda>h. hdr_entry_type h = EntryType.Dna) [?h3, ?h2, ?h1]))"
    by (rule iter_type_equals_filtered_scan [THEN conjunct2])
  then show ?thesis by (simp add: first_header_def ChainHeader_new_def)
qed

text \<open>
  A query of a well-formed source chain returns the requested page of the
  headers it selects, newest first: all headers for a blank query, the headers of the
  named type for a single name without wildcards, and otherwise those that match a
  pattern; a bad pattern is the only error, and no query panics or runs forever.
\<close>

theorem chain_query_correct:
  assumes "chain_ok H ops cas hs" and "length hs \<le> usize_max"
  shows "chain_query glob ops cas (first_header hs) names options =
           (case selects glob names of
              None \<Rightarrow> Some (Returns (Err UnknownEntryType))
            | Some P \<Rightarrow>
                Some (Returns (Ok (query_result (query_headers options)
                  ((if query_limit options = 0 then id else take (query_limit options))
                     (drop (query_start options) (filter P hs)))))))"
proof -
  have big: "take usize_max (drop k (filter P hs)) = drop k (filter P hs)"
    for k and P :: "ChainHeader \<Rightarrow> bool"
    by (rule take_all, unfold length_drop) (use assms(2) length_filter_le [of P hs] in linarith)
  have big_all: "take usize_max (drop k hs) = drop k hs" for k
    using big [of k "\<lambda>_. True"] by simp
  have c: "iter_collect hdr_link ops cas P n (first_header hs) = Some (Returns (take_opt n (filter P hs)))" for P n
    using assms(1) iter_collect_path by (auto simp: chain_ok_def)
  show ?thesis
    by (auto simp: chain_query_def selects_def c iter_type_chain [OF assms(1)] run_bind_def
        take_opt_def Let_def big big_all drop_take split: option.splits)
qed

theorem chain_query_correct_witness:
  "let H = \<lparr> entry_hash = (\<lambda>_. ''e''), header_hash = (\<lambda>h. CHR ''h'' # hdr_entry_address h),
             aspect_hash = (\<lambda>_. ''a'') \<rparr>;
       h1 = ChainHeader_new EntryType.Dna ''1'' [] None None None 0;
       h2 = ChainHeader_new EntryType.AgentId ''2'' [] (Some ''h1'') None None 1;
       cas = fmap_of_list [(''h1'', HeaderContent h1), (''h2'', HeaderContent h2)]
   in chain_query (\<lambda>_. None) map_cas cas (Some h2) [''%dna'']
        \<lparr> query_start = 0, query_limit = 0, query_headers = False \<rparr>
        = Some (Returns (Ok (Addresses [''1''])))"
proof -
  let ?H = "\<lparr> entry_hash = (\<lambda>_. ''e''), header_hash = (\<lambda>h. CHR ''h'' # hdr_entry_address h),
             aspect_hash = (\<lambda>_. ''a'') \<rparr>"
  let ?h1 = "ChainHeader_new EntryType.Dna ''1'' [] None None None 0"
  let ?h2 = "ChainHeader_new EntryType.AgentId ''2'' [] (Some ''h1'') None None 1"
  let ?cas = "fmap_of_list [(''h1'', HeaderContent ?h1), (''h2'', HeaderContent ?h2)]"
  have "chain_ok ?H map_cas ?cas [?h2, ?h1]"
    by (simp add: chain_ok_def stored_headers_def ChainHeader_new_def)
  moreover have "length [?h2, ?h1] \<le> usize_max" by (simp add: usize_max_def)
  ultimately show ?thesis
    using chain_query_correct [of ?H map_cas ?cas "[?h2, ?h1]" "\<lambda>_. None" "[''%dna'']"
        "\<lparr> query_start = 0, query_limit = 0, query_headers = False \<rparr>"]
    by (simp add: first_header_def ChainHeader_new_def selects_def is_glob_str_def is_glob_def
        entry_type_from_str_def query_result_def)
qed

end
