(* ===== verification/Agent_State.thy ===== *)
theory Agent_State
  imports Chain_Store Action
begin

text \<open>
  \<open>crates/core/src/agent/state.rs\<close>: the agent's slice of the state, the new header of
  a commit, and its reducers.  The source chain lives in a shared storage, which the
  reducers thread.  Signing belongs to the conductor and is the parameter \<open>sign\<close>; the
  clock reading is \<open>now\<close>.  Responses are kept by the id of their action.
\<close>

section \<open>The slice\<close>

datatype AgentActionResponse =
    CommitResponse "Address HcResult"
  | FetchEntryResponse "Entry option"
  | GetLinksResponse "Address list HcResult"
  | LinkEntriesResponse "Entry HcResult"

record AgentState =
  agent_actions :: "(string, AgentActionResponse ActionResponse) fmap"
  agent_top_chain_header :: "ChainHeader option"
  initial_agent_address :: Address

definition AgentState_new :: "Address \<Rightarrow> AgentState" where
  "AgentState_new a =
     \<lparr> agent_actions = fmempty, agent_top_chain_header = None, initial_agent_address = a \<rparr>"

definition AgentState_new_with_top_chain_header :: "ChainHeader option \<Rightarrow> Address \<Rightarrow> AgentState" where
  "AgentState_new_with_top_chain_header h a =
     \<lparr> agent_actions = fmempty, agent_top_chain_header = h, initial_agent_address = a \<rparr>"

definition get_agent_address :: "'c cas_ops \<Rightarrow> 'c \<Rightarrow> AgentState \<Rightarrow> Address HcResult run" where
  "get_agent_address ops cas s =
     run_bind (iter_type_collect ops cas (agent_top_chain_header s) EntryType.AgentId
                 (\<lambda>_. True) (Some 1)) (\<lambda>hs.
       Some (Returns (Ok (case first_header hs of
                            Some h \<Rightarrow> hdr_entry_address h
                          | None \<Rightarrow> initial_agent_address s))))"

definition get_agent :: "'c cas_ops \<Rightarrow> 'c \<Rightarrow> AgentState \<Rightarrow> AgentId HcResult run" where
  "get_agent ops cas s =
     run_bind (get_agent_address ops cas s) (\<lambda>r. Some (
       case r of
         Inl e \<Rightarrow> Returns (Err e)
       | Inr address \<Rightarrow>
           (case get_entry ops cas address of
              Inl e \<Rightarrow> Returns (Err e)
            | Inr None \<Rightarrow> Returns (Err (ErrorGeneric ''Agent entry not found''))
            | Inr (Some (Entry.AgentId agent_id)) \<Rightarrow> Returns (Ok agent_id)
            | Inr (Some _) \<Rightarrow> Panics ''internal error: entered unreachable code'')))"

definition get_most_recent_header_for_entry ::
  "hasher \<Rightarrow> 'c cas_ops \<Rightarrow> 'c \<Rightarrow> AgentState \<Rightarrow> Entry \<Rightarrow> ChainHeader option run" where
  "get_most_recent_header_for_entry H ops cas s entry =
     run_bind (iter_type_collect ops cas (agent_top_chain_header s) (entry_type entry)
                 (\<lambda>h. hdr_entry_address h = entry_address H entry) (Some 1)) (\<lambda>hs.
       Some (Returns (first_header hs)))"

definition find_chain_header ::
  "hasher \<Rightarrow> 'c cas_ops \<Rightarrow> 'c \<Rightarrow> AgentState \<Rightarrow> Entry \<Rightarrow> ChainHeader option run" where
  "find_chain_header H ops cas s entry =
     iter_find ops cas (\<lambda>h. hdr_entry_address h = entry_address H entry) (agent_top_chain_header s)"

definition fetch_entry_with_header ::
  "hasher \<Rightarrow> 'c cas_ops \<Rightarrow> 'c \<Rightarrow> AgentState \<Rightarrow> Address \<Rightarrow> EntryWithHeader HcResult run" where
  "fetch_entry_with_header H ops cas s address =
     (case get_entry ops cas address of
        Inl e \<Rightarrow> Some (Returns (Err e))
      | Inr None \<Rightarrow> Some (Returns (Err (ErrorGeneric ''Entry not found'')))
      | Inr (Some entry) \<Rightarrow>
          run_bind (find_chain_header H ops cas s entry) (\<lambda>r. Some (Returns (
            case r of
              None \<Rightarrow> Err (ErrorGeneric ''No header found for entry'')
            | Some header \<Rightarrow> Ok \<lparr> ewh_entry = entry, ewh_header = header \<rparr>))))"

section \<open>New headers\<close>

text \<open>A clock before the epoch panics.\<close>

definition create_new_chain_header ::
  "hasher \<Rightarrow> 'c cas_ops \<Rightarrow> (string \<Rightarrow> string HcResult) \<Rightarrow> SystemTime \<Rightarrow> 'c \<Rightarrow> AgentState
     \<Rightarrow> Entry \<Rightarrow> Address option \<Rightarrow> Provenance list \<Rightarrow> ChainHeader HcResult run" where
  "create_new_chain_header H ops sign now cas s entry crud_link provenances =
     run_bind (get_agent_address ops cas s) (\<lambda>r.
       case r of
         Inl e \<Rightarrow> Some (Returns (Err e))
       | Inr agent_address \<Rightarrow>
           (case sign (entry_address H entry) of
              Inl e \<Rightarrow> Some (Returns (Err e))
            | Inr signature \<Rightarrow>
                if now < 0 then Some (Panics ''System time must not be before UNIX EPOCH'')
                else run_bind (iter_type_collect ops cas (agent_top_chain_header s)
                                 (entry_type entry) (\<lambda>_. True) (Some 1)) (\<lambda>same.
                  Some (Returns (Ok (ChainHeader_new (entry_type entry) (entry_address H entry)
                    (provenances @ [(agent_address, signature)])
                    (map_option (header_hash H) (agent_top_chain_header s))
                    (map_option (header_hash H) (first_header same))
                    crud_link now))))))"

definition create_entry_with_header_for_header ::
  "hasher \<Rightarrow> 'c cas_ops \<Rightarrow> (string \<Rightarrow> string HcResult) \<Rightarrow> SystemTime \<Rightarrow> 'c \<Rightarrow> AgentState
     \<Rightarrow> ChainHeader \<Rightarrow> EntryWithHeader HcResult run" where
  "create_entry_with_header_for_header H ops sign now cas s chain_header =
     (let entry = Entry.ChainHeader chain_header
      in run_bind (create_new_chain_header H ops sign now cas s entry None []) (\<lambda>r.
           Some (Returns (and_then r (\<lambda>proto.
             Ok \<lparr> ewh_entry = entry,
                  ewh_header = ChainHeader_new (hdr_entry_type proto) (hdr_entry_address proto)
                    (hdr_provenances proto) None None None (hdr_timestamp chain_header) \<rparr>)))))"

section \<open>Reducers\<close>

definition commit_result ::
  "hasher \<Rightarrow> 'c cas_ops \<Rightarrow> 'c \<Rightarrow> AgentState \<Rightarrow> Entry \<Rightarrow> ChainHeader HcResult
     \<Rightarrow> Address HcResult \<times> AgentState \<times> 'c" where
  "commit_result H ops cas s entry header_result =
     (case header_result of
        Inl e \<Rightarrow> (Err e, s, cas)
      | Inr chain_header \<Rightarrow>
          (case add_entry H ops cas entry of
             (Inl e, cas1) \<Rightarrow> (Err e, s, cas1)
           | (Inr _, cas1) \<Rightarrow>
               (case add_header H ops cas1 chain_header of
                  (Inl e, cas2) \<Rightarrow> (Err e, s, cas2)
                | (Inr _, cas2) \<Rightarrow>
                    (Ok (entry_address H entry),
                     s\<lparr> agent_top_chain_header := Some chain_header \<rparr>, cas2))))"

definition agent_reduce_commit_entry ::
  "hasher \<Rightarrow> 'c cas_ops \<Rightarrow> (string \<Rightarrow> string HcResult) \<Rightarrow> SystemTime \<Rightarrow> string
     \<Rightarrow> Entry \<Rightarrow> Address option \<Rightarrow> Provenance list \<Rightarrow> AgentState \<times> 'c \<Rightarrow> (AgentState \<times> 'c) run" where
  "agent_reduce_commit_entry H ops sign now aid entry crud_link provenances = (\<lambda>(s, cas).
     run_bind (create_new_chain_header H ops sign now cas s entry crud_link provenances) (\<lambda>hr.
       let (r, s', cas') = commit_result H ops cas s entry hr
       in Some (Returns (s'\<lparr> agent_actions :=
            fmupd aid \<lparr> created_at = now, response = CommitResponse r \<rparr> (agent_actions s') \<rparr>, cas'))))"

definition agent_reduce_prune :: "SystemTime \<Rightarrow> AgentState \<Rightarrow> AgentState" where
  "agent_reduce_prune now s =
     s\<lparr> agent_actions :=
          fmfilter (\<lambda>k. case fmlookup (agent_actions s) k of
                          Some r \<Rightarrow> \<not> response_expired now r | None \<Rightarrow> True) (agent_actions s) \<rparr>"

definition agent_reduce_clear_action_response :: "string \<Rightarrow> AgentState \<Rightarrow> AgentState" where
  "agent_reduce_clear_action_response aid s =
     s\<lparr> agent_actions := fmfilter (\<lambda>k. k = aid) (agent_actions s) \<rparr>"

definition agent_reduce ::
  "hasher \<Rightarrow> 'c cas_ops \<Rightarrow> (string \<Rightarrow> string HcResult) \<Rightarrow> SystemTime \<Rightarrow> ActionWrapper
     \<Rightarrow> AgentState \<times> 'c \<Rightarrow> (AgentState \<times> 'c) run" where
  "agent_reduce H ops sign now aw = (\<lambda>(s, cas).
     (case action aw of
        ClearActionResponse aid \<Rightarrow> Some (Returns (agent_reduce_clear_action_response aid s, cas))
      | Commit entry crud_link provenances \<Rightarrow>
          agent_reduce_commit_entry H ops sign now (action_id aw) entry crud_link provenances (s, cas)
      | Prune \<Rightarrow> Some (Returns (agent_reduce_prune now s, cas))
      | _ \<Rightarrow> Some (Returns (s, cas))))"

section \<open>Facts\<close>

lemma run_bind_Returns [simp]: "run_bind (Some (Returns a)) f = f a"
  by (simp add: run_bind_def)

text \<open>The agent that a chain names: its newest agent entry, or the initial one.\<close>

definition chain_agent :: "AgentState \<Rightarrow> ChainHeader list \<Rightarrow> Address" where
  "chain_agent s hs =
     (case find (\<lambda>h. hdr_entry_type h = EntryType.AgentId) hs of
        Some h \<Rightarrow> hdr_entry_address h
      | None \<Rightarrow> initial_agent_address s)"

definition next_header ::
  "hasher \<Rightarrow> AgentState \<Rightarrow> ChainHeader list \<Rightarrow> Entry \<Rightarrow> Address option \<Rightarrow> Provenance list \<Rightarrow> Signature
     \<Rightarrow> SystemTime \<Rightarrow> ChainHeader" where
  "next_header H s hs entry crud_link provenances sig now =
     ChainHeader_new (entry_type entry) (entry_address H entry)
       (provenances @ [(chain_agent s hs, sig)])
       (map_option (header_hash H) (first_header hs))
       (map_option (header_hash H) (find (\<lambda>h. hdr_entry_type h = entry_type entry) hs))
       crud_link now"

lemma first_take_filter: "first_header (take_opt (Some 1) (filter P hs)) = find P hs"
  by (cases "filter P hs") (simp_all add: find_filter_hd first_header_def take_opt_def)

lemma get_agent_address_chain:
  assumes ok: "chain_ok H ops cas hs" and top: "agent_top_chain_header s = first_header hs"
  shows "get_agent_address ops cas s = Some (Returns (Ok (chain_agent s hs)))"
  using iter_type_chain [OF ok, of EntryType.AgentId "\<lambda>_. True" "Some 1"]
    first_take_filter [of "\<lambda>h. hdr_entry_type h = EntryType.AgentId" hs]
  by (simp add: get_agent_address_def top chain_agent_def del: One_nat_def)

lemma create_new_chain_header_chain:
  assumes ok: "chain_ok H ops cas hs" and top: "agent_top_chain_header s = first_header hs"
    and "0 \<le> now"
  shows "create_new_chain_header H ops sign now cas s entry crud_link provenances =
           Some (Returns (case sign (entry_address H entry) of
             Inl e \<Rightarrow> Err e
           | Inr sig \<Rightarrow> Ok (next_header H s hs entry crud_link provenances sig now)))"
  using assms(3) iter_type_chain [OF ok, of "entry_type entry" "\<lambda>_. True" "Some 1"]
    first_take_filter [of "\<lambda>h. hdr_entry_type h = entry_type entry" hs]
  by (simp add: create_new_chain_header_def get_agent_address_chain [OF ok top] top next_header_def
      del: One_nat_def split: sum.splits)

definition hash_separates :: "hasher \<Rightarrow> Entry list \<Rightarrow> ChainHeader list \<Rightarrow> bool" where
  "hash_separates H es hs \<longleftrightarrow>
     list_all (\<lambda>e. list_all (\<lambda>h. entry_address H e = header_hash H h
       \<longrightarrow> entry_content e = HeaderContent h) hs) es"

lemma stored_after_add_entry:
  assumes "content_addressable ops" and "add_entry H ops cas e = (Ok (), cas')"
    and "hash_separates H [e] hs" and "stored_headers H ops cas hs"
  shows "stored_headers H ops cas' hs"
  using assms content_addressable.fetch_added_entry [OF assms(1,2)]
  by (auto simp: stored_headers_def hash_separates_def list_all_iff)

lemma stored_after_add_header:
  assumes "content_addressable ops" and "add_header H ops cas h = (Ok (), cas')"
    and "hash_separates H [Entry.ChainHeader h] hs" and "stored_headers H ops cas hs"
  shows "stored_headers H ops cas' (h # hs)"
  using assms content_addressable.fetch_added_header [OF assms(1,2)]
  by (auto simp: stored_headers_def hash_separates_def list_all_iff)

lemma stored_after_failure:
  assumes "content_addressable ops" and "stored_headers H ops cas hs"
  shows "add_entry H ops cas e = (Err x, cas') \<Longrightarrow> stored_headers H ops cas' hs"
    and "add_header H ops cas h = (Err x, cas') \<Longrightarrow> stored_headers H ops cas' hs"
  using assms content_addressable.fetch_failed [OF assms(1)]
  by (auto simp: stored_headers_def add_entry_def add_header_def list_all_iff map_err_Err_iff
      split: prod.splits)

lemma path_next_header:
  "path H hdr_link hs \<Longrightarrow>
     path H hdr_link (next_header H s hs entry crud_link provenances sig now # hs)"
  by (simp add: path_Cons next_header_def ChainHeader_new_def)

lemma same_type_next_header:
  "same_type_links H hs \<Longrightarrow>
     same_type_links H (next_header H s hs entry crud_link provenances sig now # hs)"
  by (simp add: next_header_def ChainHeader_new_def)

lemma commit_result_chain:
  assumes cas: "content_addressable ops" and ok: "chain_ok H ops c hs"
    and h: "h = next_header H s hs entry crud_link provenances sig now"
    and sep: "hash_separates H [entry, Entry.ChainHeader h] (h # hs)"
    and r: "commit_result H ops c s entry (Ok h) = (r, s', c')"
  shows "(\<exists>e. r = Err e \<and> s' = s \<and> chain_ok H ops c' hs)
         \<or> (r = Ok (entry_address H entry) \<and> s' = s\<lparr> agent_top_chain_header := Some h \<rparr>
            \<and> chain_ok H ops c' (h # hs)
            \<and> get_entry ops c' (entry_address H entry) = Ok (Some entry))"
proof -
  have st: "stored_headers H ops c hs" and p: "path H hdr_link hs" and t: "same_type_links H hs"
    using ok by (simp_all add: chain_ok_def)
  obtain r1 c1 where e: "add_entry H ops c entry = (r1, c1)" by fastforce
  show ?thesis
  proof (cases r1)
    case (Inl x)
    with e r have "r = Err x" "s' = s" "c' = c1" by (auto simp: commit_result_def)
    with stored_after_failure(1) [OF cas st] e Inl p t show ?thesis by (auto simp: chain_ok_def)
  next
    case (Inr u)
    with e have e: "add_entry H ops c entry = (Ok (), c1)" by simp
    have sep1: "hash_separates H [entry] hs" "hash_separates H [Entry.ChainHeader h] hs"
      using sep by (auto simp: hash_separates_def)
    have st1: "stored_headers H ops c1 hs" using stored_after_add_entry [OF cas e sep1(1) st] .
    obtain r2 c2 where h2: "add_header H ops c1 h = (r2, c2)" by fastforce
    show ?thesis
    proof (cases r2)
      case (Inl x)
      with e h2 r have "r = Err x" "s' = s" "c' = c2" by (auto simp: commit_result_def)
      with stored_after_failure(2) [OF cas st1] h2 Inl p t show ?thesis by (auto simp: chain_ok_def)
    next
      case (Inr v)
      with h2 have h2: "add_header H ops c1 h = (Ok (), c2)" by simp
      from e h2 r have res: "r = Ok (entry_address H entry)" "c' = c2"
        "s' = s\<lparr> agent_top_chain_header := Some h \<rparr>" by (auto simp: commit_result_def)
      have "stored_headers H ops c2 (h # hs)" using stored_after_add_header [OF cas h2 sep1(2) st1] .
      moreover have "cas_fetch ops c2 (entry_address H entry) = Ok (Some (entry_content entry))"
        using content_addressable.fetch_added_entry [OF cas e]
          content_addressable.fetch_added_header [OF cas h2] sep
        by (auto simp: hash_separates_def)
      ultimately show ?thesis
        using res path_next_header [OF p] same_type_next_header [OF t]
        by (simp add: chain_ok_def h get_entry_def get_raw_def)
    qed
  qed
qed

section \<open>Properties\<close>

text \<open>
  Committing keeps the source chain a well-formed chain: from a chain whose
  headers are stored and linked, a commit returns, and either it fails, leaves the
  top where it was and the chain intact, and reports the error, or it puts exactly
  one new header on top, linked to the previous header and to the previous header
  of its type, makes the entry readable at its address, and reports that address.
  No digest of the new entry and header may collide with one of the chain.
\<close>

theorem commit_extends_chain:
  assumes "content_addressable ops" and "chain_ok H ops c hs"
    and "agent_top_chain_header s = first_header hs" and "0 \<le> now"
    and "sign (entry_address H entry) = Ok sig"
    and "h = next_header H s hs entry crud_link provenances sig now"
    and "hash_separates H [entry, Entry.ChainHeader h] (h # hs)"
  shows "\<exists>s' c' r. agent_reduce_commit_entry H ops sign now aid entry crud_link provenances (s, c)
             = Some (Returns (s', c'))
           \<and> fmlookup (agent_actions s') aid = Some \<lparr> created_at = now, response = CommitResponse r \<rparr>
           \<and> ((\<exists>e. r = Err e) \<and> agent_top_chain_header s' = first_header hs \<and> chain_ok H ops c' hs
              \<or> r = Ok (entry_address H entry) \<and> agent_top_chain_header s' = Some h
                \<and> chain_ok H ops c' (h # hs)
                \<and> get_entry ops c' (entry_address H entry) = Ok (Some entry))"
proof -
  obtain r s1 c' where cr: "commit_result H ops c s entry (Ok h) = (r, s1, c')"
    by (cases "commit_result H ops c s entry (Ok h)") auto
  have "agent_reduce_commit_entry H ops sign now aid entry crud_link provenances (s, c)
      = Some (Returns (s1\<lparr> agent_actions :=
          fmupd aid \<lparr> created_at = now, response = CommitResponse r \<rparr> (agent_actions s1) \<rparr>, c'))"
    using assms(5,6) cr create_new_chain_header_chain [OF assms(2-4)]
    by (simp add: agent_reduce_commit_entry_def)
  with commit_result_chain [OF assms(1,2,6,7) cr] assms(3) show ?thesis by auto
qed

theorem commit_extends_chain_witness:
  "let H = \<lparr> entry_hash = (\<lambda>_. ''e''), header_hash = (\<lambda>_. ''h''), aspect_hash = (\<lambda>_. ''a'') \<rparr>;
       s = AgentState_new ''me'';
       entry = Entry.App ''post'' ''hello'';
       h = next_header H s [] entry None [] ''sig'' 5
   in \<exists>s' c' r. agent_reduce_commit_entry H map_cas (\<lambda>_. Ok ''sig'') 5 ''id'' entry None [] (s, fmempty)
             = Some (Returns (s', c'))
           \<and> fmlookup (agent_actions s') ''id'' = Some \<lparr> created_at = 5, response = CommitResponse r \<rparr>
           \<and> ((\<exists>e. r = Err e) \<and> agent_top_chain_header s' = first_header [] \<and> chain_ok H map_cas c' []
              \<or> r = Ok (entry_address H entry) \<and> agent_top_chain_header s' = Some h
                \<and> chain_ok H map_cas c' [h]
                \<and> get_entry map_cas c' (entry_address H entry) = Ok (Some entry))"
  unfolding Let_def
  by (rule commit_extends_chain [OF map_cas.content_addressable_axioms])
     (simp_all add: chain_ok_def stored_headers_def AgentState_new_def first_header_def
       hash_separates_def)

text \<open>
  The virtual header of a header is the same whenever it is made: it depends on
  the header, the agent and the signature, and neither on the clock nor on how far
  the source chain has grown since.
\<close>

theorem header_entry_deterministic:
  assumes "chain_ok H ops c hs" and "agent_top_chain_header s = first_header hs" and "0 \<le> now"
    and "chain_ok H ops c' hs'" and "agent_top_chain_header s' = first_header hs'" and "0 \<le> later"
    and "chain_agent s hs = chain_agent s' hs'"
  shows "create_entry_with_header_for_header H ops sign now c s h
           = create_entry_with_header_for_header H ops sign later c' s' h"
  using create_new_chain_header_chain [OF assms(1-3)] create_new_chain_header_chain [OF assms(4-6)]
    assms(7)
  by (cases "sign (header_hash H h)")
     (simp_all add: create_entry_with_header_for_header_def next_header_def ChainHeader_new_def Let_def)

theorem header_entry_deterministic_witness:
  "let H = \<lparr> entry_hash = (\<lambda>_. ''e''), header_hash = (\<lambda>_. ''h''), aspect_hash = (\<lambda>_. ''a'') \<rparr>;
       h = ChainHeader_new (EntryType.App ''post'') ''e'' [] None None None 1
   in create_entry_with_header_for_header H map_cas (\<lambda>_. Ok ''sig'') 1 fmempty (AgentState_new ''me'') h
        = create_entry_with_header_for_header H map_cas (\<lambda>_. Ok ''sig'') 9
            (fmap_of_list [(''h'', HeaderContent h)])
            (AgentState_new_with_top_chain_header (Some h) ''me'') h"
  unfolding Let_def
  by (rule header_entry_deterministic [where hs = "[]" and
        hs' = "[ChainHeader_new (EntryType.App ''post'') ''e'' [] None None None 1]"])
     (simp_all add: chain_ok_def stored_headers_def AgentState_new_def first_header_def
       AgentState_new_with_top_chain_header_def ChainHeader_new_def chain_agent_def)

text \<open>
  Clearing the response of an action in the agent's slice does the opposite of
  what it is for: the response that was to be cleared stays, and every other response
  is dropped.
\<close>

theorem agent_clear_keeps_cleared:
  "fmlookup (agent_actions (agent_reduce_clear_action_response aid s)) k =
     (if k = aid then fmlookup (agent_actions s) aid else None)"
  by (simp add: agent_reduce_clear_action_response_def)

text \<open>
  Pruning the agent's slice drops exactly the responses older than the pruning
  age; a response with a time stamp in the future stays.
\<close>

theorem agent_prune_exact:
  "fmlookup (agent_actions (agent_reduce_prune now s)) k =
     (case fmlookup (agent_actions s) k of
        None \<Rightarrow> None
      | Some r \<Rightarrow> if now - created_at r > 60000000000 then None else Some r)"
  by (auto simp: agent_reduce_prune_def response_expired_def elapsed_def from_millis_def
      ACTION_PRUNE_MS_def split: option.splits)

end
