(* ===== verification/Nucleus.thy ===== *)
theory Nucleus
  imports Agent_State
begin

text \<open>
  \<open>crates/core/src/nucleus/state.rs\<close> and \<open>nucleus/reducers/\<close>: the nucleus slice, which
  holds the DNA, the status of the initialization and the zome calls, and its reducers.
\<close>

section \<open>The slice\<close>

datatype NucleusStatus =
    New
  | Initializing
  | Initialized Initialization
  | InitializationFailedStatus string

record ZomeFnCallState =
  hdk_fn_invocations :: "(HdkFnCall \<times> HdkFnCallResult option) list"

definition ZomeFnCallState_default :: ZomeFnCallState where
  "ZomeFnCallState_default = \<lparr> hdk_fn_invocations = [] \<rparr>"

text \<open>The vector of invocations grows at its end: \<open>push\<close> appends, \<open>pop\<close> takes the last.\<close>

definition begin_hdk_call :: "HdkFnCall \<Rightarrow> ZomeFnCallState \<Rightarrow> ZomeFnCallState" where
  "begin_hdk_call call s = s\<lparr> hdk_fn_invocations := hdk_fn_invocations s @ [(call, None)] \<rparr>"

definition end_hdk_call ::
  "HdkFnCall \<Rightarrow> HdkFnCallResult \<Rightarrow> ZomeFnCallState \<Rightarrow> unit HcResult \<times> ZomeFnCallState" where
  "end_hdk_call call result s =
     (if hdk_fn_invocations s = []
      then (case hdk_function call of
              InitGlobals \<Rightarrow> (Ok (), s)
            | _ \<Rightarrow> (Err (ErrorGeneric ''Attempted to end HDK call, but none was started!''), s))
      else let (current_call, current_result) = last (hdk_fn_invocations s);
               rest = butlast (hdk_fn_invocations s)
           in if call \<noteq> current_call
              then (Err (ErrorGeneric ''HDK call other than the current call was ended.''),
                    s\<lparr> hdk_fn_invocations := rest \<rparr>)
              else if current_result \<noteq> None
              then (Err (ErrorGeneric ''Ending an HDK call which was already ended.''),
                    s\<lparr> hdk_fn_invocations := rest \<rparr>)
              else (Ok (), s\<lparr> hdk_fn_invocations := rest @ [(call, Some result)] \<rparr>))"

record NucleusState =
  status :: NucleusStatus
  nucleus_dna :: "Dna option"
  queued_zome_calls :: "ZomeFnCall list"
  running_zome_calls :: "ZomeFnCall fset"
  hdk_function_calls :: "(ZomeFnCall, ZomeFnCallState) fmap"
  zome_call_results :: "(ZomeFnCall, ZomeFnResult) fmap"

definition NucleusState_new :: NucleusState where
  "NucleusState_new =
     \<lparr> status = New, nucleus_dna = None, queued_zome_calls = [], running_zome_calls = {||},
       hdk_function_calls = fmempty, zome_call_results = fmempty \<rparr>"

definition zome_call_result :: "NucleusState \<Rightarrow> ZomeFnCall \<Rightarrow> ZomeFnResult option" where
  "zome_call_result s call = fmlookup (zome_call_results s) call"

definition has_initialized :: "NucleusState \<Rightarrow> bool" where
  "has_initialized s \<longleftrightarrow> (case status s of Initialized _ \<Rightarrow> True | _ \<Rightarrow> False)"

definition initialization :: "NucleusState \<Rightarrow> Initialization option" where
  "initialization s = (case status s of Initialized init \<Rightarrow> Some init | _ \<Rightarrow> None)"

definition has_initialization_failed :: "NucleusState \<Rightarrow> bool" where
  "has_initialization_failed s \<longleftrightarrow> (case status s of InitializationFailedStatus _ \<Rightarrow> True | _ \<Rightarrow> False)"

text \<open>A snapshot keeps the status only.\<close>

definition nucleus_snapshot :: "NucleusState \<Rightarrow> NucleusStatus" where
  "nucleus_snapshot s = status s"

definition NucleusState_from_snapshot :: "NucleusStatus \<Rightarrow> NucleusState" where
  "NucleusState_from_snapshot st = NucleusState_new\<lparr> status := st \<rparr>"

section \<open>Reducers\<close>

definition MAX_ZOME_CALLS :: nat where
  "MAX_ZOME_CALLS = 10"

definition reduce_clear_zome_function_call :: "ZomeFnCall \<Rightarrow> NucleusState \<Rightarrow> NucleusState" where
  "reduce_clear_zome_function_call call s =
     s\<lparr> queued_zome_calls := filter (\<lambda>c. c \<noteq> call) (queued_zome_calls s),
        running_zome_calls := running_zome_calls s |-| {|call|},
        hdk_function_calls := fmdrop call (hdk_function_calls s),
        zome_call_results := fmdrop call (zome_call_results s) \<rparr>"

definition reduce_initialize_chain :: "Dna \<Rightarrow> NucleusState \<Rightarrow> NucleusState" where
  "reduce_initialize_chain dna s =
     (case status s of
        Initializing \<Rightarrow> s\<lparr> status := InitializationFailedStatus ''Nucleus already initializing'' \<rparr>
      | Initialized _ \<Rightarrow> s\<lparr> status := InitializationFailedStatus ''Nucleus already initialized'' \<rparr>
      | _ \<Rightarrow> s\<lparr> status := Initializing, nucleus_dna := Some dna \<rparr>)"

definition reduce_queue_zome_function_call :: "ZomeFnCall \<Rightarrow> NucleusState \<Rightarrow> NucleusState" where
  "reduce_queue_zome_function_call call s =
     (if fcard (running_zome_calls s) < MAX_ZOME_CALLS
      then s\<lparr> running_zome_calls := finsert call (running_zome_calls s) \<rparr>
      else s\<lparr> queued_zome_calls := queued_zome_calls s @ [call] \<rparr>)"

definition reduce_return_initialization_result ::
  "(Initialization, string) result \<Rightarrow> NucleusState \<Rightarrow> NucleusState" where
  "reduce_return_initialization_result result s =
     (if status s \<noteq> Initializing
      then s\<lparr> status := InitializationFailedStatus
             ''reduce of ReturnInitializationResult attempted when status != Initializing'' \<rparr>
      else (case result of
              Inr init \<Rightarrow> s\<lparr> status := Initialized init \<rparr>
            | Inl err \<Rightarrow> s\<lparr> status := InitializationFailedStatus err \<rparr>))"

definition reduce_return_zome_function_result :: "ExecuteZomeFnResponse \<Rightarrow> NucleusState \<Rightarrow> NucleusState" where
  "reduce_return_zome_function_result r s =
     (let call = response_call r;
          s1 = s\<lparr> zome_call_results := fmupd call (response_result r) (zome_call_results s),
                  running_zome_calls := running_zome_calls s |-| {|call|},
                  hdk_function_calls := fmdrop call (hdk_function_calls s) \<rparr>
      in case queued_zome_calls s1 of
           [] \<Rightarrow> s1
         | next_call # rest \<Rightarrow>
             s1\<lparr> queued_zome_calls := rest,
                 running_zome_calls := finsert next_call (running_zome_calls s1) \<rparr>)"

definition reduce_trace_invoke_hdk_function :: "ZomeFnCall \<Rightarrow> HdkFnCall \<Rightarrow> NucleusState \<Rightarrow> NucleusState" where
  "reduce_trace_invoke_hdk_function call hdk s =
     s\<lparr> hdk_function_calls := fmupd call
          (case fmlookup (hdk_function_calls s) call of
             Some cs \<Rightarrow> begin_hdk_call hdk cs
           | None \<Rightarrow> ZomeFnCallState_default) (hdk_function_calls s) \<rparr>"

definition reduce_trace_return_hdk_function ::
  "ZomeFnCall \<Rightarrow> HdkFnCall \<Rightarrow> HdkFnCallResult \<Rightarrow> NucleusState \<Rightarrow> NucleusState" where
  "reduce_trace_return_hdk_function call hdk result s =
     (case fmlookup (hdk_function_calls s) call of
        None \<Rightarrow> s
      | Some cs \<Rightarrow>
          s\<lparr> hdk_function_calls := fmupd call (snd (end_hdk_call hdk result cs)) (hdk_function_calls s) \<rparr>)"

definition nucleus_reduce :: "Action \<Rightarrow> NucleusState \<Rightarrow> NucleusState" where
  "nucleus_reduce a s =
     (case a of
        ClearZomeFunctionCall call \<Rightarrow> reduce_clear_zome_function_call call s
      | ReturnInitializationResult result \<Rightarrow> reduce_return_initialization_result result s
      | InitializeChain dna \<Rightarrow> reduce_initialize_chain dna s
      | ReturnZomeFunctionResult r \<Rightarrow> reduce_return_zome_function_result r s
      | QueueZomeFunctionCall call \<Rightarrow> reduce_queue_zome_function_call call s
      | TraceInvokeHdkFunction call hdk \<Rightarrow> reduce_trace_invoke_hdk_function call hdk s
      | TraceReturnHdkFunction call hdk result \<Rightarrow> reduce_trace_return_hdk_function call hdk result s
      | _ \<Rightarrow> s)"

section \<open>Keys of pending validations\<close>

record PendingValidationKey =
  pvk_address :: Address
  pvk_workflow :: ValidatingWorkflow

definition pending_key_string :: "PendingValidationKey \<Rightarrow> string" where
  "pending_key_string k = pvk_address k @ ''__'' @ workflow_string (pvk_workflow k)"

text \<open>\<open>str::split("__")\<close>: the pieces between the separators, found from the left.\<close>

fun split_key :: "string \<Rightarrow> string \<Rightarrow> string list" where
  "split_key acc [] = [rev acc]"
| "split_key acc [c] = [rev (c # acc)]"
| "split_key acc (c # d # cs) =
     (if c = CHR ''_'' \<and> d = CHR ''_'' then rev acc # split_key [] cs else split_key (c # acc) (d # cs))"

definition pending_key_from_str :: "string \<Rightarrow> PendingValidationKey HcResult" where
  "pending_key_from_str s =
     (let parts = split_key [] s
      in map_ok (\<lambda>w. \<lparr> pvk_address = hd parts, pvk_workflow = w \<rparr>) (workflow_try_from (last parts)))"

section \<open>Tracing HDK calls\<close>

text \<open>A zome function that makes its HDK calls one after the other.\<close>

definition trace_hdk_call :: "ZomeFnCall \<Rightarrow> HdkFnCall \<times> HdkFnCallResult \<Rightarrow> NucleusState \<Rightarrow> NucleusState" where
  "trace_hdk_call call p s =
     nucleus_reduce (TraceReturnHdkFunction call (fst p) (snd p))
       (nucleus_reduce (TraceInvokeHdkFunction call (fst p)) s)"

lemma trace_hdk_call_known:
  assumes "fmlookup (hdk_function_calls s) call = Some cs"
  shows "fmlookup (hdk_function_calls (trace_hdk_call call p s)) call =
           Some \<lparr> hdk_fn_invocations = hdk_fn_invocations cs @ [(fst p, Some (snd p))] \<rparr>"
  using assms
  by (simp add: trace_hdk_call_def nucleus_reduce_def reduce_trace_invoke_hdk_function_def
      reduce_trace_return_hdk_function_def begin_hdk_call_def end_hdk_call_def)

lemma trace_hdk_call_first:
  assumes "fmlookup (hdk_function_calls s) call = None"
  shows "fmlookup (hdk_function_calls (trace_hdk_call call p s)) call = Some ZomeFnCallState_default"
  using assms
  by (simp add: trace_hdk_call_def nucleus_reduce_def reduce_trace_invoke_hdk_function_def
      reduce_trace_return_hdk_function_def end_hdk_call_def ZomeFnCallState_default_def
      split: ZomeApiFunction.split)

lemma fold_trace_known:
  "fmlookup (hdk_function_calls s) call = Some cs \<Longrightarrow>
   fmlookup (hdk_function_calls (fold (trace_hdk_call call) ps s)) call =
     Some \<lparr> hdk_fn_invocations = hdk_fn_invocations cs @ map (\<lambda>p. (fst p, Some (snd p))) ps \<rparr>"
proof (induction ps arbitrary: s cs)
  case (Cons p ps)
  from Cons.IH [OF trace_hdk_call_known [OF Cons.prems]] show ?case by simp
qed simp

text \<open>
  The trace of a zome call records its HDK calls in order, each with its result,
  except the first one, which leaves no record.
\<close>

theorem hdk_trace_skips_first:
  assumes "fmlookup (hdk_function_calls s) call = None"
  shows "fmlookup (hdk_function_calls (fold (trace_hdk_call call) (p # ps) s)) call =
           Some \<lparr> hdk_fn_invocations = map (\<lambda>p. (fst p, Some (snd p))) ps \<rparr>"
  using fold_trace_known [OF trace_hdk_call_first [OF assms]]
  by (simp add: ZomeFnCallState_default_def)

theorem hdk_trace_skips_first_witness:
  "let call = \<lparr> call_id = 1, zome_name = ''blog'', cap = \<lparr> cap_token = ''t'', cap_provenance = (''a'', ''s'') \<rparr>,
                fn_name = ''f'', call_parameters = ''{}'' \<rparr>;
       d = \<lparr> hdk_function = Debug, hdk_parameters = ''x'' \<rparr>
   in fmlookup (hdk_function_calls (fold (trace_hdk_call call) [(d, Ok ''1''), (d, Ok ''2'')] NucleusState_new)) call
        = Some \<lparr> hdk_fn_invocations = [(d, Some (Ok ''2''))] \<rparr>"
  unfolding Let_def
  by (subst hdk_trace_skips_first) (simp_all add: NucleusState_new_def)

section \<open>The status of the initialization\<close>

lemma status_frame [frame]:
  "status (reduce_clear_zome_function_call call s) = status s"
  "status (reduce_queue_zome_function_call call s) = status s"
  "status (reduce_return_zome_function_result r s) = status s"
  "status (reduce_trace_invoke_hdk_function call hdk s) = status s"
  "status (reduce_trace_return_hdk_function call hdk res s) = status s"
  by (simp_all add: reduce_clear_zome_function_call_def reduce_queue_zome_function_call_def
      reduce_return_zome_function_result_def reduce_trace_invoke_hdk_function_def
      reduce_trace_return_hdk_function_def Let_def split: list.split option.split)

text \<open>
  The status of the initialization moves as its state machine says: it starts
  with an initialization of a new or failed nucleus, a result completes a running
  initialization, an initialization or a result at any other time fails it, and no
  other action touches it.
\<close>

theorem nucleus_status_machine:
  "status (nucleus_reduce a s) =
     (case (a, status s) of
        (InitializeChain _, New) \<Rightarrow> Initializing
      | (InitializeChain _, InitializationFailedStatus _) \<Rightarrow> Initializing
      | (InitializeChain _, Initializing) \<Rightarrow> InitializationFailedStatus ''Nucleus already initializing''
      | (InitializeChain _, Initialized _) \<Rightarrow> InitializationFailedStatus ''Nucleus already initialized''
      | (ReturnInitializationResult (Inr i), Initializing) \<Rightarrow> Initialized i
      | (ReturnInitializationResult (Inl e), Initializing) \<Rightarrow> InitializationFailedStatus e
      | (ReturnInitializationResult _, _) \<Rightarrow> InitializationFailedStatus
           ''reduce of ReturnInitializationResult attempted when status != Initializing''
      | (_, st) \<Rightarrow> st)"
  by (cases a)
     (simp_all add: nucleus_reduce_def frame reduce_initialize_chain_def
       reduce_return_initialization_result_def split: NucleusStatus.split sum.split)

section \<open>Reading keys back\<close>

lemma split_key_nonempty: "split_key acc s \<noteq> []"
  by (induction acc s rule: split_key.induct) auto

lemma split_key_plain:
  "list_all (\<lambda>c. c \<noteq> CHR ''_'') s \<Longrightarrow> split_key acc s = [rev acc @ s]"
  by (induction acc s rule: split_key.induct) auto

definition plain_key :: "Address \<Rightarrow> bool" where
  "plain_key a \<longleftrightarrow> list_all (\<lambda>c. c \<noteq> CHR ''_'') a"

lemma split_key_sep:
  "plain_key a \<Longrightarrow> split_key acc (a @ ''__'' @ t) = (rev acc @ a) # split_key [] t"
proof (induction a arbitrary: acc)
  case (Cons c a)
  then have "split_key acc ((c # a) @ ''__'' @ t) = split_key (c # acc) (a @ ''__'' @ t)"
    by (cases a) (auto simp: plain_key_def)
  with Cons show ?case by (simp add: plain_key_def)
qed simp

lemma workflow_string_plain: "list_all (\<lambda>c. c \<noteq> CHR ''_'') (workflow_string w)"
  by (cases w) simp_all

lemma pending_key_roundtrip:
  "plain_key (pvk_address k) \<Longrightarrow> pending_key_from_str (pending_key_string k) = Ok k"
  using split_key_sep [of "pvk_address k" "[]" "workflow_string (pvk_workflow k)"]
    split_key_plain [OF workflow_string_plain, of "[]" "pvk_workflow k"]
  by (simp add: pending_key_from_str_def pending_key_string_def workflow_roundtrip)

end
