(* ===== verification/Network.thy ===== *)
theory Network
  imports Nucleus
begin

text \<open>
  \<open>crates/core/src/network/state.rs\<close> and \<open>network/reducers/\<close>: the network slice, which
  tracks queries, validation packages and direct messages until they are answered or
  time out, and its reducers.  The connection is a handle of the network library, given
  by its operations; messages carry the values that the sources serialise.  Fresh ids
  and the time are arguments.
\<close>

section \<open>Protocol messages\<close>

record EntryAspectData =
  ead_type_hint :: string
  ead_aspect_address :: Address
  ead_aspect :: EntryAspect
  ead_publish_ts :: u64

record EntryData =
  ed_entry_address :: Address
  ed_aspect_list :: "EntryAspectData list"

datatype Lib3hClientProtocol =
    JoinSpace string Address string
  | LeaveSpace string Address string
  | PublishEntry Address string EntryData
  | SendDirectMessageProtocol string Address Address string DirectMessage
  | HandleSendDirectMessageResult string Address Address string DirectMessage
  | QueryEntry string string Address Address NetworkQuery
  | HandleQueryEntryResult string Address Address string Address NetworkQueryResult
  | HandleFetchEntryResult string Address string EntryData
  | HandleGetAuthoringEntryListResult EntryListData
  | HandleGetGossipingEntryListResult EntryListData

record 'n net_ops =
  net_open :: "P2pConfig \<Rightarrow> string \<Rightarrow> ('n, string) result"
  net_send :: "'n \<Rightarrow> Lib3hClientProtocol \<Rightarrow> (unit, string) result \<times> 'n"

section \<open>The slice\<close>

datatype NetworkActionResponse =
    PublishResponse "Address HcResult"
  | PublishHeaderEntryResponse "Address HcResult"
  | RespondResponse "unit HcResult"

record ValidationCacheData =
  cache_entries :: "Entry list option"
  cache_headers :: "ChainHeader list"
  cached_at :: SystemTime

record 'n NetworkState =
  net_actions :: "(string, NetworkActionResponse ActionResponse) fmap"
  net_network :: "'n option"
  net_dna_address :: "Address option"
  net_agent_id :: "string option"
  get_query_results :: "(QueryKey, NetworkQueryResult HcResult option) fmap"
  query_timeouts :: "(QueryKey, SystemTime \<times> Duration) fmap"
  get_validation_package_results :: "(ValidationKey, ValidationPackage option HcResult option) fmap"
  get_validation_package_timeouts :: "(ValidationKey, SystemTime \<times> Duration) fmap"
  direct_message_connections :: "(string, DirectMessage) fmap"
  direct_message_timeouts :: "(string, SystemTime \<times> Duration) fmap"
  custom_direct_message_replys :: "(string, string HcResult) fmap"
  validation_cache :: "(Address, ValidationCacheData) fmap"

definition NetworkState_new :: "'n NetworkState" where
  "NetworkState_new =
     \<lparr> net_actions = fmempty, net_network = None, net_dna_address = None, net_agent_id = None,
       get_query_results = fmempty, query_timeouts = fmempty,
       get_validation_package_results = fmempty, get_validation_package_timeouts = fmempty,
       direct_message_connections = fmempty, direct_message_timeouts = fmempty,
       custom_direct_message_replys = fmempty, validation_cache = fmempty \<rparr>"

definition initialized :: "'n NetworkState \<Rightarrow> unit HcResult" where
  "initialized s =
     (if net_network s \<noteq> None \<and> net_dna_address s \<noteq> None \<and> net_agent_id s \<noteq> None then Ok ()
      else Err (ErrorGeneric ''Network not initialized''))"

text \<open>\<open>unwrap\<close> of the address and the agent of the network.\<close>

definition space_and_agent :: "'n NetworkState \<Rightarrow> (Address \<times> string) outcome" where
  "space_and_agent s =
     outcome_bind (expect ''called `Option::unwrap()` on a `None` value'' (net_dna_address s)) (\<lambda>space.
     outcome_bind (expect ''called `Option::unwrap()` on a `None` value'' (net_agent_id s)) (\<lambda>agent.
       Returns (space, agent)))"

section \<open>The validation cache\<close>

definition latest_header :: "ValidationCacheData \<Rightarrow> ChainHeader outcome" where
  "latest_header c =
     (case cache_headers c of
        [] \<Rightarrow> Panics ''called `Option::unwrap()` on a `None` value''
      | h # _ \<Rightarrow> Returns h)"

definition cache_validation ::
  "SystemTime \<Rightarrow> Address \<Rightarrow> ValidationPackage \<Rightarrow> 'n NetworkState \<Rightarrow> 'n NetworkState outcome" where
  "cache_validation now agent validation s =
     (case source_chain_headers validation of
        None \<Rightarrow> Returns s
      | Some headers \<Rightarrow>
          (case fmlookup (validation_cache s) agent of
             Some cache_entry \<Rightarrow>
               outcome_bind (latest_header cache_entry) (\<lambda>latest.
                 if hdr_timestamp (vp_chain_header validation) > hdr_timestamp latest
                 then Returns (s\<lparr> validation_cache := fmupd agent
                        (cache_entry\<lparr> cache_headers := headers,
                           cache_entries := (if source_chain_entries validation \<noteq> None
                                             then source_chain_entries validation
                                             else cache_entries cache_entry) \<rparr>) (validation_cache s) \<rparr>)
                 else Returns s)
           | None \<Rightarrow>
               Returns (s\<lparr> validation_cache := fmupd agent
                 \<lparr> cache_entries = source_chain_entries validation, cache_headers = headers, cached_at = now \<rparr>
                 (validation_cache s) \<rparr>)))"

definition get_validation_package_from_cache ::
  "'n NetworkState \<Rightarrow> Address \<Rightarrow> ValidationPackageDefinition \<Rightarrow> ChainHeader \<Rightarrow> ValidationPackage option outcome" where
  "get_validation_package_from_cache s agent def header =
     (case fmlookup (validation_cache s) agent of
        None \<Rightarrow> Returns None
      | Some cache_entry \<Rightarrow>
          (case def of
             DefChainFull \<Rightarrow>
               if cache_headers cache_entry = [] \<or> cache_entries cache_entry = None then Returns None
               else outcome_bind (latest_header cache_entry) (\<lambda>latest.
                 if hdr_timestamp header \<ge> hdr_timestamp latest then Returns None
                 else Returns (Some \<lparr> vp_chain_header = header,
                        source_chain_entries = cache_entries cache_entry,
                        source_chain_headers = Some (cache_headers cache_entry), custom = None \<rparr>))
           | _ \<Rightarrow> Returns None))"

section \<open>Sending\<close>

definition send_protocol ::
  "'n net_ops \<Rightarrow> Lib3hClientProtocol \<Rightarrow> 'n NetworkState \<Rightarrow> unit HcResult \<times> 'n NetworkState" where
  "send_protocol N msg s =
     (case net_network s of
        None \<Rightarrow> (Err (ErrorGeneric ''Network not initialized''), s)
      | Some network \<Rightarrow>
          (let (r, network') = net_send N network msg
           in (map_err IoError r, s\<lparr> net_network := Some network' \<rparr>)))"

definition send_message ::
  "'n net_ops \<Rightarrow> string \<Rightarrow> Address \<Rightarrow> DirectMessage \<Rightarrow> SystemTime \<times> Duration \<Rightarrow> 'n NetworkState
     \<Rightarrow> (unit HcResult \<times> 'n NetworkState) outcome" where
  "send_message N mid to_agent_id message tmo s =
     outcome_bind (space_and_agent s) (\<lambda>(space, agent).
       Returns (case send_protocol N (SendDirectMessageProtocol mid space to_agent_id agent message) s of
          (Inl e, s') \<Rightarrow> (Err e, s')
        | (Inr _, s') \<Rightarrow>
            (Ok (), s'\<lparr> direct_message_connections := fmupd mid message (direct_message_connections s'),
                        direct_message_timeouts := fmupd mid tmo (direct_message_timeouts s') \<rparr>)))"

section \<open>Reducers\<close>

text \<open>
  The DNA property \<open>sim2h_url\<close> is read by the JSON library (\<open>url_of\<close>); \<open>ignore_url\<close> says
  whether the environment tells to ignore it.
\<close>

definition override_config :: "string option \<Rightarrow> bool \<Rightarrow> P2pConfig \<Rightarrow> P2pConfig" where
  "override_config url ignore_url config =
     (case (url, backend_config config) of
        (Some sim2h_url, Sim2hConfig _) \<Rightarrow>
          if \<not> ignore_url then config\<lparr> backend_config := Sim2hConfig sim2h_url \<rparr> else config
      | _ \<Rightarrow> config)"

definition reduce_init ::
  "'n net_ops \<Rightarrow> (JsonString \<Rightarrow> string option) \<Rightarrow> bool \<Rightarrow> string \<Rightarrow> NucleusState \<Rightarrow> NetworkSettings
     \<Rightarrow> 'n NetworkState \<Rightarrow> 'n NetworkState outcome" where
  "reduce_init N url_of ignore_url rid nucleus settings s =
     outcome_bind (expect ''No DNA found when initializing network!'' (nucleus_dna nucleus)) (\<lambda>dna.
     outcome_bind (expect_ok ''called `Result::unwrap()` on an `Err` value''
       (net_open N (override_config (url_of (dna_properties dna)) ignore_url (ns_p2p_config settings))
          (ns_agent_id settings))) (\<lambda>network.
       let s1 = s\<lparr> net_dna_address := Some (ns_dna_address settings), net_agent_id := Some (ns_agent_id settings) \<rparr>
       in Returns (case net_send N network (JoinSpace rid (ns_dna_address settings) (ns_agent_id settings)) of
            (Inl _, _) \<Rightarrow> s1\<lparr> net_network := None \<rparr>
          | (Inr _, network') \<Rightarrow> s1\<lparr> net_network := Some network' \<rparr>)))"

text \<open>
  Shutting down takes the connection out of the state, sends the message of leaving on it and stops it:
  the result has the connection as it is stopped.
\<close>

definition reduce_shutdown ::
  "'n net_ops \<Rightarrow> string \<Rightarrow> 'n NetworkState \<Rightarrow> ('n option \<times> 'n NetworkState) outcome" where
  "reduce_shutdown N rid s =
     outcome_bind (expect ''Tried to shutdown uninitialized network'' (net_dna_address s)) (\<lambda>space.
     outcome_bind (expect ''Tried to shutdown uninitialized network'' (net_agent_id s)) (\<lambda>agent.
       Returns (map_option (\<lambda>network. snd (net_send N network (LeaveSpace rid space agent))) (net_network s),
                s\<lparr> net_network := None \<rparr>)))"

definition publish_ts_of :: "ChainHeader \<Rightarrow> u64" where
  "publish_ts_of h = word_of_int (hdr_timestamp h div 1000000000)"

definition entry_data_to_entry_aspect_data :: "hasher \<Rightarrow> EntryAspect \<Rightarrow> EntryAspectData" where
  "entry_data_to_entry_aspect_data H ea =
     \<lparr> ead_type_hint = aspect_type_hint ea, ead_aspect_address = aspect_hash H ea, ead_aspect = ea,
       ead_publish_ts = publish_ts_of (aspect_header ea) \<rparr>"

text \<open>The \<open>PublishEntry\<close> message with one aspect that the publishing functions send.\<close>

definition publish_aspect ::
  "hasher \<Rightarrow> 'n net_ops \<Rightarrow> Address \<Rightarrow> EntryAspect \<Rightarrow> 'n NetworkState \<Rightarrow> (unit HcResult \<times> 'n NetworkState) outcome" where
  "publish_aspect H N address aspect s =
     outcome_bind (space_and_agent s) (\<lambda>(space, agent).
       Returns (send_protocol N (PublishEntry space agent
         \<lparr> ed_entry_address = address, ed_aspect_list = [entry_data_to_entry_aspect_data H aspect] \<rparr>) s))"

definition publish_entry ::
  "hasher \<Rightarrow> 'n net_ops \<Rightarrow> EntryWithHeader \<Rightarrow> 'n NetworkState \<Rightarrow> (unit HcResult \<times> 'n NetworkState) outcome" where
  "publish_entry H N ewh =
     publish_aspect H N (entry_address H (ewh_entry ewh)) (EntryAspect.Content (ewh_entry ewh) (ewh_header ewh))"

definition publish_update_delete_meta ::
  "hasher \<Rightarrow> 'n net_ops \<Rightarrow> Address \<Rightarrow> CrudStatus \<Rightarrow> EntryWithHeader \<Rightarrow> 'n NetworkState
     \<Rightarrow> (unit HcResult \<times> 'n NetworkState) outcome" where
  "publish_update_delete_meta H N orig_entry_address crud_status ewh s =
     (case crud_status of
        Modified \<Rightarrow> publish_aspect H N orig_entry_address (EntryAspect.Update (ewh_entry ewh) (ewh_header ewh)) s
      | Deleted \<Rightarrow> publish_aspect H N orig_entry_address (EntryAspect.Deletion (ewh_header ewh)) s
      | _ \<Rightarrow> Returns (Err (ErrorGeneric ''Unexpeced CRUD variant''), s))"

definition publish_link_meta ::
  "hasher \<Rightarrow> 'n net_ops \<Rightarrow> EntryWithHeader \<Rightarrow> 'n NetworkState \<Rightarrow> (unit HcResult \<times> 'n NetworkState) outcome" where
  "publish_link_meta H N ewh s =
     (case ewh_entry ewh of
        Entry.LinkAdd link_data \<Rightarrow>
          publish_aspect H N (base (link_of link_data)) (EntryAspect.LinkAdd link_data (ewh_header ewh)) s
      | Entry.LinkRemove link_data links_to_remove \<Rightarrow>
          publish_aspect H N (base (link_of link_data))
            (EntryAspect.LinkRemove link_data links_to_remove (ewh_header ewh)) s
      | _ \<Rightarrow> Returns (Err (ErrorGeneric ''Received bad entry type. Expected Entry::LinkAdd/Remove received''), s))"

text \<open>\<open>and_then\<close> of two steps that send.\<close>

definition then_send ::
  "(unit HcResult \<times> 's) outcome \<Rightarrow> ('s \<Rightarrow> (unit HcResult \<times> 's) outcome) \<Rightarrow> (unit HcResult \<times> 's) outcome" where
  "then_send m f = outcome_bind m (\<lambda>(r, s). case r of Inl e \<Rightarrow> Returns (Err e, s) | Inr _ \<Rightarrow> f s)"

definition publish_meta ::
  "hasher \<Rightarrow> 'n net_ops \<Rightarrow> CrudStatus \<Rightarrow> EntryWithHeader \<Rightarrow> 'n NetworkState \<Rightarrow> (unit HcResult \<times> 'n NetworkState) outcome" where
  "publish_meta H N crud_status ewh s =
     (case hdr_link_update_delete (ewh_header ewh) of
        Some modified_entry \<Rightarrow> publish_update_delete_meta H N modified_entry crud_status ewh s
      | None \<Rightarrow> Returns (Ok (), s))"

definition reduce_publish_inner ::
  "hasher \<Rightarrow> 'n net_ops \<Rightarrow> 'c cas_ops \<Rightarrow> 'c \<Rightarrow> AgentState \<Rightarrow> Address \<Rightarrow> 'n NetworkState
     \<Rightarrow> (unit HcResult \<times> 'n NetworkState) run" where
  "reduce_publish_inner H N C cas agent address s =
     (case initialized s of
        Inl e \<Rightarrow> Some (Returns (Err e, s))
      | Inr _ \<Rightarrow>
          run_bind (fetch_entry_with_header H C cas agent address) (\<lambda>r.
            Some (case r of
              Inl e \<Rightarrow> Returns (Err e, s)
            | Inr ewh \<Rightarrow>
                (case entry_type (ewh_entry ewh) of
                   EntryType.AgentId \<Rightarrow> publish_entry H N ewh s
                 | EntryType.App _ \<Rightarrow> then_send (publish_entry H N ewh s) (publish_meta H N Modified ewh)
                 | EntryType.LinkAdd \<Rightarrow> then_send (publish_entry H N ewh s) (publish_link_meta H N ewh)
                 | EntryType.LinkRemove \<Rightarrow> then_send (publish_entry H N ewh s) (publish_link_meta H N ewh)
                 | EntryType.Deletion \<Rightarrow> then_send (publish_entry H N ewh s) (publish_meta H N Deleted ewh)
                 | t \<Rightarrow> Returns (Err (NotImplemented
                      (''reduce_publish_inner not implemented for '' @ entry_type_string t)), s)))))"

text \<open>Recording the response of an action, with the error turned into its text.\<close>

definition respond_action ::
  "SystemTime \<Rightarrow> string \<Rightarrow> NetworkActionResponse \<Rightarrow> 'n NetworkState \<Rightarrow> 'n NetworkState" where
  "respond_action now aid r s =
     s\<lparr> net_actions := fmupd aid \<lparr> created_at = now, response = r \<rparr> (net_actions s) \<rparr>"

definition generic_error :: "'a \<Rightarrow> unit HcResult \<Rightarrow> 'a HcResult" where
  "generic_error a r = (case r of Inr _ \<Rightarrow> Ok a | Inl e \<Rightarrow> Err (ErrorGeneric (error_string e)))"

definition reduce_publish ::
  "hasher \<Rightarrow> 'n net_ops \<Rightarrow> 'c cas_ops \<Rightarrow> 'c \<Rightarrow> AgentState \<Rightarrow> SystemTime \<Rightarrow> string \<Rightarrow> Address
     \<Rightarrow> 'n NetworkState \<Rightarrow> 'n NetworkState run" where
  "reduce_publish H N C cas agent now aid address s =
     run_bind (reduce_publish_inner H N C cas agent address s) (\<lambda>(r, s').
       Some (Returns (respond_action now aid (PublishResponse (generic_error address r)) s')))"

definition publish_header ::
  "hasher \<Rightarrow> 'n net_ops \<Rightarrow> 'c cas_ops \<Rightarrow> (string \<Rightarrow> string HcResult) \<Rightarrow> SystemTime \<Rightarrow> 'c \<Rightarrow> AgentState
     \<Rightarrow> ChainHeader \<Rightarrow> 'n NetworkState \<Rightarrow> (unit HcResult \<times> 'n NetworkState) run" where
  "publish_header H N C sign now cas agent chain_header s =
     run_bind (create_entry_with_header_for_header H C sign now cas agent chain_header) (\<lambda>r.
       Some (case r of
         Inl e \<Rightarrow> Returns (Err e, s)
       | Inr ewh \<Rightarrow> publish_entry H N ewh s))"

definition reduce_publish_header_entry ::
  "hasher \<Rightarrow> 'n net_ops \<Rightarrow> 'c cas_ops \<Rightarrow> (string \<Rightarrow> string HcResult) \<Rightarrow> 'c \<Rightarrow> AgentState \<Rightarrow> SystemTime \<Rightarrow> string
     \<Rightarrow> Address \<Rightarrow> 'n NetworkState \<Rightarrow> 'n NetworkState run" where
  "reduce_publish_header_entry H N C sign cas agent now aid address s =
     run_bind (case initialized s of
         Inl e \<Rightarrow> Some (Returns (Err e, s))
       | Inr _ \<Rightarrow>
           run_bind (fetch_entry_with_header H C cas agent address) (\<lambda>r.
             case r of
               Inl e \<Rightarrow> Some (Returns (Err e, s))
             | Inr ewh \<Rightarrow> publish_header H N C sign now cas agent (ewh_header ewh) s)) (\<lambda>(r, s').
       Some (Returns (respond_action now aid (PublishHeaderEntryResponse (generic_error address r)) s')))"

text \<open>
  A query of links carries the payload of links: \<open>unwrap_to!\<close> panics on another payload.
\<close>

definition network_query_of :: "QueryKey \<Rightarrow> QueryPayload \<Rightarrow> NetworkQuery outcome" where
  "network_query_of key_type query_payload =
     (case key_type of
        EntryKey _ \<Rightarrow> Returns GetEntry
      | LinksKey key \<Rightarrow>
          (case query_payload of
             LinksPayload crud_status query \<Rightarrow>
               Returns (GetLinks (key_link_type key) (key_tag key) crud_status query)
           | EntryPayload \<Rightarrow> Panics ''unwrap_to!''))"

fun query_key_address :: "QueryKey \<Rightarrow> string \<times> Address" where
  "query_key_address (EntryKey key) = (entry_key_id key, get_address key)"
| "query_key_address (LinksKey key) = (links_key_id key, base_address key)"

definition reduce_query_inner ::
  "'n net_ops \<Rightarrow> QueryKey \<Rightarrow> NetworkQuery \<Rightarrow> 'n NetworkState \<Rightarrow> (unit HcResult \<times> 'n NetworkState) outcome" where
  "reduce_query_inner N key network_query s =
     (case initialized s of
        Inl e \<Rightarrow> Returns (Err e, s)
      | Inr _ \<Rightarrow>
          outcome_bind (space_and_agent s) (\<lambda>(space, agent).
            Returns (send_protocol N
              (QueryEntry agent (fst (query_key_address key)) space (snd (query_key_address key)) network_query) s)))"

definition reduce_query ::
  "'n net_ops \<Rightarrow> QueryKey \<Rightarrow> QueryPayload \<Rightarrow> (SystemTime \<times> Duration) option \<Rightarrow> 'n NetworkState
     \<Rightarrow> 'n NetworkState outcome" where
  "reduce_query N key_type query_payload maybe_timeout s =
     outcome_bind (network_query_of key_type query_payload) (\<lambda>network_query.
     outcome_bind (reduce_query_inner N key_type network_query s) (\<lambda>(r, s1).
       let s2 = s1\<lparr> get_query_results := fmupd key_type
                     (case r of Inr _ \<Rightarrow> None | Inl e \<Rightarrow> Some (Err e)) (get_query_results s1) \<rparr>
       in Returns (case maybe_timeout of
            Some tmo \<Rightarrow> s2\<lparr> query_timeouts := fmupd key_type tmo (query_timeouts s2) \<rparr>
          | None \<Rightarrow> s2)))"

definition reduce_query_timeout :: "QueryKey \<Rightarrow> 'n NetworkState \<Rightarrow> 'n NetworkState" where
  "reduce_query_timeout key s =
     (let s1 = s\<lparr> query_timeouts := fmdrop key (query_timeouts s) \<rparr>
      in case fmlookup (get_query_results s1) key of
           Some None \<Rightarrow>
             s1\<lparr> get_query_results := fmupd key (Some (Err (Timeout ''query timeout''))) (get_query_results s1) \<rparr>
         | _ \<Rightarrow> s1)"

definition GET_VALIDATION_PACKAGE_MESSAGE_TIMEOUT_MS :: int where
  "GET_VALIDATION_PACKAGE_MESSAGE_TIMEOUT_MS = 61000"

definition get_validation_package_inner ::
  "'n net_ops \<Rightarrow> string \<Rightarrow> ChainHeader \<Rightarrow> ValidationKey \<Rightarrow> SystemTime \<times> Duration \<Rightarrow> 'n NetworkState
     \<Rightarrow> (unit HcResult \<times> 'n NetworkState) outcome" where
  "get_validation_package_inner N mid header key tmo s =
     (case initialized s of
        Inl e \<Rightarrow> Returns (Err e, s)
      | Inr _ \<Rightarrow>
          (case hdr_provenances header of
             [] \<Rightarrow> Returns (Err (ErrorGeneric ''No source found in ChainHeader''), s)
           | p # _ \<Rightarrow> send_message N mid (Provenance_source p) (RequestValidationPackage key) tmo s))"

definition reduce_get_validation_package ::
  "'n net_ops \<Rightarrow> SystemTime \<Rightarrow> string \<Rightarrow> ValidationKey \<Rightarrow> ChainHeader \<Rightarrow> 'n NetworkState
     \<Rightarrow> 'n NetworkState outcome" where
  "reduce_get_validation_package N now mid key header s =
     (let tmo = (now, from_millis GET_VALIDATION_PACKAGE_MESSAGE_TIMEOUT_MS)
      in outcome_bind (get_validation_package_inner N mid header key tmo s) (\<lambda>(r, s1).
           Returns (s1\<lparr>
             get_validation_package_results := fmupd key
               (case r of Inr _ \<Rightarrow> None | Inl e \<Rightarrow> Some (Err e)) (get_validation_package_results s1),
             get_validation_package_timeouts := fmupd key tmo (get_validation_package_timeouts s1) \<rparr>)))"

definition reduce_get_validation_package_timeout :: "ValidationKey \<Rightarrow> 'n NetworkState \<Rightarrow> 'n NetworkState" where
  "reduce_get_validation_package_timeout key s =
     (let s1 = s\<lparr> get_validation_package_timeouts := fmdrop key (get_validation_package_timeouts s) \<rparr>
      in case fmlookup (get_validation_package_results s1) key of
           Some (Some _) \<Rightarrow> s1
         | _ \<Rightarrow> s1\<lparr> get_validation_package_results :=
                     fmupd key (Some (Err (Timeout ''validation package timeout'')))
                       (get_validation_package_results s1) \<rparr>)"

definition reduce_handle_custom_send_response ::
  "string \<Rightarrow> (string, string) result \<Rightarrow> 'n NetworkState \<Rightarrow> 'n NetworkState" where
  "reduce_handle_custom_send_response msg_id reply s =
     s\<lparr> custom_direct_message_replys :=
          fmupd msg_id (map_err ErrorGeneric reply) (custom_direct_message_replys s) \<rparr>"

definition reduce_handle_get_result :: "NetworkQueryResult \<Rightarrow> QueryKey \<Rightarrow> 'n NetworkState \<Rightarrow> 'n NetworkState" where
  "reduce_handle_get_result qres key s =
     s\<lparr> get_query_results := fmupd key (Some (Ok qres)) (get_query_results s),
        query_timeouts := fmdrop key (query_timeouts s) \<rparr>"

definition reduce_handle_get_validation_package ::
  "SystemTime \<Rightarrow> Address \<Rightarrow> ValidationKey \<Rightarrow> ValidationPackage option \<Rightarrow> 'n NetworkState \<Rightarrow> 'n NetworkState outcome" where
  "reduce_handle_get_validation_package now responder key maybe_validation_package s =
     (let s1 = s\<lparr> get_validation_package_results :=
                    fmupd key (Some (Ok maybe_validation_package)) (get_validation_package_results s) \<rparr>
      in case maybe_validation_package of
           Some validation_package \<Rightarrow> cache_validation now responder validation_package s1
         | None \<Rightarrow> Returns s1)"

definition reduce_clear_query_result :: "QueryKey \<Rightarrow> 'n NetworkState \<Rightarrow> 'n NetworkState" where
  "reduce_clear_query_result key s = s\<lparr> get_query_results := fmdrop key (get_query_results s) \<rparr>"

definition reduce_clear_validation_package_result :: "ValidationKey \<Rightarrow> 'n NetworkState \<Rightarrow> 'n NetworkState" where
  "reduce_clear_validation_package_result key s =
     s\<lparr> get_validation_package_results := fmdrop key (get_validation_package_results s),
        get_validation_package_timeouts := fmdrop key (get_validation_package_timeouts s) \<rparr>"

definition reduce_clear_custom_send_response :: "string \<Rightarrow> 'n NetworkState \<Rightarrow> 'n NetworkState" where
  "reduce_clear_custom_send_response mid s =
     s\<lparr> custom_direct_message_replys := fmdrop mid (custom_direct_message_replys s) \<rparr>"

definition network_clear_action_response :: "string \<Rightarrow> 'n NetworkState \<Rightarrow> 'n NetworkState" where
  "network_clear_action_response aid s =
     s\<lparr> net_actions := fmfilter (\<lambda>i. i \<noteq> aid) (net_actions s) \<rparr>"

definition network_prune :: "SystemTime \<Rightarrow> 'n NetworkState \<Rightarrow> 'n NetworkState" where
  "network_prune now s =
     s\<lparr> net_actions := fmfilter (\<lambda>i. case fmlookup (net_actions s) i of
            Some r \<Rightarrow> \<not> response_expired now r | None \<Rightarrow> True) (net_actions s) \<rparr>"

definition reduce_resolve_direct_connection :: "string \<Rightarrow> 'n NetworkState \<Rightarrow> 'n NetworkState" where
  "reduce_resolve_direct_connection mid s =
     s\<lparr> direct_message_connections := fmdrop mid (direct_message_connections s),
        direct_message_timeouts := fmdrop mid (direct_message_timeouts s) \<rparr>"

definition reduce_respond_authoring_list :: "'n net_ops \<Rightarrow> EntryListData \<Rightarrow> 'n NetworkState \<Rightarrow> 'n NetworkState" where
  "reduce_respond_authoring_list N entry_list_data s =
     snd (send_protocol N (HandleGetAuthoringEntryListResult entry_list_data) s)"

definition reduce_respond_gossip_list :: "'n net_ops \<Rightarrow> EntryListData \<Rightarrow> 'n NetworkState \<Rightarrow> 'n NetworkState" where
  "reduce_respond_gossip_list N entry_list_data s =
     snd (send_protocol N (HandleGetGossipingEntryListResult entry_list_data) s)"

definition reduce_respond_fetch_data_inner ::
  "hasher \<Rightarrow> 'n net_ops \<Rightarrow> FetchEntryData \<Rightarrow> EntryAspect list \<Rightarrow> 'n NetworkState
     \<Rightarrow> (unit HcResult \<times> 'n NetworkState) outcome" where
  "reduce_respond_fetch_data_inner H N fetch_data aspects s =
     (case initialized s of
        Inl e \<Rightarrow> Returns (Err e, s)
      | Inr _ \<Rightarrow>
          outcome_bind (space_and_agent s) (\<lambda>(space, agent).
            Returns (send_protocol N (HandleFetchEntryResult (fe_request_id fetch_data) space agent
              \<lparr> ed_entry_address = fe_entry_address fetch_data,
                ed_aspect_list = map (entry_data_to_entry_aspect_data H) aspects \<rparr>) s)))"

definition reduce_respond_fetch_data ::
  "hasher \<Rightarrow> 'n net_ops \<Rightarrow> SystemTime \<Rightarrow> string \<Rightarrow> FetchEntryData \<Rightarrow> EntryAspect list \<Rightarrow> 'n NetworkState
     \<Rightarrow> 'n NetworkState outcome" where
  "reduce_respond_fetch_data H N now aid fetch_data aspects s =
     outcome_bind (reduce_respond_fetch_data_inner H N fetch_data aspects s) (\<lambda>(r, s').
       Returns (respond_action now aid (RespondResponse (generic_error () r)) s'))"

definition reduce_respond_query_inner ::
  "'n net_ops \<Rightarrow> NetworkQueryResult \<Rightarrow> QueryEntryData \<Rightarrow> 'n NetworkState
     \<Rightarrow> (unit HcResult \<times> 'n NetworkState) outcome" where
  "reduce_respond_query_inner N network_query_result query_data s =
     (case initialized s of
        Inl e \<Rightarrow> Returns (Err e, s)
      | Inr _ \<Rightarrow>
          outcome_bind (space_and_agent s) (\<lambda>(space, agent).
            Returns (send_protocol N (HandleQueryEntryResult (qe_request_id query_data)
              (qe_requester_agent_id query_data) space agent (qe_entry_address query_data)
              network_query_result) s)))"

definition reduce_respond_query ::
  "'n net_ops \<Rightarrow> SystemTime \<Rightarrow> string \<Rightarrow> QueryEntryData \<Rightarrow> NetworkQueryResult \<Rightarrow> 'n NetworkState
     \<Rightarrow> 'n NetworkState outcome" where
  "reduce_respond_query N now aid query_data qres s =
     outcome_bind (reduce_respond_query_inner N qres query_data s) (\<lambda>(r, s').
       Returns (respond_action now aid (RespondResponse (generic_error () r)) s'))"

definition send_direct_message_inner ::
  "'n net_ops \<Rightarrow> DirectMessageData \<Rightarrow> 'n NetworkState \<Rightarrow> (unit HcResult \<times> 'n NetworkState) outcome" where
  "send_direct_message_inner N dm s =
     (case initialized s of
        Inl e \<Rightarrow> Returns (Err e, s)
      | Inr _ \<Rightarrow>
          outcome_bind (space_and_agent s) (\<lambda>(space, agent).
            Returns (if dm_is_response dm
              then send_protocol N
                     (HandleSendDirectMessageResult (dm_msg_id dm) space (dm_address dm) agent (dm_message dm)) s
              else send_protocol N
                     (SendDirectMessageProtocol (dm_msg_id dm) space (dm_address dm) agent (dm_message dm))
                     (s\<lparr> direct_message_connections :=
                          fmupd (dm_msg_id dm) (dm_message dm) (direct_message_connections s) \<rparr>))))"

definition reduce_send_direct_message ::
  "'n net_ops \<Rightarrow> DirectMessageData \<Rightarrow> (SystemTime \<times> Duration) option \<Rightarrow> 'n NetworkState
     \<Rightarrow> 'n NetworkState outcome" where
  "reduce_send_direct_message N dm maybe_timeout s =
     outcome_bind (send_direct_message_inner N dm
       (case maybe_timeout of
          Some tmo \<Rightarrow> s\<lparr> direct_message_timeouts := fmupd (dm_msg_id dm) tmo (direct_message_timeouts s) \<rparr>
        | None \<Rightarrow> s)) (\<lambda>(_, s'). Returns s')"

definition reduce_send_direct_message_timeout :: "string \<Rightarrow> 'n NetworkState \<Rightarrow> 'n NetworkState" where
  "reduce_send_direct_message_timeout mid s =
     (let s1 = s\<lparr> direct_message_timeouts := fmdrop mid (direct_message_timeouts s),
                  direct_message_connections := fmdrop mid (direct_message_connections s) \<rparr>
      in case fmlookup (custom_direct_message_replys s1) mid of
           Some _ \<Rightarrow> s1
         | None \<Rightarrow> s1\<lparr> custom_direct_message_replys :=
                       fmupd mid (Err (Timeout ''direct message timeout'')) (custom_direct_message_replys s1) \<rparr>)"

text \<open>
  The part of the root state that a reducer of this slice reads, with the library code it
  calls, the time and the fresh id.
\<close>

record ('n, 'c) net_context =
  nc_hasher :: hasher
  nc_net :: "'n net_ops"
  nc_cas_ops :: "'c cas_ops"
  nc_sign :: "string \<Rightarrow> string HcResult"
  nc_url_of :: "JsonString \<Rightarrow> string option"
  nc_ignore_url :: bool
  nc_cas :: 'c
  nc_agent :: AgentState
  nc_nucleus :: NucleusState
  nc_now :: SystemTime
  nc_fresh_id :: string

definition network_reduce ::
  "('n, 'c) net_context \<Rightarrow> ActionWrapper \<Rightarrow> 'n NetworkState \<Rightarrow> 'n NetworkState run" where
  "network_reduce x aw s =
     (case action aw of
        ClearActionResponse aid \<Rightarrow> Some (Returns (network_clear_action_response aid s))
      | ClearQueryResult key \<Rightarrow> Some (Returns (reduce_clear_query_result key s))
      | ClearValidationPackageResult key \<Rightarrow> Some (Returns (reduce_clear_validation_package_result key s))
      | ClearCustomSendResponse mid \<Rightarrow> Some (Returns (reduce_clear_custom_send_response mid s))
      | QueryAction key p tmo \<Rightarrow> Some (reduce_query (nc_net x) key p tmo s)
      | QueryTimeout key \<Rightarrow> Some (Returns (reduce_query_timeout key s))
      | GetValidationPackage key header \<Rightarrow>
          Some (reduce_get_validation_package (nc_net x) (nc_now x) (nc_fresh_id x) key header s)
      | GetValidationPackageTimeout key \<Rightarrow> Some (Returns (reduce_get_validation_package_timeout key s))
      | HandleCustomSendResponse mid r \<Rightarrow> Some (Returns (reduce_handle_custom_send_response mid r s))
      | HandleQuery r key \<Rightarrow> Some (Returns (reduce_handle_get_result r key s))
      | HandleGetValidationPackage responder key p \<Rightarrow>
          Some (reduce_handle_get_validation_package (nc_now x) responder key p s)
      | InitNetwork settings \<Rightarrow>
          Some (reduce_init (nc_net x) (nc_url_of x) (nc_ignore_url x) (nc_fresh_id x) (nc_nucleus x) settings s)
      | Prune \<Rightarrow> Some (Returns (network_prune (nc_now x) s))
      | Publish address \<Rightarrow>
          reduce_publish (nc_hasher x) (nc_net x) (nc_cas_ops x) (nc_cas x) (nc_agent x) (nc_now x)
            (action_id aw) address s
      | PublishHeaderEntry address \<Rightarrow>
          reduce_publish_header_entry (nc_hasher x) (nc_net x) (nc_cas_ops x) (nc_sign x) (nc_cas x) (nc_agent x)
            (nc_now x) (action_id aw) address s
      | ResolveDirectConnection mid \<Rightarrow> Some (Returns (reduce_resolve_direct_connection mid s))
      | RespondAuthoringList l \<Rightarrow> Some (Returns (reduce_respond_authoring_list (nc_net x) l s))
      | RespondGossipList l \<Rightarrow> Some (Returns (reduce_respond_gossip_list (nc_net x) l s))
      | RespondFetch fd aspects \<Rightarrow>
          Some (reduce_respond_fetch_data (nc_hasher x) (nc_net x) (nc_now x) (action_id aw) fd aspects s)
      | RespondQuery qd r \<Rightarrow> Some (reduce_respond_query (nc_net x) (nc_now x) (action_id aw) qd r s)
      | SendDirectMessage dm tmo \<Rightarrow> Some (reduce_send_direct_message (nc_net x) dm tmo s)
      | SendDirectMessageTimeout mid \<Rightarrow> Some (Returns (reduce_send_direct_message_timeout mid s))
      | ShutdownNetwork \<Rightarrow>
          Some (outcome_bind (reduce_shutdown (nc_net x) (nc_fresh_id x) s) (\<lambda>(_, s'). Returns s'))
      | _ \<Rightarrow> Some (Returns s))"

end
