(* ===== verification/Network_Flow.thy ===== *)
theory Network_Flow
  imports Network
begin

text \<open>
  What happens to a request between the network slice and its caller: the timeout job of
  \<open>scheduled_jobs/timeouts.rs\<close>, the handlers of \<open>network/handler/send.rs\<close> that answer
  direct messages, and the futures of \<open>network/actions/\<close> that poll for the answers.  The
  functions that dispatch actions return the actions.
\<close>

section \<open>Definitions\<close>

text \<open>
  The job iterates over three hash maps; the iteration orders are its arguments
  (\<open>iterates\<close> says that a list is an iteration of a map).
\<close>

definition iterates :: "('k \<times> 'v) list \<Rightarrow> ('k, 'v) fmap \<Rightarrow> bool" where
  "iterates xs m \<longleftrightarrow> distinct (map fst xs) \<and> fmap_of_list xs = m"

definition timed_out :: "SystemTime \<Rightarrow> SystemTime \<times> Duration \<Rightarrow> bool" where
  "timed_out now tmo =
     (case elapsed now (fst tmo) of
        Some e \<Rightarrow> e > snd tmo
      | None \<Rightarrow> False)"

definition expired_keys :: "SystemTime \<Rightarrow> ('k \<times> SystemTime \<times> Duration) list \<Rightarrow> 'k list" where
  "expired_keys now xs = map fst (filter (\<lambda>(_, tmo). timed_out now tmo) xs)"

definition check_network_processes_for_timeouts ::
  "SystemTime \<Rightarrow> (QueryKey \<times> SystemTime \<times> Duration) list \<Rightarrow> (string \<times> SystemTime \<times> Duration) list
     \<Rightarrow> (ValidationKey \<times> SystemTime \<times> Duration) list \<Rightarrow> Action list" where
  "check_network_processes_for_timeouts now queries messages packages =
     map QueryTimeout (expired_keys now queries)
     @ map SendDirectMessageTimeout (expired_keys now messages)
     @ map GetValidationPackageTimeout (expired_keys now packages)"

text \<open>
  \<open>handle_send_message_result\<close>: the answer \<open>content\<close> to a message that this node sent, parsed by
  the JSON library.
\<close>

definition handle_send_message_result ::
  "(string \<Rightarrow> (DirectMessage, string) result) \<Rightarrow> string \<Rightarrow> Address \<Rightarrow> string \<Rightarrow> 'n NetworkState
     \<Rightarrow> Action list outcome" where
  "handle_send_message_result parse request_id from_agent content s =
     (case parse content of
        Inl _ \<Rightarrow> Returns []
      | Inr reply \<Rightarrow>
          (let initial_message = fmlookup (direct_message_connections s) request_id
           in case reply of
                Custom custom_direct_message \<Rightarrow>
                  (case initial_message of
                     None \<Rightarrow> Returns []
                   | Some _ \<Rightarrow> Returns [HandleCustomSendResponse request_id (cdm_payload custom_direct_message),
                                        ResolveDirectConnection request_id])
              | RequestValidationPackage _ \<Rightarrow> Returns []
              | ValidationPackageMessage maybe_validation_package \<Rightarrow>
                  (case initial_message of
                     None \<Rightarrow> Returns []
                   | Some (RequestValidationPackage key) \<Rightarrow>
                       Returns [HandleGetValidationPackage from_agent key maybe_validation_package,
                                ResolveDirectConnection request_id]
                   | Some _ \<Rightarrow> Panics ''unwrap_to!'')))"

text \<open>
  The futures: the action that a caller dispatches, and one poll of the future it waits on,
  with the actions that the poll dispatches.  The action channel and the lock of the
  state are open.
\<close>

datatype LinksStatusRequestKind = LiveRequest | DeletedRequest | AllRequest

record GetLinksOptions =
  status_request :: LinksStatusRequestKind
  gl_opt_headers :: bool
  gl_timeout :: Duration
  gl_pagination :: "Pagination option"
  gl_sort_order :: "SortOrder option"

record GetLinksArgs =
  gla_entry_address :: Address
  gla_link_type :: "string option"
  gla_tag :: "string option"
  gla_options :: GetLinksOptions

datatype QueryMethod =
    EntryMethod Address
  | LinkMethod GetLinksArgs GetLinksNetworkQuery

definition crud_status_from_link_args :: "GetLinksArgs \<Rightarrow> CrudStatus option" where
  "crud_status_from_link_args link_args =
     (case status_request (gla_options link_args) of
        AllRequest \<Rightarrow> None
      | DeletedRequest \<Rightarrow> Some Deleted
      | LiveRequest \<Rightarrow> Some Live)"

definition query_action :: "string \<Rightarrow> SystemTime \<Rightarrow> QueryMethod \<Rightarrow> Duration \<Rightarrow> QueryKey \<times> Action" where
  "query_action fresh now method tmo =
     (let (key, pl) =
        (case method of
           EntryMethod address \<Rightarrow> (EntryKey \<lparr> get_address = address, entry_key_id = fresh \<rparr>, EntryPayload)
         | LinkMethod link_args query \<Rightarrow>
             (LinksKey \<lparr> base_address = gla_entry_address link_args, key_link_type = gla_link_type link_args,
                         key_tag = gla_tag link_args, links_key_id = fresh \<rparr>,
              LinksPayload (crud_status_from_link_args link_args) query))
      in (key, QueryAction key pl (Some (now, tmo))))"

definition query_poll ::
  "HolochainError option \<Rightarrow> 'n NetworkState option \<Rightarrow> QueryKey
     \<Rightarrow> NetworkQueryResult HcResult option \<times> Action list" where
  "query_poll err state key =
     (case (err, state) of
        (Some e, _) \<Rightarrow> (Some (Err e), [])
      | (None, None) \<Rightarrow> (None, [])
      | (None, Some s) \<Rightarrow>
          (case initialized s of
             Inl e \<Rightarrow> (Some (Err e), [])
           | Inr _ \<Rightarrow>
               (case fmlookup (get_query_results s) key of
                  Some (Some r) \<Rightarrow> (Some r, [ClearQueryResult key])
                | _ \<Rightarrow> (None, []))))"

definition get_validation_package_action :: "string \<Rightarrow> ChainHeader \<Rightarrow> ValidationKey \<times> Action" where
  "get_validation_package_action fresh header =
     (let key = \<lparr> vk_address = hdr_entry_address header, vk_id = fresh \<rparr>
      in (key, GetValidationPackage key header))"

definition get_validation_package_poll ::
  "HolochainError option \<Rightarrow> 'n NetworkState option \<Rightarrow> ValidationKey
     \<Rightarrow> ValidationPackage option HcResult option \<times> Action list" where
  "get_validation_package_poll err state key =
     (case (err, state) of
        (Some e, _) \<Rightarrow> (Some (Err e), [])
      | (None, None) \<Rightarrow> (None, [])
      | (None, Some s) \<Rightarrow>
          (case initialized s of
             Inl e \<Rightarrow> (Some (Err e), [])
           | Inr _ \<Rightarrow>
               (case fmlookup (get_validation_package_results s) key of
                  Some (Some r) \<Rightarrow> (Some r, [ClearValidationPackageResult key])
                | _ \<Rightarrow> (None, []))))"

definition custom_send_action ::
  "string \<Rightarrow> SystemTime \<Rightarrow> Address \<Rightarrow> CustomDirectMessage \<Rightarrow> Duration \<Rightarrow> Action" where
  "custom_send_action fresh now to_agent message tmo =
     SendDirectMessage \<lparr> dm_address = to_agent, dm_message = Custom message, dm_msg_id = fresh,
                         dm_is_response = False \<rparr> (Some (now, tmo))"

definition send_response_poll ::
  "HolochainError option \<Rightarrow> 'n NetworkState option \<Rightarrow> string \<Rightarrow> string HcResult option \<times> Action list" where
  "send_response_poll err state mid =
     (case (err, state) of
        (Some e, _) \<Rightarrow> (Some (Err e), [])
      | (None, None) \<Rightarrow> (None, [])
      | (None, Some s) \<Rightarrow>
          (case initialized s of
             Inl e \<Rightarrow> (Some (Err (ErrorGeneric (error_string e))), [])
           | Inr _ \<Rightarrow>
               (case fmlookup (custom_direct_message_replys s) mid of
                  Some r \<Rightarrow> (Some r, [ClearCustomSendResponse mid])
                | None \<Rightarrow> (None, []))))"

text \<open>
  The answers of this node to messages of other nodes, from \<open>workflows/\<close>: the reply to a custom
  message (with the result \<open>receive\<close> of the zome's callback) and to a request for a
  validation package.
\<close>

definition CUSTOM_DIRECT_MESSAGE_RESPONSE_TIMEOUT_MS :: int where
  "CUSTOM_DIRECT_MESSAGE_RESPONSE_TIMEOUT_MS = 60000"

definition handle_custom_direct_message ::
  "(string \<Rightarrow> Address \<Rightarrow> string \<Rightarrow> (string, string) result) \<Rightarrow> SystemTime \<Rightarrow> Address \<Rightarrow> string
     \<Rightarrow> CustomDirectMessage \<Rightarrow> unit HcResult \<times> Action list" where
  "handle_custom_direct_message receive now from_agent_id msg_id m =
     (case cdm_payload m of
        Inl e \<Rightarrow> (Err (ErrorGeneric (''Got error in initial custom direct message: '' @ e)), [])
      | Inr p \<Rightarrow>
          (Ok (), [SendDirectMessage
             \<lparr> dm_address = from_agent_id,
               dm_message = Custom \<lparr> cdm_zome = cdm_zome m, cdm_payload = receive (cdm_zome m) from_agent_id p \<rparr>,
               dm_msg_id = msg_id, dm_is_response = True \<rparr>
             (Some (now, from_millis CUSTOM_DIRECT_MESSAGE_RESPONSE_TIMEOUT_MS))]))"

text \<open>
  The actions of one pass of the job are reduced in the order in which they were dispatched.
\<close>

fun network_reduce_all :: "('n, 'c) net_context \<Rightarrow> ActionWrapper list \<Rightarrow> 'n NetworkState \<Rightarrow> 'n NetworkState run" where
  "network_reduce_all x [] s = Some (Returns s)"
| "network_reduce_all x (aw # aws) s = run_bind (network_reduce x aw s) (network_reduce_all x aws)"

section \<open>Timeouts\<close>

lemma network_reduce_all_append:
  "network_reduce_all x (as @ bs) s = run_bind (network_reduce_all x as s) (network_reduce_all x bs)"
proof (induction as arbitrary: s)
  case (Cons a as)
  have "network_reduce_all x (as @ bs) = (\<lambda>s. run_bind (network_reduce_all x as s) (network_reduce_all x bs))"
    by (rule ext) (rule Cons.IH)
  then show ?case by (simp add: run_bind_assoc)
qed (simp add: run_bind_simps)

text \<open>
  What it means that the pending requests are guarded by timeouts: every query and every
  validation package that waits, and every open connection, has its timeout.
\<close>

definition guarded :: "'n NetworkState \<Rightarrow> bool" where
  "guarded s \<longleftrightarrow>
     (\<forall>k. fmlookup (get_query_results s) k = Some None \<longrightarrow> k |\<in>| fmdom (query_timeouts s))
     \<and> (\<forall>k. fmlookup (get_validation_package_results s) k = Some None
            \<longrightarrow> k |\<in>| fmdom (get_validation_package_timeouts s))
     \<and> fmdom (direct_message_connections s) |\<subseteq>| fmdom (direct_message_timeouts s)"

text \<open>The actions that open a request carry a timeout, as those of the futures do.\<close>

fun carries_timeout :: "Action \<Rightarrow> bool" where
  "carries_timeout (QueryAction _ _ tmo) = (tmo \<noteq> None)"
| "carries_timeout (SendDirectMessage dm tmo) = (tmo \<noteq> None)"
| "carries_timeout _ = True"

text \<open>The fields of the slice that track requests; sending a message leaves them alone.\<close>

type_synonym requests =
  "(QueryKey, NetworkQueryResult HcResult option) fmap \<times> (QueryKey, SystemTime \<times> Duration) fmap
   \<times> (ValidationKey, ValidationPackage option HcResult option) fmap \<times> (ValidationKey, SystemTime \<times> Duration) fmap
   \<times> (string, DirectMessage) fmap \<times> (string, SystemTime \<times> Duration) fmap \<times> (string, string HcResult) fmap"

definition requests :: "'n NetworkState \<Rightarrow> requests" where
  "requests s =
     (get_query_results s, query_timeouts s, get_validation_package_results s,
      get_validation_package_timeouts s, direct_message_connections s, direct_message_timeouts s,
      custom_direct_message_replys s)"

lemma guarded_cong: "requests s = requests s' \<Longrightarrow> guarded s = guarded s'"
  by (simp add: guarded_def requests_def)

lemma requests_updates [simp]:
  "requests (s\<lparr> net_actions := a \<rparr>) = requests s"
  "requests (s\<lparr> net_network := n \<rparr>) = requests s"
  "requests (s\<lparr> net_dna_address := d \<rparr>) = requests s"
  "requests (s\<lparr> net_agent_id := g \<rparr>) = requests s"
  "requests (s\<lparr> validation_cache := c \<rparr>) = requests s"
  by (simp_all add: requests_def)

lemma send_protocol_requests:
  "send_protocol N m s = (r, s') \<Longrightarrow> requests s' = requests s"
  "requests (snd (send_protocol N m s)) = requests s"
  by (auto simp: send_protocol_def split: option.splits prod.splits)

lemma publish_aspect_requests:
  "publish_aspect H N a asp s = Returns (r, s') \<Longrightarrow> requests s' = requests s"
  by (auto simp: publish_aspect_def outcome_bind_Returns_iff dest: send_protocol_requests(1))

lemma publish_meta_requests:
  "publish_entry H N ewh s = Returns (r, s') \<Longrightarrow> requests s' = requests s"
  "publish_meta H N c ewh s = Returns (r, s') \<Longrightarrow> requests s' = requests s"
  "publish_link_meta H N ewh s = Returns (r, s') \<Longrightarrow> requests s' = requests s"
  by (auto simp: publish_entry_def publish_meta_def publish_update_delete_meta_def publish_link_meta_def
      dest: publish_aspect_requests split: option.splits CrudStatus.splits Entry.splits)

lemma then_send_requests:
  fixes s :: "'n NetworkState" and f :: "'n NetworkState \<Rightarrow> (unit HcResult \<times> 'n NetworkState) outcome"
  assumes "\<And>r s'. m = Returns (r, s') \<Longrightarrow> requests s' = requests s"
    and "\<And>s1 r s'. f s1 = Returns (r, s') \<Longrightarrow> requests s' = requests s1"
    and "then_send m f = Returns (r, s')"
  shows "requests s' = requests s"
proof (cases m)
  case (Returns p)
  then show ?thesis using assms
    by (cases p) (fastforce simp: then_send_def split: sum.splits)
qed (use assms in \<open>simp add: then_send_def\<close>)

lemma publish_inner_requests:
  assumes "reduce_publish_inner H N C cas agent address s = Some (Returns (r, s'))"
  shows "requests s' = requests s"
proof -
  have *: "then_send (publish_entry H N ewh s) (publish_meta H N c ewh) = Returns (r, s') \<Longrightarrow>
      requests s' = requests s"
    "then_send (publish_entry H N ewh s) (publish_link_meta H N ewh) = Returns (r, s') \<Longrightarrow>
      requests s' = requests s" for c ewh
    by (rule then_send_requests[where m = "publish_entry H N ewh s"]; (erule publish_meta_requests | assumption))+
  show ?thesis
  proof (cases "initialized s")
    case Inl
    then show ?thesis using assms by (simp add: reduce_publish_inner_def)
  next
    case Inr
    then obtain f where "fetch_entry_with_header H C cas agent address = Some (Returns f)"
      using assms by (auto simp: reduce_publish_inner_def run_bind_Returns_iff)
    then show ?thesis using assms Inr
      by (auto simp: reduce_publish_inner_def run_bind_simps dest: publish_meta_requests *
          split: sum.splits EntryType.splits)
  qed
qed

lemma publish_header_requests:
  assumes "publish_header H N C sign now cas agent h s = Some (Returns (r, s'))"
  shows "requests s' = requests s"
proof -
  obtain f where "create_entry_with_header_for_header H C sign now cas agent h = Some (Returns f)"
    using assms by (auto simp: publish_header_def run_bind_Returns_iff)
  then show ?thesis
    using assms by (auto simp: publish_header_def run_bind_simps dest: publish_meta_requests split: sum.splits)
qed

lemma requests_eqD:
  assumes "requests s' = requests s"
  shows "get_query_results s' = get_query_results s" "query_timeouts s' = query_timeouts s"
    "get_validation_package_results s' = get_validation_package_results s"
    "get_validation_package_timeouts s' = get_validation_package_timeouts s"
    "direct_message_connections s' = direct_message_connections s"
    "direct_message_timeouts s' = direct_message_timeouts s"
    "custom_direct_message_replys s' = custom_direct_message_replys s"
  using assms by (simp_all add: requests_def)

lemma query_inner_requests:
  "reduce_query_inner N k q s = Returns (r, s') \<Longrightarrow> requests s' = requests s"
  by (auto simp: reduce_query_inner_def outcome_bind_Returns_iff dest: send_protocol_requests(1)
      split: sum.splits)

lemma guarded_query:
  assumes "guarded s" "reduce_query N k p (Some tmo) s = Returns s'"
  shows "guarded s'"
proof -
  obtain q r s1 where 1: "reduce_query_inner N k q s = Returns (r, s1)"
    and s': "s' = s1\<lparr> get_query_results := fmupd k (case r of Inr _ \<Rightarrow> None | Inl e \<Rightarrow> Some (Err e)) (get_query_results s1),
               query_timeouts := fmupd k tmo (query_timeouts s1) \<rparr>"
    using assms(2) by (fastforce simp: reduce_query_def outcome_bind_Returns_iff Let_def)
  have "guarded s1" using assms(1) guarded_cong [OF query_inner_requests [OF 1]] by simp
  then show ?thesis by (auto simp: guarded_def s')
qed

lemma guarded_query_timeout:
  assumes "guarded s" shows "guarded (reduce_query_timeout k s)"
  using assms by (auto simp: guarded_def reduce_query_timeout_def Let_def split: option.splits)

lemma guarded_send_message:
  assumes "guarded s" "send_message N mid to m tmo s = Returns (r, s')"
  shows "guarded s'"
proof -
  obtain space agent where "space_and_agent s = Returns (space, agent)"
    using assms(2) by (auto simp: send_message_def outcome_bind_Returns_iff)
  moreover obtain r1 s1 where 1: "send_protocol N (SendDirectMessageProtocol mid space to agent m) s = (r1, s1)"
    by fastforce
  moreover have g: "guarded s1" using assms(1) guarded_cong [OF send_protocol_requests(1) [OF 1]] by simp
  ultimately consider "s' = s1"
    | "s' = s1\<lparr> direct_message_connections := fmupd mid m (direct_message_connections s1),
                 direct_message_timeouts := fmupd mid tmo (direct_message_timeouts s1) \<rparr>"
    using assms(2) by (auto simp: send_message_def split: sum.splits)
  then show ?thesis using g by cases (auto simp: guarded_def)
qed

lemma guarded_get_validation_package:
  assumes "guarded s" "reduce_get_validation_package N now mid k h s = Returns s'"
  shows "guarded s'"
proof -
  obtain r s1 where 1: "get_validation_package_inner N mid h k (now, from_millis GET_VALIDATION_PACKAGE_MESSAGE_TIMEOUT_MS) s
      = Returns (r, s1)"
    and s': "s' = s1\<lparr>
             get_validation_package_results := fmupd k
               (case r of Inr _ \<Rightarrow> None | Inl e \<Rightarrow> Some (Err e)) (get_validation_package_results s1),
             get_validation_package_timeouts := fmupd k (now, from_millis GET_VALIDATION_PACKAGE_MESSAGE_TIMEOUT_MS)
               (get_validation_package_timeouts s1) \<rparr>"
    using assms(2) by (fastforce simp: reduce_get_validation_package_def outcome_bind_Returns_iff Let_def)
  have "guarded s1"
    using 1 assms(1) by (auto simp: get_validation_package_inner_def dest: guarded_send_message
        split: sum.splits list.splits)
  then show ?thesis by (auto simp: guarded_def s')
qed

lemma guarded_send_direct_message:
  assumes "guarded s" "reduce_send_direct_message N dm (Some tmo) s = Returns s'"
  shows "guarded s'"
proof -
  define s1 where "s1 = s\<lparr> direct_message_timeouts := fmupd (dm_msg_id dm) tmo (direct_message_timeouts s) \<rparr>"
  define s2 where "s2 = s1\<lparr> direct_message_connections :=
      fmupd (dm_msg_id dm) (dm_message dm) (direct_message_connections s1) \<rparr>"
  have g: "guarded s1" "guarded s2"
    using assms(1) by (auto simp: s1_def s2_def guarded_def)
  obtain r where "send_direct_message_inner N dm s1 = Returns (r, s')"
    using assms(2) by (auto simp: reduce_send_direct_message_def outcome_bind_Returns_iff s1_def)
  then have "requests s' = requests s1 \<or> requests s' = requests s2"
    by (auto simp: send_direct_message_inner_def outcome_bind_Returns_iff s2_def
        dest: send_protocol_requests(1) split: sum.splits if_splits)
  then show ?thesis using g guarded_cong by blast
qed

lemma cache_validation_requests:
  "cache_validation now agent v s = Returns s' \<Longrightarrow> requests s' = requests s"
  by (auto simp: cache_validation_def outcome_bind_Returns_iff split: option.splits if_splits)

lemma guarded_handle_validation_package:
  assumes "guarded s" "reduce_handle_get_validation_package now a k p s = Returns s'"
  shows "guarded s'"
proof -
  let ?s = "s\<lparr> get_validation_package_results := fmupd k (Some (Ok p)) (get_validation_package_results s) \<rparr>"
  have "guarded ?s" using assms(1) by (simp add: guarded_def)
  moreover have "requests s' = requests ?s"
    using assms(2) by (auto simp: reduce_handle_get_validation_package_def Let_def
        dest: cache_validation_requests split: option.splits)
  ultimately show ?thesis using guarded_cong by blast
qed

lemma guarded_simple:
  assumes "guarded s"
  shows "guarded (reduce_clear_query_result k s)" "guarded (reduce_clear_validation_package_result v s)"
    "guarded (reduce_clear_custom_send_response mid s)" "guarded (network_clear_action_response mid s)"
    "guarded (network_prune now s)" "guarded (reduce_resolve_direct_connection mid s)"
    "guarded (reduce_respond_authoring_list N l s)" "guarded (reduce_respond_gossip_list N l s)"
    "guarded (reduce_send_direct_message_timeout mid s)" "guarded (reduce_get_validation_package_timeout v s)"
    "guarded (reduce_handle_custom_send_response mid y s)" "guarded (reduce_handle_get_result z k s)"
proof -
  show "guarded (network_clear_action_response mid s)" "guarded (network_prune now s)"
    using assms guarded_cong by (simp_all add: network_clear_action_response_def network_prune_def guarded_def)
  show "guarded (reduce_respond_authoring_list N l s)" "guarded (reduce_respond_gossip_list N l s)"
    using assms guarded_cong [OF send_protocol_requests(2), of N _ s]
    by (simp_all add: reduce_respond_authoring_list_def reduce_respond_gossip_list_def)
qed (use assms in \<open>auto simp: guarded_def reduce_clear_query_result_def
      reduce_clear_validation_package_result_def reduce_clear_custom_send_response_def
      reduce_resolve_direct_connection_def reduce_send_direct_message_timeout_def
      reduce_get_validation_package_timeout_def reduce_handle_custom_send_response_def
      reduce_handle_get_result_def Let_def split: option.splits if_splits\<close>)

lemma outcome_bind_ReturnsE:
  assumes "outcome_bind r f = Returns b"
  obtains a where "r = Returns a" "f a = Returns b"
  using assms by (auto simp: outcome_bind_Returns_iff)

lemma run_bind_ReturnsE:
  assumes "run_bind r f = Some (Returns b)"
  obtains a where "r = Some (Returns a)" "f a = Some (Returns b)"
  using assms by (auto simp: run_bind_Returns_iff)

lemma respond_requests:
  "reduce_respond_fetch_data H N now aid fd asps s = Returns s' \<Longrightarrow> requests s' = requests s"
  "reduce_respond_query N now aid qd qr s = Returns s' \<Longrightarrow> requests s' = requests s"
  "reduce_init N url ign rid nuc st s = Returns s' \<Longrightarrow> requests s' = requests s"
  "reduce_shutdown N rid s = Returns (closed, s') \<Longrightarrow> requests s' = requests s"
  by (auto simp: reduce_respond_fetch_data_def reduce_respond_fetch_data_inner_def reduce_respond_query_def
      reduce_respond_query_inner_def reduce_init_def reduce_shutdown_def respond_action_def Let_def
      elim!: outcome_bind_ReturnsE dest: send_protocol_requests(1) split: sum.splits prod.splits)

lemma publish_requests:
  "reduce_publish H N C cas ag now aid a s = Some (Returns s') \<Longrightarrow> requests s' = requests s"
  "reduce_publish_header_entry H N C sign cas ag now aid a s = Some (Returns s') \<Longrightarrow> requests s' = requests s"
  by (auto simp: reduce_publish_def reduce_publish_header_entry_def respond_action_def
      elim!: run_bind_ReturnsE dest: publish_inner_requests publish_header_requests split: sum.splits)

lemmas requests_kept = respond_requests publish_requests

lemma guarded_step:
  assumes "guarded s" "carries_timeout (action aw)" "network_reduce x aw s = Some (Returns s')"
  shows "guarded s'"
proof -
  have kept: "requests s' = requests s \<Longrightarrow> guarded s'" using guarded_cong assms(1) by blast
  show ?thesis
    using assms
    by (cases "action aw")
       (auto simp: network_reduce_def guarded_simple guarded_query_timeout
          intro: guarded_query guarded_get_validation_package guarded_send_direct_message
            guarded_handle_validation_package kept dest: requests_kept elim!: outcome_bind_ReturnsE)
qed

text \<open>The states that the slice reaches when its reducers run in contexts of \<open>X\<close>.\<close>

inductive net_reachable :: "('n, 'c) net_context set \<Rightarrow> 'n NetworkState \<Rightarrow> bool" for X where
  new: "net_reachable X NetworkState_new"
| step: "net_reachable X s \<Longrightarrow> x \<in> X \<Longrightarrow> carries_timeout (action aw) \<Longrightarrow>
    network_reduce x aw s = Some (Returns s') \<Longrightarrow> net_reachable X s'"

lemma net_reachable_guarded: "net_reachable X s \<Longrightarrow> guarded s"
proof (induction rule: net_reachable.induct)
  case new
  show ?case by (simp add: guarded_def NetworkState_new_def)
next
  case step
  then show ?case using guarded_step by blast
qed

section \<open>One pass of the timeout job\<close>

definition past_due :: "SystemTime \<Rightarrow> ('k, SystemTime \<times> Duration) fmap \<Rightarrow> 'k \<Rightarrow> bool" where
  "past_due now m k = (case fmlookup m k of Some tmo \<Rightarrow> timed_out now tmo | None \<Rightarrow> False)"

lemma iterates_lookup: "iterates xs m \<Longrightarrow> fmlookup m k = Some v \<longleftrightarrow> (k, v) \<in> set xs"
  by (auto simp: iterates_def fmlookup_of_list)

lemma past_due_iff: "past_due now m k \<longleftrightarrow> (\<exists>tmo. fmlookup m k = Some tmo \<and> timed_out now tmo)"
  by (simp add: past_due_def split: option.split)

lemma set_expired_keys:
  assumes "iterates xs m"
  shows "k \<in> set (expired_keys now xs) \<longleftrightarrow> past_due now m k"
  unfolding past_due_iff iterates_lookup [OF assms] by (force simp: expired_keys_def)

lemma all_past_due:
  assumes "iterates xs m" "\<And>tmo. tmo \<in> snd ` set xs \<Longrightarrow> timed_out now tmo" "k |\<in>| fmdom m"
  shows "past_due now m k"
proof -
  obtain tmo where "fmlookup m k = Some tmo" using assms(3) by (auto simp: fmlookup_dom_iff)
  then have "(k, tmo) \<in> set xs" by (simp add: iterates_lookup [OF assms(1)])
  then have "tmo \<in> snd ` set xs" by force
  then show ?thesis using assms(2) \<open>fmlookup m k = Some tmo\<close> by (simp add: past_due_def)
qed

lemma run_queries:
  assumes "map action aws = map QueryTimeout ks"
  shows "network_reduce_all x aws s = Some (Returns (fold reduce_query_timeout ks s))"
  using assms
proof (induction aws arbitrary: ks s)
  case (Cons aw aws)
  then show ?case by (cases ks) (auto simp: network_reduce_def run_bind_simps)
qed simp

lemma run_messages:
  assumes "map action aws = map SendDirectMessageTimeout ks"
  shows "network_reduce_all x aws s = Some (Returns (fold reduce_send_direct_message_timeout ks s))"
  using assms
proof (induction aws arbitrary: ks s)
  case (Cons aw aws)
  then show ?case by (cases ks) (auto simp: network_reduce_def run_bind_simps)
qed simp

lemma run_packages:
  assumes "map action aws = map GetValidationPackageTimeout ks"
  shows "network_reduce_all x aws s = Some (Returns (fold reduce_get_validation_package_timeout ks s))"
  using assms
proof (induction aws arbitrary: ks s)
  case (Cons aw aws)
  then show ?case by (cases ks) (auto simp: network_reduce_def run_bind_simps)
qed simp

lemma fold_kept: "(\<And>k s. F (g k s) = F s) \<Longrightarrow> F (fold g ks s) = F s"
  by (induction ks arbitrary: s) simp_all

lemma fold_dropped:
  assumes "\<And>k s. F (g k s) = fmdrop k (F s)"
  shows "F (fold g ks s) = fmfilter (\<lambda>k. k \<notin> set ks) (F s)"
proof (induction ks arbitrary: s)
  case (Cons k ks)
  show ?case by (rule fmap_ext) (simp add: Cons.IH assms)
qed simp

lemma fold_lookup:
  assumes "\<And>k s k'. fmlookup (F (g k s)) k' = (if k' = k then f (fmlookup (F s) k) else fmlookup (F s) k')"
    and "\<And>v. f (f v) = f v"
  shows "fmlookup (F (fold g ks s)) k = (if k \<in> set ks then f (fmlookup (F s) k) else fmlookup (F s) k)"
proof (induction ks arbitrary: s)
  case (Cons k' ks)
  show ?case by (simp add: Cons.IH assms)
qed simp

lemma query_timeout_fields:
  "query_timeouts (reduce_query_timeout k s) = fmdrop k (query_timeouts s)"
  "get_validation_package_results (reduce_query_timeout k s) = get_validation_package_results s"
  "get_validation_package_timeouts (reduce_query_timeout k s) = get_validation_package_timeouts s"
  "direct_message_connections (reduce_query_timeout k s) = direct_message_connections s"
  "direct_message_timeouts (reduce_query_timeout k s) = direct_message_timeouts s"
  "custom_direct_message_replys (reduce_query_timeout k s) = custom_direct_message_replys s"
  "get_query_results (reduce_query_timeout k s) =
     (case fmlookup (get_query_results s) k of
        Some None \<Rightarrow> fmupd k (Some (Err (Timeout ''query timeout''))) (get_query_results s)
      | _ \<Rightarrow> get_query_results s)"
  by (simp_all add: reduce_query_timeout_def Let_def split: option.splits)

lemma message_timeout_fields:
  "get_query_results (reduce_send_direct_message_timeout k s) = get_query_results s"
  "query_timeouts (reduce_send_direct_message_timeout k s) = query_timeouts s"
  "get_validation_package_results (reduce_send_direct_message_timeout k s) = get_validation_package_results s"
  "get_validation_package_timeouts (reduce_send_direct_message_timeout k s) = get_validation_package_timeouts s"
  "direct_message_connections (reduce_send_direct_message_timeout k s) = fmdrop k (direct_message_connections s)"
  "direct_message_timeouts (reduce_send_direct_message_timeout k s) = fmdrop k (direct_message_timeouts s)"
  "custom_direct_message_replys (reduce_send_direct_message_timeout k s) =
     (case fmlookup (custom_direct_message_replys s) k of
        None \<Rightarrow> fmupd k (Err (Timeout ''direct message timeout'')) (custom_direct_message_replys s)
      | _ \<Rightarrow> custom_direct_message_replys s)"
  by (simp_all add: reduce_send_direct_message_timeout_def Let_def split: option.splits)

lemma package_timeout_fields:
  "get_query_results (reduce_get_validation_package_timeout k' s) = get_query_results s"
  "query_timeouts (reduce_get_validation_package_timeout k' s) = query_timeouts s"
  "get_validation_package_timeouts (reduce_get_validation_package_timeout k' s)
     = fmdrop k' (get_validation_package_timeouts s)"
  "direct_message_connections (reduce_get_validation_package_timeout k' s) = direct_message_connections s"
  "direct_message_timeouts (reduce_get_validation_package_timeout k' s) = direct_message_timeouts s"
  "custom_direct_message_replys (reduce_get_validation_package_timeout k' s) = custom_direct_message_replys s"
  "get_validation_package_results (reduce_get_validation_package_timeout k' s) =
     (case fmlookup (get_validation_package_results s) k' of
        Some (Some _) \<Rightarrow> get_validation_package_results s
      | _ \<Rightarrow> fmupd k' (Some (Err (Timeout ''validation package timeout''))) (get_validation_package_results s))"
  by (simp_all add: reduce_get_validation_package_timeout_def Let_def split: option.splits)

text \<open>What a timeout makes of the three kinds of answers.\<close>

fun query_after_timeout :: "NetworkQueryResult HcResult option option \<Rightarrow> NetworkQueryResult HcResult option option" where
  "query_after_timeout (Some None) = Some (Some (Err (Timeout ''query timeout'')))"
| "query_after_timeout r = r"

fun reply_after_timeout :: "string HcResult option \<Rightarrow> string HcResult option" where
  "reply_after_timeout None = Some (Err (Timeout ''direct message timeout''))"
| "reply_after_timeout r = r"

fun package_after_timeout ::
  "ValidationPackage option HcResult option option \<Rightarrow> ValidationPackage option HcResult option option" where
  "package_after_timeout (Some (Some r)) = Some (Some r)"
| "package_after_timeout _ = Some (Some (Err (Timeout ''validation package timeout'')))"

lemma fold_query_results:
  "fmlookup (get_query_results (fold reduce_query_timeout ks s)) k =
     (if k \<in> set ks then query_after_timeout (fmlookup (get_query_results s) k)
      else fmlookup (get_query_results s) k)"
proof (rule fold_lookup)
  show "query_after_timeout (query_after_timeout v) = query_after_timeout v" for v
    by (cases v rule: query_after_timeout.cases) simp_all
qed (auto simp: query_timeout_fields(7) split: option.splits)

lemma fold_reply_results:
  "fmlookup (custom_direct_message_replys (fold reduce_send_direct_message_timeout ks s)) k =
     (if k \<in> set ks then reply_after_timeout (fmlookup (custom_direct_message_replys s) k)
      else fmlookup (custom_direct_message_replys s) k)"
proof (rule fold_lookup)
  show "reply_after_timeout (reply_after_timeout v) = reply_after_timeout v" for v
    by (cases v) simp_all
qed (auto simp: message_timeout_fields(7) split: option.splits)

lemma fold_package_results:
  "fmlookup (get_validation_package_results (fold reduce_get_validation_package_timeout ks s)) k =
     (if k \<in> set ks then package_after_timeout (fmlookup (get_validation_package_results s) k)
      else fmlookup (get_validation_package_results s) k)"
proof (rule fold_lookup)
  show "package_after_timeout (package_after_timeout v) = package_after_timeout v" for v
    by (cases v rule: package_after_timeout.cases) simp_all
qed (auto simp: package_timeout_fields(7) split: option.splits)

lemma timeout_pass:
  assumes "iterates Q (query_timeouts s)" "iterates D (direct_message_timeouts s)"
    "iterates V (get_validation_package_timeouts s)"
    and "map action aws = check_network_processes_for_timeouts now Q D V"
  shows "\<exists>s'. network_reduce_all x aws s = Some (Returns s')
    \<and> (\<forall>k. fmlookup (get_query_results s') k =
          (if past_due now (query_timeouts s) k
           then query_after_timeout (fmlookup (get_query_results s) k)
           else fmlookup (get_query_results s) k))
    \<and> (\<forall>k. fmlookup (get_validation_package_results s') k =
          (if past_due now (get_validation_package_timeouts s) k
           then package_after_timeout (fmlookup (get_validation_package_results s) k)
           else fmlookup (get_validation_package_results s) k))
    \<and> (\<forall>k. fmlookup (custom_direct_message_replys s') k =
          (if past_due now (direct_message_timeouts s) k
           then reply_after_timeout (fmlookup (custom_direct_message_replys s) k)
           else fmlookup (custom_direct_message_replys s) k))
    \<and> (\<forall>k. fmlookup (direct_message_connections s') k =
          (if past_due now (direct_message_timeouts s) k
           then None else fmlookup (direct_message_connections s) k))"
proof -
  obtain as ds where aws1: "aws = as @ ds"
    and as: "map action as = map QueryTimeout (expired_keys now Q)"
    and ds: "map action ds = map SendDirectMessageTimeout (expired_keys now D)
                               @ map GetValidationPackageTimeout (expired_keys now V)"
    using map_eq_append_conv [THEN iffD1, OF assms(4) [unfolded check_network_processes_for_timeouts_def]]
    by metis
  obtain bs cs where aws: "aws = as @ bs @ cs"
    and bs: "map action bs = map SendDirectMessageTimeout (expired_keys now D)"
    and cs: "map action cs = map GetValidationPackageTimeout (expired_keys now V)"
    using map_eq_append_conv [THEN iffD1, OF ds] aws1 by metis
  let ?s1 = "fold reduce_query_timeout (expired_keys now Q) s"
  let ?s2 = "fold reduce_send_direct_message_timeout (expired_keys now D) ?s1"
  let ?s3 = "fold reduce_get_validation_package_timeout (expired_keys now V) ?s2"
  have run: "network_reduce_all x aws s = Some (Returns ?s3)"
    by (simp add: aws network_reduce_all_append run_queries [OF as] run_messages [OF bs]
        run_packages [OF cs] run_bind_simps)
  note e = set_expired_keys [OF assms(1), of _ now] set_expired_keys [OF assms(2), of _ now]
    set_expired_keys [OF assms(3), of _ now]
  note kept = fold_kept [of get_query_results reduce_send_direct_message_timeout, OF message_timeout_fields(1)]
    fold_kept [of get_query_results reduce_get_validation_package_timeout, OF package_timeout_fields(1)]
    fold_kept [of get_validation_package_results reduce_query_timeout, OF query_timeout_fields(2)]
    fold_kept [of get_validation_package_results reduce_send_direct_message_timeout, OF message_timeout_fields(3)]
    fold_kept [of custom_direct_message_replys reduce_query_timeout, OF query_timeout_fields(6)]
    fold_kept [of custom_direct_message_replys reduce_get_validation_package_timeout, OF package_timeout_fields(6)]
    fold_kept [of direct_message_connections reduce_query_timeout, OF query_timeout_fields(4)]
    fold_kept [of direct_message_connections reduce_get_validation_package_timeout, OF package_timeout_fields(4)]
    fold_dropped [of direct_message_connections reduce_send_direct_message_timeout, OF message_timeout_fields(5)]
  show ?thesis
    by (rule exI [of _ ?s3])
       (simp add: run fold_query_results fold_reply_results fold_package_results kept e)
qed

lemma query_after_timeout_answers: "query_after_timeout r \<noteq> Some None"
  by (cases r rule: query_after_timeout.cases) simp_all

lemma package_after_timeout_answers: "package_after_timeout r \<noteq> Some None"
  by (cases r rule: package_after_timeout.cases) simp_all

section \<open>Properties\<close>

text \<open>
  C5.  No request waits without a timeout: in every state that the network slice reaches
  from its initial state by actions whose queries and direct messages carry a timeout (as
  those of \<open>query\<close>, \<open>custom_send\<close> and the answering workflows do), each query and each
  validation package that is still waiting, and each open connection, has an entry in
  the timeouts that the timeout job looks at.
\<close>

theorem waiting_requests_have_timeouts:
  assumes "net_reachable X s"
  shows "(fmlookup (get_query_results s) q = Some None \<longrightarrow> q |\<in>| fmdom (query_timeouts s))
    \<and> (fmlookup (get_validation_package_results s) v = Some None
         \<longrightarrow> v |\<in>| fmdom (get_validation_package_timeouts s))
    \<and> (mid |\<in>| fmdom (direct_message_connections s) \<longrightarrow> mid |\<in>| fmdom (direct_message_timeouts s))"
  using net_reachable_guarded [OF assms] by (auto simp: guarded_def)

text \<open>
  C7.  One pass of the timeout job is exact.  Its actions always reduce, whatever the order
  in which the maps are iterated; they answer with a timeout the queries that still wait,
  the validation packages that have no answer and the messages that have no reply among those whose
  time is over, they close the connections of these messages, and they leave every
  other request and every answer that has already come as it was.
\<close>

theorem timeout_pass_exact:
  assumes "iterates Q (query_timeouts s)" "iterates D (direct_message_timeouts s)"
    "iterates V (get_validation_package_timeouts s)"
    and "map action aws = check_network_processes_for_timeouts now Q D V"
  shows "\<exists>s'. network_reduce_all x aws s = Some (Returns s')
    \<and> (\<forall>k. fmlookup (get_query_results s') k =
          (if past_due now (query_timeouts s) k
           then query_after_timeout (fmlookup (get_query_results s) k)
           else fmlookup (get_query_results s) k))
    \<and> (\<forall>k. fmlookup (get_validation_package_results s') k =
          (if past_due now (get_validation_package_timeouts s) k
           then package_after_timeout (fmlookup (get_validation_package_results s) k)
           else fmlookup (get_validation_package_results s) k))
    \<and> (\<forall>k. fmlookup (custom_direct_message_replys s') k =
          (if past_due now (direct_message_timeouts s) k
           then reply_after_timeout (fmlookup (custom_direct_message_replys s) k)
           else fmlookup (custom_direct_message_replys s) k))
    \<and> (\<forall>k. fmlookup (direct_message_connections s') k =
          (if past_due now (direct_message_timeouts s) k
           then None else fmlookup (direct_message_connections s) k))"
  by (rule timeout_pass [OF assms])

text \<open>
  C6.  Every request ends.  From every reachable state, a pass of the timeout job at a time at
  which all deadlines are over leaves no query and no validation package waiting and no
  connection open, and the future of every query that was waiting and whose network is
  still there is ready at its next poll.
\<close>

theorem requests_end:
  assumes "net_reachable X s"
    and "iterates Q (query_timeouts s)" "iterates D (direct_message_timeouts s)"
      "iterates V (get_validation_package_timeouts s)"
    and "map action aws = check_network_processes_for_timeouts now Q D V"
    and "\<forall>t d. (t, d) \<in> snd ` set Q \<union> snd ` set D \<union> snd ` set V \<longrightarrow> t \<le> now \<and> d < now - t"
  shows "\<exists>s'. network_reduce_all x aws s = Some (Returns s')
    \<and> (\<forall>k. fmlookup (get_query_results s') k \<noteq> Some None)
    \<and> (\<forall>k. fmlookup (get_validation_package_results s') k \<noteq> Some None)
    \<and> direct_message_connections s' = fmempty
    \<and> (\<forall>k. fmlookup (get_query_results s) k = Some None \<and> initialized s' = Ok ()
          \<longrightarrow> fst (query_poll None (Some s') k) \<noteq> None)"
proof -
  have g: "guarded s" using net_reachable_guarded [OF assms(1)] .
  have over: "timed_out now tmo" if "tmo \<in> snd ` set Q \<union> snd ` set D \<union> snd ` set V" for tmo
    using assms(6) [rule_format, of "fst tmo" "snd tmo"] that by (simp add: timed_out_def elapsed_def)
  note dead = all_past_due [OF assms(2), of now] all_past_due [OF assms(3), of now] all_past_due [OF assms(4), of now]
  obtain s' where run: "network_reduce_all x aws s = Some (Returns s')"
    and q: "\<And>k. fmlookup (get_query_results s') k = (if past_due now (query_timeouts s) k
           then query_after_timeout (fmlookup (get_query_results s) k) else fmlookup (get_query_results s) k)"
    and v: "\<And>k. fmlookup (get_validation_package_results s') k = (if past_due now (get_validation_package_timeouts s) k
           then package_after_timeout (fmlookup (get_validation_package_results s) k)
           else fmlookup (get_validation_package_results s) k)"
    and c: "\<And>k. fmlookup (direct_message_connections s') k =
          (if past_due now (direct_message_timeouts s) k then None else fmlookup (direct_message_connections s) k)"
    using timeout_pass [OF assms(2-5), of x] by blast
  have gq: "past_due now (query_timeouts s) k" if "fmlookup (get_query_results s) k = Some None" for k
    by (rule dead(1)) (use that g over in \<open>simp_all add: guarded_def\<close>)
  have gv: "past_due now (get_validation_package_timeouts s) k"
    if "fmlookup (get_validation_package_results s) k = Some None" for k
    by (rule dead(3)) (use that g over in \<open>simp_all add: guarded_def\<close>)
  have gc: "past_due now (direct_message_timeouts s) k" if "k |\<in>| fmdom (direct_message_connections s)" for k
    by (rule dead(2)) (use that g over in \<open>auto simp: guarded_def\<close>)
  have q': "fmlookup (get_query_results s') k \<noteq> Some None" for k
    using q [of k] gq [of k] query_after_timeout_answers [of "fmlookup (get_query_results s) k"]
    by (simp split: if_splits) metis
  have v': "fmlookup (get_validation_package_results s') k \<noteq> Some None" for k
    using v [of k] gv [of k] package_after_timeout_answers [of "fmlookup (get_validation_package_results s) k"]
    by (simp split: if_splits) metis
  have c': "direct_message_connections s' = fmempty"
  proof (rule fmap_ext)
    fix k
    show "fmlookup (direct_message_connections s') k = fmlookup fmempty k"
      using c [of k] gc [of k] by (cases "k |\<in>| fmdom (direct_message_connections s)")
        (simp_all add: fmdom_notD)
  qed
  have p: "fst (query_poll None (Some s') k) \<noteq> None"
    if "fmlookup (get_query_results s) k = Some None" "initialized s' = Ok ()" for k
    using q [of k] gq [OF that(1)] that by (simp add: query_poll_def)
  show ?thesis using run q' v' c' p by blast
qed

text \<open>
  When an answer to a direct message can bring the node down.  Handling a message that
  claims to answer one of this node's messages panics exactly when it parses as a
  validation package while the message it answers was not a request for one, a content
  which the answering node chooses.  In every other case the handler dispatches actions
  only for an open connection, and then closes it.
\<close>

theorem answer_panics_iff:
  "((\<exists>e. handle_send_message_result parse rid from content s = Panics e) \<longleftrightarrow>
     (\<exists>p m. parse content = Ok (ValidationPackageMessage p)
        \<and> fmlookup (direct_message_connections s) rid = Some m
        \<and> (\<nexists>key. m = RequestValidationPackage key)))
   \<and> (\<forall>acts. handle_send_message_result parse rid from content s = Returns acts \<longrightarrow>
     acts = [] \<or> (rid |\<in>| fmdom (direct_message_connections s) \<and> last acts = ResolveDirectConnection rid))"
  by (auto simp: handle_send_message_result_def Let_def fmlookup_dom_iff
      split: sum.splits option.splits DirectMessage.splits)

text \<open>
  When the validation cache brings the node down.  Reducing the arrival of a validation
  package panics exactly when the package carries the headers of the chain and a
  package with an empty list of headers was cached for the same agent before.
\<close>

theorem cached_empty_chain_panics:
  "(\<exists>e. reduce_handle_get_validation_package now responder key p s = Panics e) \<longleftrightarrow>
     (\<exists>v c. p = Some v \<and> source_chain_headers v \<noteq> None
        \<and> fmlookup (validation_cache s) responder = Some c \<and> cache_headers c = [])"
  by (auto simp: reduce_handle_get_validation_package_def cache_validation_def latest_header_def Let_def
      split: option.splits list.splits)

text \<open>
  The cache can answer with a chain that never existed.  After a full package with
  the entries \<open>es\<close> and a newer package of the same agent that has headers only, the cache answers a
  request for a full package with the entries of the first and the headers of the
  second.
\<close>

theorem cache_mixes_packages:
  assumes "fmlookup (validation_cache s) agent = None"
    and "source_chain_headers p1 = Some (h1 # hs1)" "source_chain_entries p1 = Some es"
    and "source_chain_headers p2 = Some (h2 # hs2)" "source_chain_entries p2 = None"
    and "hdr_timestamp h1 < hdr_timestamp (vp_chain_header p2)"
    and "hdr_timestamp header < hdr_timestamp h2"
  shows "outcome_bind (reduce_handle_get_validation_package t1 agent k1 (Some p1) s) (\<lambda>s1.
         outcome_bind (reduce_handle_get_validation_package t2 agent k2 (Some p2) s1) (\<lambda>s2.
           get_validation_package_from_cache s2 agent DefChainFull header))
       = Returns (Some \<lparr> vp_chain_header = header, source_chain_entries = Some es,
                         source_chain_headers = Some (h2 # hs2), custom = None \<rparr>)"
  using assms
  by (simp add: reduce_handle_get_validation_package_def cache_validation_def latest_header_def
      get_validation_package_from_cache_def)

text \<open>
  An answer leaves a reply behind.  When this node has answered a custom message of
  another node and the timeout of the answer has run out, the table of replies holds a timeout error
  under the id of the other node's message: no future of this node waits for that
  id, and only such a future clears it.
\<close>

theorem answer_leaves_reply:
  assumes "handle_custom_direct_message receive now sender mid m = (Ok (), acts)"
    and "initialized s = Ok ()" "fmlookup (custom_direct_message_replys s) mid = None"
  shows "\<exists>s'. network_reduce_all x (map (\<lambda>a. \<lparr> action = a, action_id = aid \<rparr>)
              (acts @ [SendDirectMessageTimeout mid])) s = Some (Returns s')
         \<and> fmlookup (custom_direct_message_replys s') mid = Some (Err (Timeout ''direct message timeout''))"
proof -
  obtain dm where acts: "acts = [SendDirectMessage dm
      (Some (now, from_millis CUSTOM_DIRECT_MESSAGE_RESPONSE_TIMEOUT_MS))]"
    and dm: "dm_is_response dm" "dm_msg_id dm = mid"
    using assms(1) by (auto simp: handle_custom_direct_message_def split: sum.splits)
  let ?s = "s\<lparr> direct_message_timeouts := fmupd mid (now, from_millis CUSTOM_DIRECT_MESSAGE_RESPONSE_TIMEOUT_MS)
                 (direct_message_timeouts s) \<rparr>"
  have "initialized ?s = Ok ()" using assms(2) by (simp add: initialized_def split: if_splits)
  moreover obtain space agent where "space_and_agent ?s = Returns (space, agent)"
    using assms(2) by (auto simp: initialized_def space_and_agent_def split: if_splits option.splits)
  moreover obtain r s1 where s1: "send_protocol (nc_net x)
      (HandleSendDirectMessageResult mid space (dm_address dm) agent (dm_message dm)) ?s = (r, s1)"
    by fastforce
  ultimately have "reduce_send_direct_message (nc_net x) dm
      (Some (now, from_millis CUSTOM_DIRECT_MESSAGE_RESPONSE_TIMEOUT_MS)) s = Returns s1"
    by (simp add: reduce_send_direct_message_def send_direct_message_inner_def dm)
  moreover have "fmlookup (custom_direct_message_replys s1) mid = None"
    using requests_eqD(7) [OF send_protocol_requests(1) [OF s1]] assms(3) by simp
  ultimately show ?thesis
    by (simp add: acts network_reduce_def run_bind_simps message_timeout_fields)
qed

section \<open>Publishing\<close>

text \<open>
  What an entry publishes: its content under its own address, and, when it updates,
  deletes or links, the aspect that says so under the address of the entry it is about.
\<close>

definition published_aspects :: "hasher \<Rightarrow> EntryWithHeader \<Rightarrow> (Address \<times> EntryAspect) list option" where
  "published_aspects H ewh =
     (let e = ewh_entry ewh; h = ewh_header ewh;
          content = (entry_address H e, EntryAspect.Content e h);
          about = (\<lambda>asp. map (\<lambda>a. (a, asp)) (case hdr_link_update_delete h of Some a \<Rightarrow> [a] | None \<Rightarrow> []))
      in case e of
           Entry.AgentId _ \<Rightarrow> Some [content]
         | Entry.App _ _ \<Rightarrow> Some (content # about (EntryAspect.Update e h))
         | Entry.Deletion _ \<Rightarrow> Some (content # about (EntryAspect.Deletion h))
         | Entry.LinkAdd ld \<Rightarrow> Some [content, (base (link_of ld), EntryAspect.LinkAdd ld h)]
         | Entry.LinkRemove ld ls \<Rightarrow> Some [content, (base (link_of ld), EntryAspect.LinkRemove ld ls h)]
         | _ \<Rightarrow> None)"

definition send_aspect :: "hasher \<Rightarrow> 'n net_ops \<Rightarrow> Address \<Rightarrow> string \<Rightarrow> Address \<times> EntryAspect \<Rightarrow> 'n \<Rightarrow> 'n" where
  "send_aspect H N space agent p n =
     snd (net_send N n (PublishEntry space agent
       \<lparr> ed_entry_address = fst p, ed_aspect_list = [entry_data_to_entry_aspect_data H (snd p)] \<rparr>))"

lemma publish_aspect_sends:
  assumes "\<And>n m. fst (net_send N n m) = Ok ()"
    and "net_network s = Some n" "net_dna_address s = Some space" "net_agent_id s = Some agent"
  shows "publish_aspect H N a asp s = Returns (Ok (), s\<lparr> net_network := Some (send_aspect H N space agent (a, asp) n) \<rparr>)"
  using assms(2-4) assms(1) [of n "PublishEntry space agent
       \<lparr> ed_entry_address = a, ed_aspect_list = [entry_data_to_entry_aspect_data H asp] \<rparr>"]
  by (cases "net_send N n (PublishEntry space agent
       \<lparr> ed_entry_address = a, ed_aspect_list = [entry_data_to_entry_aspect_data H asp] \<rparr>)")
     (simp add: publish_aspect_def space_and_agent_def send_protocol_def send_aspect_def)

lemma publish_inner_sends:
  assumes "\<And>n m. fst (net_send N n m) = Ok ()"
    and "net_network s = Some n" "net_dna_address s = Some space" "net_agent_id s = Some agent"
    and "fetch_entry_with_header H C cas ag address = Some (Returns (Ok ewh))"
  shows "reduce_publish_inner H N C cas ag address s =
    (case published_aspects H ewh of
       Some ps \<Rightarrow> Some (Returns (Ok (), s\<lparr> net_network := Some (fold (send_aspect H N space agent) ps n) \<rparr>))
     | None \<Rightarrow> Some (Returns (Err (NotImplemented (''reduce_publish_inner not implemented for ''
                 @ entry_type_string (entry_type (ewh_entry ewh)))), s)))"
proof -
  have i: "initialized s = Ok ()" using assms(2-4) by (simp add: initialized_def)
  note pub = publish_aspect_sends [OF assms(1)] publish_entry_def publish_meta_def
    publish_update_delete_meta_def publish_link_meta_def then_send_def
  show ?thesis
    by (cases "ewh_entry ewh")
       (simp_all add: reduce_publish_inner_def i run_bind_simps assms(2-5) pub published_aspects_def Let_def
          split: option.splits)
qed

text \<open>
  C15.  Publishing sends what the entry says and no more.  With a network that accepts messages,
  publishing an entry of the agent's chain sends the aspects that the entry
  publishes, in that order and nothing else, and records the entry's
  address as the response; the kinds of entries that are not published send nothing
  and record an error.
\<close>

theorem publish_sends_aspects:
  assumes "\<And>n m. fst (net_send N n m) = Ok ()"
    and "net_network s = Some n" "net_dna_address s = Some space" "net_agent_id s = Some agent"
    and "fetch_entry_with_header H C cas ag address = Some (Returns (Ok ewh))"
  shows "\<exists>s' r. reduce_publish H N C cas ag now aid address s = Some (Returns s')
    \<and> fmlookup (net_actions s') aid = Some \<lparr> created_at = now, response = PublishResponse r \<rparr>
    \<and> requests s' = requests s
    \<and> (case published_aspects H ewh of
         Some ps \<Rightarrow> r = Ok address \<and> net_network s' = Some (fold (send_aspect H N space agent) ps n)
       | None \<Rightarrow> (\<exists>e. r = Err e) \<and> net_network s' = Some n)"
  using publish_inner_sends [OF assms, of ] assms(2)
  by (auto simp: reduce_publish_def run_bind_simps respond_action_def generic_error_def
      split: option.splits)

section \<open>Witnesses\<close>

text \<open>A network that accepts and records messages, and a session on it with one waiting query.\<close>

definition log_net :: "Lib3hClientProtocol list net_ops" where
  "log_net = \<lparr> net_open = (\<lambda>_ _. Ok []), net_send = (\<lambda>log m. (Ok (), log @ [m])) \<rparr>"

definition sample_header :: ChainHeader where
  "sample_header = ChainHeader_new EntryType.AgentId ''k'' [] None None None 0"

definition net_hasher :: hasher where
  "net_hasher = \<lparr> entry_hash = (\<lambda>_. ''e''), header_hash = (\<lambda>_. ''h''), aspect_hash = (\<lambda>_. ''a'') \<rparr>"

definition sample_dna :: Dna where
  "sample_dna = \<lparr> dna_name = ''d'', dna_description = '''', dna_version = '''', dna_uuid = '''',
     dna_spec_version = '''', dna_properties = ''{}'', zomes = [] \<rparr>"

definition sample_context :: "(Lib3hClientProtocol list, (Address, Content) fmap) net_context" where
  "sample_context = \<lparr> nc_hasher = net_hasher, nc_net = log_net, nc_cas_ops = map_cas, nc_sign = (\<lambda>_. Ok ''s''),
     nc_url_of = (\<lambda>_. None), nc_ignore_url = False,
     nc_cas = fmap_of_list [(''k'', entry_content (Entry.AgentId \<lparr> nick = ''me'', pub_sign_key = ''k'' \<rparr>)),
                            (''h'', HeaderContent sample_header)],
     nc_agent = AgentState_new_with_top_chain_header (Some sample_header) ''k'',
     nc_nucleus = NucleusState_new\<lparr> nucleus_dna := Some sample_dna \<rparr>,
     nc_now = 0, nc_fresh_id = ''r'' \<rparr>"

definition sample_settings :: NetworkSettings where
  "sample_settings = \<lparr> ns_p2p_config = \<lparr> backend_kind = SIM2H, backend_config = Sim2hConfig ''url'',
     maybe_end_user_config = None \<rparr>, ns_dna_address = ''dna'', ns_agent_id = ''me'' \<rparr>"

definition sample_net :: "Lib3hClientProtocol list NetworkState" where
  "sample_net = NetworkState_new\<lparr> net_dna_address := Some ''dna'', net_agent_id := Some ''me'',
     net_network := Some [JoinSpace ''r'' ''dna'' ''me''] \<rparr>"

definition sample_key :: QueryKey where
  "sample_key = EntryKey \<lparr> get_address = ''x'', entry_key_id = ''q'' \<rparr>"

definition sample_waiting :: "Lib3hClientProtocol list NetworkState" where
  "sample_waiting = sample_net\<lparr> net_network := Some [JoinSpace ''r'' ''dna'' ''me'', QueryEntry ''me'' ''q'' ''dna'' ''x'' GetEntry],
     get_query_results := fmupd sample_key None fmempty,
     query_timeouts := fmupd sample_key (0, 10) fmempty \<rparr>"

lemma sample_net_reduce:
  "network_reduce sample_context \<lparr> action = InitNetwork sample_settings, action_id = ''1'' \<rparr> NetworkState_new
     = Some (Returns sample_net)"
  by (simp add: network_reduce_def sample_context_def sample_settings_def reduce_init_def log_net_def
      sample_net_def NetworkState_new_def Let_def sample_dna_def override_config_def)

lemma sample_waiting_reduce:
  "network_reduce sample_context \<lparr> action = QueryAction sample_key EntryPayload (Some (0, 10)), action_id = ''2'' \<rparr> sample_net
     = Some (Returns sample_waiting)"
  by (simp add: network_reduce_def sample_context_def reduce_query_def reduce_query_inner_def network_query_of_def
      sample_key_def initialized_def sample_net_def NetworkState_new_def space_and_agent_def send_protocol_def
      log_net_def sample_waiting_def Let_def)

lemma sample_waiting_reachable: "net_reachable {sample_context} sample_waiting"
proof -
  have "net_reachable {sample_context} sample_net"
    by (rule net_reachable.step [OF net_reachable.new _ _ sample_net_reduce]) simp_all
  then show ?thesis
    by (rule net_reachable.step [OF _ _ _ sample_waiting_reduce]) simp_all
qed

theorem waiting_requests_have_timeouts_witness:
  "fmlookup (get_query_results sample_waiting) sample_key = Some None
   \<and> sample_key |\<in>| fmdom (query_timeouts sample_waiting)"
  using waiting_requests_have_timeouts [OF sample_waiting_reachable, of sample_key]
  by (simp add: sample_waiting_def)

lemma sample_iterates:
  "iterates [(sample_key, 0, 10)] (query_timeouts sample_waiting)"
  "iterates [] (direct_message_timeouts sample_waiting)"
  "iterates [] (get_validation_package_timeouts sample_waiting)"
  "map action [\<lparr> action = QueryTimeout sample_key, action_id = ''3'' \<rparr>]
     = check_network_processes_for_timeouts 20 [(sample_key, 0, 10)] [] []"
  by (simp_all add: iterates_def sample_waiting_def sample_net_def NetworkState_new_def
      check_network_processes_for_timeouts_def expired_keys_def timed_out_def elapsed_def)

theorem timeout_pass_exact_witness:
  "\<exists>s'. network_reduce_all sample_context [\<lparr> action = QueryTimeout sample_key, action_id = ''3'' \<rparr>] sample_waiting
          = Some (Returns s')
     \<and> fmlookup (get_query_results s') sample_key = Some (Some (Err (Timeout ''query timeout'')))"
proof -
  have "past_due 20 (query_timeouts sample_waiting) sample_key"
    by (simp add: past_due_def sample_waiting_def timed_out_def elapsed_def)
  moreover have "fmlookup (get_query_results sample_waiting) sample_key = Some None"
    by (simp add: sample_waiting_def)
  ultimately show ?thesis
    using timeout_pass_exact [OF sample_iterates, of sample_context] by auto
qed

theorem requests_end_witness:
  "\<exists>s'. network_reduce_all sample_context [\<lparr> action = QueryTimeout sample_key, action_id = ''3'' \<rparr>] sample_waiting
          = Some (Returns s')
     \<and> (\<forall>k. fmlookup (get_query_results s') k \<noteq> Some None)"
  using requests_end [OF sample_waiting_reachable sample_iterates, of sample_context] by fastforce

theorem answer_panics_iff_witness:
  "handle_send_message_result (\<lambda>_. Ok (Custom \<lparr> cdm_zome = ''z'', cdm_payload = Ok ''p'' \<rparr>)) ''m'' ''you'' ''c''
     (sample_net\<lparr> direct_message_connections := fmupd ''m'' (Custom \<lparr> cdm_zome = ''z'', cdm_payload = Ok ''q'' \<rparr>) fmempty \<rparr>)
     = Returns [HandleCustomSendResponse ''m'' (Ok ''p''), ResolveDirectConnection ''m'']
   \<and> last [HandleCustomSendResponse ''m'' (Ok ''p''), ResolveDirectConnection ''m''] = ResolveDirectConnection ''m''"
  using answer_panics_iff [of "\<lambda>_. Ok (Custom \<lparr> cdm_zome = ''z'', cdm_payload = Ok ''p'' \<rparr>)" "''m''" "''you''" "''c''"
    "sample_net\<lparr> direct_message_connections := fmupd ''m'' (Custom \<lparr> cdm_zome = ''z'', cdm_payload = Ok ''q'' \<rparr>) fmempty \<rparr>"]
  by (simp add: handle_send_message_result_def)

definition package_of :: "ChainHeader \<Rightarrow> Entry list option \<Rightarrow> ChainHeader list \<Rightarrow> ValidationPackage" where
  "package_of h es hs = \<lparr> vp_chain_header = h, source_chain_entries = es, source_chain_headers = Some hs, custom = None \<rparr>"

theorem cache_mixes_packages_witness:
  "let h = (\<lambda>t. ChainHeader_new EntryType.AgentId ''e'' [] None None None t);
       es = [Entry.AgentId \<lparr> nick = ''me'', pub_sign_key = ''k'' \<rparr>];
       k = \<lparr> vk_address = ''e'', vk_id = ''1'' \<rparr>
   in outcome_bind (reduce_handle_get_validation_package 0 ''you'' k (Some (package_of (h 1) (Some es) [h 1])) sample_net) (\<lambda>s1.
      outcome_bind (reduce_handle_get_validation_package 0 ''you'' k (Some (package_of (h 5) None [h 4, h 1])) s1) (\<lambda>s2.
        get_validation_package_from_cache s2 ''you'' DefChainFull (h 2)))
      = Returns (Some \<lparr> vp_chain_header = h 2, source_chain_entries = Some es,
                        source_chain_headers = Some [h 4, h 1], custom = None \<rparr>)"
  unfolding Let_def
  by (rule cache_mixes_packages [where ?h1.0 = "ChainHeader_new EntryType.AgentId ''e'' [] None None None 1" and ?hs1.0 = "[]"])
     (simp_all add: package_of_def ChainHeader_new_def sample_net_def NetworkState_new_def)

theorem answer_leaves_reply_witness:
  "\<exists>s'. network_reduce_all sample_context (map (\<lambda>a. \<lparr> action = a, action_id = ''4'' \<rparr>)
       (snd (handle_custom_direct_message (\<lambda>_ _ p. Ok p) 0 ''you'' ''m'' \<lparr> cdm_zome = ''z'', cdm_payload = Ok ''p'' \<rparr>)
        @ [SendDirectMessageTimeout ''m''])) sample_net = Some (Returns s')
     \<and> fmlookup (custom_direct_message_replys s') ''m'' = Some (Err (Timeout ''direct message timeout''))"
  by (rule answer_leaves_reply [where receive = "\<lambda>_ _ p. Ok p" and now = 0 and sender = "''you''"
        and m = "\<lparr> cdm_zome = ''z'', cdm_payload = Ok ''p'' \<rparr>"])
     (simp_all add: handle_custom_direct_message_def sample_net_def NetworkState_new_def initialized_def)

theorem publish_sends_aspects_witness:
  "\<exists>s' r. reduce_publish net_hasher log_net map_cas (nc_cas sample_context) (nc_agent sample_context) 7 ''5'' ''k''
            sample_net = Some (Returns s')
     \<and> net_network s' = Some (send_aspect net_hasher log_net ''dna'' ''me''
           (''k'', EntryAspect.Content (Entry.AgentId \<lparr> nick = ''me'', pub_sign_key = ''k'' \<rparr>) sample_header)
           [JoinSpace ''r'' ''dna'' ''me''])"
proof -
  let ?e = "Entry.AgentId \<lparr> nick = ''me'', pub_sign_key = ''k'' \<rparr>"
  have ok: "chain_ok net_hasher map_cas (nc_cas sample_context) [sample_header]"
    by (simp add: chain_ok_def stored_headers_def sample_context_def net_hasher_def sample_header_def ChainHeader_new_def)
  have "find_chain_header net_hasher map_cas (nc_cas sample_context) (nc_agent sample_context) ?e
      = Some (Returns (Some sample_header))"
    using iter_find_chain [OF ok, of "\<lambda>h. hdr_entry_address h = ''k''"]
    by (simp add: find_chain_header_def sample_context_def first_header_def net_hasher_def sample_header_def
        ChainHeader_new_def AgentState_new_with_top_chain_header_def)
  then have "fetch_entry_with_header net_hasher map_cas (nc_cas sample_context) (nc_agent sample_context) ''k''
      = Some (Returns (Ok \<lparr> ewh_entry = ?e, ewh_header = sample_header \<rparr>))"
    by (simp add: fetch_entry_with_header_def sample_context_def get_entry_def get_raw_def run_bind_simps)
  then show ?thesis
    using publish_sends_aspects [where N = log_net and s = sample_net and H = net_hasher and C = map_cas
        and cas = "nc_cas sample_context" and ag = "nc_agent sample_context" and address = "''k''" and now = 7
        and aid = "''5''" and n = "[JoinSpace ''r'' ''dna'' ''me'']" and space = "''dna''" and agent = "''me''"
        and ewh = "\<lparr> ewh_entry = ?e, ewh_header = sample_header \<rparr>"]
    by (auto simp: sample_net_def NetworkState_new_def log_net_def published_aspects_def Let_def)
qed

end
