(* ===== verification/State.thy ===== *)
theory State
  imports Dht_Reducers Network_Flow
begin

text \<open>
  \<open>crates/core/src/state.rs\<close>: the root state, whose slices all reduce each action in a fixed
  order.  The agent's chain and the DHT share one content storage (every context builder gives
  both the same one), so the storages are threaded through the slices; the slices
  themselves see the root state from before the action.
\<close>

section \<open>Definitions\<close>

record 'n State =
  st_nucleus :: NucleusState
  st_agent :: AgentState
  st_dht :: DhtStore
  st_network :: "'n NetworkState"

text \<open>The library code behind an instance.\<close>

record ('n, 'c, 'e) instance_ops =
  io_hasher :: hasher
  io_cas :: "'c cas_ops"
  io_eav :: "'e eav_ops"
  io_net :: "'n net_ops"
  io_sign :: "string \<Rightarrow> string HcResult"
  io_url_of :: "JsonString \<Rightarrow> string option"
  io_ignore_url :: bool

definition State_new :: "Address \<Rightarrow> 'n State" where
  "State_new agent_address =
     \<lparr> st_nucleus = NucleusState_new, st_agent = AgentState_new agent_address, st_dht = DhtStore_new,
       st_network = NetworkState_new \<rparr>"

fun as_dna :: "Entry \<Rightarrow> Dna HcResult" where
  "as_dna (Entry.Dna dna) = Ok dna"
| "as_dna _ = Err (SerializationError ''Tried to get Dna from non-Dna Entry'')"

definition last_header :: "ChainHeader list \<Rightarrow> ChainHeader option" where
  "last_header hs = (if hs = [] then None else Some (last hs))"

definition get_dna :: "'c cas_ops \<Rightarrow> 'c \<Rightarrow> AgentState \<Rightarrow> Dna HcResult run" where
  "get_dna C cas agent_state =
     run_bind (iter_type_collect C cas (agent_top_chain_header agent_state) EntryType.Dna (\<lambda>_. True) None) (\<lambda>hs.
       Some (Returns (
         case last_header hs of
           None \<Rightarrow> Err (ErrorGeneric ''No DNA entry found in source chain while creating state from agent'')
         | Some dna_entry_header \<Rightarrow>
             and_then (get_raw C cas (hdr_entry_address dna_entry_header)) (\<lambda>json.
               case json of
                 None \<Rightarrow> Err (ErrorGeneric ''No DNA entry found in storage while creating state from agent'')
               | Some content \<Rightarrow> and_then (entry_try_from_content content) as_dna))))"

definition new_with_agent_nucleus_dht ::
  "'c cas_ops \<Rightarrow> 'c \<Rightarrow> AgentState \<Rightarrow> NucleusState \<Rightarrow> DhtStore \<Rightarrow> 'n State run" where
  "new_with_agent_nucleus_dht C cas agent_state nucleus_state dht_store =
     run_bind (get_dna C cas agent_state) (\<lambda>dna.
       Some (Returns
         \<lparr> st_nucleus = nucleus_state\<lparr> nucleus_dna := (case dna of Inr d \<Rightarrow> Some d | Inl _ \<Rightarrow> None) \<rparr>,
           st_agent = agent_state, st_dht = dht_store, st_network = NetworkState_new \<rparr>))"

definition try_from_snapshots ::
  "'c cas_ops \<Rightarrow> 'c \<Rightarrow> SystemTime \<Rightarrow> Address \<Rightarrow> ChainHeader option \<Rightarrow> NucleusStatus \<Rightarrow> DhtStoreSnapshot
     \<Rightarrow> 'n State run" where
  "try_from_snapshots C cas now agent_address agent_snapshot nucleus_status dht_store_snapshot =
     new_with_agent_nucleus_dht C cas
       (AgentState_new_with_top_chain_header agent_snapshot agent_address)
       (NucleusState_from_snapshot nucleus_status)
       (DhtStore_new_from_snapshot now dht_store_snapshot)"

definition state_reduce ::
  "('n, 'c, 'e) instance_ops \<Rightarrow> SystemTime \<Rightarrow> string \<Rightarrow> ActionWrapper \<Rightarrow> 'n State \<times> 'c \<times> 'e
     \<Rightarrow> ('n State \<times> 'c \<times> 'e) run" where
  "state_reduce I now fresh aw = (\<lambda>(s, cas, eav).
     run_bind (agent_reduce (io_hasher I) (io_cas I) (io_sign I) now aw (st_agent s, cas)) (\<lambda>(agent', cas1).
     run_bind (Some (dht_reduce (io_hasher I) (io_cas I) (io_eav I) now (cas1, eav) (st_dht s) aw)) (\<lambda>(dht', cas2, eav').
     run_bind (network_reduce
         \<lparr> nc_hasher = io_hasher I, nc_net = io_net I, nc_cas_ops = io_cas I, nc_sign = io_sign I,
           nc_url_of = io_url_of I, nc_ignore_url = io_ignore_url I, nc_cas = cas2, nc_agent = st_agent s,
           nc_nucleus = st_nucleus s, nc_now = now, nc_fresh_id = fresh \<rparr> aw (st_network s)) (\<lambda>network'.
       Some (Returns
         (\<lparr> st_nucleus = nucleus_reduce (action aw) (st_nucleus s), st_agent = agent', st_dht = dht',
            st_network = network' \<rparr>, cas2, eav'))))))"

text \<open>The headers of an entry: those of the agent's own chain, then the others that the DHT knows.\<close>

fun as_chain_header_entry :: "Entry \<Rightarrow> ChainHeader HcResult" where
  "as_chain_header_entry (Entry.ChainHeader chain_header) = Ok chain_header"
| "as_chain_header_entry _ = Err (ErrorGeneric ''Non chain-header entry found'')"

definition get_headers ::
  "hasher \<Rightarrow> 'c cas_ops \<Rightarrow> 'e eav_ops \<Rightarrow> 'c \<Rightarrow> 'e \<Rightarrow> AgentState \<Rightarrow> Address \<Rightarrow> ChainHeader list HcResult run" where
  "get_headers H C E cas eav agent_state address =
     run_bind (iter_collect hdr_link C cas (\<lambda>h. hdr_entry_address h = address) None
                 (agent_top_chain_header agent_state)) (\<lambda>headers.
       let header_addresses = map (header_hash H) headers
       in Some (Returns (
         and_then (fetch_eavi E eav (header_query address)) (\<lambda>eavis.
         and_then (collect_results (map (get_entry C cas)
             (filter (\<lambda>a. a \<notin> set header_addresses) (map eav_value eavis)))) (\<lambda>found.
         and_then (collect_results (map as_chain_header_entry (List.map_filter id found))) (\<lambda>dht_headers.
           Ok (headers @ dht_headers)))))))"

section \<open>The chain in the shared storage\<close>

lemma stored_store_entry:
  assumes "content_addressable C" "stored_headers H C cas hs" "hash_separates H [e] hs"
    and "reduce_store_entry_inner H C E (cas, eav) e = (r, cas', eav')"
  shows "stored_headers H C cas' hs"
proof -
  obtain r1 cas1 where a: "add_entry H C cas e = (r1, cas1)" by fastforce
  then have "cas' = cas1"
    using assms(4) by (auto simp: reduce_store_entry_inner_def split: sum.splits prod.splits)
  moreover have "stored_headers H C cas1 hs"
    using a stored_after_add_entry [OF assms(1) _ assms(3,2)] stored_after_failure(1) [OF assms(1,2)]
    by (cases r1) auto
  ultimately show ?thesis by simp
qed

lemma stored_add_header_for_entry:
  assumes "content_addressable C" "stored_headers H C cas hs" "hash_separates H [Entry.ChainHeader h] hs"
    and "add_header_for_entry H C E (cas, eav) e h = (r, cas', eav')"
  shows "stored_headers H C cas' hs"
proof -
  obtain r1 cas1 where a: "add_header H C cas h = (r1, cas1)" by fastforce
  then have "cas' = cas \<or> cas' = cas1"
    using assms(4) by (auto simp: add_header_for_entry_def split: sum.splits prod.splits)
  moreover have "stored_headers H C cas1 hs"
    using a stored_after_add_header [OF assms(1) _ assms(3,2)] stored_after_failure(2) [OF assms(1,2)]
    by (cases r1) (auto simp: stored_headers_def)
  ultimately show ?thesis using assms(2) by auto
qed

lemma stored_hold:
  assumes "content_addressable C" "stored_headers H C cas hs"
    and "\<And>e h. asp = EntryAspect.Content e h \<Longrightarrow> hash_separates H [e, Entry.ChainHeader h] hs"
    and "hold_in_storage H C E (cas, eav) asp = (r, cas', eav')"
  shows "stored_headers H C cas' hs"
proof (cases asp)
  case (Content e h)
  then have sep: "hash_separates H [e] hs" "hash_separates H [Entry.ChainHeader h] hs"
    using assms(3) by (auto simp: hash_separates_def)
  obtain r1 cas1 eav1 where 1: "reduce_store_entry_inner H C E (cas, eav) e = (r1, cas1, eav1)"
    by (cases "reduce_store_entry_inner H C E (cas, eav) e") auto
  obtain r2 cas2 eav2 where 2: "add_header_for_entry H C E (cas1, eav1) e h = (r2, cas2, eav2)"
    by (cases "add_header_for_entry H C E (cas1, eav1) e h") auto
  have "cas' = cas1 \<or> cas' = cas2"
    using assms(4) 1 2 by (auto simp: Content split: sum.splits)
  then show ?thesis
    using stored_store_entry [OF assms(1,2) sep(1) 1]
      stored_add_header_for_entry [OF assms(1) _ sep(2) 2] by auto
qed (use assms(2,4) in \<open>auto simp: Let_def split: prod.splits option.splits\<close>)

text \<open>
  The contents that a step writes do not collide with the headers of the chain.
\<close>

definition step_separates ::
  "('n, 'c, 'e) instance_ops \<Rightarrow> SystemTime \<Rightarrow> Action \<Rightarrow> AgentState \<Rightarrow> ChainHeader list \<Rightarrow> bool" where
  "step_separates I now a s hs \<longleftrightarrow>
     (case a of
        Commit entry crud_link provenances \<Rightarrow>
          hash_separates (io_hasher I) [entry] hs
          \<and> (case io_sign I (entry_address (io_hasher I) entry) of
               Inl _ \<Rightarrow> True
             | Inr sig \<Rightarrow>
                 (let h = next_header (io_hasher I) s hs entry crud_link provenances sig now
                  in hash_separates (io_hasher I) [entry, Entry.ChainHeader h] (h # hs)))
      | HoldAspect (EntryAspect.Content e h) _ \<Rightarrow> hash_separates (io_hasher I) [e, Entry.ChainHeader h] hs
      | _ \<Rightarrow> True)"

lemma agent_reduce_chain:
  assumes cas: "content_addressable (io_cas I)" and ok: "chain_ok (io_hasher I) (io_cas I) cas hs"
    and top: "agent_top_chain_header s = first_header hs" and "0 \<le> now"
    and sep: "step_separates I now (action aw) s hs"
    and r: "agent_reduce (io_hasher I) (io_cas I) (io_sign I) now aw (s, cas) = Some (Returns (s', cas'))"
  shows "(chain_ok (io_hasher I) (io_cas I) cas' hs \<and> agent_top_chain_header s' = first_header hs)
    \<or> (\<exists>entry crud_link provenances h. action aw = Commit entry crud_link provenances
        \<and> chain_ok (io_hasher I) (io_cas I) cas' (h # hs) \<and> agent_top_chain_header s' = Some h
        \<and> hdr_entry_address h = entry_address (io_hasher I) entry
        \<and> hash_separates (io_hasher I) [entry] (h # hs)
        \<and> get_entry (io_cas I) cas' (entry_address (io_hasher I) entry) = Ok (Some entry))"
proof (cases "\<exists>entry crud_link provenances. action aw = Commit entry crud_link provenances")
  case False
  then have "cas' = cas" "agent_top_chain_header s' = agent_top_chain_header s"
    using r by (cases "action aw"; auto simp: agent_reduce_def agent_reduce_clear_action_response_def
        agent_reduce_prune_def)+
  then show ?thesis using ok top by simp
next
  case True
  then obtain entry crud_link provenances where a: "action aw = Commit entry crud_link provenances" by blast
  let ?H = "io_hasher I" and ?C = "io_cas I"
  have c: "agent_reduce_commit_entry ?H ?C (io_sign I) now (action_id aw) entry crud_link provenances (s, cas)
      = Some (Returns (s', cas'))"
    using r by (simp add: agent_reduce_def a)
  show ?thesis
  proof (cases "io_sign I (entry_address ?H entry)")
    case (Inl e)
    then show ?thesis
      using c create_new_chain_header_chain [OF ok top \<open>0 \<le> now\<close>, of "io_sign I" entry crud_link provenances] ok top
      by (auto simp: agent_reduce_commit_entry_def commit_result_def)
  next
    case (Inr sig)
    define h where "h = next_header ?H s hs entry crud_link provenances sig now"
    have sep': "hash_separates ?H [entry, Entry.ChainHeader h] (h # hs)"
      using sep by (simp add: step_separates_def a Inr h_def Let_def)
    obtain r1 s1 c1 where cr: "commit_result ?H ?C cas s entry (Ok h) = (r1, s1, c1)"
      by (cases "commit_result ?H ?C cas s entry (Ok h)") auto
    have s': "cas' = c1" "agent_top_chain_header s' = agent_top_chain_header s1"
      using c create_new_chain_header_chain [OF ok top \<open>0 \<le> now\<close>, of "io_sign I" entry crud_link provenances] cr
      by (auto simp: agent_reduce_commit_entry_def Inr h_def)
    have "hdr_entry_address h = entry_address ?H entry"
      by (simp add: h_def next_header_def ChainHeader_new_def)
    moreover have "hash_separates ?H [entry] (h # hs)" using sep' by (simp add: hash_separates_def)
    ultimately show ?thesis
      using commit_result_chain [OF cas ok h_def sep' cr] s' a top by auto
  qed
qed

lemma get_entry_after_store:
  assumes "content_addressable C" "get_entry C cas (entry_address H e) = Ok (Some e)"
    and "reduce_store_entry_inner H C E (cas, eav) e = (r, cas', eav')"
  shows "get_entry C cas' (entry_address H e) = Ok (Some e)"
proof -
  obtain r1 cas1 where a: "add_entry H C cas e = (r1, cas1)" by fastforce
  then have "cas' = cas1"
    using assms(3) by (auto simp: reduce_store_entry_inner_def split: sum.splits prod.splits)
  moreover have "get_entry C cas1 (entry_address H e) = Ok (Some e)"
  proof (cases r1)
    case (Inl x)
    then have "cas_fetch C cas1 (entry_address H e) = cas_fetch C cas (entry_address H e)"
      using a content_addressable.fetch_failed [OF assms(1)]
      by (auto simp: add_entry_def map_err_Err_iff split: prod.splits)
    then show ?thesis using assms(2) by (simp add: get_entry_def get_raw_def)
  next
    case (Inr u)
    then show ?thesis using a content_addressable.get_added_entry [OF assms(1)] by simp
  qed
  ultimately show ?thesis by simp
qed

lemma dht_reduce_storage:
  assumes "dht_reduce H C E now (cas, eav) d aw = Returns (d', cas', eav')"
  shows "(\<exists>entry crud_link provenances r. action aw = Commit entry crud_link provenances
            \<and> reduce_store_entry_inner H C E (cas, eav) entry = (r, cas', eav'))
    \<or> (\<exists>asp hid r. action aw = HoldAspect asp hid \<and> hold_in_storage H C E (cas, eav) asp = (r, cas', eav'))
    \<or> ((\<nexists>entry crud_link provenances. action aw = Commit entry crud_link provenances)
       \<and> cas' = cas \<and> eav' = eav)"
proof -
  obtain r where d: "dht_resolve_reducer H C E now (cas, eav) d (action aw) = Returns (r, cas', eav')"
    using assms by (auto simp: dht_reduce_def outcome_bind_Returns_iff)
  show ?thesis
  proof (cases "action aw")
    case (Commit entry crud_link provenances)
    then show ?thesis
      using d by (auto simp: dht_resolve_reducer_def dht_reduce_commit_entry_def split: prod.splits sum.splits)
  next
    case (HoldAspect asp hid)
    obtain r1 c1 e1 where "hold_in_storage H C E (cas, eav) asp = (r1, c1, e1)"
      by (cases "hold_in_storage H C E (cas, eav) asp") auto
    then show ?thesis
      using d by (auto simp: HoldAspect dht_resolve_reducer_def reduce_hold_aspect_def outcome_bind_Returns_iff
          split: option.splits sum.splits)
  qed (use d in \<open>auto simp: dht_resolve_reducer_def outcome_bind_Returns_iff\<close>)
qed

section \<open>Properties\<close>

text \<open>
  C1.  Every action keeps the source chain, although all slices write to its storage.
  Reducing any action on a root state whose agent has a well-formed chain \<open>hs\<close> either leaves that chain
  as it is or, when the action is a commit, puts one header for the committed entry on
  top of it, with the entry readable; the DHT slice, which stores entries and headers of
  other agents in the same storage, does not disturb it.  The digests of
  what the step writes must not collide with those of the chain's headers.
\<close>

theorem reduce_keeps_chain:
  assumes "content_addressable (io_cas I)" and "chain_ok (io_hasher I) (io_cas I) cas hs"
    and "agent_top_chain_header (st_agent s) = first_header hs" and "0 \<le> now"
    and "step_separates I now (action aw) (st_agent s) hs"
    and "state_reduce I now fresh aw (s, cas, eav) = Some (Returns (s', cas', eav'))"
  shows "(chain_ok (io_hasher I) (io_cas I) cas' hs \<and> agent_top_chain_header (st_agent s') = first_header hs)
    \<or> (\<exists>entry crud_link provenances h. action aw = Commit entry crud_link provenances
        \<and> chain_ok (io_hasher I) (io_cas I) cas' (h # hs) \<and> agent_top_chain_header (st_agent s') = Some h
        \<and> hdr_entry_address h = entry_address (io_hasher I) entry
        \<and> get_entry (io_cas I) cas' (entry_address (io_hasher I) entry) = Ok (Some entry))"
proof -
  let ?H = "io_hasher I" and ?C = "io_cas I"
  obtain cas1 d' where ag: "agent_reduce ?H ?C (io_sign I) now aw (st_agent s, cas) = Some (Returns (st_agent s', cas1))"
    and d: "dht_reduce ?H ?C (io_eav I) now (cas1, eav) (st_dht s) aw = Returns (d', cas', eav')"
    using assms(6) by (auto simp: state_reduce_def elim!: run_bind_ReturnsE)
  have keep: "chain_ok ?H ?C cas' hs'" if "chain_ok ?H ?C cas1 hs'"
    "\<And>entry a b. action aw = Commit entry a b \<Longrightarrow> hash_separates ?H [entry] hs'"
    "\<And>e h hid. action aw = HoldAspect (EntryAspect.Content e h) hid \<Longrightarrow>
       hash_separates ?H [e, Entry.ChainHeader h] hs'" for hs'
  proof -
    have "stored_headers ?H ?C cas1 hs'" using that(1) by (simp add: chain_ok_def)
    then have "stored_headers ?H ?C cas' hs'"
      using dht_reduce_storage [OF d] that(2,3) stored_store_entry [OF assms(1)] stored_hold [OF assms(1)]
      by metis
    then show ?thesis using that(1) by (simp add: chain_ok_def)
  qed
  from agent_reduce_chain [OF assms(1-5) ag] show ?thesis
  proof (elim disjE conjE exE)
    assume "chain_ok ?H ?C cas1 hs" "agent_top_chain_header (st_agent s') = first_header hs"
    moreover have "hash_separates ?H [entry] hs" if "action aw = Commit entry a b" for entry a b
      using assms(5) by (simp add: step_separates_def that)
    moreover have "hash_separates ?H [e, Entry.ChainHeader h] hs"
      if "action aw = HoldAspect (EntryAspect.Content e h) hid" for e h hid
      using assms(5) by (simp add: step_separates_def that)
    ultimately show ?thesis using keep [of hs] by blast
  next
    fix entry crud_link provenances h
    assume a: "action aw = Commit entry crud_link provenances" and "chain_ok ?H ?C cas1 (h # hs)"
      "agent_top_chain_header (st_agent s') = Some h" "hdr_entry_address h = entry_address ?H entry"
      "hash_separates ?H [entry] (h # hs)"
      and g: "get_entry ?C cas1 (entry_address ?H entry) = Ok (Some entry)"
    moreover have "get_entry ?C cas' (entry_address ?H entry) = Ok (Some entry)"
      using dht_reduce_storage [OF d] a get_entry_after_store [OF assms(1) g] by auto
    ultimately show ?thesis using keep [of "h # hs"] by auto
  qed
qed

text \<open>
  C14.  A restart from the snapshots brings back what was persisted.  When the chain is
  well-formed and its oldest DNA entry is stored, the state made from the snapshots of \<open>s\<close> has
  the same top of the chain, the same initialization status, the DNA of the chain, the same held
  aspects, every queued and every running validation again in the queue, and nothing
  in process; the zome calls and the network requests are gone.
\<close>

theorem restart_from_snapshots:
  fixes s :: "'n State"
  assumes "chain_ok H C cas hs" and "agent_top_chain_header (st_agent s) = first_header hs"
    and "last_header (filter (\<lambda>h. hdr_entry_type h = EntryType.Dna) hs) = Some dna_header"
    and "get_entry C cas (hdr_entry_address dna_header) = Ok (Some (Entry.Dna dna))"
  shows "\<exists>s' :: 'n State.
     try_from_snapshots C cas now agent_address (agent_top_chain_header (st_agent s))
       (nucleus_snapshot (st_nucleus s)) (dht_snapshot (st_dht s)) = Some (Returns s')
   \<and> agent_top_chain_header (st_agent s') = agent_top_chain_header (st_agent s)
   \<and> status (st_nucleus s') = status (st_nucleus s) \<and> nucleus_dna (st_nucleus s') = Some dna
   \<and> holding_map (st_dht s') = holding_map (st_dht s)
   \<and> map pending (queued_holding_workflows (st_dht s'))
      = map pending (in_process_holding_workflows (st_dht s) @ queued_holding_workflows (st_dht s))
   \<and> in_process_holding_workflows (st_dht s') = []
   \<and> queued_zome_calls (st_nucleus s') = [] \<and> running_zome_calls (st_nucleus s') = {||}
   \<and> st_network s' = NetworkState_new"
proof -
  have "iter_type_collect C cas (first_header hs) EntryType.Dna (\<lambda>_. True) None
      = Some (Returns (filter (\<lambda>h. hdr_entry_type h = EntryType.Dna) hs))"
    using iter_type_chain [OF assms(1), of EntryType.Dna "\<lambda>_. True" None] by (simp add: take_opt_def)
  moreover obtain content where "get_raw C cas (hdr_entry_address dna_header) = Ok (Some content)"
    "entry_try_from_content content = Ok (Entry.Dna dna)"
    using assms(4) by (auto simp: get_entry_def and_then_Ok_iff split: option.splits)
  ultimately have "get_dna C cas (AgentState_new_with_top_chain_header (first_header hs) agent_address)
      = Some (Returns (Ok dna))"
    using assms(3) by (simp add: get_dna_def AgentState_new_with_top_chain_header_def)
  then show ?thesis
    by (simp add: try_from_snapshots_def new_with_agent_nucleus_dht_def assms(2)
        NucleusState_from_snapshot_def NucleusState_new_def nucleus_snapshot_def
        AgentState_new_with_top_chain_header_def DhtStore_new_from_snapshot_def DhtStore_new_def dht_snapshot_def)
qed

section \<open>Witnesses\<close>

definition sample_instance :: "(Lib3hClientProtocol list, (Address, Content) fmap, EntityAttributeValueIndex list) instance_ops" where
  "sample_instance = \<lparr> io_hasher = \<lparr> entry_hash = (\<lambda>_. ''e''),
       header_hash = (\<lambda>h. if hdr_timestamp h = 0 then ''h'' else ''g''), aspect_hash = (\<lambda>_. ''a'') \<rparr>,
     io_cas = map_cas, io_eav = log_eav, io_net = log_net, io_sign = (\<lambda>_. Ok ''s''), io_url_of = (\<lambda>_. None),
     io_ignore_url = False \<rparr>"

definition dna_header :: ChainHeader where
  "dna_header = ChainHeader_new EntryType.Dna ''d'' [] None None None 0"

definition dna_cas :: "(Address, Content) fmap" where
  "dna_cas = fmap_of_list [(''h'', HeaderContent dna_header), (''d'', EntryContent (Entry.Dna sample_dna))]"

definition dna_state :: "Lib3hClientProtocol list State" where
  "dna_state = (State_new ''me'')\<lparr> st_agent := AgentState_new_with_top_chain_header (Some dna_header) ''me'' \<rparr>"

lemma dna_chain_ok: "chain_ok (io_hasher sample_instance) (io_cas sample_instance) dna_cas [dna_header]"
  by (simp add: chain_ok_def stored_headers_def sample_instance_def dna_cas_def dna_header_def ChainHeader_new_def)

theorem reduce_keeps_chain_witness:
  "let entry = Entry.App ''post'' ''hello''; header = ChainHeader_new (EntryType.App ''post'') ''e'' [] None None None 1
   in \<exists>s' cas' eav'. state_reduce sample_instance 5 ''f''
          \<lparr> action = HoldAspect (EntryAspect.Content entry header) (1, 2), action_id = ''1'' \<rparr> (dna_state, dna_cas, [])
          = Some (Returns (s', cas', eav'))
        \<and> fmlookup cas' ''e'' = Some (EntryContent entry)
        \<and> chain_ok (io_hasher sample_instance) (io_cas sample_instance) cas' [dna_header]
        \<and> agent_top_chain_header (st_agent s') = Some dna_header"
proof -
  let ?entry = "Entry.App ''post'' ''hello''"
  let ?header = "ChainHeader_new (EntryType.App ''post'') ''e'' [] None None None 1"
  let ?aw = "\<lparr> action = HoldAspect (EntryAspect.Content ?entry ?header) (1, 2), action_id = ''1'' \<rparr>"
  obtain s' cas' eav' where r: "state_reduce sample_instance 5 ''f'' ?aw (dna_state, dna_cas, []) = Some (Returns (s', cas', eav'))"
    and e: "fmlookup cas' ''e'' = Some (EntryContent ?entry)"
    by (simp add: state_reduce_def agent_reduce_def dht_reduce_def dht_resolve_reducer_def network_reduce_def
        reduce_hold_aspect_def reduce_store_entry_inner_def add_entry_def add_header_def
        create_crud_status_eav_def add_eavi_def add_header_for_entry_def mark_aspect_as_held_def
        aspect_add_def sample_instance_def log_eav_def dna_state_def State_new_def dna_cas_def Let_def)
  moreover have "chain_ok (io_hasher sample_instance) (io_cas sample_instance) cas' [dna_header]
      \<and> agent_top_chain_header (st_agent s') = first_header [dna_header]"
    using reduce_keeps_chain [OF _ dna_chain_ok _ _ _ r]
    by (simp add: sample_instance_def dna_state_def map_cas.content_addressable_axioms
        AgentState_new_with_top_chain_header_def first_header_def step_separates_def hash_separates_def
        dna_header_def ChainHeader_new_def)
  ultimately show ?thesis by (auto simp: first_header_def Let_def)
qed

theorem restart_from_snapshots_witness:
  "\<exists>s' :: Lib3hClientProtocol list State.
     try_from_snapshots map_cas dna_cas 9 ''me'' (Some dna_header) NucleusStatus.New (dht_snapshot DhtStore_new)
       = Some (Returns s')
   \<and> nucleus_dna (st_nucleus s') = Some sample_dna"
  using restart_from_snapshots [of "io_hasher sample_instance" map_cas dna_cas "[dna_header]" dna_state
      dna_header sample_dna 9 "''me''"] dna_chain_ok
  by (auto simp: dna_state_def State_new_def AgentState_new_with_top_chain_header_def first_header_def
      last_header_def dna_header_def ChainHeader_new_def dna_cas_def get_entry_def get_raw_def
      NucleusState_new_def nucleus_snapshot_def sample_instance_def)

end
