(* ===== verification/Get_Entry.thy ===== *)
theory Get_Entry
  imports State
begin

text \<open>
  Reading entries: the parts of \<open>context.rs\<close> that the workflows use, \<open>nucleus/actions/get_entry.rs\<close>,
  \<open>entry/mod.rs\<close>, the workflows \<open>get_entry_result.rs\<close>, \<open>get_link_result.rs\<close> and \<open>get_links_count.rs\<close>, and
  the result type of \<open>wasm_utils/src/api_serialization/get_entry.rs\<close>.  The answer of the network
  to a query is a parameter.
\<close>

section \<open>The context\<close>

text \<open>What a workflow sees: the library code, the state with its storages, and the agent.\<close>

record ('n, 'c, 'e) Context =
  ctx_ops :: "('n, 'c, 'e) instance_ops"
  ctx_state :: "'n State"
  ctx_cas :: 'c
  ctx_eav :: 'e
  ctx_agent_id :: AgentId

definition ctx_get_dna :: "('n, 'c, 'e) Context \<Rightarrow> Dna option" where
  "ctx_get_dna x = nucleus_dna (st_nucleus (ctx_state x))"

definition can_publish :: "('n, 'c, 'e) Context \<Rightarrow> EntryType \<Rightarrow> bool outcome" where
  "can_publish x t =
     (if t \<in> {EntryType.Dna, EntryType.CapTokenGrant, EntryType.CapTokenClaim} then Returns False
      else if is_sys t then Returns True
      else outcome_bind (expect ''DNA must be present to test if entry is publishable.'' (ctx_get_dna x)) (\<lambda>dna.
           outcome_bind (get_entry_type_def dna (entry_type_string t)) (\<lambda>maybe_def.
             Returns (case maybe_def of
               None \<Rightarrow> False
             | Some entry_type_def \<Rightarrow> can_publish_sharing (sharing entry_type_def)))))"

section \<open>Entries in the local shard\<close>

definition get_entry_from_dht :: "('n, 'c, 'e) Context \<Rightarrow> Address \<Rightarrow> Entry option HcResult" where
  "get_entry_from_dht x address = get_entry (io_cas (ctx_ops x)) (ctx_cas x) address"

definition crud_link_query :: "Address \<Rightarrow> EaviQuery" where
  "crud_link_query address =
     \<lparr> q_entity = Some address, q_attribute = (\<lambda>a. a = CrudLink), q_value = None,
       q_index = LatestByAttribute, q_tombstone = None \<rparr>"

text \<open>The worst of the statuses that are found counts.\<close>

definition crud_status_of :: "EntityAttributeValueIndex list \<Rightarrow> CrudStatus" where
  "crud_status_of status_eavs =
     (if filter (\<lambda>e. crud_status_from_str (eav_value e) = Ok Deleted) status_eavs \<noteq> [] then Deleted
      else if filter (\<lambda>e. crud_status_from_str (eav_value e) = Ok Modified) status_eavs \<noteq> [] then Modified
      else Live)"

definition get_entry_crud_meta_from_dht ::
  "('n, 'c, 'e) Context \<Rightarrow> Address \<Rightarrow> (CrudStatus \<times> Address option) option HcResult" where
  "get_entry_crud_meta_from_dht x address =
     and_then (fetch_eavi (io_eav (ctx_ops x)) (ctx_eav x) (crud_status_query address)) (\<lambda>status_eavs.
       if status_eavs = [] then Ok None
       else and_then (fetch_eavi (io_eav (ctx_ops x)) (ctx_eav x) (crud_link_query address)) (\<lambda>link_eavs.
              Ok (Some (crud_status_of status_eavs,
                case link_eavs of [] \<Rightarrow> None | e # _ \<Rightarrow> Some (eav_value e)))))"

definition get_entry_with_meta :: "('n, 'c, 'e) Context \<Rightarrow> Address \<Rightarrow> EntryWithMeta option HcResult" where
  "get_entry_with_meta x address =
     (case get_entry_from_dht x address of
        Inl e \<Rightarrow> Err e
      | Inr None \<Rightarrow> Ok None
      | Inr (Some entry) \<Rightarrow>
          (case entry of
             Entry.ChainHeader _ \<Rightarrow>
               Ok (Some \<lparr> meta_entry = entry, meta_crud_status = Live, maybe_link_update_delete = None \<rparr>)
           | _ \<Rightarrow>
               and_then (get_entry_crud_meta_from_dht x address) (\<lambda>r.
                 Ok (map_option (\<lambda>(crud_status, link).
                   \<lparr> meta_entry = entry, meta_crud_status = crud_status, maybe_link_update_delete = link \<rparr>) r))))"

definition context_get_headers :: "('n, 'c, 'e) Context \<Rightarrow> Address \<Rightarrow> ChainHeader list HcResult run" where
  "context_get_headers x address =
     get_headers (io_hasher (ctx_ops x)) (io_cas (ctx_ops x)) (io_eav (ctx_ops x)) (ctx_cas x) (ctx_eav x)
       (st_agent (ctx_state x)) address"

section \<open>Workflows of one entry\<close>

definition get_entry_with_meta_workflow_local ::
  "('n, 'c, 'e) Context \<Rightarrow> Address \<Rightarrow> EntryWithMetaAndHeader option HcResult run" where
  "get_entry_with_meta_workflow_local x address =
     (case get_entry_with_meta x address of
        Inl e \<Rightarrow> Some (Returns (Err e))
      | Inr None \<Rightarrow> Some (Returns (Err (ErrorGeneric (''Could not get entry: '' @ address))))
      | Inr (Some entry) \<Rightarrow>
          run_bind (context_get_headers x address) (\<lambda>r.
            Some (Returns (map_ok (\<lambda>headers. Some \<lparr> entry_with_meta = entry, meta_headers = headers \<rparr>) r))))"

type_synonym network = "QueryMethod \<Rightarrow> Duration \<Rightarrow> NetworkQueryResult HcResult"

definition query_for_entry :: "network \<Rightarrow> Address \<Rightarrow> Duration \<Rightarrow> EntryWithMetaAndHeader option HcResult" where
  "query_for_entry net address tmo =
     and_then (net (EntryMethod address) tmo) (\<lambda>response.
       case response of
         EntryResult maybe_entry \<Rightarrow> Ok maybe_entry
       | _ \<Rightarrow> Err (ErrorGeneric ''Wrong respond type for Entry''))"

definition get_entry_with_meta_workflow ::
  "network \<Rightarrow> ('n, 'c, 'e) Context \<Rightarrow> Address \<Rightarrow> Duration \<Rightarrow> EntryWithMetaAndHeader option HcResult run" where
  "get_entry_with_meta_workflow net x address tmo =
     (case get_entry_with_meta x address of
        Inl e \<Rightarrow> Some (Returns (Err e))
      | Inr None \<Rightarrow> Some (Returns (query_for_entry net address tmo))
      | Inr (Some entry) \<Rightarrow>
          run_bind (context_get_headers x address) (\<lambda>r.
            Some (Returns (case r of
              Inr headers \<Rightarrow> Ok (Some \<lparr> entry_with_meta = entry, meta_headers = headers \<rparr>)
            | Inl _ \<Rightarrow> query_for_entry net address tmo))))"

section \<open>The result of a request\<close>

datatype StatusRequestKind = StatusInitial | StatusLatest | StatusAll

record GetEntryOptions =
  geo_status_request :: StatusRequestKind
  geo_entry :: bool
  geo_headers :: bool
  geo_timeout :: Duration

record GetEntryArgs =
  gea_address :: Address
  gea_options :: GetEntryOptions

definition GetEntryOptions_default :: "Duration \<Rightarrow> GetEntryOptions" where
  "GetEntryOptions_default default_timeout =
     \<lparr> geo_status_request = StatusLatest, geo_entry = True, geo_headers = False,
       geo_timeout = default_timeout \<rparr>"

record EntryResultMeta =
  erm_address :: Address
  erm_entry_type :: EntryType
  erm_crud_status :: CrudStatus

record GetEntryResultItem =
  item_meta :: "EntryResultMeta option"
  item_entry :: "Entry option"
  item_headers :: "ChainHeader list"

definition GetEntryResultItem_new ::
  "hasher \<Rightarrow> (EntryWithMeta \<times> ChainHeader list) option \<Rightarrow> GetEntryResultItem" where
  "GetEntryResultItem_new H maybe_entry_with_meta =
     (case maybe_entry_with_meta of
        Some (m, headers) \<Rightarrow>
          \<lparr> item_meta = Some \<lparr> erm_address = entry_address H (meta_entry m),
                                erm_entry_type = entry_type (meta_entry m),
                                erm_crud_status = meta_crud_status m \<rparr>,
            item_entry = Some (meta_entry m), item_headers = headers \<rparr>
      | None \<Rightarrow> \<lparr> item_meta = None, item_entry = None, item_headers = [] \<rparr>)"

record EntryHistory =
  items :: "GetEntryResultItem list"
  crud_links :: "(Address, Address) fmap"

definition EntryHistory_new :: EntryHistory where
  "EntryHistory_new = \<lparr> items = [], crud_links = fmempty \<rparr>"

definition EntryHistory_push ::
  "hasher \<Rightarrow> EntryWithMeta \<Rightarrow> ChainHeader list \<Rightarrow> EntryHistory \<Rightarrow> EntryHistory" where
  "EntryHistory_push H m headers h =
     \<lparr> items = items h @ [GetEntryResultItem_new H (Some (m, headers))],
       crud_links = (case maybe_link_update_delete m of
          Some new_address \<Rightarrow> fmupd (entry_address H (meta_entry m)) new_address (crud_links h)
        | None \<Rightarrow> crud_links h) \<rparr>"

datatype GetEntryResult = SingleResult GetEntryResultItem | HistoryResult EntryHistory

fun GetEntryResult_push ::
  "hasher \<Rightarrow> EntryWithMeta \<Rightarrow> ChainHeader list \<Rightarrow> GetEntryResult \<Rightarrow> GetEntryResult" where
  "GetEntryResult_push H m headers (SingleResult _) = SingleResult (GetEntryResultItem_new H (Some (m, headers)))"
| "GetEntryResult_push H m headers (HistoryResult history) = HistoryResult (EntryHistory_push H m headers history)"

fun GetEntryResult_new ::
  "hasher \<Rightarrow> StatusRequestKind \<Rightarrow> (EntryWithMeta \<times> ChainHeader list) option \<Rightarrow> GetEntryResult" where
  "GetEntryResult_new H StatusAll (Some (m, headers)) = GetEntryResult_push H m headers (HistoryResult EntryHistory_new)"
| "GetEntryResult_new H StatusAll None = HistoryResult EntryHistory_new"
| "GetEntryResult_new H _ maybe = SingleResult (GetEntryResultItem_new H maybe)"

fun GetEntryResult_found :: "GetEntryResult \<Rightarrow> bool" where
  "GetEntryResult_found (SingleResult item) \<longleftrightarrow> item_meta item \<noteq> None"
| "GetEntryResult_found (HistoryResult history) \<longleftrightarrow> items history \<noteq> []"

fun GetEntryResult_clear :: "hasher \<Rightarrow> GetEntryResult \<Rightarrow> GetEntryResult" where
  "GetEntryResult_clear H (SingleResult _) = SingleResult (GetEntryResultItem_new H None)"
| "GetEntryResult_clear H (HistoryResult history) = HistoryResult (history\<lparr> items := [] \<rparr>)"

fun GetEntryResult_latest :: "GetEntryResult \<Rightarrow> Entry option" where
  "GetEntryResult_latest (SingleResult item) = item_entry item"
| "GetEntryResult_latest (HistoryResult history) =
     (if items history = [] then None else item_entry (last (items history)))"

section \<open>The loop along the CRUD links\<close>

lemma run_bind_mono [partial_function_mono]:
  assumes "mono_option B" "\<And>y. mono_option (\<lambda>f. C y f)"
  shows "mono_option (\<lambda>f. run_bind (B f) (\<lambda>y. C y f))"
  unfolding run_bind_def
proof (rule bind_mono [OF assms(1)])
  fix y
  show "mono_option (\<lambda>f. case y of Returns a \<Rightarrow> C a f | Panics m \<Rightarrow> Some (Panics m))"
    using assms(2) by (cases y) (simp_all add: option.const_mono)
qed

text \<open>
  The body that \<open>get_entry_result_workflow\<close> and its local variant share: \<open>fetch\<close> is the call
  that gets one entry.
\<close>

partial_function (option) get_entry_history ::
  "hasher \<Rightarrow> (Address \<Rightarrow> EntryWithMetaAndHeader option HcResult run) \<Rightarrow> GetEntryOptions
     \<Rightarrow> GetEntryResult \<Rightarrow> Address \<Rightarrow> GetEntryResult HcResult run" where
  "get_entry_history H fetch options entry_result address =
     run_bind (fetch address) (\<lambda>r.
       case r of
         Inl e \<Rightarrow> Some (Returns (Err e))
       | Inr None \<Rightarrow> Some (Returns (Ok entry_result))
       | Inr (Some found) \<Rightarrow>
           let m = entry_with_meta found
           in if geo_status_request options = StatusLatest \<and> meta_crud_status m = Deleted
              then Some (Returns (Ok (GetEntryResult_clear H entry_result)))
              else let pushed = GetEntryResult_push H m (if geo_headers options then meta_headers found else [])
                                  entry_result
                   in if geo_status_request options = StatusInitial then Some (Returns (Ok pushed))
                      else (case maybe_link_update_delete m of
                              None \<Rightarrow> Some (Returns (Ok pushed))
                            | Some next_address \<Rightarrow>
                                if meta_crud_status m \<noteq> Deleted
                                then get_entry_history H fetch options pushed next_address
                                else Some (Returns (Ok pushed))))"

definition get_entry_result_workflow ::
  "network \<Rightarrow> ('n, 'c, 'e) Context \<Rightarrow> GetEntryArgs \<Rightarrow> GetEntryResult HcResult run" where
  "get_entry_result_workflow net x args =
     get_entry_history (io_hasher (ctx_ops x))
       (\<lambda>address. get_entry_with_meta_workflow net x address (geo_timeout (gea_options args)))
       (gea_options args)
       (GetEntryResult_new (io_hasher (ctx_ops x)) (geo_status_request (gea_options args)) None)
       (gea_address args)"

definition get_entry_result_workflow_local ::
  "('n, 'c, 'e) Context \<Rightarrow> GetEntryArgs \<Rightarrow> GetEntryResult HcResult run" where
  "get_entry_result_workflow_local x args =
     get_entry_history (io_hasher (ctx_ops x)) (get_entry_with_meta_workflow_local x) (gea_options args)
       (GetEntryResult_new (io_hasher (ctx_ops x)) (geo_status_request (gea_options args)) None)
       (gea_address args)"

section \<open>Links\<close>

text \<open>\<open>map\<close> over an iterator, one element after the other.\<close>

fun run_map :: "('a \<Rightarrow> 'b run) \<Rightarrow> 'a list \<Rightarrow> 'b list run" where
  "run_map f [] = Some (Returns [])"
| "run_map f (x # xs) = run_bind (f x) (\<lambda>y. run_bind (run_map f xs) (\<lambda>ys. Some (Returns (y # ys))))"

definition DEFAULT_TIMEOUT :: Duration where
  "DEFAULT_TIMEOUT = 60000 * 10 ^ 6"

definition link_tag_of :: "EntityAttributeValueIndex \<Rightarrow> string outcome" where
  "link_tag_of eavi =
     (case eav_attribute eavi of
        LinkTag _ tg \<Rightarrow> Returns tg
      | RemovedLink _ _ tg \<Rightarrow> Returns tg
      | _ \<Rightarrow> Panics ''INVALID ATTRIBUTE ON EAV GET, SOMETHING VERY WRONG IN EAV QUERY'')"

definition link_data_of_item ::
  "Address \<Rightarrow> CrudStatus \<Rightarrow> string \<Rightarrow> bool \<Rightarrow> GetEntryResult \<Rightarrow> GetLinkData HcResult" where
  "link_data_of_item link_add_address crud tg with_headers result =
     (case result of
        SingleResult item \<Rightarrow>
          (let data = (\<lambda>l. Ok \<lparr> gl_address = link_add_address, gl_crud_status = crud, gl_target = target (link_of l),
                                  gl_tag = tg,
                                  gl_headers = (if with_headers then Some (item_headers item) else None) \<rparr>)
           in case item_entry item of
                Some (Entry.LinkAdd link_add) \<Rightarrow> data link_add
              | Some (Entry.LinkRemove link_remove _) \<Rightarrow> data link_remove
              | Some _ \<Rightarrow> Err (ErrorGeneric ''Wrong entry type for Link content'')
              | None \<Rightarrow> Err (ErrorGeneric (''Could not find Entries for  Address :'' @ link_add_address
                          @ '', tag: '' @ tg)))
      | HistoryResult _ \<Rightarrow> Err (ErrorGeneric ''Single Entry required for Get Entry''))"

definition get_link_data ::
  "('n, 'c, 'e) Context \<Rightarrow> bool \<Rightarrow> EntityAttributeValueIndex \<times> CrudStatus \<Rightarrow> GetLinkData HcResult run" where
  "get_link_data x with_headers = (\<lambda>(eavi, crud).
     run_bind (Some (link_tag_of eavi)) (\<lambda>tg.
     run_bind (get_entry_result_workflow_local x
         \<lparr> gea_address = eav_value eavi,
           gea_options = (GetEntryOptions_default DEFAULT_TIMEOUT)\<lparr> geo_headers := with_headers \<rparr> \<rparr>) (\<lambda>r.
       Some (Returns (case r of
         Inr result \<Rightarrow> link_data_of_item (eav_value eavi) crud tg with_headers result
       | Inl _ \<Rightarrow> Err (ErrorGeneric ''Could not get entry for Link Data''))))))"

text \<open>\<open>partition(Result::is_ok)\<close>: all values, or all errors.\<close>

definition all_or_errors :: "'a HcResult list \<Rightarrow> 'a list HcResult" where
  "all_or_errors rs =
     (let errors = List.map_filter (\<lambda>r. case r of Inl e \<Rightarrow> Some e | Inr _ \<Rightarrow> None) rs
      in if errors = [] then Ok (List.map_filter (\<lambda>r. case r of Inr a \<Rightarrow> Some a | Inl _ \<Rightarrow> None) rs)
         else Err (Error_list errors))"

definition handler_get_links ::
  "(string \<Rightarrow> string) \<Rightarrow> ('n, 'c, 'e) Context \<Rightarrow> Address \<Rightarrow> string option \<Rightarrow> string option
     \<Rightarrow> CrudStatus option \<Rightarrow> GetLinksQueryConfiguration \<Rightarrow> GetLinkData list HcResult run" where
  "handler_get_links upper x b lt tg crud_status configuration =
     run_bind (run_map (get_link_data x (links_headers configuration))
         (case get_links upper (io_eav (ctx_ops x)) (ctx_eav x) b lt tg crud_status configuration of
            Inr links \<Rightarrow> links
          | Inl _ \<Rightarrow> [])) (\<lambda>rs.
       Some (Returns (all_or_errors rs)))"

record LinksResultItem =
  lr_address :: Address
  lr_headers :: "ChainHeader list"
  lr_tag :: string
  lr_status :: CrudStatus

definition am_i_dht_authority_for_base :: "('n, 'c, 'e) Context \<Rightarrow> Address \<Rightarrow> bool" where
  "am_i_dht_authority_for_base x b \<longleftrightarrow> b = pub_sign_key (ctx_agent_id x)"

definition links_config :: "GetLinksArgs \<Rightarrow> GetLinksQueryConfiguration" where
  "links_config link_args =
     \<lparr> links_headers = gl_opt_headers (gla_options link_args), pagination = gl_pagination (gla_options link_args),
       sort_order = gl_sort_order (gla_options link_args) \<rparr>"

definition to_links_result :: "GetLinkData \<Rightarrow> LinksResultItem" where
  "to_links_result d =
     \<lparr> lr_address = gl_target d, lr_headers = (case gl_headers d of Some hs \<Rightarrow> hs | None \<Rightarrow> []),
       lr_tag = gl_tag d, lr_status = gl_crud_status d \<rparr>"

definition get_link_result_workflow ::
  "(string \<Rightarrow> string) \<Rightarrow> network \<Rightarrow> ('n, 'c, 'e) Context \<Rightarrow> GetLinksArgs \<Rightarrow> LinksResultItem list HcResult run" where
  "get_link_result_workflow upper net x link_args =
     run_bind (if am_i_dht_authority_for_base x (gla_entry_address link_args)
        then handler_get_links upper x (gla_entry_address link_args) (gla_link_type link_args) (gla_tag link_args)
               (crud_status_from_link_args link_args) (links_config link_args)
        else Some (Returns (
          and_then (net (LinkMethod link_args (Links (links_config link_args))) (gl_timeout (gla_options link_args)))
            (\<lambda>response. case response of
               LinksResult (LinksFound links) _ _ \<Rightarrow> Ok links
             | LinksResult _ _ _ \<Rightarrow> Err (ErrorGeneric ''Could not get links'')
             | _ \<Rightarrow> Err (ErrorGeneric ''Wrong type for response type Entry'')))))
       (\<lambda>r. Some (Returns (map_ok (map to_links_result) r)))"

definition get_link_result_count_workflow :: "network \<Rightarrow> GetLinksArgs \<Rightarrow> nat HcResult" where
  "get_link_result_count_workflow net link_args =
     and_then (net (LinkMethod link_args Count) (gl_timeout (gla_options link_args))) (\<lambda>response.
       case response of
         LinksResult (LinksCount n) _ _ \<Rightarrow> Ok n
       | LinksResult _ _ _ \<Rightarrow> Err (ErrorGeneric ''Getting wrong type of GetLinks'')
       | EntryResult _ \<Rightarrow> Err (ErrorGeneric ''Could not get link''))"

section \<open>What the loop computes\<close>

text \<open>A history: the entries found along the CRUD links, up to one that has no successor.\<close>

fun crud_path ::
  "(Address \<Rightarrow> EntryWithMetaAndHeader option HcResult run) \<Rightarrow> Address \<Rightarrow> EntryWithMetaAndHeader list \<Rightarrow> bool" where
  "crud_path fetch a [] \<longleftrightarrow> fetch a = Some (Returns (Ok None))"
| "crud_path fetch a (m # ms) \<longleftrightarrow> fetch a = Some (Returns (Ok (Some m)))
     \<and> (case maybe_link_update_delete (entry_with_meta m) of
          Some b \<Rightarrow> if meta_crud_status (entry_with_meta m) = Deleted then ms = [] else crud_path fetch b ms
        | None \<Rightarrow> ms = [])"

definition kept_headers :: "GetEntryOptions \<Rightarrow> EntryWithMetaAndHeader \<Rightarrow> ChainHeader list" where
  "kept_headers options m = (if geo_headers options then meta_headers m else [])"

definition result_item :: "hasher \<Rightarrow> GetEntryOptions \<Rightarrow> EntryWithMetaAndHeader \<Rightarrow> GetEntryResultItem" where
  "result_item H options m = GetEntryResultItem_new H (Some (entry_with_meta m, kept_headers options m))"

definition link_map :: "hasher \<Rightarrow> EntryWithMetaAndHeader list \<Rightarrow> (Address, Address) fmap \<Rightarrow> (Address, Address) fmap" where
  "link_map H = fold (\<lambda>m links. case maybe_link_update_delete (entry_with_meta m) of
       Some b \<Rightarrow> fmupd (entry_address H (meta_entry (entry_with_meta m))) b links
     | None \<Rightarrow> links)"

text \<open>The answer for a history, by kind of request.\<close>

definition history_answer :: "hasher \<Rightarrow> GetEntryOptions \<Rightarrow> EntryWithMetaAndHeader list \<Rightarrow> GetEntryResult" where
  "history_answer H options ms =
     (case geo_status_request options of
        StatusInitial \<Rightarrow> SingleResult (if ms = [] then GetEntryResultItem_new H None else result_item H options (hd ms))
      | StatusLatest \<Rightarrow>
          SingleResult (if ms = [] \<or> meta_crud_status (entry_with_meta (last ms)) = Deleted
                        then GetEntryResultItem_new H None else result_item H options (last ms))
      | StatusAll \<Rightarrow>
          HistoryResult \<lparr> items = map (result_item H options) ms, crud_links = link_map H ms fmempty \<rparr>)"

lemma history_all:
  assumes "geo_status_request options = StatusAll" and "crud_path fetch a ms"
  shows "get_entry_history H fetch options (HistoryResult h) a
    = Some (Returns (Ok (HistoryResult \<lparr> items = items h @ map (result_item H options) ms,
                                           crud_links = link_map H ms (crud_links h) \<rparr>)))"
  using assms(2)
proof (induction ms arbitrary: a h)
  case Nil
  then show ?case
    by (subst get_entry_history.simps) (simp add: run_bind_simps link_map_def)
next
  case (Cons m ms)
  then show ?case
    by (subst get_entry_history.simps)
       (auto simp: run_bind_simps assms(1) Let_def EntryHistory_push_def result_item_def kept_headers_def
         link_map_def split: option.splits if_splits)
qed

lemma history_latest:
  assumes "geo_status_request options = StatusLatest" and "crud_path fetch a ms" and "ms \<noteq> []"
  shows "get_entry_history H fetch options (SingleResult i) a
    = Some (Returns (Ok (SingleResult
        (if meta_crud_status (entry_with_meta (last ms)) = Deleted
         then GetEntryResultItem_new H None else result_item H options (last ms)))))"
  using assms(2,3)
proof (induction ms arbitrary: a i)
  case (Cons m ms)
  show ?case
  proof (cases "ms = []")
    case True
    then show ?thesis
      using Cons.prems(1)
      by (subst get_entry_history.simps)
         (auto simp: run_bind_simps assms(1) Let_def result_item_def kept_headers_def
           get_entry_history.simps [of _ _ _ "SingleResult _"] split: option.splits if_splits)
  next
    case False
    then show ?thesis
      using Cons
      by (subst get_entry_history.simps)
         (auto simp: run_bind_simps assms(1) Let_def split: option.splits if_splits)
  qed
qed simp

lemma history_initial:
  assumes "geo_status_request options = StatusInitial" and "crud_path fetch a ms"
  shows "get_entry_history H fetch options (SingleResult (GetEntryResultItem_new H None)) a
    = Some (Returns (Ok (history_answer H options ms)))"
  using assms(2)
  by (subst get_entry_history.simps; cases ms)
     (auto simp: run_bind_simps assms(1) Let_def history_answer_def result_item_def kept_headers_def)

lemma history_of_path:
  assumes "crud_path fetch a ms"
  shows "get_entry_history H fetch options (GetEntryResult_new H (geo_status_request options) None) a
    = Some (Returns (Ok (history_answer H options ms)))"
proof (cases "geo_status_request options")
  case StatusInitial
  then show ?thesis using history_initial [OF StatusInitial assms] by simp
next
  case StatusLatest
  show ?thesis
  proof (cases "ms = []")
    case True
    then show ?thesis
      using assms by (subst get_entry_history.simps) (simp add: run_bind_simps StatusLatest history_answer_def)
  next
    case False
    then show ?thesis
      using history_latest [OF StatusLatest assms] by (simp add: StatusLatest history_answer_def)
  qed
next
  case StatusAll
  then show ?thesis
    using history_all [OF StatusAll assms, of H EntryHistory_new]
    by (simp add: EntryHistory_new_def history_answer_def)
qed

text \<open>A set of addresses whose entries are all superseded within the set.\<close>

definition superseded_within ::
  "(Address \<Rightarrow> EntryWithMetaAndHeader option HcResult run) \<Rightarrow> Address set \<Rightarrow> bool" where
  "superseded_within fetch A \<longleftrightarrow> (\<forall>a\<in>A. \<exists>m b. fetch a = Some (Returns (Ok (Some m)))
     \<and> meta_crud_status (entry_with_meta m) \<noteq> Deleted
     \<and> maybe_link_update_delete (entry_with_meta m) = Some b \<and> b \<in> A)"

lemma history_returns_outside:
  assumes "get_entry_history H fetch options r a = Some y"
  shows "superseded_within fetch A \<Longrightarrow> geo_status_request options \<noteq> StatusInitial \<Longrightarrow> a \<notin> A"
  using assms
proof (induction H fetch options r a y rule: get_entry_history.raw_induct [rotated, consumes 1])
  case (1 get_history H fetch options r a y)
  show ?case
  proof
    assume "a \<in> A"
    then obtain m b where "fetch a = Some (Returns (Ok (Some m)))" "b \<in> A"
      "meta_crud_status (entry_with_meta m) \<noteq> Deleted" "maybe_link_update_delete (entry_with_meta m) = Some b"
      using 1(3) by (auto simp: superseded_within_def)
    then show False
      using 1 by (auto simp: run_bind_simps Let_def split: if_splits)
  qed
qed

lemma history_diverges:
  assumes "superseded_within fetch A" "geo_status_request options \<noteq> StatusInitial" "a \<in> A"
  shows "get_entry_history H fetch options r a = None"
  using history_returns_outside [of H fetch options r a _ A] assms by fastforce

section \<open>Properties\<close>


text \<open>
  C35.  The loop does not notice a cycle of updates: when every entry of a set of addresses is superseded by
  another one of the set, a request for the latest version or for the history of one of them never returns.
  Such a cycle is what an update back to an earlier content makes.
\<close>

theorem update_cycle_never_returns:
  assumes "superseded_within (\<lambda>a. get_entry_with_meta_workflow net x a (geo_timeout (gea_options args))) A"
    and "gea_address args \<in> A" and "geo_status_request (gea_options args) \<noteq> StatusInitial"
  shows "get_entry_result_workflow net x args = None"
  unfolding get_entry_result_workflow_def using assms by (intro history_diverges)

section \<open>Witnesses\<close>

definition version_hasher :: hasher where
  "version_hasher = \<lparr> entry_hash = (\<lambda>e. case e of Entry.App _ v \<Rightarrow> v | _ \<Rightarrow> ''?''),
     header_hash = (\<lambda>h. CHR ''h'' # hdr_entry_address h), aspect_hash = (\<lambda>_. ''a'') \<rparr>"

definition version_instance ::
  "(Lib3hClientProtocol list, (Address, Content) fmap, EntityAttributeValueIndex list) instance_ops" where
  "version_instance = sample_instance\<lparr> io_hasher := version_hasher \<rparr>"

definition version_header :: "string \<Rightarrow> Address option \<Rightarrow> ChainHeader" where
  "version_header v l = ChainHeader_new (EntryType.App ''post'') v [] None None l 1"

text \<open>The version \<open>v\<close> of a post, as an update of \<open>l\<close> if there is one, is held.\<close>

definition hold_version ::
  "string \<times> Address option \<Rightarrow> (Address, Content) fmap \<times> EntityAttributeValueIndex list
     \<Rightarrow> (Address, Content) fmap \<times> EntityAttributeValueIndex list" where
  "hold_version = (\<lambda>(v, l) st.
     (let entry = Entry.App ''post'' v; header = version_header v l;
          hold = (\<lambda>asp st. snd (hold_in_storage version_hasher map_cas log_eav st asp));
          st' = hold (EntryAspect.Content entry header) st
      in if l = None then st' else hold (EntryAspect.Update entry header) st'))"

definition version_context ::
  "(string \<times> Address option) list
     \<Rightarrow> (Lib3hClientProtocol list, (Address, Content) fmap, EntityAttributeValueIndex list) Context" where
  "version_context vs =
     (let (cas, eav) = fold hold_version vs (fmempty, [])
      in \<lparr> ctx_ops = version_instance, ctx_state = State_new ''me'', ctx_cas = cas, ctx_eav = eav,
           ctx_agent_id = \<lparr> nick = ''me'', pub_sign_key = ''me'' \<rparr> \<rparr>)"

lemmas version_simps =
  version_context_def hold_version_def version_header_def version_hasher_def version_instance_def
  sample_instance_def log_eav_def ChainHeader_new_def State_new_def AgentState_new_def
  get_entry_with_meta_workflow_def get_entry_with_meta_def get_entry_from_dht_def get_entry_crud_meta_from_dht_def
  crud_link_query_def crud_status_query_def crud_status_of_def context_get_headers_def get_headers_def header_query_def
  fetch_eavi_def add_eavi_def get_entry_def get_raw_def reduce_store_entry_inner_def reduce_update_entry_inner_def
  add_header_for_entry_def add_entry_def add_header_def create_crud_status_eav_def create_crud_link_eav_def
  crud_status_from_str_def map_filter_def iter_collect.simps Let_def

definition latest_args :: "Address \<Rightarrow> GetEntryArgs" where
  "latest_args a = \<lparr> gea_address = a, gea_options = GetEntryOptions_default DEFAULT_TIMEOUT \<rparr>"


theorem update_cycle_never_returns_witness:
  "get_entry_result_workflow (\<lambda>_ _. Err ValidationPending)
     (version_context [(''A'', None), (''B'', Some ''A''), (''A'', Some ''B'')]) (latest_args ''A'') = None"
proof -
  have "superseded_within (\<lambda>a. get_entry_with_meta_workflow (\<lambda>_ _. Err ValidationPending)
          (version_context [(''A'', None), (''B'', Some ''A''), (''A'', Some ''B'')]) a
          (geo_timeout (gea_options (latest_args ''A'')))) {''A'', ''B''}"
    by (simp add: superseded_within_def version_simps latest_args_def)
  from update_cycle_never_returns [OF this] show ?thesis
    by (simp add: latest_args_def GetEntryOptions_default_def)
qed

end
