(* ===== verification/Zome_Calls.thy ===== *)
theory Zome_Calls
  imports Nucleus
begin

text \<open>
  \<open>crates/core/src/nucleus/actions/call_zome_function.rs\<close> and the lookup of entries on
  the agent's chain from \<open>get_entry.rs\<close>: which zome calls are allowed, and how the
  calls, their futures, their threads and the nucleus work together.  Signature
  verification (\<open>verify\<close>, which can fail) and the base 64 encoding are parameters.
\<close>

section \<open>Which calls are allowed\<close>

definition get_entry_from_agent_chain ::
  "'c cas_ops \<Rightarrow> 'c \<Rightarrow> AgentState \<Rightarrow> Address \<Rightarrow> Entry option HcResult run" where
  "get_entry_from_agent_chain ops cas s address =
     run_bind (iter_find ops cas (\<lambda>h. hdr_entry_address h = address) (agent_top_chain_header s)) (\<lambda>r.
       Some (Returns (case r of None \<Rightarrow> Ok None | Some _ \<Rightarrow> get_entry ops cas address)))"

definition get_grant :: "'c cas_ops \<Rightarrow> 'c \<Rightarrow> AgentState \<Rightarrow> Address \<Rightarrow> CapTokenGrant option run" where
  "get_grant ops cas s address =
     run_bind (get_entry_from_agent_chain ops cas s address) (\<lambda>r.
       Some (Returns (case r of
         Inr (Some (Entry.CapTokenGrant grant)) \<Rightarrow> Some grant
       | _ \<Rightarrow> None)))"

definition is_token_the_agent :: "AgentId \<Rightarrow> CapabilityRequest \<Rightarrow> bool" where
  "is_token_the_agent agent_id request \<longleftrightarrow> pub_sign_key agent_id = cap_token request"

definition encode_call_data_for_signing :: "(string \<Rightarrow> string) \<Rightarrow> string \<Rightarrow> JsonString \<Rightarrow> string" where
  "encode_call_data_for_signing encode fn parameters = encode (fn @ '':'' @ parameters)"

type_synonym verifier = "Provenance \<Rightarrow> string \<Rightarrow> bool HcResult"

definition verify_call_sig ::
  "(string \<Rightarrow> string) \<Rightarrow> verifier \<Rightarrow> Provenance \<Rightarrow> string \<Rightarrow> JsonString \<Rightarrow> bool outcome" where
  "verify_call_sig encode verify provenance fn parameters =
     expect_ok ''called `Result::unwrap()` on an `Err` value''
       (verify provenance (encode_call_data_for_signing encode fn parameters))"

definition make_call_sig ::
  "(string \<Rightarrow> string) \<Rightarrow> (string \<Rightarrow> string HcResult) \<Rightarrow> string \<Rightarrow> JsonString \<Rightarrow> Signature" where
  "make_call_sig encode sign fn parameters =
     (case sign (encode_call_data_for_signing encode fn parameters) of
        Inr sig \<Rightarrow> sig
      | Inl _ \<Rightarrow> ''badsig'')"

definition make_cap_request_for_call ::
  "(string \<Rightarrow> string) \<Rightarrow> (string \<Rightarrow> string HcResult) \<Rightarrow> AgentId \<Rightarrow> Address \<Rightarrow> string \<Rightarrow> JsonString
     \<Rightarrow> CapabilityRequest" where
  "make_cap_request_for_call encode sign agent_id tok fn parameters =
     \<lparr> cap_token = tok, cap_provenance = (pub_sign_key agent_id, make_call_sig encode sign fn parameters) \<rparr>"

definition verify_grant ::
  "hasher \<Rightarrow> (string \<Rightarrow> string) \<Rightarrow> verifier \<Rightarrow> CapTokenGrant \<Rightarrow> ZomeFnCall \<Rightarrow> bool outcome" where
  "verify_grant H encode verify grant fn_call =
     (case map_of (grant_functions grant) (zome_name fn_call) of
        None \<Rightarrow> Returns False
      | Some zome_grants \<Rightarrow>
          if fn_name fn_call \<notin> set zome_grants then Returns False
          else if grant_token H grant \<noteq> cap_token (cap fn_call) then Returns False
          else outcome_bind
                 (verify_call_sig encode verify (cap_provenance (cap fn_call)) (fn_name fn_call)
                    (call_parameters fn_call)) (\<lambda>ok.
               if \<not> ok then Returns False
               else (case grant_cap_type grant of
                       CapabilityType.Public \<Rightarrow> Returns True
                     | Transferable \<Rightarrow> Returns True
                     | Assigned \<Rightarrow>
                         outcome_bind (expect ''called `Option::unwrap()` on a `None` value'' (assignees grant))
                           (\<lambda>as. Returns (Provenance_source (cap_provenance (cap fn_call)) \<in> set as)))))"

definition check_capability ::
  "hasher \<Rightarrow> (string \<Rightarrow> string) \<Rightarrow> verifier \<Rightarrow> 'c cas_ops \<Rightarrow> 'c \<Rightarrow> AgentState \<Rightarrow> ZomeFnCall \<Rightarrow> bool run" where
  "check_capability H encode verify ops cas s fn_call =
     run_bind (get_grant ops cas s (cap_token (cap fn_call))) (\<lambda>g.
       Some (case g of
               None \<Rightarrow> Returns False
             | Some grant \<Rightarrow> verify_grant H encode verify grant fn_call))"

definition find_call_code :: "NucleusState option \<Rightarrow> ZomeFnCall \<Rightarrow> (string \<times> u8 list) HcResult" where
  "find_call_code state fn_call =
     and_then (ok_or (ErrorGeneric ''Context not initialized'') state) (\<lambda>nucleus.
     and_then (ok_or DnaMissing (nucleus_dna nucleus)) (\<lambda>dna.
     and_then (map_err Dna_error (get_zome dna (zome_name fn_call))) (\<lambda>zome.
     and_then (map_err Dna_error (get_function_with_zome_name dna (zome_name fn_call) (fn_name fn_call))) (\<lambda>_.
       Ok (dna_name dna, code zome)))))"

definition validate_call ::
  "hasher \<Rightarrow> (string \<Rightarrow> string) \<Rightarrow> verifier \<Rightarrow> 'c cas_ops \<Rightarrow> 'c \<Rightarrow> AgentId \<Rightarrow> NucleusState option \<Rightarrow> AgentState
     \<Rightarrow> ZomeFnCall \<Rightarrow> (string \<times> u8 list) HcResult run" where
  "validate_call H encode verify ops cas agent_id state s fn_call =
     (case find_call_code state fn_call of
        Inl e \<Rightarrow> Some (Returns (Err e))
      | Inr found \<Rightarrow>
          run_bind (check_capability H encode verify ops cas s fn_call) (\<lambda>granted.
            if granted then Some (Returns (Ok found))
            else if is_token_the_agent agent_id (cap fn_call)
            then Some (outcome_bind
                   (verify_call_sig encode verify (cap_provenance (cap fn_call)) (fn_name fn_call)
                      (call_parameters fn_call)) (\<lambda>ok.
                   Returns (if ok then Ok found else Err CapabilityCheckFailed)))
            else Some (Returns (Err CapabilityCheckFailed))))"

section \<open>Futures, threads and the action channel\<close>

record CallResultFuture =
  zome_call :: ZomeFnCall
  call_spawned :: bool

text \<open>
  One poll: what the future returns (nothing when it is pending), the future afterwards,
  the actions it dispatches and the call it starts a thread for.  \<open>err\<close> is the error of
  the action channel and \<open>state\<close> the nucleus, if the state can be read.
\<close>

definition call_result_poll ::
  "HolochainError option \<Rightarrow> NucleusState option \<Rightarrow> CallResultFuture
     \<Rightarrow> ZomeFnResult option \<times> CallResultFuture \<times> Action list \<times> ZomeFnCall option" where
  "call_result_poll err state f =
     (case err of
        Some e \<Rightarrow> (Some (Err e), f, [], None)
      | None \<Rightarrow>
          (case state of
             None \<Rightarrow> (None, f, [], None)
           | Some nucleus \<Rightarrow>
               if call_spawned f
               then (case zome_call_result nucleus (zome_call f) of
                       Some result \<Rightarrow> (Some result, f, [ClearZomeFunctionCall (zome_call f)], None)
                     | None \<Rightarrow> (None, f, [], None))
               else if zome_call f |\<in>| running_zome_calls nucleus
               then (None, f\<lparr> call_spawned := True \<rparr>, [], Some (zome_call f))
               else (None, f, [], None)))"

record CallSystem =
  cs_nucleus :: NucleusState
  cs_channel :: "Action list"
  cs_futures :: "CallResultFuture list"
  cs_threads :: "ZomeFnCall set"
  cs_seen :: "ZomeFnCall set"

text \<open>
  The steps: a validated call with a fresh id is submitted; a future is polled; a
  thread ends and sends its result; the instance takes an action from the channel.
  Actions that do not concern zome calls come from elsewhere at any time.
\<close>

fun call_action :: "Action \<Rightarrow> bool" where
  "call_action (QueueZomeFunctionCall _) \<longleftrightarrow> True"
| "call_action (ReturnZomeFunctionResult _) \<longleftrightarrow> True"
| "call_action (ClearZomeFunctionCall _) \<longleftrightarrow> True"
| "call_action _ \<longleftrightarrow> False"

inductive call_step :: "CallSystem \<Rightarrow> CallSystem \<Rightarrow> bool" where
  submit: "c \<notin> cs_seen s \<Longrightarrow>
    call_step s (s\<lparr> cs_channel := cs_channel s @ [QueueZomeFunctionCall c],
                    cs_futures := cs_futures s @ [\<lparr> zome_call = c, call_spawned = False \<rparr>],
                    cs_seen := insert c (cs_seen s) \<rparr>)"
| poll_pending: "cs_futures s = fs @ f # gs \<Longrightarrow>
    call_result_poll None (Some (cs_nucleus s)) f = (None, f', acts, spawn) \<Longrightarrow>
    call_step s (s\<lparr> cs_channel := cs_channel s @ acts, cs_futures := fs @ f' # gs,
                    cs_threads := cs_threads s \<union> set_option spawn \<rparr>)"
| poll_ready: "cs_futures s = fs @ f # gs \<Longrightarrow>
    call_result_poll None (Some (cs_nucleus s)) f = (Some r, f', acts, spawn) \<Longrightarrow>
    call_step s (s\<lparr> cs_channel := cs_channel s @ acts, cs_futures := fs @ gs \<rparr>)"
| finish: "c \<in> cs_threads s \<Longrightarrow>
    call_step s (s\<lparr> cs_threads := cs_threads s - {c},
                    cs_channel := cs_channel s @
                      [ReturnZomeFunctionResult \<lparr> response_call = c, response_result = r \<rparr>] \<rparr>)"
| other: "\<not> call_action a \<Longrightarrow> call_step s (s\<lparr> cs_channel := cs_channel s @ [a] \<rparr>)"
| reduce: "cs_channel s = a # as \<Longrightarrow>
    call_step s (s\<lparr> cs_channel := as, cs_nucleus := nucleus_reduce a (cs_nucleus s) \<rparr>)"

definition call_system_new :: CallSystem where
  "call_system_new =
     \<lparr> cs_nucleus = NucleusState_new, cs_channel = [], cs_futures = [], cs_threads = {}, cs_seen = {} \<rparr>"

inductive call_reachable :: "CallSystem \<Rightarrow> bool" where
  init: "call_reachable call_system_new"
| step: "call_reachable s \<Longrightarrow> call_step s s' \<Longrightarrow> call_reachable s'"

section \<open>Where a call is\<close>

fun queue_of :: "Action \<Rightarrow> ZomeFnCall option" where
  "queue_of (QueueZomeFunctionCall c) = Some c"
| "queue_of _ = None"

fun return_of :: "Action \<Rightarrow> ZomeFnCall option" where
  "return_of (ReturnZomeFunctionResult r) = Some (response_call r)"
| "return_of _ = None"

fun clear_of :: "Action \<Rightarrow> ZomeFnCall option" where
  "clear_of (ClearZomeFunctionCall c) = Some c"
| "clear_of _ = None"

abbreviation queueing :: "CallSystem \<Rightarrow> ZomeFnCall list" where
  "queueing s \<equiv> List.map_filter queue_of (cs_channel s)"

abbreviation returning :: "CallSystem \<Rightarrow> ZomeFnCall list" where
  "returning s \<equiv> List.map_filter return_of (cs_channel s)"

abbreviation clearing :: "CallSystem \<Rightarrow> ZomeFnCall list" where
  "clearing s \<equiv> List.map_filter clear_of (cs_channel s)"

abbreviation waiting :: "CallSystem \<Rightarrow> ZomeFnCall list" where
  "waiting s \<equiv> queueing s @ queued_zome_calls (cs_nucleus s)"

abbreviation running :: "CallSystem \<Rightarrow> ZomeFnCall set" where
  "running s \<equiv> fset (running_zome_calls (cs_nucleus s))"

abbreviation answered :: "CallSystem \<Rightarrow> ZomeFnCall set" where
  "answered s \<equiv> fmdom' (zome_call_results (cs_nucleus s))"

abbreviation future_calls :: "CallSystem \<Rightarrow> ZomeFnCall list" where
  "future_calls s \<equiv> map zome_call (cs_futures s)"

definition calls_apart :: "CallSystem \<Rightarrow> bool" where
  "calls_apart s \<longleftrightarrow>
     distinct (waiting s) \<and> set (waiting s) \<inter> running s = {}
     \<and> distinct (returning s) \<and> set (returning s) \<subseteq> running s
     \<and> cs_threads s \<subseteq> running s \<and> cs_threads s \<inter> set (returning s) = {}
     \<and> answered s \<inter> (set (waiting s) \<union> running s) = {}
     \<and> set (clearing s) \<inter> (set (waiting s) \<union> running s) = {}"

text \<open>
  A future that has started its thread finds its call busy or answered; one that has not
  finds it waiting or running, and nobody busy with it.
\<close>

definition future_ok ::
  "ZomeFnCall set \<Rightarrow> ZomeFnCall set \<Rightarrow> ZomeFnCall set \<Rightarrow> CallResultFuture \<Rightarrow> bool" where
  "future_ok open busy answers f \<longleftrightarrow>
     (if call_spawned f then zome_call f \<in> busy \<union> answers
      else zome_call f \<in> open \<and> zome_call f \<notin> busy)"

abbreviation open_calls :: "CallSystem \<Rightarrow> ZomeFnCall set" where
  "open_calls s \<equiv> set (waiting s) \<union> running s"

abbreviation busy_calls :: "CallSystem \<Rightarrow> ZomeFnCall set" where
  "busy_calls s \<equiv> cs_threads s \<union> set (returning s)"

definition futures_ok :: "CallSystem \<Rightarrow> bool" where
  "futures_ok s \<longleftrightarrow>
     distinct (future_calls s) \<and> set (clearing s) \<inter> set (future_calls s) = {}
     \<and> list_all (future_ok (open_calls s) (busy_calls s) (answered s)) (cs_futures s)"

lemma futures_ok_cong:
  assumes "list_all (future_ok P B D) fs"
    and "\<And>c. c \<in> zome_call ` set fs \<Longrightarrow> (c \<in> P \<longrightarrow> c \<in> P') \<and> (c \<in> B \<longleftrightarrow> c \<in> B') \<and> (c \<in> D \<longrightarrow> c \<in> D')"
  shows "list_all (future_ok P' B' D') fs"
proof -
  have "future_ok P' B' D' f" if "f \<in> set fs" for f
    using assms(1) assms(2) [of "zome_call f"] that
    by (auto simp: list_all_iff future_ok_def split: if_splits)
  then show ?thesis by (simp add: list_all_iff)
qed

definition all_seen :: "CallSystem \<Rightarrow> bool" where
  "all_seen s \<longleftrightarrow>
     set (waiting s) \<union> running s \<union> answered s \<union> set (clearing s) \<union> set (future_calls s) \<subseteq> cs_seen s"

definition slots_ok :: "NucleusState \<Rightarrow> bool" where
  "slots_ok n \<longleftrightarrow>
     fcard (running_zome_calls n) \<le> MAX_ZOME_CALLS
     \<and> (queued_zome_calls n \<noteq> [] \<longrightarrow> fcard (running_zome_calls n) = MAX_ZOME_CALLS)"

definition call_inv :: "CallSystem \<Rightarrow> bool" where
  "call_inv s \<longleftrightarrow> calls_apart s \<and> futures_ok s \<and> all_seen s \<and> slots_ok (cs_nucleus s)"

lemmas call_inv_defs = call_inv_def calls_apart_def futures_ok_def all_seen_def

lemma map_filter_append [simp]: "List.map_filter f (xs @ ys) = List.map_filter f xs @ List.map_filter f ys"
  by (induction xs) (auto simp: map_filter_simps split: option.splits)

lemma set_map_filter: "set (List.map_filter f xs) = {y. \<exists>x \<in> set xs. f x = Some y}"
  by (induction xs) (auto simp: map_filter_simps split: option.splits)

lemma queue_of_iff: "queue_of a = Some c \<longleftrightarrow> a = QueueZomeFunctionCall c"
  by (cases a) auto

lemma call_inv_new: "call_inv call_system_new"
  by (simp add: call_inv_defs slots_ok_def call_system_new_def NucleusState_new_def map_filter_simps
      fcard_fempty)

lemma other_action: "\<not> call_action a \<Longrightarrow> queue_of a = None \<and> return_of a = None \<and> clear_of a = None"
  by (cases a) simp_all

lemma nucleus_other:
  "\<not> call_action a \<Longrightarrow>
     queued_zome_calls (nucleus_reduce a n) = queued_zome_calls n
     \<and> running_zome_calls (nucleus_reduce a n) = running_zome_calls n
     \<and> zome_call_results (nucleus_reduce a n) = zome_call_results n"
  by (cases a)
     (simp_all add: nucleus_reduce_def reduce_initialize_chain_def reduce_return_initialization_result_def
       reduce_trace_invoke_hdk_function_def reduce_trace_return_hdk_function_def
       split: NucleusStatus.split sum.split option.split)

lemma call_inv_submit:
  assumes "call_inv s" "c \<notin> cs_seen s"
  shows "call_inv (s\<lparr> cs_channel := cs_channel s @ [QueueZomeFunctionCall c],
                      cs_futures := cs_futures s @ [\<lparr> zome_call = c, call_spawned = False \<rparr>],
                      cs_seen := insert c (cs_seen s) \<rparr>)" (is "call_inv ?s")
proof -
  have seen: "set (waiting s) \<subseteq> cs_seen s" "running s \<subseteq> cs_seen s" "answered s \<subseteq> cs_seen s"
    "set (clearing s) \<subseteq> cs_seen s" "set (future_calls s) \<subseteq> cs_seen s"
    "busy_calls s \<subseteq> cs_seen s"
    using assms(1) by (auto simp: call_inv_defs)
  have "list_all (future_ok (open_calls ?s) (busy_calls ?s) (answered ?s)) (cs_futures s)"
    by (rule futures_ok_cong [of "open_calls s" "busy_calls s" "answered s"])
       (use assms(1) in \<open>auto simp: call_inv_def futures_ok_def map_filter_simps\<close>)
  moreover have "future_ok (open_calls ?s) (busy_calls ?s) (answered ?s) \<lparr> zome_call = c, call_spawned = False \<rparr>"
    using seen(6) assms(2) by (auto simp: future_ok_def map_filter_simps)
  moreover have "calls_apart ?s"
    using assms seen unfolding call_inv_def calls_apart_def by (auto simp: map_filter_simps)
  ultimately show ?thesis
    using assms seen
    by (auto simp: call_inv_def futures_ok_def all_seen_def map_filter_simps)
qed

lemma call_inv_other:
  "call_inv s \<Longrightarrow> \<not> call_action a \<Longrightarrow> call_inv (s\<lparr> cs_channel := cs_channel s @ [a] \<rparr>)"
  using other_action [of a] by (simp add: call_inv_defs map_filter_simps)

lemma call_inv_finish:
  assumes "call_inv s" "c \<in> cs_threads s"
  shows "call_inv (s\<lparr> cs_threads := cs_threads s - {c},
                      cs_channel := cs_channel s @
                        [ReturnZomeFunctionResult \<lparr> response_call = c, response_result = r \<rparr>] \<rparr>)"
    (is "call_inv ?s")
proof -
  have busy: "busy_calls ?s = busy_calls s" using assms(2) by (auto simp: map_filter_simps)
  have "calls_apart ?s"
    using assms unfolding call_inv_def calls_apart_def by (auto simp: map_filter_simps)
  with assms(1) show ?thesis
    unfolding call_inv_def futures_ok_def busy by (simp add: all_seen_def map_filter_simps)
qed

lemma call_inv_poll_pending:
  assumes inv: "call_inv s" and fs: "cs_futures s = fs @ f # gs"
    and poll: "call_result_poll None (Some (cs_nucleus s)) f = (None, f', acts, spawn)"
  shows "call_inv (s\<lparr> cs_channel := cs_channel s @ acts, cs_futures := fs @ f' # gs,
                      cs_threads := cs_threads s \<union> set_option spawn \<rparr>)" (is "call_inv ?s")
proof -
  consider (idle) "f' = f" "acts = []" "spawn = None"
    | (spawn) "\<not> call_spawned f" "zome_call f |\<in>| running_zome_calls (cs_nucleus s)"
        "f' = f\<lparr> call_spawned := True \<rparr>" "acts = []" "spawn = Some (zome_call f)"
    using poll by (auto simp: call_result_poll_def split: option.splits if_splits)
  then show ?thesis
  proof cases
    case idle
    then have "?s = s" using fs by simp
    with inv show ?thesis by simp
  next
    case spawn
    have f: "zome_call f \<notin> busy_calls s" "x \<in> set fs \<union> set gs \<Longrightarrow> zome_call x \<noteq> zome_call f" for x
      using inv fs spawn(1) by (auto simp: call_inv_def futures_ok_def future_ok_def) (metis imageI)+
    have "list_all (future_ok (open_calls ?s) (busy_calls ?s) (answered ?s)) (fs @ gs)"
      by (rule futures_ok_cong [of "open_calls s" "busy_calls s" "answered s"])
         (use inv fs f(2) spawn in \<open>auto simp: call_inv_def futures_ok_def\<close>)
    moreover have "future_ok (open_calls ?s) (busy_calls ?s) (answered ?s) f'"
      using spawn by (simp add: future_ok_def)
    moreover have "calls_apart ?s"
      using inv spawn f(1) unfolding call_inv_def calls_apart_def by simp
    ultimately show ?thesis
      using inv fs spawn by (simp add: call_inv_def futures_ok_def all_seen_def)
  qed
qed

lemma call_inv_poll_ready:
  assumes inv: "call_inv s" and fs: "cs_futures s = fs @ f # gs"
    and poll: "call_result_poll None (Some (cs_nucleus s)) f = (Some r, f', acts, spawn)"
  shows "call_inv (s\<lparr> cs_channel := cs_channel s @ acts, cs_futures := fs @ gs \<rparr>)" (is "call_inv ?s")
proof -
  from poll have acts: "acts = [ClearZomeFunctionCall (zome_call f)]" and ans: "zome_call f \<in> answered s"
    by (auto simp: call_result_poll_def zome_call_result_def fmlookup_dom'_iff
        split: option.splits if_splits)
  have "zome_call f \<notin> zome_call ` (set fs \<union> set gs)"
    using inv fs by (auto simp: call_inv_def futures_ok_def)
  then have "futures_ok ?s"
    using inv fs acts unfolding call_inv_def futures_ok_def by (simp add: map_filter_simps)
  moreover have "calls_apart ?s"
    using inv acts ans unfolding call_inv_def calls_apart_def by (simp add: map_filter_simps) blast
  ultimately show ?thesis
    using inv fs acts by (simp add: call_inv_def all_seen_def map_filter_simps)
qed

text \<open>What the reducers of calls do to the three fields.\<close>

lemma queue_fields:
  "queued_zome_calls (reduce_queue_zome_function_call c n) =
     (if fcard (running_zome_calls n) < MAX_ZOME_CALLS then queued_zome_calls n else queued_zome_calls n @ [c])"
  "running_zome_calls (reduce_queue_zome_function_call c n) =
     (if fcard (running_zome_calls n) < MAX_ZOME_CALLS then finsert c (running_zome_calls n)
      else running_zome_calls n)"
  "zome_call_results (reduce_queue_zome_function_call c n) = zome_call_results n"
  by (simp_all add: reduce_queue_zome_function_call_def)

lemma return_fields:
  "queued_zome_calls (reduce_return_zome_function_result r n) = tl (queued_zome_calls n)"
  "running_zome_calls (reduce_return_zome_function_result r n) =
     (case queued_zome_calls n of
        [] \<Rightarrow> running_zome_calls n |-| {|response_call r|}
      | q # _ \<Rightarrow> finsert q (running_zome_calls n |-| {|response_call r|}))"
  "zome_call_results (reduce_return_zome_function_result r n) =
     fmupd (response_call r) (response_result r) (zome_call_results n)"
  by (simp_all add: reduce_return_zome_function_result_def Let_def split: list.split)

lemma clear_fields:
  "queued_zome_calls (reduce_clear_zome_function_call c n) = filter (\<lambda>d. d \<noteq> c) (queued_zome_calls n)"
  "running_zome_calls (reduce_clear_zome_function_call c n) = running_zome_calls n |-| {|c|}"
  "zome_call_results (reduce_clear_zome_function_call c n) = fmdrop c (zome_call_results n)"
  by (simp_all add: reduce_clear_zome_function_call_def)

lemma slots_queue: "slots_ok n \<Longrightarrow> slots_ok (reduce_queue_zome_function_call c n)"
  by (auto simp: slots_ok_def queue_fields fcard_finsert_if)

lemma slots_return:
  assumes "slots_ok n" "response_call r |\<in>| running_zome_calls n"
    and "set (queued_zome_calls n) \<inter> fset (running_zome_calls n) = {}"
  shows "slots_ok (reduce_return_zome_function_result r n)"
proof (cases "queued_zome_calls n")
  case Nil
  have "fcard (running_zome_calls n |-| {|response_call r|}) \<le> fcard (running_zome_calls n)"
    by (rule fcard_mono) auto
  with Nil assms(1) show ?thesis by (simp add: slots_ok_def return_fields)
next
  case (Cons q qs)
  let ?R = "running_zome_calls n"
  have "fcard (finsert q (?R |-| {|response_call r|})) = fcard ?R"
    using assms(2,3) Cons fcard_Suc_fminus1 [OF assms(2)] by (auto simp: fcard_finsert_if)
  with assms(1) Cons show ?thesis by (simp add: slots_ok_def return_fields)
qed

lemma slots_clear:
  "slots_ok n \<Longrightarrow> c |\<notin>| running_zome_calls n \<Longrightarrow> slots_ok (reduce_clear_zome_function_call c n)"
  by (auto simp: slots_ok_def clear_fields)

lemma call_inv_queue:
  assumes "call_inv s" "cs_channel s = QueueZomeFunctionCall c # as"
  shows "call_inv (s\<lparr> cs_channel := as, cs_nucleus := reduce_queue_zome_function_call c (cs_nucleus s) \<rparr>)"
    (is "call_inv ?s")
proof -
  have ch: "queueing s = c # queueing ?s" "returning s = returning ?s" "clearing s = clearing ?s"
    using assms(2) by (simp_all add: map_filter_simps)
  have same: "open_calls ?s = open_calls s" "answered ?s = answered s" "running s \<subseteq> running ?s"
    using ch by (auto simp: queue_fields)
  have "calls_apart ?s"
    using assms(1) ch same unfolding call_inv_def calls_apart_def by (auto simp: queue_fields)
  moreover have "futures_ok ?s"
    using assms(1) ch same unfolding call_inv_def futures_ok_def by simp
  moreover have "all_seen ?s"
    using assms(1) ch same unfolding call_inv_def all_seen_def by simp
  ultimately show ?thesis
    using assms(1) by (simp add: call_inv_def slots_queue)
qed

lemma call_inv_return:
  assumes "call_inv s" "cs_channel s = ReturnZomeFunctionResult r # as"
    and s': "s' = s\<lparr> cs_channel := as, cs_nucleus := reduce_return_zome_function_result r (cs_nucleus s) \<rparr>"
  shows "call_inv s'"
proof -
  let ?c = "response_call r"
  have ch: "queueing s' = queueing s" "returning s = ?c # returning s'" "clearing s' = clearing s"
    and same: "cs_threads s' = cs_threads s" "cs_futures s' = cs_futures s" "cs_seen s' = cs_seen s"
    using assms(2) by (simp_all add: s' map_filter_simps)
  have apart: "calls_apart s" using assms(1) by (simp add: call_inv_def)
  have c: "?c \<in> running s" "?c \<notin> set (waiting s)" "?c \<notin> set (returning s')" "?c \<notin> cs_threads s"
    using apart ch(2) unfolding calls_apart_def by auto
  have sets: "open_calls s' = open_calls s - {?c}" "answered s' = insert ?c (answered s)"
    "busy_calls s = insert ?c (busy_calls s')"
    using c ch same by (auto simp: s' return_fields fmlookup_dom'_iff split: list.splits)
  have run: "running s - {?c} \<subseteq> running s'" "set (waiting s') \<subseteq> set (waiting s)"
    "set (waiting s') \<inter> running s' = {}" "distinct (waiting s')"
    using apart ch(1) unfolding calls_apart_def
    by (cases "queued_zome_calls (cs_nucleus s)"; auto simp: s' return_fields)+
  have ret: "distinct (returning s')" "set (returning s') \<subseteq> running s" "cs_threads s \<subseteq> running s"
    "cs_threads s \<inter> set (returning s) = {}" "answered s \<inter> open_calls s = {}"
    "set (clearing s) \<inter> open_calls s = {}"
    using apart ch(2) unfolding calls_apart_def by auto
  have "calls_apart s'"
    unfolding calls_apart_def ch(3) same(1) sets(1,2)
  proof (intro conjI)
    show "set (returning s') \<subseteq> running s'" using ret(2) c(3) run(1) by blast
    show "cs_threads s \<subseteq> running s'" using ret(3) c(4) run(1) by blast
    show "cs_threads s \<inter> set (returning s') = {}" using ret(4) ch(2) by auto
    show "insert ?c (answered s) \<inter> (open_calls s - {?c}) = {}" using ret(5) by blast
    show "set (clearing s) \<inter> (open_calls s - {?c}) = {}" using ret(6) by blast
  qed (use run ret in simp_all)
  moreover have "list_all (future_ok (open_calls s') (busy_calls s') (answered s')) (cs_futures s)"
  proof -
    have "future_ok (open_calls s') (busy_calls s') (answered s') f"
      if "future_ok (open_calls s) (busy_calls s) (answered s) f" for f
      using that unfolding future_ok_def sets by (auto split: if_splits)
    with assms(1) show ?thesis by (simp add: call_inv_def futures_ok_def list_all_iff)
  qed
  moreover have "all_seen s'"
  proof -
    have "open_calls s' \<union> answered s' \<subseteq> open_calls s \<union> answered s" using c(1) unfolding sets by blast
    with assms(1) show ?thesis unfolding call_inv_def all_seen_def ch(3) same by blast
  qed
  moreover have "slots_ok (cs_nucleus s')"
    using assms(1) c by (auto simp: s' call_inv_def calls_apart_def intro!: slots_return)
  ultimately show ?thesis
    using assms(1) unfolding call_inv_def futures_ok_def ch(3) same by blast
qed

lemma call_inv_clear:
  assumes "call_inv s" "cs_channel s = ClearZomeFunctionCall c # as"
  shows "call_inv (s\<lparr> cs_channel := as, cs_nucleus := reduce_clear_zome_function_call c (cs_nucleus s) \<rparr>)"
    (is "call_inv ?s")
proof -
  have ch: "queueing s = queueing ?s" "returning s = returning ?s" "clearing s = c # clearing ?s"
    using assms(2) by (simp_all add: map_filter_simps)
  have c: "c \<notin> set (waiting s)" "c \<notin> running s" "c \<notin> set (future_calls s)"
    using assms(1) ch(3) by (auto simp: call_inv_defs)
  have "filter (\<lambda>d. d \<noteq> c) (queued_zome_calls (cs_nucleus s)) = queued_zome_calls (cs_nucleus s)"
    using c(1) by (auto intro: filter_True)
  with c(2) have sets: "waiting ?s = waiting s" "running ?s = running s" "answered ?s = answered s - {c}"
    using ch by (auto simp: clear_fields)
  have "list_all (future_ok (open_calls ?s) (busy_calls ?s) (answered ?s)) (cs_futures s)"
    by (rule futures_ok_cong [of "open_calls s" "busy_calls s" "answered s"])
       (use assms(1) c(3) ch(2) sets in \<open>auto simp: call_inv_def futures_ok_def\<close>)
  moreover have "slots_ok (cs_nucleus ?s)"
    using assms(1) c(2) by (simp add: call_inv_def slots_clear)
  moreover have "calls_apart ?s"
    using assms(1) sets ch unfolding call_inv_def calls_apart_def by simp blast
  ultimately show ?thesis
    using assms(1) sets ch unfolding call_inv_def futures_ok_def all_seen_def by simp blast
qed

lemma call_inv_reduce:
  assumes inv: "call_inv s" and ch: "cs_channel s = a # as"
  shows "call_inv (s\<lparr> cs_channel := as, cs_nucleus := nucleus_reduce a (cs_nucleus s) \<rparr>)"
proof (cases "call_action a")
  case True
  then show ?thesis
    using call_inv_queue [OF inv] call_inv_return [OF inv _ refl] call_inv_clear [OF inv] ch
    by (cases a rule: call_action.cases) (simp_all add: nucleus_reduce_def)
next
  case False
  with inv ch show ?thesis
    using other_action [OF False] nucleus_other [OF False, of "cs_nucleus s"]
    by (simp add: call_inv_defs slots_ok_def map_filter_simps)
qed

lemma call_inv_step: "call_step s s' \<Longrightarrow> call_inv s \<Longrightarrow> call_inv s'"
  by (induction rule: call_step.induct)
     (auto intro: call_inv_submit call_inv_poll_pending call_inv_poll_ready call_inv_finish
       call_inv_other call_inv_reduce)

lemma reachable_call_inv: "call_reachable s \<Longrightarrow> call_inv s"
  by (induction rule: call_reachable.induct) (auto intro: call_inv_new call_inv_step)

section \<open>Properties\<close>

text \<open>
  C11.  However submissions, polls, thread ends and reductions interleave, at most
  \<open>MAX_ZOME_CALLS\<close> zome calls run at a time, only running calls have a thread, and a
  call waits in the queue only while that many are running.
\<close>

theorem zome_call_limit:
  assumes "call_reachable s"
  shows "fcard (running_zome_calls (cs_nucleus s)) \<le> MAX_ZOME_CALLS
         \<and> cs_threads s \<subseteq> fset (running_zome_calls (cs_nucleus s))
         \<and> (queued_zome_calls (cs_nucleus s) = []
            \<or> fcard (running_zome_calls (cs_nucleus s)) = MAX_ZOME_CALLS)"
  using reachable_call_inv [OF assms] unfolding call_inv_def slots_ok_def calls_apart_def by blast

text \<open>
  C12.  No zome call is lost and none runs twice: as long as its future is pending, a call
  is on its way into the nucleus, waits in its queue, may be started, runs in its
  thread, has its result on the way, or has its result; and until its future has
  started it, no thread runs it and no result of it is on the way.
\<close>

theorem zome_call_not_lost:
  assumes "call_reachable s" and "f \<in> set (cs_futures s)"
  shows "if call_spawned f
         then zome_call f \<in> cs_threads s
              \<or> zome_call f \<in> set (List.map_filter return_of (cs_channel s))
              \<or> zome_call_result (cs_nucleus s) (zome_call f) \<noteq> None
         else zome_call f \<notin> cs_threads s \<union> set (List.map_filter return_of (cs_channel s))
              \<and> (QueueZomeFunctionCall (zome_call f) \<in> set (cs_channel s)
                 \<or> zome_call f \<in> set (queued_zome_calls (cs_nucleus s))
                 \<or> zome_call f |\<in>| running_zome_calls (cs_nucleus s))"
proof -
  have "future_ok (open_calls s) (busy_calls s) (answered s) f"
    using reachable_call_inv [OF assms(1)] assms(2)
    unfolding call_inv_def futures_ok_def by (simp add: list_all_iff)
  moreover have "c \<in> set (queueing s) \<Longrightarrow> QueueZomeFunctionCall c \<in> set (cs_channel s)" for c
    by (simp add: set_map_filter queue_of_iff)
  ultimately show ?thesis
    by (auto simp: future_ok_def zome_call_result_def fmlookup_dom'_iff split: if_splits)
qed

definition sample_call :: ZomeFnCall where
  "sample_call =
     \<lparr> call_id = 1, zome_name = ''blog'', cap = \<lparr> cap_token = ''t'', cap_provenance = (''a'', ''s'') \<rparr>,
       fn_name = ''f'', call_parameters = ''{}'' \<rparr>"

definition sample_run :: CallSystem where
  "sample_run =
     call_system_new\<lparr> cs_nucleus := NucleusState_new\<lparr> running_zome_calls := {|sample_call|} \<rparr>,
       cs_futures := [\<lparr> zome_call = sample_call, call_spawned = True \<rparr>],
       cs_threads := {sample_call}, cs_seen := {sample_call} \<rparr>"

lemma sample_run_reachable: "call_reachable sample_run"
proof -
  let ?f = "\<lparr> zome_call = sample_call, call_spawned = False \<rparr>"
  let ?s1 = "call_system_new\<lparr> cs_channel := [QueueZomeFunctionCall sample_call], cs_futures := [?f],
      cs_seen := {sample_call} \<rparr>"
  let ?s2 = "?s1\<lparr> cs_channel := [], cs_nucleus := NucleusState_new\<lparr> running_zome_calls := {|sample_call|} \<rparr> \<rparr>"
  have "call_step call_system_new ?s1"
    using call_step.submit [of sample_call call_system_new] by (simp add: call_system_new_def)
  moreover have "call_step ?s1 ?s2"
    using call_step.reduce [of ?s1 "QueueZomeFunctionCall sample_call" "[]"]
    by (simp add: nucleus_reduce_def reduce_queue_zome_function_call_def call_system_new_def
        NucleusState_new_def MAX_ZOME_CALLS_def fcard_fempty)
  moreover have "call_step ?s2 sample_run"
    using call_step.poll_pending [of ?s2 "[]" ?f "[]" "?f\<lparr> call_spawned := True \<rparr>" "[]" "Some sample_call"]
    by (simp add: call_result_poll_def sample_run_def call_system_new_def)
  ultimately show ?thesis by (meson call_reachable.intros)
qed

theorem zome_call_limit_witness:
  "fcard (running_zome_calls (cs_nucleus sample_run)) \<le> 10"
  using zome_call_limit [OF sample_run_reachable] by (simp add: MAX_ZOME_CALLS_def)

theorem zome_call_not_lost_witness:
  "zome_call \<lparr> zome_call = sample_call, call_spawned = True \<rparr> \<in> cs_threads sample_run"
  using zome_call_not_lost [OF sample_run_reachable, of "\<lparr> zome_call = sample_call, call_spawned = True \<rparr>"]
  by (simp add: sample_run_def call_system_new_def NucleusState_new_def)

section \<open>Access control\<close>

text \<open>A grant covers a call when it names the function and, if it is assigned, the source of the call's provenance.\<close>

definition grant_names :: "CapTokenGrant \<Rightarrow> ZomeFnCall \<Rightarrow> bool" where
  "grant_names grant c \<longleftrightarrow>
     (\<exists>fns. map_of (grant_functions grant) (zome_name c) = Some fns \<and> fn_name c \<in> set fns)"

definition grant_covers :: "CapTokenGrant \<Rightarrow> ZomeFnCall \<Rightarrow> bool" where
  "grant_covers grant c \<longleftrightarrow> grant_names grant c
     \<and> (assignees grant = None \<or> assignees grant = Some []
        \<or> fst (cap_provenance (cap c)) \<in> set (the (assignees grant)))"

text \<open>The grant that the chain has under the token of a call.\<close>

definition grant_on_chain ::
  "hasher \<Rightarrow> 'c cas_ops \<Rightarrow> 'c \<Rightarrow> ChainHeader list \<Rightarrow> ZomeFnCall \<Rightarrow> CapTokenGrant \<Rightarrow> bool" where
  "grant_on_chain H ops cas hs c grant \<longleftrightarrow>
     cap_token (cap c) \<in> hdr_entry_address ` set hs
     \<and> get_entry ops cas (cap_token (cap c)) = Ok (Some (Entry.CapTokenGrant grant))
     \<and> grant_token H grant = cap_token (cap c)"

lemma get_grant_chain:
  assumes "chain_ok H ops cas hs" "agent_top_chain_header s = first_header hs"
  shows "get_grant ops cas s a = Some (Returns
    (if a \<in> hdr_entry_address ` set hs
     then (case get_entry ops cas a of Inr (Some (Entry.CapTokenGrant g)) \<Rightarrow> Some g | _ \<Rightarrow> None)
     else None))"
proof -
  have "find (\<lambda>h. hdr_entry_address h = a) hs = None \<longleftrightarrow> a \<notin> hdr_entry_address ` set hs"
    by (auto simp: find_None_iff)
  then show ?thesis
    by (auto simp: get_grant_def get_entry_from_agent_chain_def iter_find_chain [OF assms(1)] assms(2)
        split: option.splits sum.splits)
qed

lemma verify_grant_covers:
  "verify_grant H encode verify grant c =
     (case verify (cap_provenance (cap c)) (encode_call_data_for_signing encode (fn_name c) (call_parameters c)) of
        Inr b \<Rightarrow> Returns (b \<and> grant_token H grant = cap_token (cap c) \<and> grant_covers grant c)
      | Inl _ \<Rightarrow> if grant_token H grant = cap_token (cap c) \<and> grant_names grant c
                  then Panics ''called `Result::unwrap()` on an `Err` value'' else Returns False)"
  by (cases "assignees grant")
     (auto simp: verify_grant_def verify_call_sig_def grant_covers_def grant_names_def grant_cap_type_def
       Provenance_source_def split: option.split sum.split)

lemma check_capability_chain:
  assumes "chain_ok H ops cas hs" "agent_top_chain_header s = first_header hs"
  shows "check_capability H encode verify ops cas s c = Some
    (case verify (cap_provenance (cap c)) (encode_call_data_for_signing encode (fn_name c) (call_parameters c)) of
       Inr b \<Rightarrow> Returns (b \<and> (\<exists>grant. grant_on_chain H ops cas hs c grant \<and> grant_covers grant c))
     | Inl _ \<Rightarrow> if \<exists>grant. grant_on_chain H ops cas hs c grant \<and> grant_names grant c
                 then Panics ''called `Result::unwrap()` on an `Err` value'' else Returns False)"
  by (auto simp: check_capability_def get_grant_chain [OF assms] grant_on_chain_def verify_grant_covers
      split: sum.splits option.splits Entry.splits)

text \<open>
  C13.  The access control of zome calls, on a well-formed chain.  A call of a function that does not exist is refused with
  the error that says so.  Any other call is accepted exactly when the signature of its provenance verifies and
  either its token is the key of the agent, whoever the provenance names, or the agent's chain
  holds, under that token, a grant that names the function and, when it is an assigned grant, the source of the provenance;
  else it is refused.  If the verification itself fails, as it does for what is no key, the node panics when the token is
  the key of the agent or that of a grant on the chain that names the function.
\<close>

theorem validate_call_exact:
  assumes "chain_ok H ops cas hs" and "agent_top_chain_header s = first_header hs"
  shows "validate_call H encode verify ops cas agent_id state s c = Some
    (case find_call_code state c of
       Inl e \<Rightarrow> Returns (Err e)
     | Inr found \<Rightarrow>
         (case verify (cap_provenance (cap c)) (encode_call_data_for_signing encode (fn_name c) (call_parameters c)) of
            Inr b \<Rightarrow> Returns
              (if b \<and> (pub_sign_key agent_id = cap_token (cap c)
                       \<or> (\<exists>grant. grant_on_chain H ops cas hs c grant \<and> grant_covers grant c))
               then Ok found else Err CapabilityCheckFailed)
          | Inl _ \<Rightarrow>
              if pub_sign_key agent_id = cap_token (cap c)
                 \<or> (\<exists>grant. grant_on_chain H ops cas hs c grant \<and> grant_names grant c)
              then Panics ''called `Result::unwrap()` on an `Err` value''
              else Returns (Err CapabilityCheckFailed)))"
  by (auto simp: validate_call_def check_capability_chain [OF assms] verify_call_sig_def is_token_the_agent_def
      run_bind_simps split: sum.splits)

theorem validate_call_exact_witness:
  "let H = \<lparr> entry_hash = (\<lambda>_. ''t''), header_hash = (\<lambda>_. ''h''), aspect_hash = (\<lambda>_. ''a'') \<rparr>;
       grant = \<lparr> grant_id = ''g'', assignees = Some [''bob''], grant_functions = [(''blog'', [''f''])] \<rparr>;
       h = ChainHeader_new EntryType.CapTokenGrant ''t'' [] None None None 0;
       cas = fmap_of_list [(''h'', HeaderContent h), (''t'', entry_content (Entry.CapTokenGrant grant))];
       zome = \<lparr> zome_description = '''', entry_types = [], traits = [],
                fn_declarations = [\<lparr> fn_decl_name = ''f'', inputs = [], outputs = [] \<rparr>], code = [0], bridges = [] \<rparr>;
       dna = \<lparr> dna_name = ''d'', dna_description = '''', dna_version = '''', dna_uuid = '''',
               dna_spec_version = '''', dna_properties = ''{}'', zomes = [(''blog'', zome)] \<rparr>
   in validate_call H (\<lambda>x. x) (\<lambda>_ _. Ok True) map_cas cas \<lparr> nick = ''me'', pub_sign_key = ''k'' \<rparr>
        (Some (NucleusState_new\<lparr> nucleus_dna := Some dna \<rparr>)) (AgentState_new_with_top_chain_header (Some h) ''k'')
        sample_call = Some (Returns (Err CapabilityCheckFailed))"
proof -
  let ?H = "\<lparr> entry_hash = (\<lambda>_. ''t''), header_hash = (\<lambda>_. ''h''), aspect_hash = (\<lambda>_. ''a'') \<rparr>"
  let ?grant = "\<lparr> grant_id = ''g'', assignees = Some [''bob''], grant_functions = [(''blog'', [''f''])] \<rparr>"
  let ?h = "ChainHeader_new EntryType.CapTokenGrant ''t'' [] None None None 0"
  let ?cas = "fmap_of_list [(''h'', HeaderContent ?h), (''t'', entry_content (Entry.CapTokenGrant ?grant))]"
  have ok: "chain_ok ?H map_cas ?cas [?h]"
    by (simp add: chain_ok_def stored_headers_def ChainHeader_new_def)
  have no: "\<not> (\<exists>grant. grant_on_chain ?H map_cas ?cas [?h] sample_call grant \<and> grant_covers grant sample_call)"
    by (simp add: grant_on_chain_def get_entry_def get_raw_def grant_covers_def sample_call_def)
  let ?zome = "\<lparr> zome_description = '''', entry_types = [], traits = [],
      fn_declarations = [\<lparr> fn_decl_name = ''f'', inputs = [], outputs = [] \<rparr>], code = [0], bridges = [] \<rparr>"
  let ?dna = "\<lparr> dna_name = ''d'', dna_description = '''', dna_version = '''', dna_uuid = '''',
      dna_spec_version = '''', dna_properties = ''{}'', zomes = [(''blog'', ?zome)] \<rparr>"
  have found: "find_call_code (Some (NucleusState_new\<lparr> nucleus_dna := Some ?dna \<rparr>)) sample_call = Ok (''d'', [0])"
    by (simp add: find_call_code_def NucleusState_new_def sample_call_def get_zome_def
        get_function_with_zome_name_def get_function_def)
  have key: "cap_token (cap sample_call) = ''t''" by (simp add: sample_call_def)
  have top: "agent_top_chain_header (AgentState_new_with_top_chain_header (Some ?h) ''k'') = first_header [?h]"
    by (simp add: AgentState_new_with_top_chain_header_def first_header_def)
  show ?thesis
    unfolding Let_def validate_call_exact [OF ok top] found using no by (simp add: key)
qed

end
