(* ===== verification/Validation.thy ===== *)
theory Validation
  imports Get_Entry Zome_Calls
begin

text \<open>
  Validating entries: \<open>nucleus/validation\<close>, \<open>wasm_engine/callback/links_utils.rs\<close> and
  \<open>validation_package.rs\<close>, \<open>nucleus/actions/run_validation_callback.rs\<close> and
  \<open>build_validation_package.rs\<close>, and the data of \<open>core_types/src/validation.rs\<close>.  Running the WASM code
  of a zome, the check of a signature, the network and the JSON library are
  parameters, collected in a record.
\<close>

section \<open>Validation data\<close>

datatype EntryLifecycle = Chain | Dht | Meta

record ValidationData =
  vd_package :: ValidationPackage
  vd_lifecycle :: EntryLifecycle

definition validation_sources :: "ValidationData \<Rightarrow> Address list" where
  "validation_sources vd = map Provenance_source (hdr_provenances (vp_chain_header (vd_package vd)))"

datatype 'a EntryValidationData =
    Create 'a ValidationData
  | Modify 'a 'a ChainHeader ValidationData
  | Delete 'a ChainHeader ValidationData

datatype LinkValidationData =
    LinkAddData LinkData ValidationData
  | LinkRemoveData LinkData ValidationData

text \<open>The type that an entry's validation is about; only app entries have one.\<close>

fun app_entry_type_of :: "EntryType \<Rightarrow> AppEntryType HcResult" where
  "app_entry_type_of (EntryType.App t) = Ok t"
| "app_entry_type_of t = Err (ErrorGeneric ''Attempted to convert EntryType to an AppEntryType'')"

fun validation_entry_type :: "Entry EntryValidationData \<Rightarrow> EntryType HcResult" where
  "validation_entry_type (Create entry _) = map_ok EntryType.App (app_entry_type_of (entry_type entry))"
| "validation_entry_type (Delete old_entry _ _) = map_ok EntryType.App (app_entry_type_of (entry_type old_entry))"
| "validation_entry_type (Modify new_entry _ _ _) = map_ok EntryType.App (app_entry_type_of (entry_type new_entry))"

datatype LinkDirection = To | From

section \<open>Callbacks\<close>

text \<open>The parameters of a callback are the JSON text of one of these.\<close>

datatype CallbackArgs =
    PackageForEntryType AppEntryType
  | LinkValidationPackageArgs string string LinkDirection
  | AgentIdValidationArgs "AgentId EntryValidationData"
  | EntryValidationArgs "Entry EntryValidationData"
  | LinkValidationArgs string Link LinkDirection LinkValidationData
  | NoArgs

record CallbackFnCall =
  cb_zome_name :: string
  cb_fn_name :: string
  cb_parameters :: CallbackArgs

record env =
  env_net :: network
  env_author :: "ChainHeader \<Rightarrow> ValidationPackage option HcResult"
  env_run_dna :: "CallbackFnCall \<Rightarrow> JsonString HcResult"
  env_is_null :: "JsonString \<Rightarrow> bool"
  env_definition :: "JsonString \<Rightarrow> ValidationPackageDefinition option"
  env_verify :: verifier
  env_now :: SystemTime

datatype ValidationError =
    Fail string
  | UnresolvedDependencies "Address list"
  | NotImplemented
  | ValidationErrorOf HolochainError

type_synonym ValidationResult = "(unit, ValidationError) result"

fun error_from_validation :: "ValidationError \<Rightarrow> HolochainError" where
  "error_from_validation (Fail reason) = ValidationFailed reason"
| "error_from_validation (UnresolvedDependencies _) = ValidationFailed ''Missing dependencies''"
| "error_from_validation NotImplemented = HolochainError.NotImplemented ''Validation not implemented''"
| "error_from_validation (ValidationErrorOf e) = e"

definition run_validation_callback :: "env \<Rightarrow> CallbackFnCall \<Rightarrow> ValidationResult outcome" where
  "run_validation_callback v call =
     (case env_run_dna v call of
        Inr call_result \<Rightarrow> Returns (if env_is_null v call_result then Ok () else Err (Fail call_result))
      | Inl (RibosomeFailed msg) \<Rightarrow>
          if msg = ''Argument deserialization failed''
          then Returns (Err (ValidationErrorOf (ErrorGeneric ''JSON object does not match entry schema'')))
          else Panics msg
      | Inl e \<Rightarrow> Panics (error_string e))"

section \<open>Definitions of links\<close>

record LinkDefinitionPath =
  ldp_zome_name :: string
  ldp_entry_type_name :: string
  ldp_direction :: LinkDirection
  ldp_link_type :: string

text \<open>The first match in an entry type definition: the links to it come before those from it.\<close>

definition link_direction :: "string \<Rightarrow> EntryTypeDef \<Rightarrow> LinkDirection option" where
  "link_direction lt d =
     (if lt \<in> set (map to_link_type (links_to d)) then Some To
      else if lt \<in> set (map from_link_type (linked_from d)) then Some From
      else None)"

fun find_in_entry_types :: "string \<Rightarrow> string \<Rightarrow> (EntryType \<times> EntryTypeDef) list \<Rightarrow> LinkDefinitionPath option" where
  "find_in_entry_types lt zome [] = None"
| "find_in_entry_types lt zome ((t, d) # ts) =
     (case (t, link_direction lt d) of
        (EntryType.App entry_type_name, Some direction) \<Rightarrow>
          Some \<lparr> ldp_zome_name = zome, ldp_entry_type_name = entry_type_name, ldp_direction = direction,
                 ldp_link_type = lt \<rparr>
      | _ \<Rightarrow> find_in_entry_types lt zome ts)"

fun find_in_zomes :: "string \<Rightarrow> (string \<times> Zome) list \<Rightarrow> LinkDefinitionPath option" where
  "find_in_zomes lt [] = None"
| "find_in_zomes lt ((zome, z) # zs) =
     (case find_in_entry_types lt zome (entry_types z) of
        Some p \<Rightarrow> Some p
      | None \<Rightarrow> find_in_zomes lt zs)"

definition find_link_definition_by_type ::
  "('n, 'c, 'e) Context \<Rightarrow> string \<Rightarrow> LinkDefinitionPath HcResult outcome" where
  "find_link_definition_by_type x lt =
     outcome_bind (expect ''No DNA found?!'' (ctx_get_dna x)) (\<lambda>dna.
       Returns (ok_or (ErrorGeneric ''Unknown entry type'') (find_in_zomes lt (zomes dna))))"

definition get_latest ::
  "env \<Rightarrow> ('n, 'c, 'e) Context \<Rightarrow> string \<Rightarrow> Address \<Rightarrow> Entry HcResult run" where
  "get_latest v x what address =
     run_bind (get_entry_result_workflow (env_net v) x
         \<lparr> gea_address = address, gea_options = GetEntryOptions_default DEFAULT_TIMEOUT \<rparr>) (\<lambda>r.
       case r of
         Inl e \<Rightarrow> Some (Returns (Err e))
       | Inr result \<Rightarrow>
           if \<not> GetEntryResult_found result
           then Some (Returns (Err (ErrorGeneric (what @ '' for link not found''))))
           else run_bind (Some (expect ''called `Option::unwrap()` on a `None` value'' (GetEntryResult_latest result)))
                  (\<lambda>e. Some (Returns (Ok e))))"

definition get_link_entries :: "env \<Rightarrow> ('n, 'c, 'e) Context \<Rightarrow> Link \<Rightarrow> (Entry \<times> Entry) HcResult run" where
  "get_link_entries v x l =
     run_bind (get_latest v x ''Base'' (base l)) (\<lambda>r.
       case r of
         Inl e \<Rightarrow> Some (Returns (Err e))
       | Inr base_entry \<Rightarrow>
           run_bind (get_latest v x ''Target'' (target l)) (\<lambda>r.
             Some (Returns (map_ok (\<lambda>target_entry. (base_entry, target_entry)) r))))"

section \<open>Validators\<close>

definition validate_header_address :: "hasher \<Rightarrow> Entry \<Rightarrow> ChainHeader \<Rightarrow> ValidationResult" where
  "validate_header_address H entry header =
     (if entry_address H entry = hdr_entry_address header then Ok () else Err (Fail ''Wrong header for entry''))"

definition validate_provenance :: "verifier \<Rightarrow> ChainHeader \<Rightarrow> Provenance \<Rightarrow> ValidationResult" where
  "validate_provenance verify header provenance =
     (let msg = ''Signature of entry '' @ hdr_entry_address header @ '' from author '' @ Provenance_source provenance
      in case verify provenance (hdr_entry_address header) of
           Inl _ \<Rightarrow> Err (Fail (msg @ '' failed to verify public signing key. Key might be invalid.''))
         | Inr has_authored \<Rightarrow> if has_authored then Ok () else Err (Fail (msg @ '' invalid'')))"

definition validate_provenances :: "verifier \<Rightarrow> ValidationData \<Rightarrow> ValidationResult" where
  "validate_provenances verify vd =
     (let header = vp_chain_header (vd_package vd)
      in map_ok (\<lambda>_. ()) (collect_results (map (validate_provenance verify header) (hdr_provenances header))))"

definition validation_get_entry_with_header ::
  "env \<Rightarrow> ('n, 'c, 'e) Context \<Rightarrow> Address \<Rightarrow> (EntryWithMeta \<times> ChainHeader) HcResult run" where
  "validation_get_entry_with_header v x address =
     run_bind (get_entry_with_meta_workflow (env_net v) x address DEFAULT_TIMEOUT) (\<lambda>r.
       Some (Returns (
         and_then r (\<lambda>pair.
         and_then (ok_or (ErrorGeneric ''Could not get chain'') pair) (\<lambda>m.
           if meta_headers m = [] then Err (ErrorGeneric ''Could not get last entry from chain'')
           else Ok (entry_with_meta m, last (meta_headers m)))))))"

definition timeout_or :: "string \<Rightarrow> HolochainError \<Rightarrow> HolochainError" where
  "timeout_or what e =
     (case e of
        Timeout _ \<Rightarrow> e
      | _ \<Rightarrow> ErrorGeneric (''Could not find '' @ what @ '' Entry during validation, got err: '' @ error_string e))"

definition entry_to_validation_data ::
  "env \<Rightarrow> ('n, 'c, 'e) Context \<Rightarrow> Entry \<Rightarrow> Address option \<Rightarrow> ValidationData
     \<Rightarrow> Entry EntryValidationData HcResult run" where
  "entry_to_validation_data v x entry link_update vd =
     (case entry of
        Entry.App _ _ \<Rightarrow>
          (case link_update of
             Some address \<Rightarrow>
               run_bind (validation_get_entry_with_header v x address) (\<lambda>r.
                 Some (Returns (map_err (timeout_or ''App'')
                   (map_ok (\<lambda>(m, header). Modify entry (meta_entry m) header vd) r))))
           | None \<Rightarrow> Some (Returns (Ok (Create entry vd))))
      | Entry.Deletion deletion_address \<Rightarrow>
          run_bind (validation_get_entry_with_header v x deletion_address) (\<lambda>r.
            Some (Returns (map_err (timeout_or ''Delete'')
              (map_ok (\<lambda>(m, header). Delete (meta_entry m) header vd) r))))
      | Entry.CapTokenGrant _ \<Rightarrow> Some (Returns (Ok (Create entry vd)))
      | _ \<Rightarrow> Some (Returns (Err (HolochainError.NotImplemented ''Not implemented''))))"

definition dna_of :: "('n, 'c, 'e) Context \<Rightarrow> string \<Rightarrow> Dna run" where
  "dna_of x msg = Some (expect msg (ctx_get_dna x))"

definition validate_app_entry ::
  "env \<Rightarrow> ('n, 'c, 'e) Context \<Rightarrow> Entry \<Rightarrow> AppEntryType \<Rightarrow> Address option \<Rightarrow> ValidationData
     \<Rightarrow> ValidationResult run" where
  "validate_app_entry v x entry app_entry_type link_update vd =
     run_bind (dna_of x ''Callback called without DNA set!'') (\<lambda>dna.
     run_bind (Some (get_zome_name_for_app_entry_type dna app_entry_type)) (\<lambda>maybe_zome.
       case maybe_zome of
         None \<Rightarrow> Some (Returns (Err NotImplemented))
       | Some zome \<Rightarrow>
           (case (case link_update of
                    Some a \<Rightarrow> map_err (\<lambda>_. UnresolvedDependencies [a]) (map_ok (\<lambda>_. ()) (get_entry_from_dht x a))
                  | None \<Rightarrow> Ok ()) of
              Inl e \<Rightarrow> Some (Returns (Err e))
            | Inr _ \<Rightarrow>
                run_bind (entry_to_validation_data v x entry link_update vd) (\<lambda>r.
                  case r of
                    Inl e \<Rightarrow> Some (Returns (Err (ValidationErrorOf e)))
                  | Inr params \<Rightarrow>
                      Some (run_validation_callback v
                        \<lparr> cb_zome_name = zome, cb_fn_name = ''__hdk_validate_app_entry'',
                          cb_parameters = EntryValidationArgs params \<rparr>)))))"

definition validate_remove_entry ::
  "env \<Rightarrow> ('n, 'c, 'e) Context \<Rightarrow> Entry \<Rightarrow> Address \<Rightarrow> ValidationData \<Rightarrow> ValidationResult run" where
  "validate_remove_entry v x entry deletion_address vd =
     run_bind (dna_of x ''Callback called without DNA set'') (\<lambda>dna.
       case get_entry_from_dht x deletion_address of
         Inl _ \<Rightarrow> Some (Returns (Err (UnresolvedDependencies [deletion_address])))
       | Inr None \<Rightarrow> Some (Returns (Err (Fail ''Could not obtain entry for link_update_delte'')))
       | Inr (Some (Entry.App app_entry_type _)) \<Rightarrow>
           run_bind (Some (get_zome_name_for_app_entry_type dna app_entry_type)) (\<lambda>maybe_zome.
             case maybe_zome of
               None \<Rightarrow> Some (Returns (Err NotImplemented))
             | Some zome \<Rightarrow>
                 run_bind (entry_to_validation_data v x entry None vd) (\<lambda>r.
                   case r of
                     Inl e \<Rightarrow> Some (Returns (Err (Fail ''Could not get entry validation'')))
                   | Inr params \<Rightarrow>
                       Some (run_validation_callback v
                         \<lparr> cb_zome_name = zome, cb_fn_name = ''__hdk_validate_app_entry'',
                           cb_parameters = EntryValidationArgs params \<rparr>)))
       | Inr (Some _) \<Rightarrow> Some (Returns (Err (Fail ''Entry type should be App Type''))))"

fun outcome_map :: "('a \<Rightarrow> 'b outcome) \<Rightarrow> 'a list \<Rightarrow> 'b list outcome" where
  "outcome_map f [] = Returns []"
| "outcome_map f (x # xs) = outcome_bind (f x) (\<lambda>y. outcome_bind (outcome_map f xs) (\<lambda>ys. Returns (y # ys)))"

definition validate_agent_entry ::
  "env \<Rightarrow> ('n, 'c, 'e) Context \<Rightarrow> AgentId \<Rightarrow> ValidationData \<Rightarrow> ValidationResult run" where
  "validate_agent_entry v x agent_id vd =
     run_bind (dna_of x ''Callback called without DNA set!'') (\<lambda>dna.
     run_bind (Some (outcome_map (\<lambda>(zome, _). run_validation_callback v
         \<lparr> cb_zome_name = zome, cb_fn_name = ''__hdk_validate_agent_entry'',
           cb_parameters = AgentIdValidationArgs (Create agent_id vd) \<rparr>) (zomes dna))) (\<lambda>results.
       Some (Returns (if list_all (\<lambda>r. r = Ok ()) results then Ok ()
         else Err (ValidationErrorOf (ErrorGeneric ''Failed to validate agent ID on a zome''))))))"

datatype ValidationContext = Authoring | Holding

text \<open>The links to remove must be held already when the removal is to be held.\<close>

fun check_removed_links :: "('n, 'c, 'e) Context \<Rightarrow> Address list \<Rightarrow> ValidationResult" where
  "check_removed_links x [] = Ok ()"
| "check_removed_links x (l # ls) =
     (case get_entry_with_meta x l of
        Inl e \<Rightarrow> Err (ValidationErrorOf (ErrorGeneric (''Could not lookup LinkAdd locally: '' @ error_string e)))
      | Inr None \<Rightarrow> Err (UnresolvedDependencies [l])
      | Inr (Some _) \<Rightarrow> check_removed_links x ls)"

text \<open>The types that a link connects, by the definition on its path.\<close>

definition link_types :: "LinkDefinitionPath \<Rightarrow> EntryTypeDef \<Rightarrow> (string \<times> string) outcome" where
  "link_types p entry_def =
     (let msg = ''This is Some === find_link_definition_by_type is correct''
      in if ldp_direction p = To
         then outcome_bind (expect msg (find (\<lambda>l. to_link_type l = ldp_link_type p) (links_to entry_def))) (\<lambda>l.
                Returns (ldp_entry_type_name p, target_type l))
         else outcome_bind (expect msg (find (\<lambda>l. from_link_type l = ldp_link_type p) (linked_from entry_def))) (\<lambda>l.
                Returns (base_type l, ldp_entry_type_name p)))"

definition wrong_type :: "string \<Rightarrow> string \<Rightarrow> string \<Rightarrow> string \<Rightarrow> Entry \<Rightarrow> ValidationError" where
  "wrong_type what preposition lt defined e =
     Fail (''Wrong '' @ what @ '' type for link of type '' @ quoted lt @ ''. Found '' @ quoted defined
       @ '', but link is defined to link '' @ preposition @ '' '' @ quoted (entry_type_string (entry_type e)) @ ''s.'')"

definition link_call :: "LinkDefinitionPath \<Rightarrow> Link \<Rightarrow> LinkValidationData \<Rightarrow> CallbackFnCall" where
  "link_call p l lvd =
     \<lparr> cb_zome_name = ldp_zome_name p, cb_fn_name = ''__hdk_validate_link'',
       cb_parameters = LinkValidationArgs (ldp_entry_type_name p) l (ldp_direction p) lvd \<rparr>"

text \<open>The part of \<open>validate_link_entry\<close> that \<open>LinkAdd\<close> and \<open>LinkRemove\<close> entries share.\<close>

definition validate_link ::
  "env \<Rightarrow> ('n, 'c, 'e) Context \<Rightarrow> Link \<Rightarrow> LinkValidationData \<Rightarrow> ValidationResult run" where
  "validate_link v x l lvd =
     run_bind (get_link_entries v x l) (\<lambda>r.
       case r of
         Inl _ \<Rightarrow> Some (Returns (Err (UnresolvedDependencies [base l, target l])))
       | Inr (base_entry, target_entry) \<Rightarrow>
           run_bind (Some (find_link_definition_by_type x (link_type l))) (\<lambda>r.
             case r of
               Inl _ \<Rightarrow> Some (Returns (Err NotImplemented))
             | Inr link_def \<Rightarrow>
                 run_bind (dna_of x ''There has to be a DNA in the nucleus when trying to validate entries'') (\<lambda>dna.
                 run_bind (Some (get_entry_type_def dna (ldp_entry_type_name link_def))) (\<lambda>maybe_def.
                 run_bind (Some (expect ''This is Some === find_link_definition_by_type is correct'' maybe_def)) (\<lambda>entry_def.
                 run_bind (Some (link_types link_def entry_def)) (\<lambda>(defined_base, defined_target).
                   if entry_type_string (entry_type base_entry) \<noteq> defined_base
                   then Some (Returns (Err (wrong_type ''base'' ''from'' (link_type l) defined_base base_entry)))
                   else if entry_type_string (entry_type target_entry) \<noteq> defined_target
                   then Some (Returns (Err (wrong_type ''target'' ''to'' (link_type l) defined_target target_entry)))
                   else Some (run_validation_callback v (link_call link_def l lvd))))))))"

definition validate_link_entry ::
  "env \<Rightarrow> ('n, 'c, 'e) Context \<Rightarrow> Entry \<Rightarrow> ValidationData \<Rightarrow> ValidationContext \<Rightarrow> ValidationResult run" where
  "validate_link_entry v x entry vd vc =
     (case entry of
        Entry.LinkAdd link_add \<Rightarrow> validate_link v x (link_of link_add) (LinkAddData link_add vd)
      | Entry.LinkRemove link_remove links_to_remove \<Rightarrow>
          (case (if vc = Holding then check_removed_links x links_to_remove else Ok ()) of
             Inl e \<Rightarrow> Some (Returns (Err e))
           | Inr _ \<Rightarrow> validate_link v x (link_of link_remove) (LinkRemoveData link_remove vd))
      | _ \<Rightarrow> Some (Returns (Err (ValidationErrorOf (ErrorGeneric ''Could not extract link_add from entry'')))))"

text \<open>Headers that are not older than the entry are dropped from the package.\<close>

definition clean_validation_data :: "ValidationData \<Rightarrow> ValidationData" where
  "clean_validation_data vd =
     (let p = vd_package vd
      in vd\<lparr> vd_package := p\<lparr> source_chain_headers :=
               map_option (filter (\<lambda>h. hdr_timestamp h < hdr_timestamp (vp_chain_header p)))
                 (source_chain_headers p) \<rparr> \<rparr>)"

definition validate_entry ::
  "env \<Rightarrow> ('n, 'c, 'e) Context \<Rightarrow> Entry \<Rightarrow> Address option \<Rightarrow> ValidationData \<Rightarrow> ValidationContext
     \<Rightarrow> ValidationResult run" where
  "validate_entry v x entry link_update vd0 vc =
     (let vd = clean_validation_data vd0
      in case and_then (validate_header_address (io_hasher (ctx_ops x)) entry (vp_chain_header (vd_package vd)))
                (\<lambda>_. validate_provenances (env_verify v) vd) of
           Inl e \<Rightarrow> Some (Returns (Err e))
         | Inr _ \<Rightarrow>
             (case entry of
                Entry.Dna _ \<Rightarrow> Some (Returns (Ok ()))
              | Entry.App app_entry_type _ \<Rightarrow> validate_app_entry v x entry app_entry_type link_update vd
              | Entry.LinkAdd _ \<Rightarrow> validate_link_entry v x entry vd vc
              | Entry.LinkRemove _ _ \<Rightarrow> validate_link_entry v x entry vd vc
              | Entry.Deletion deletion_address \<Rightarrow> validate_remove_entry v x entry deletion_address vd
              | Entry.CapTokenGrant _ \<Rightarrow> Some (Returns (Ok ()))
              | Entry.AgentId agent_id \<Rightarrow> validate_agent_entry v x agent_id vd
              | Entry.ChainHeader _ \<Rightarrow> Some (Returns (Ok ()))
              | _ \<Rightarrow> Some (Returns (Err NotImplemented))))"

definition process_validation_err :: "ValidationError \<Rightarrow> HolochainError" where
  "process_validation_err err =
     (case err of
        UnresolvedDependencies _ \<Rightarrow> ValidationPending
      | ValidationErrorOf (Timeout _) \<Rightarrow> ValidationPending
      | _ \<Rightarrow> error_from_validation err)"

section \<open>Validation packages\<close>

datatype CallbackResult =
    CallbackPass
  | CallbackFail string
  | CallbackNotImplemented string
  | CallbackDefinition ValidationPackageDefinition
  | ReceiveResult string

definition parse_definition :: "env \<Rightarrow> JsonString \<Rightarrow> CallbackResult HcResult" where
  "parse_definition v result =
     (if env_is_null v result
      then Err (SerializationError ''__hdk_get_validation_package_for_entry_type returned empty result'')
      else (case env_definition v result of
              Some package \<Rightarrow> Ok (CallbackDefinition package)
            | None \<Rightarrow> Err (SerializationError ''validation_package result could not be deserialized as ValidationPackage'')))"

definition link_package_definition ::
  "env \<Rightarrow> ('n, 'c, 'e) Context \<Rightarrow> LinkData \<Rightarrow> CallbackResult HcResult outcome" where
  "link_package_definition v x link_data =
     outcome_bind (find_link_definition_by_type x (link_type (link_of link_data))) (\<lambda>r.
       Returns (and_then r (\<lambda>link_def.
         and_then (env_run_dna v
           \<lparr> cb_zome_name = ldp_zome_name link_def, cb_fn_name = ''__hdk_get_validation_package_for_link'',
             cb_parameters = LinkValidationPackageArgs (ldp_entry_type_name link_def) (ldp_link_type link_def)
               (ldp_direction link_def) \<rparr>) (parse_definition v))))"

text \<open>The definitions of the system types pass through their JSON text, which reads back as itself.\<close>

definition get_validation_package_definition ::
  "env \<Rightarrow> ('n, 'c, 'e) Context \<Rightarrow> Entry \<Rightarrow> CallbackResult HcResult outcome" where
  "get_validation_package_definition v x entry =
     outcome_bind (expect ''Callback called without DNA set!'' (ctx_get_dna x)) (\<lambda>dna.
       case entry of
         Entry.App app_entry_type _ \<Rightarrow>
           outcome_bind (get_zome_name_for_app_entry_type dna app_entry_type) (\<lambda>maybe_zome.
             case maybe_zome of
               None \<Rightarrow> Returns (Ok (CallbackNotImplemented ''get_validation_package_definition/1''))
             | Some zome \<Rightarrow>
                 Returns (and_then (env_run_dna v
                   \<lparr> cb_zome_name = zome, cb_fn_name = ''__hdk_get_validation_package_for_entry_type'',
                     cb_parameters = PackageForEntryType app_entry_type \<rparr>) (parse_definition v)))
       | Entry.LinkAdd link_add \<Rightarrow> link_package_definition v x link_add
       | Entry.LinkRemove link_remove _ \<Rightarrow> link_package_definition v x link_remove
       | Entry.Deletion _ \<Rightarrow> Returns (Ok (CallbackDefinition DefChainFull))
       | Entry.CapTokenGrant _ \<Rightarrow> Returns (Ok (CallbackDefinition DefEntry))
       | Entry.AgentId _ \<Rightarrow> Returns (Ok (CallbackDefinition DefEntry))
       | Entry.ChainHeader _ \<Rightarrow> Returns (Ok (CallbackDefinition DefEntry))
       | _ \<Rightarrow> Returns (Err (HolochainError.NotImplemented ''get_validation_package_definition/3'')))"

definition definition_of_callback :: "CallbackResult \<Rightarrow> ValidationPackageDefinition HcResult outcome" where
  "definition_of_callback r =
     (case r of
        CallbackFail msg \<Rightarrow> Returns (Err (ErrorGeneric msg))
      | CallbackDefinition d \<Rightarrow> Returns (Ok d)
      | CallbackNotImplemented reason \<Rightarrow>
          Returns (Err (ErrorGeneric (''ValidationPackage callback not implemented for ('' @ reason @ '')'')))
      | _ \<Rightarrow> Panics ''internal error: entered unreachable code'')"

definition package_definition ::
  "env \<Rightarrow> ('n, 'c, 'e) Context \<Rightarrow> Entry \<Rightarrow> ValidationPackageDefinition HcResult outcome" where
  "package_definition v x entry =
     outcome_bind (get_validation_package_definition v x entry) (\<lambda>r.
       case r of Inl e \<Rightarrow> Returns (Err e) | Inr c \<Rightarrow> definition_of_callback c)"

section \<open>What a valid entry is\<close>

lemma collect_results_units:
  "map_ok (\<lambda>_. ()) (collect_results rs) = Ok () \<longleftrightarrow> list_all (\<lambda>r. \<exists>u. r = Ok u) rs"
  by (induction rs) (auto simp: result_iffs)

lemma validate_provenance_Ok:
  "validate_provenance verify header p = Ok u \<longleftrightarrow> verify p (hdr_entry_address header) = Ok True"
  by (auto simp: validate_provenance_def Let_def split: sum.splits)

lemma validate_provenances_Ok:
  "validate_provenances verify vd = Ok u \<longleftrightarrow>
     list_all (\<lambda>p. verify p (hdr_entry_address (vp_chain_header (vd_package vd))) = Ok True)
       (hdr_provenances (vp_chain_header (vd_package vd)))"
  using collect_results_units [of "map (validate_provenance verify (vp_chain_header (vd_package vd)))
      (hdr_provenances (vp_chain_header (vd_package vd)))"]
  by (simp add: validate_provenances_def Let_def list_all_iff validate_provenance_Ok)

lemma clean_header [simp]:
  "vp_chain_header (vd_package (clean_validation_data vd)) = vp_chain_header (vd_package vd)"
  by (simp add: clean_validation_data_def Let_def)

definition accepts :: "env \<Rightarrow> CallbackFnCall \<Rightarrow> bool" where
  "accepts v call \<longleftrightarrow> (case env_run_dna v call of Inr s \<Rightarrow> env_is_null v s | Inl _ \<Rightarrow> False)"

lemma run_validation_callback_accepts:
  "run_validation_callback v call = Returns (Ok u) \<longleftrightarrow> accepts v call"
  by (auto simp: run_validation_callback_def accepts_def split: sum.splits HolochainError.splits if_splits)

lemma validate_entry_Ok:
  assumes "validate_entry v x entry l vd vc = Some (Returns (Ok u))"
  shows "entry_address (io_hasher (ctx_ops x)) entry = hdr_entry_address (vp_chain_header (vd_package vd))"
    and "list_all (\<lambda>p. env_verify v p (hdr_entry_address (vp_chain_header (vd_package vd))) = Ok True)
           (hdr_provenances (vp_chain_header (vd_package vd)))"
  using assms
  by (auto simp: validate_entry_def Let_def and_then_Ok_iff validate_header_address_def validate_provenances_Ok
      split: sum.splits if_splits)

text \<open>The zome that declares the type of an app entry accepts what it is asked about it.\<close>

definition app_accepted :: "env \<Rightarrow> ('n, 'c, 'e) Context \<Rightarrow> AppEntryType \<Rightarrow> Entry EntryValidationData \<Rightarrow> bool" where
  "app_accepted v x t question \<longleftrightarrow> (\<exists>dna zome. ctx_get_dna x = Some dna
     \<and> get_zome_name_for_app_entry_type dna t = Returns (Some zome)
     \<and> accepts v \<lparr> cb_zome_name = zome, cb_fn_name = ''__hdk_validate_app_entry'',
                     cb_parameters = EntryValidationArgs question \<rparr>)"

text \<open>An entry that is found at an address, in the local shard or on the network, with the last of its headers.\<close>

definition found_at :: "env \<Rightarrow> ('n, 'c, 'e) Context \<Rightarrow> Address \<Rightarrow> Entry \<Rightarrow> ChainHeader \<Rightarrow> bool" where
  "found_at v x a e h \<longleftrightarrow> (\<exists>m. get_entry_with_meta_workflow (env_net v) x a DEFAULT_TIMEOUT = Some (Returns (Ok (Some m)))
     \<and> meta_headers m \<noteq> [] \<and> e = meta_entry (entry_with_meta m) \<and> h = last (meta_headers m))"

lemma get_with_header_found:
  "validation_get_entry_with_header v x a = Some (Returns (Ok (m, h))) \<Longrightarrow> found_at v x a (meta_entry m) h"
  by (auto simp: validation_get_entry_with_header_def found_at_def and_then_Ok_iff ok_or_Ok_iff
      elim!: run_bind_ReturnsE split: if_splits)

lemma validate_app_entry_Ok:
  assumes "validate_app_entry v x (Entry.App t val) t l vd = Some (Returns (Ok u))"
  shows "case l of
      None \<Rightarrow> app_accepted v x t (Create (Entry.App t val) vd)
    | Some a \<Rightarrow> \<exists>old h. found_at v x a old h \<and> app_accepted v x t (Modify (Entry.App t val) old h vd)"
proof -
  obtain dna zome params where "ctx_get_dna x = Some dna" "get_zome_name_for_app_entry_type dna t = Returns (Some zome)"
    and params: "entry_to_validation_data v x (Entry.App t val) l vd = Some (Returns (Ok params))"
    and "accepts v \<lparr> cb_zome_name = zome, cb_fn_name = ''__hdk_validate_app_entry'', cb_parameters = EntryValidationArgs params \<rparr>"
    using assms unfolding validate_app_entry_def dna_of_def
    by (auto simp: run_validation_callback_accepts elim!: run_bind_ReturnsE split: option.splits sum.splits)
  then have acc: "app_accepted v x t params" unfolding app_accepted_def by blast
  show ?thesis
  proof (cases l)
    case None
    then show ?thesis using params acc by (simp add: entry_to_validation_data_def)
  next
    case (Some a)
    then obtain m h where "validation_get_entry_with_header v x a = Some (Returns (Ok (m, h)))"
      "params = Modify (Entry.App t val) (meta_entry m) h vd"
      using params by (auto simp: entry_to_validation_data_def result_iffs elim!: run_bind_ReturnsE)
    then show ?thesis using Some acc get_with_header_found by fastforce
  qed
qed

lemma validate_remove_entry_Ok:
  assumes "validate_remove_entry v x (Entry.Deletion a) a vd = Some (Returns (Ok u))"
  shows "\<exists>t val old h. get_entry_from_dht x a = Ok (Some (Entry.App t val)) \<and> found_at v x a old h
    \<and> app_accepted v x t (Delete old h vd)"
proof -
  obtain t val dna zome params where t: "get_entry_from_dht x a = Ok (Some (Entry.App t val))"
    and "ctx_get_dna x = Some dna" "get_zome_name_for_app_entry_type dna t = Returns (Some zome)"
    and params: "entry_to_validation_data v x (Entry.Deletion a) None vd = Some (Returns (Ok params))"
    and "accepts v \<lparr> cb_zome_name = zome, cb_fn_name = ''__hdk_validate_app_entry'', cb_parameters = EntryValidationArgs params \<rparr>"
    using assms unfolding validate_remove_entry_def dna_of_def
    by (auto simp: run_validation_callback_accepts elim!: run_bind_ReturnsE split: option.splits sum.splits Entry.splits)
  then have acc: "app_accepted v x t params" unfolding app_accepted_def by blast
  obtain m h where "validation_get_entry_with_header v x a = Some (Returns (Ok (m, h)))" "params = Delete (meta_entry m) h vd"
    using params by (auto simp: entry_to_validation_data_def result_iffs elim!: run_bind_ReturnsE)
  then show ?thesis using t acc get_with_header_found by blast
qed

text \<open>Every zome accepts an agent.\<close>

definition agent_accepted :: "env \<Rightarrow> ('n, 'c, 'e) Context \<Rightarrow> AgentId \<Rightarrow> ValidationData \<Rightarrow> bool" where
  "agent_accepted v x agent_id vd \<longleftrightarrow> (\<exists>dna. ctx_get_dna x = Some dna
     \<and> list_all (\<lambda>(zome, _). accepts v \<lparr> cb_zome_name = zome, cb_fn_name = ''__hdk_validate_agent_entry'',
          cb_parameters = AgentIdValidationArgs (Create agent_id vd) \<rparr>) (zomes dna))"

lemma outcome_map_Returns:
  "outcome_map f xs = Returns ys \<longleftrightarrow> list_all2 (\<lambda>x y. f x = Returns y) xs ys"
  by (induction xs arbitrary: ys) (auto simp: outcome_bind_Returns_iff list_all2_Cons1)

lemma validate_agent_entry_Ok:
  assumes "validate_agent_entry v x agent_id vd = Some (Returns (Ok u))"
  shows "agent_accepted v x agent_id vd"
proof -
  define call where "call = (\<lambda>(zome :: string, z :: Zome).
     \<lparr> cb_zome_name = zome, cb_fn_name = ''__hdk_validate_agent_entry'',
       cb_parameters = AgentIdValidationArgs (Create agent_id vd) \<rparr>)"
  have c: "(\<lambda>(zome, _). run_validation_callback v
         \<lparr> cb_zome_name = zome, cb_fn_name = ''__hdk_validate_agent_entry'',
           cb_parameters = AgentIdValidationArgs (Create agent_id vd) \<rparr>)
      = (\<lambda>z. run_validation_callback v (call z))"
    "(\<lambda>(zome, _). accepts v \<lparr> cb_zome_name = zome, cb_fn_name = ''__hdk_validate_agent_entry'',
          cb_parameters = AgentIdValidationArgs (Create agent_id vd) \<rparr>) = (\<lambda>z. accepts v (call z))"
    by (simp_all add: call_def fun_eq_iff)
  from assms obtain dna results where dna: "ctx_get_dna x = Some dna"
    and r: "list_all2 (\<lambda>z r. run_validation_callback v (call z) = Returns r) (zomes dna) results"
    and ok: "list_all (\<lambda>r. r = Ok ()) results"
    unfolding validate_agent_entry_def dna_of_def c
    by (auto simp: outcome_map_Returns elim!: run_bind_ReturnsE split: if_splits)
  then have "list_all (\<lambda>z. accepts v (call z)) (zomes dna)"
    by (auto simp: list_all2_conv_all_nth list_all_length run_validation_callback_accepts)
  with dna show ?thesis unfolding agent_accepted_def c by blast
qed

lemma check_removed_links_Ok:
  "check_removed_links x ls = Ok u \<longleftrightarrow> (\<forall>l\<in>set ls. \<exists>m. get_entry_with_meta x l = Ok (Some m))"
  by (induction ls) (auto split: sum.splits option.splits)

text \<open>
  A link connects the latest versions of its base and its target, which are of the types that its definition declares, and
  the zome of the definition accepts it.
\<close>

definition latest_at :: "env \<Rightarrow> ('n, 'c, 'e) Context \<Rightarrow> Address \<Rightarrow> Entry \<Rightarrow> bool" where
  "latest_at v x a e \<longleftrightarrow> (\<exists>r. get_entry_result_workflow (env_net v) x
       \<lparr> gea_address = a, gea_options = GetEntryOptions_default DEFAULT_TIMEOUT \<rparr> = Some (Returns (Ok r))
     \<and> GetEntryResult_found r \<and> GetEntryResult_latest r = Some e)"

definition link_accepted :: "env \<Rightarrow> ('n, 'c, 'e) Context \<Rightarrow> Link \<Rightarrow> LinkValidationData \<Rightarrow> bool" where
  "link_accepted v x l lvd \<longleftrightarrow> (\<exists>base_entry target_entry link_def dna d.
     latest_at v x (base l) base_entry \<and> latest_at v x (target l) target_entry
   \<and> ctx_get_dna x = Some dna \<and> find_in_zomes (link_type l) (zomes dna) = Some link_def
   \<and> get_entry_type_def dna (ldp_entry_type_name link_def) = Returns (Some d)
   \<and> link_types link_def d = Returns (entry_type_string (entry_type base_entry), entry_type_string (entry_type target_entry))
   \<and> accepts v \<lparr> cb_zome_name = ldp_zome_name link_def, cb_fn_name = ''__hdk_validate_link'',
                   cb_parameters = LinkValidationArgs (ldp_entry_type_name link_def) l (ldp_direction link_def) lvd \<rparr>)"

lemma get_latest_Ok: "get_latest v x what a = Some (Returns (Ok e)) \<Longrightarrow> latest_at v x a e"
  by (auto simp: get_latest_def latest_at_def elim!: run_bind_ReturnsE split: sum.splits if_splits option.splits)

lemma get_link_entries_Ok:
  "get_link_entries v x l = Some (Returns (Ok (b, t))) \<Longrightarrow> latest_at v x (base l) b \<and> latest_at v x (target l) t"
  by (auto simp: get_link_entries_def map_ok_Ok_iff elim!: run_bind_ReturnsE split: sum.splits dest!: get_latest_Ok)

lemma validate_link_Ok:
  assumes "validate_link v x l lvd = Some (Returns (Ok u))"
  shows "link_accepted v x l lvd"
proof -
  obtain base_entry target_entry link_def dna d where
    entries: "get_link_entries v x l = Some (Returns (Ok (base_entry, target_entry)))"
    and def: "find_link_definition_by_type x (link_type l) = Returns (Ok link_def)"
    and rest: "ctx_get_dna x = Some dna" "get_entry_type_def dna (ldp_entry_type_name link_def) = Returns (Some d)"
      "link_types link_def d = Returns (entry_type_string (entry_type base_entry), entry_type_string (entry_type target_entry))"
      "accepts v (link_call link_def l lvd)"
    using assms
    by (auto simp: validate_link_def dna_of_def run_validation_callback_accepts
        elim!: run_bind_ReturnsE split: option.splits sum.splits if_splits)
  have "find_in_zomes (link_type l) (zomes dna) = Some link_def"
    using def rest(1) by (simp add: find_link_definition_by_type_def)
  then show ?thesis
    using get_link_entries_Ok [OF entries] rest unfolding link_accepted_def link_call_def by blast
qed

section \<open>Where link definitions are found\<close>

lemma find_hit: "x \<in> set xs \<Longrightarrow> P x \<Longrightarrow> \<exists>y. find P xs = Some y"
  by (induction xs) auto

lemma link_direction_To:
  "link_direction lt d = Some To \<Longrightarrow> \<exists>l. find (\<lambda>l. to_link_type l = lt) (links_to d) = Some l"
  by (auto simp: link_direction_def intro: find_hit split: if_splits)

lemma link_direction_From:
  "link_direction lt d = Some From \<Longrightarrow> \<exists>l. find (\<lambda>l. from_link_type l = lt) (linked_from d) = Some l"
  by (auto simp: link_direction_def intro: find_hit split: if_splits)

lemma find_in_entry_types_Cons:
  "find_in_entry_types lt zome ((t, d) # ts) = Some p \<Longrightarrow>
     (t = EntryType.App (ldp_entry_type_name p) \<and> link_direction lt d = Some (ldp_direction p)
        \<and> ldp_zome_name p = zome \<and> ldp_link_type p = lt)
     \<or> find_in_entry_types lt zome ts = Some p"
  by (cases t; cases "link_direction lt d") auto

lemma find_in_entry_types_Some:
  "find_in_entry_types lt zome ts = Some p \<Longrightarrow>
     ldp_zome_name p = zome \<and> ldp_link_type p = lt
     \<and> (\<exists>d. (EntryType.App (ldp_entry_type_name p), d) \<in> set ts \<and> link_direction lt d = Some (ldp_direction p))"
proof (induction ts)
  case (Cons td ts)
  then show ?case
    using find_in_entry_types_Cons [of lt zome "fst td" "snd td" ts p] by (cases td) auto
qed simp

lemma find_in_zomes_Some:
  "find_in_zomes lt zs = Some p \<Longrightarrow> ldp_link_type p = lt
     \<and> (\<exists>z d. (ldp_zome_name p, z) \<in> set zs \<and> (EntryType.App (ldp_entry_type_name p), d) \<in> set (entry_types z)
        \<and> link_direction lt d = Some (ldp_direction p))"
proof (induction zs)
  case (Cons nz zs)
  obtain zome z where nz: "nz = (zome, z)" by fastforce
  show ?case
  proof (cases "find_in_entry_types lt zome (entry_types z)")
    case None
    then show ?thesis using Cons nz by auto
  next
    case (Some q)
    then show ?thesis using Cons.prems nz find_in_entry_types_Some [OF Some] by auto
  qed
qed simp

definition all_entry_types :: "Dna \<Rightarrow> (EntryType \<times> EntryTypeDef) list" where
  "all_entry_types dna = concat (map (\<lambda>(_, zome). entry_types zome) (zomes dna))"

lemma get_entry_type_def_all:
  "has_valid_app_name t = Returns True \<Longrightarrow>
     get_entry_type_def dna t = Returns (map_of (all_entry_types dna) (EntryType.App t))"
  by (simp add: get_entry_type_def_def all_entry_types_def find_key_map_of)

text \<open>
  Validating a link never runs into the \<open>expect\<close>s that say that the search for its definition is right, provided
  that no two zomes define the same entry type: the definition that was
  found by link type is found again by entry type, and its types are those that it declares.
\<close>

theorem link_definition_found_again:
  assumes "distinct (map fst (all_entry_types dna))"
    and "find_in_zomes lt (zomes dna) = Some p" and "has_valid_app_name (ldp_entry_type_name p) = Returns True"
  shows "\<exists>d. get_entry_type_def dna (ldp_entry_type_name p) = Returns (Some d)
    \<and> (case ldp_direction p of
         To \<Rightarrow> (\<exists>l\<in>set (links_to d). to_link_type l = lt \<and> link_types p d = Returns (ldp_entry_type_name p, target_type l))
       | From \<Rightarrow> (\<exists>l\<in>set (linked_from d). from_link_type l = lt
                    \<and> link_types p d = Returns (base_type l, ldp_entry_type_name p)))"
proof -
  obtain z d where zd: "(ldp_zome_name p, z) \<in> set (zomes dna)" "(EntryType.App (ldp_entry_type_name p), d) \<in> set (entry_types z)"
    and dir: "link_direction lt d = Some (ldp_direction p)" and lt: "ldp_link_type p = lt"
    using find_in_zomes_Some [OF assms(2)] by blast
  then have "(EntryType.App (ldp_entry_type_name p), d) \<in> set (all_entry_types dna)"
    by (force simp: all_entry_types_def)
  then have "get_entry_type_def dna (ldp_entry_type_name p) = Returns (Some d)"
    using assms(1,3) by (simp add: get_entry_type_def_all)
  moreover have "case ldp_direction p of
         To \<Rightarrow> (\<exists>l\<in>set (links_to d). to_link_type l = lt \<and> link_types p d = Returns (ldp_entry_type_name p, target_type l))
       | From \<Rightarrow> (\<exists>l\<in>set (linked_from d). from_link_type l = lt
                    \<and> link_types p d = Returns (base_type l, ldp_entry_type_name p))"
  proof (cases "ldp_direction p")
    case To
    then obtain l where l: "find (\<lambda>l. to_link_type l = lt) (links_to d) = Some l"
      using dir link_direction_To by auto
    then have "l \<in> set (links_to d)" "to_link_type l = lt" by (auto simp: find_Some_iff)
    then show ?thesis using To l lt by (auto simp: link_types_def intro!: bexI [of _ l])
  next
    case From
    then obtain l where l: "find (\<lambda>l. from_link_type l = lt) (linked_from d) = Some l"
      using dir link_direction_From by auto
    then have "l \<in> set (linked_from d)" "from_link_type l = lt" by (auto simp: find_Some_iff)
    then show ?thesis using From l lt by (auto simp: link_types_def intro!: bexI [of _ l])
  qed
  ultimately show ?thesis by blast
qed

section \<open>What validation guarantees\<close>


text \<open>
  Validation is put off, and tried again later, exactly when something is missing or the network was too slow;
  every other failure is final.
\<close>

theorem pending_iff_unresolved:
  "process_validation_err err = ValidationPending \<longleftrightarrow>
     (\<exists>deps. err = UnresolvedDependencies deps) \<or> (\<exists>m. err = ValidationErrorOf (Timeout m))
     \<or> err = ValidationErrorOf ValidationPending"
  by (cases err) (auto simp: process_validation_err_def split: HolochainError.splits)

section \<open>Witnesses\<close>

definition blog_zome :: Zome where
  "blog_zome =
     \<lparr> zome_description = '''',
       entry_types =
         [(EntryType.App ''post'', \<lparr> def_properties = '''', sharing = Sharing.Public,
             links_to = [\<lparr> target_type = ''post'', to_link_type = ''reply'' \<rparr>], linked_from = [] \<rparr>),
          (EntryType.App ''secret'', \<lparr> def_properties = '''', sharing = Sharing.Private,
             links_to = [], linked_from = [] \<rparr>)],
       traits = [], fn_declarations = [], code = [0], bridges = [] \<rparr>"

definition blog_dna :: Dna where
  "blog_dna = sample_dna\<lparr> zomes := [(''blog'', blog_zome)] \<rparr>"

definition blog_env :: env where
  "blog_env =
     \<lparr> env_net = (\<lambda>_ _. Err (Timeout ''timeout'')), env_author = (\<lambda>_. Err (Timeout ''timeout'')),
       env_run_dna = (\<lambda>_. Ok ''null''), env_is_null = (\<lambda>s. s = ''null''), env_definition = (\<lambda>_. None),
       env_verify = (\<lambda>p _. Ok (snd p = ''good'')), env_now = 7 \<rparr>"

definition blog_context ::
  "(string \<times> Address option) list
     \<Rightarrow> (Lib3hClientProtocol list, (Address, Content) fmap, EntityAttributeValueIndex list) Context" where
  "blog_context vs =
     (let x = version_context vs
      in x\<lparr> ctx_state := (ctx_state x)\<lparr> st_nucleus := NucleusState_new\<lparr> nucleus_dna := Some blog_dna \<rparr> \<rparr> \<rparr>)"

lemma blog_simps:
  "ctx_get_dna (blog_context vs) = Some blog_dna"
  "ctx_ops (blog_context vs) = version_instance"
  "zomes blog_dna = [(''blog'', blog_zome)]"
  by (simp_all add: blog_context_def version_context_def ctx_get_dna_def blog_dna_def Let_def split: prod.splits)

definition signed_header :: ChainHeader where
  "signed_header = ChainHeader_new (EntryType.App ''post'') ''A'' [(''me'', ''good'')] None None None 1"

lemma valid_app_names [simp]:
  "has_valid_app_name ''post'' = Returns True" "has_valid_app_name ''secret'' = Returns True"
  by (simp_all add: has_valid_app_name_def)


theorem link_definition_found_again_witness:
  "\<exists>d. get_entry_type_def blog_dna ''post'' = Returns (Some d)
     \<and> link_types \<lparr> ldp_zome_name = ''blog'', ldp_entry_type_name = ''post'', ldp_direction = To,
                    ldp_link_type = ''reply'' \<rparr> d = Returns (''post'', ''post'')"
proof -
  have "find_in_zomes ''reply'' (zomes blog_dna)
      = Some \<lparr> ldp_zome_name = ''blog'', ldp_entry_type_name = ''post'', ldp_direction = To, ldp_link_type = ''reply'' \<rparr>"
    by (simp add: blog_simps blog_zome_def link_direction_def)
  from link_definition_found_again [OF _ this] show ?thesis
    by (auto simp: all_entry_types_def blog_simps blog_zome_def get_entry_type_def_def)
qed

end
