(* ===== verification/Validation_Package.thy ===== *)
theory Validation_Package
  imports Validation
begin

text \<open>
  Getting hold of validation packages: \<open>nucleus/actions/build_validation_package.rs\<close> from the own chain,
  \<open>nucleus/validation/build_from_dht.rs\<close> from published headers, the order in which
  \<open>workflows/mod.rs\<close> tries them, and the answer to a request in \<open>respond_validation_package_request.rs\<close>.
\<close>

section \<open>From the own chain\<close>

definition all_chain_headers :: "('n, 'c, 'e) Context \<Rightarrow> ChainHeader list run" where
  "all_chain_headers x =
     run_bind (Some (expect ''there has to be a top'' (agent_top_chain_header (st_agent (ctx_state x))))) (\<lambda>top.
       iter_collect hdr_link (io_cas (ctx_ops x)) (ctx_cas x) (\<lambda>_. True) None (Some top))"

definition all_chain_headers_before_header ::
  "('n, 'c, 'e) Context \<Rightarrow> ChainHeader \<Rightarrow> ChainHeader list run" where
  "all_chain_headers_before_header x header =
     run_bind (iter_collect hdr_link (io_cas (ctx_ops x)) (ctx_cas x) (\<lambda>_. True) None (Some header)) (\<lambda>hs.
       Some (Returns (drop 1 hs)))"

fun outcome_filter :: "('a \<Rightarrow> bool outcome) \<Rightarrow> 'a list \<Rightarrow> 'a list outcome" where
  "outcome_filter P [] = Returns []"
| "outcome_filter P (a # as) =
     outcome_bind (P a) (\<lambda>b. outcome_bind (outcome_filter P as) (\<lambda>bs. Returns (if b then a # bs else bs)))"

definition public_headers :: "('n, 'c, 'e) Context \<Rightarrow> ChainHeader list \<Rightarrow> ChainHeader list outcome" where
  "public_headers x = outcome_filter (\<lambda>h. can_publish x (hdr_entry_type h))"

definition chain_entry :: "('n, 'c, 'e) Context \<Rightarrow> Address \<Rightarrow> Entry outcome" where
  "chain_entry x address =
     outcome_bind (expect_ok ''Could not read entry from CAS'' (get_entry (io_cas (ctx_ops x)) (ctx_cas x) address))
       (expect ''Entry does not exist'')"

definition public_chain_entries_from_headers ::
  "('n, 'c, 'e) Context \<Rightarrow> ChainHeader list \<Rightarrow> Entry list outcome" where
  "public_chain_entries_from_headers x headers =
     outcome_bind (public_headers x headers) (outcome_map (\<lambda>h. chain_entry x (hdr_entry_address h)))"

text \<open>Which entries can have a package at all.\<close>

definition packageable :: "('n, 'c, 'e) Context \<Rightarrow> Entry \<Rightarrow> unit HcResult outcome" where
  "packageable x entry =
     (case entry of
        Entry.App app_entry_type _ \<Rightarrow>
          outcome_bind (expect ''No DNA in build_valdation_package'' (nucleus_dna (st_nucleus (ctx_state x)))) (\<lambda>dna.
          outcome_bind (get_zome_name_for_app_entry_type dna app_entry_type) (\<lambda>zome.
            Returns (if zome = None
              then Err (ValidationFailed (''Unknown app entry type '' @ quoted app_entry_type)) else Ok ())))
      | Entry.LinkAdd _ \<Rightarrow> Returns (Ok ())
      | Entry.LinkRemove _ _ \<Rightarrow> Returns (Ok ())
      | Entry.Deletion _ \<Rightarrow> Returns (Ok ())
      | Entry.CapTokenGrant _ \<Rightarrow> Returns (Ok ())
      | Entry.AgentId _ \<Rightarrow> Returns (Ok ())
      | _ \<Rightarrow> Returns (Err (ValidationFailed ''Attempted to validate system entry type'')))"

text \<open>The header of the entry: its own, or a pre-flight header when it is not committed yet.\<close>

definition package_header ::
  "env \<Rightarrow> ('n, 'c, 'e) Context \<Rightarrow> Entry \<Rightarrow> Provenance list \<Rightarrow> ChainHeader HcResult run" where
  "package_header v x entry provenances =
     run_bind (find_chain_header (io_hasher (ctx_ops x)) (io_cas (ctx_ops x)) (ctx_cas x)
         (st_agent (ctx_state x)) entry) (\<lambda>maybe_header.
       case maybe_header of
         Some header \<Rightarrow> Some (Returns (Ok header))
       | None \<Rightarrow>
           create_new_chain_header (io_hasher (ctx_ops x)) (io_cas (ctx_ops x)) (io_sign (ctx_ops x)) (env_now v)
             (ctx_cas x) (st_agent (ctx_state x)) entry None provenances)"

definition fill_package ::
  "('n, 'c, 'e) Context \<Rightarrow> ChainHeader \<Rightarrow> ValidationPackageDefinition \<Rightarrow> ValidationPackage run" where
  "fill_package x header d =
     (let package = only_header header
      in case d of
           DefEntry \<Rightarrow> Some (Returns package)
         | DefChainEntries \<Rightarrow>
             run_bind (all_chain_headers_before_header x header) (\<lambda>headers.
             run_bind (Some (public_chain_entries_from_headers x headers)) (\<lambda>entries.
               Some (Returns (package\<lparr> source_chain_entries := Some entries \<rparr>))))
         | DefChainHeaders \<Rightarrow>
             run_bind (all_chain_headers_before_header x header) (\<lambda>headers.
               Some (Returns (package\<lparr> source_chain_headers := Some headers \<rparr>)))
         | DefChainFull \<Rightarrow>
             run_bind (all_chain_headers x) (\<lambda>headers.
             run_bind (Some (public_chain_entries_from_headers x headers)) (\<lambda>entries.
               Some (Returns (package\<lparr> source_chain_entries := Some entries, source_chain_headers := Some headers \<rparr>))))
         | DefCustom s \<Rightarrow> Some (Returns (package\<lparr> custom := Some s \<rparr>)))"

definition build_validation_package ::
  "env \<Rightarrow> ('n, 'c, 'e) Context \<Rightarrow> Entry \<Rightarrow> Provenance list \<Rightarrow> ValidationPackage HcResult run" where
  "build_validation_package v x entry provenances =
     run_bind (Some (packageable x entry)) (\<lambda>r.
       case r of
         Inl e \<Rightarrow> Some (Returns (Err e))
       | Inr _ \<Rightarrow>
           run_bind (package_header v x entry provenances) (\<lambda>r.
             case r of
               Inl e \<Rightarrow> Some (Returns (Err e))
             | Inr header \<Rightarrow>
                 run_bind (Some (package_definition v x entry)) (\<lambda>r.
                   case r of
                     Inl e \<Rightarrow> Some (Returns (Err e))
                   | Inr d \<Rightarrow> run_bind (fill_package x header d) (\<lambda>package. Some (Returns (Ok package))))))"

section \<open>From the DHT\<close>

definition GET_TIMEOUT :: Duration where
  "GET_TIMEOUT = 10000 * 10 ^ 6"

definition missing_header :: "Address \<Rightarrow> HolochainError" where
  "missing_header address = ErrorGeneric
     (''When building validation package from DHT, Could not retrieve a header entry at address: '' @ address)"

text \<open>The loop along the links of headers that the DHT knows.\<close>

partial_function (option) all_chain_headers_before_header_dht ::
  "env \<Rightarrow> ('n, 'c, 'e) Context \<Rightarrow> ChainHeader \<Rightarrow> ChainHeader list HcResult run" where
  "all_chain_headers_before_header_dht v x current_header =
     (case hdr_link current_header of
        None \<Rightarrow> Some (Returns (Ok []))
      | Some next_header_addr \<Rightarrow>
          run_bind (get_entry_with_meta_workflow (env_net v) x next_header_addr GET_TIMEOUT) (\<lambda>r.
            case (case r of Inr (Some m) \<Rightarrow> Some (meta_entry (entry_with_meta m)) | _ \<Rightarrow> None) of
              Some (Entry.ChainHeader chain_header) \<Rightarrow>
                run_bind (all_chain_headers_before_header_dht v x chain_header) (\<lambda>r.
                  Some (Returns (map_ok (\<lambda>hs. chain_header # hs) r)))
            | _ \<Rightarrow> Some (Returns (Err (missing_header next_header_addr)))))"

fun entries_from_dht :: "env \<Rightarrow> ('n, 'c, 'e) Context \<Rightarrow> ChainHeader list \<Rightarrow> Entry list HcResult run" where
  "entries_from_dht v x [] = Some (Returns (Ok []))"
| "entries_from_dht v x (h # hs) =
     run_bind (get_entry_with_meta_workflow (env_net v) x (hdr_entry_address h) GET_TIMEOUT) (\<lambda>r.
       case r of
         Inl e \<Rightarrow> Some (Returns (Err e))
       | Inr (Some m) \<Rightarrow>
           run_bind (entries_from_dht v x hs) (\<lambda>r.
             Some (Returns (map_ok (\<lambda>es. meta_entry (entry_with_meta m) # es) r)))
       | Inr None \<Rightarrow> Some (Returns (Err (ErrorGeneric
           (''When building validation package from DHT, Could not retrieve entry at address: ''
              @ hdr_entry_address h)))))"

definition public_chain_entries_from_headers_dht ::
  "env \<Rightarrow> ('n, 'c, 'e) Context \<Rightarrow> ChainHeader list \<Rightarrow> Entry list HcResult run" where
  "public_chain_entries_from_headers_dht v x headers =
     run_bind (Some (public_headers x headers)) (entries_from_dht v x)"

definition try_make_validation_package_dht ::
  "env \<Rightarrow> ('n, 'c, 'e) Context \<Rightarrow> EntryWithHeader \<Rightarrow> ValidationPackageDefinition \<Rightarrow> ValidationPackage HcResult run" where
  "try_make_validation_package_dht v x ewh d =
     run_bind (all_chain_headers_before_header_dht v x (ewh_header ewh)) (\<lambda>r.
       case r of
         Inl e \<Rightarrow> Some (Returns (Err e))
       | Inr chain_headers \<Rightarrow>
           (let package = only_header (ewh_header ewh);
                with_entries = (\<lambda>p. run_bind (public_chain_entries_from_headers_dht v x chain_headers) (\<lambda>r.
                  Some (Returns (map_ok (\<lambda>es. p\<lparr> source_chain_entries := Some es \<rparr>) r))))
            in case d of
                 DefEntry \<Rightarrow> Some (Returns (Ok package))
               | DefChainEntries \<Rightarrow> with_entries package
               | DefChainHeaders \<Rightarrow> Some (Returns (Ok (package\<lparr> source_chain_headers := Some chain_headers \<rparr>)))
               | DefChainFull \<Rightarrow> with_entries (package\<lparr> source_chain_headers := Some chain_headers \<rparr>)
               | DefCustom s \<Rightarrow> Some (Returns (Ok (package\<lparr> custom := Some s \<rparr>)))))"

section \<open>Whichever works first\<close>

definition try_make_local_validation_package ::
  "env \<Rightarrow> ('n, 'c, 'e) Context \<Rightarrow> EntryWithHeader \<Rightarrow> ValidationPackageDefinition \<Rightarrow> ValidationPackage HcResult run" where
  "try_make_local_validation_package v x ewh d =
     (case d of
        DefEntry \<Rightarrow> Some (Returns (Ok (only_header (ewh_header ewh))))
      | _ \<Rightarrow>
          run_bind (get_agent (io_cas (ctx_ops x)) (ctx_cas x) (st_agent (ctx_state x))) (\<lambda>r.
            case r of
              Inl e \<Rightarrow> Some (Returns (Err e))
            | Inr agent \<Rightarrow>
                if find (\<lambda>p. Provenance_source p = pub_sign_key agent) (hdr_provenances (ewh_header ewh)) \<noteq> None
                then build_validation_package v x (ewh_entry ewh) (hdr_provenances (ewh_header ewh))
                else Some (Returns (Err (ErrorGeneric ''Can't create validation package locally'')))))"

definition first_source :: "ChainHeader \<Rightarrow> Address HcResult" where
  "first_source header =
     (case hdr_provenances header of
        [] \<Rightarrow> Err (ErrorGeneric ''No source found in ChainHeader'')
      | p # _ \<Rightarrow> Ok (Provenance_source p))"

text \<open>The last resort; its error says why.\<close>

definition package_from_dht ::
  "env \<Rightarrow> ('n, 'c, 'e) Context \<Rightarrow> EntryWithHeader \<Rightarrow> ValidationPackageDefinition
     \<Rightarrow> ValidationPackage option HcResult run" where
  "package_from_dht v x ewh d =
     run_bind (try_make_validation_package_dht v x ewh d) (\<lambda>r.
       Some (Returns (case r of
         Inr package \<Rightarrow> Ok (Some package)
       | Inl err \<Rightarrow> Err (ErrorGeneric (''Could not get validation package for ''
           @ entry_address (io_hasher (ctx_ops x)) (ewh_entry ewh) @ ''. Error was: '' @ error_string err)))))"

definition validation_package ::
  "env \<Rightarrow> ('n, 'c, 'e) Context \<Rightarrow> EntryWithHeader \<Rightarrow> ValidationPackage option HcResult run" where
  "validation_package v x ewh =
     run_bind (Some (package_definition v x (ewh_entry ewh))) (\<lambda>r.
       case r of
         Inl e \<Rightarrow> Some (Returns (Err e))
       | Inr d \<Rightarrow>
           run_bind (try_make_local_validation_package v x ewh d) (\<lambda>r.
             case r of
               Inr package \<Rightarrow> Some (Returns (Ok (Some package)))
             | Inl _ \<Rightarrow>
                 (case first_source (ewh_header ewh) of
                    Inl e \<Rightarrow> Some (Returns (Err e))
                  | Inr source_address \<Rightarrow>
                      run_bind (Some (get_validation_package_from_cache (st_network (ctx_state x)) source_address d
                          (ewh_header ewh))) (\<lambda>cached.
                        case cached of
                          Some package \<Rightarrow> Some (Returns (Ok (Some package)))
                        | None \<Rightarrow>
                            (case env_author v (ewh_header ewh) of
                               Inr (Some package) \<Rightarrow> Some (Returns (Ok (Some package)))
                             | _ \<Rightarrow> package_from_dht v x ewh d)))))"

section \<open>Requests of other nodes\<close>

definition respond_validation_package_request ::
  "env \<Rightarrow> ('n, 'c, 'e) Context \<Rightarrow> Address \<Rightarrow> string \<Rightarrow> Address \<Rightarrow> Provenance list \<Rightarrow> Action run" where
  "respond_validation_package_request v x to_agent_id msg_id requested_entry_address provenances =
     run_bind (get_entry_from_agent_chain (io_cas (ctx_ops x)) (ctx_cas x) (st_agent (ctx_state x))
         requested_entry_address) (\<lambda>r.
     run_bind (case r of
         Inr (Some entry) \<Rightarrow>
           run_bind (build_validation_package v x entry provenances) (\<lambda>r.
             Some (Returns (case r of Inr p \<Rightarrow> Some p | Inl _ \<Rightarrow> None)))
       | _ \<Rightarrow> Some (Returns None)) (\<lambda>maybe_validation_package.
       Some (Returns (SendDirectMessage
         \<lparr> dm_address = to_agent_id, dm_message = ValidationPackageMessage maybe_validation_package,
           dm_msg_id = msg_id, dm_is_response = True \<rparr>
         (Some (env_now v, from_millis GET_VALIDATION_PACKAGE_MESSAGE_TIMEOUT_MS))))))"

section \<open>Packages of the author and packages from the DHT\<close>

definition own_chain :: "('n, 'c, 'e) Context \<Rightarrow> ChainHeader list \<Rightarrow> bool" where
  "own_chain x hs \<longleftrightarrow> chain_ok (io_hasher (ctx_ops x)) (io_cas (ctx_ops x)) (ctx_cas x) hs
     \<and> agent_top_chain_header (st_agent (ctx_state x)) = first_header hs"

lemma path_append: "path H link (as @ bs) \<Longrightarrow> path H link bs"
  by (induction as) (auto simp: path_Cons)

lemma stored_append: "stored_headers H C cas (as @ bs) \<Longrightarrow> stored_headers H C cas bs"
  by (simp add: stored_headers_def)

lemma headers_before:
  assumes "own_chain x (later @ h # earlier)"
  shows "all_chain_headers_before_header x h = Some (Returns earlier)"
proof -
  have "iter_collect hdr_link (io_cas (ctx_ops x)) (ctx_cas x) (\<lambda>_. True) None (first_header (h # earlier))
      = Some (Returns (take_opt None (filter (\<lambda>_. True) (h # earlier))))"
    using assms by (intro iter_collect_path [of "io_hasher (ctx_ops x)"])
      (auto simp: own_chain_def chain_ok_def dest: path_append stored_append)
  then show ?thesis by (simp add: all_chain_headers_before_header_def first_header_def run_bind_simps take_opt_def)
qed

lemma all_headers:
  assumes "own_chain x hs" "hs \<noteq> []"
  shows "all_chain_headers x = Some (Returns hs)"
proof -
  have "iter_collect hdr_link (io_cas (ctx_ops x)) (ctx_cas x) (\<lambda>_. True) None (first_header hs)
      = Some (Returns (take_opt None (filter (\<lambda>_. True) hs)))"
    using assms by (intro iter_collect_path [of "io_hasher (ctx_ops x)"]) (auto simp: own_chain_def chain_ok_def)
  moreover have "first_header hs = Some (hd hs)" using assms(2) by (cases hs) (simp_all add: first_header_def)
  ultimately show ?thesis
    using assms(1) by (simp add: all_chain_headers_def own_chain_def run_bind_simps take_opt_def)
qed

lemma package_header_found:
  assumes "own_chain x (later @ h # earlier)"
    and "hdr_entry_address h = entry_address (io_hasher (ctx_ops x)) entry"
    and "\<And>h'. h' \<in> set later \<Longrightarrow> hdr_entry_address h' \<noteq> entry_address (io_hasher (ctx_ops x)) entry"
  shows "package_header v x entry provenances = Some (Returns (Ok h))"
proof -
  have "find P (later @ h # earlier) = Some h" if "P h" "\<And>h'. h' \<in> set later \<Longrightarrow> \<not> P h'" for P
    using that by (induction later) auto
  then show ?thesis
    using assms iter_find_chain [of "io_hasher (ctx_ops x)" "io_cas (ctx_ops x)" "ctx_cas x" "later @ h # earlier"]
    by (simp add: package_header_def find_chain_header_def own_chain_def run_bind_simps)
qed

text \<open>The DHT, as the node \<open>y\<close> sees it, has what the chain of \<open>x\<close> published.\<close>

definition found_on_dht :: "env \<Rightarrow> ('n, 'c, 'e) Context \<Rightarrow> Address \<Rightarrow> Entry \<Rightarrow> bool" where
  "found_on_dht w y a e \<longleftrightarrow> (\<exists>m. get_entry_with_meta_workflow (env_net w) y a GET_TIMEOUT = Some (Returns (Ok (Some m)))
     \<and> meta_entry (entry_with_meta m) = e)"

definition dht_serves ::
  "env \<Rightarrow> ('n, 'c, 'e) Context \<Rightarrow> ('n, 'c, 'e) Context \<Rightarrow> ChainHeader list \<Rightarrow> bool" where
  "dht_serves w y x hs \<longleftrightarrow> list_all (\<lambda>h.
     found_on_dht w y (header_hash (io_hasher (ctx_ops x)) h) (Entry.ChainHeader h)
   \<and> (can_publish x (hdr_entry_type h) = Returns True \<longrightarrow>
        (\<exists>e. chain_entry x (hdr_entry_address h) = Returns e \<and> found_on_dht w y (hdr_entry_address h) e))) hs"

lemma dht_headers_before:
  assumes "path (io_hasher (ctx_ops x)) hdr_link (h # earlier)" and "dht_serves w y x earlier"
  shows "all_chain_headers_before_header_dht w y h = Some (Returns (Ok earlier))"
  using assms
proof (induction earlier arbitrary: h)
  case Nil
  then show ?case by (subst all_chain_headers_before_header_dht.simps) simp
next
  case (Cons g gs)
  then show ?case
    by (subst all_chain_headers_before_header_dht.simps)
       (auto simp: dht_serves_def found_on_dht_def run_bind_simps)
qed

lemma outcome_filter_cong:
  "(\<And>a. a \<in> set as \<Longrightarrow> P a = Q a) \<Longrightarrow> outcome_filter P as = outcome_filter Q as"
  by (induction as) auto

lemma outcome_filter_in:
  "outcome_filter P as = Returns bs \<Longrightarrow> set bs \<subseteq> set as \<and> (\<forall>b\<in>set bs. P b = Returns True)"
  by (induction as arbitrary: bs) (fastforce simp: outcome_bind_Returns_iff split: if_splits)+

lemma entries_found:
  assumes "outcome_map (\<lambda>h. chain_entry x (hdr_entry_address h)) hs = Returns es"
    and "\<And>h. h \<in> set hs \<Longrightarrow> \<exists>e. chain_entry x (hdr_entry_address h) = Returns e \<and> found_on_dht w y (hdr_entry_address h) e"
  shows "entries_from_dht w y hs = Some (Returns (Ok es))"
  using assms
proof (induction hs arbitrary: es)
  case (Cons h hs)
  from Cons.prems(1) obtain e es' where e: "chain_entry x (hdr_entry_address h) = Returns e" "es = e # es'"
    "outcome_map (\<lambda>h. chain_entry x (hdr_entry_address h)) hs = Returns es'"
    by (auto simp: outcome_bind_Returns_iff)
  then have "entries_from_dht w y hs = Some (Returns (Ok es'))" using Cons by simp
  then show ?case using e Cons.prems(2) [of h] by (auto simp: found_on_dht_def run_bind_simps)
qed simp

lemma public_entries_found:
  assumes "public_chain_entries_from_headers x hs = Returns es" and "dht_serves w y x hs"
    and "\<And>t. can_publish y t = can_publish x t"
  shows "public_chain_entries_from_headers_dht w y hs = Some (Returns (Ok es))"
proof -
  obtain ps where ps: "public_headers x hs = Returns ps" "outcome_map (\<lambda>h. chain_entry x (hdr_entry_address h)) ps = Returns es"
    using assms(1) by (auto simp: public_chain_entries_from_headers_def outcome_bind_Returns_iff)
  have "public_headers y hs = Returns ps" using ps(1) assms(3) by (simp add: public_headers_def)
  moreover have "entries_from_dht w y ps = Some (Returns (Ok es))"
    using ps(2)
  proof (rule entries_found)
    fix h assume "h \<in> set ps"
    then show "\<exists>e. chain_entry x (hdr_entry_address h) = Returns e \<and> found_on_dht w y (hdr_entry_address h) e"
      using ps(1) assms(2) by (auto simp: public_headers_def dht_serves_def list_all_iff dest!: outcome_filter_in)
  qed
  ultimately show ?thesis by (simp add: public_chain_entries_from_headers_dht_def run_bind_simps)
qed

lemma outcome_filter_append:
  "outcome_filter P (as @ bs) =
     outcome_bind (outcome_filter P as) (\<lambda>as'. outcome_bind (outcome_filter P bs) (\<lambda>bs'. Returns (as' @ bs')))"
proof (induction as)
  case Nil
  then show ?case by (cases "outcome_filter P bs") auto
next
  case (Cons a as)
  then show ?case by (cases "P a"; cases "outcome_filter P as"; cases "outcome_filter P bs") auto
qed

lemma outcome_map_append:
  "outcome_map f (as @ bs) =
     outcome_bind (outcome_map f as) (\<lambda>as'. outcome_bind (outcome_map f bs) (\<lambda>bs'. Returns (as' @ bs')))"
proof (induction as)
  case Nil
  then show ?case by (cases "outcome_map f bs") auto
next
  case (Cons a as)
  then show ?case by (cases "f a"; cases "outcome_map f as"; cases "outcome_map f bs") auto
qed

lemma public_entries_append:
  assumes "public_chain_entries_from_headers x as = Returns es" "public_chain_entries_from_headers x bs = Returns fs"
  shows "public_chain_entries_from_headers x (as @ bs) = Returns (es @ fs)"
  using assms
  by (auto simp: public_chain_entries_from_headers_def public_headers_def outcome_filter_append outcome_map_append
      outcome_bind_Returns_iff)

lemma build_package:
  assumes "packageable x entry = Returns (Ok ())" and "package_header v x entry provenances = Some (Returns (Ok h))"
    and "package_definition v x entry = Returns (Ok d)"
  shows "build_validation_package v x entry provenances = run_bind (fill_package x h d) (\<lambda>p. Some (Returns (Ok p)))"
  using assms by (simp add: build_validation_package_def run_bind_simps)

text \<open>
  C25.  It does not matter whether the package comes from the author or is put together from the DHT, with one
  exception.  When the DHT has what the author published before the entry, both packages are the same
  for every definition but the full chain; for the full chain the author's package also has the headers and
  the public entries from the entry on, of which validation later drops the headers
  but not the entries.
\<close>

theorem dht_package_agrees:
  assumes "own_chain x (later @ h # earlier)"
    and "hdr_entry_address h = entry_address (io_hasher (ctx_ops x)) entry"
    and "\<And>h'. h' \<in> set later \<Longrightarrow> hdr_entry_address h' \<noteq> entry_address (io_hasher (ctx_ops x)) entry"
    and "packageable x entry = Returns (Ok ())" and "package_definition v x entry = Returns (Ok d)"
    and "public_chain_entries_from_headers x earlier = Returns es"
    and "public_chain_entries_from_headers x (later @ [h]) = Returns es'"
    and "dht_serves w y x earlier" and "\<And>t. can_publish y t = can_publish x t"
  shows "\<exists>p q. build_validation_package v x entry provenances = Some (Returns (Ok p))
    \<and> try_make_validation_package_dht w y \<lparr> ewh_entry = entry, ewh_header = h \<rparr> d = Some (Returns (Ok q))
    \<and> (if d = DefChainFull
       then q = \<lparr> vp_chain_header = h, source_chain_entries = Some es, source_chain_headers = Some earlier,
                  custom = None \<rparr>
            \<and> p = q\<lparr> source_chain_entries := Some (es' @ es), source_chain_headers := Some (later @ h # earlier) \<rparr>
       else p = q)"
proof -
  have "path (io_hasher (ctx_ops x)) hdr_link (h # earlier)"
    using assms(1) path_append by (auto simp: own_chain_def chain_ok_def)
  then have dht: "all_chain_headers_before_header_dht w y h = Some (Returns (Ok earlier))"
    using assms(8) dht_headers_before by blast
  note found = public_entries_found [OF assms(6,8,9)]
  have full: "public_chain_entries_from_headers x (later @ h # earlier) = Returns (es' @ es)"
    using public_entries_append [OF assms(7,6)] by simp
  note build = build_package [OF assms(4) package_header_found [OF assms(1-3)] assms(5), of provenances]
  show ?thesis
    by (cases d)
       (simp_all add: build fill_package_def Let_def run_bind_simps only_header_def
          headers_before [OF assms(1)] all_headers [OF assms(1)] assms(6) full
          try_make_validation_package_dht_def dht found)
qed

section \<open>Where packages come from\<close>

lemma cached_header:
  "get_validation_package_from_cache s a d h = Returns (Some p) \<Longrightarrow> vp_chain_header p = h"
  by (auto simp: get_validation_package_from_cache_def outcome_bind_Returns_iff
      split: option.splits ValidationPackageDefinition.splits if_splits)

lemma dht_package_header:
  "try_make_validation_package_dht v x ewh d = Some (Returns (Ok p)) \<Longrightarrow> vp_chain_header p = ewh_header ewh"
  by (auto simp: try_make_validation_package_dht_def only_header_def Let_def map_ok_Ok_iff
      elim!: run_bind_ReturnsE split: sum.splits ValidationPackageDefinition.splits)

lemma local_package_origin:
  "try_make_local_validation_package v x ewh d = Some (Returns (Ok p)) \<Longrightarrow>
     vp_chain_header p = ewh_header ewh
     \<or> build_validation_package v x (ewh_entry ewh) (hdr_provenances (ewh_header ewh)) = Some (Returns (Ok p))"
  by (auto simp: try_make_local_validation_package_def only_header_def
      elim!: run_bind_ReturnsE split: sum.splits ValidationPackageDefinition.splits if_splits)

lemma package_origin:
  assumes "validation_package v x ewh = Some (Returns (Ok (Some p)))"
  shows "vp_chain_header p = ewh_header ewh
    \<or> build_validation_package v x (ewh_entry ewh) (hdr_provenances (ewh_header ewh)) = Some (Returns (Ok p))
    \<or> env_author v (ewh_header ewh) = Ok (Some p)"
proof -
  obtain d where "package_definition v x (ewh_entry ewh) = Returns (Ok d)"
    and r: "run_bind (try_make_local_validation_package v x ewh d) (\<lambda>r.
             case r of
               Inr package \<Rightarrow> Some (Returns (Ok (Some package)))
             | Inl _ \<Rightarrow>
                 (case first_source (ewh_header ewh) of
                    Inl e \<Rightarrow> Some (Returns (Err e))
                  | Inr source_address \<Rightarrow>
                      run_bind (Some (get_validation_package_from_cache (st_network (ctx_state x)) source_address d
                          (ewh_header ewh))) (\<lambda>cached.
                        case cached of
                          Some package \<Rightarrow> Some (Returns (Ok (Some package)))
                        | None \<Rightarrow>
                            (case env_author v (ewh_header ewh) of
                               Inr (Some package) \<Rightarrow> Some (Returns (Ok (Some package)))
                             | _ \<Rightarrow> package_from_dht v x ewh d)))) = Some (Returns (Ok (Some p)))"
    using assms by (auto simp: validation_package_def elim!: run_bind_ReturnsE split: sum.splits)
  from r show ?thesis
    by (auto simp: package_from_dht_def elim!: run_bind_ReturnsE split: sum.splits option.splits
        dest!: local_package_origin cached_header dht_package_header)
qed

section \<open>Witnesses\<close>

definition post_header :: "string \<Rightarrow> Address option \<Rightarrow> Iso8601 \<Rightarrow> ChainHeader" where
  "post_header v l t = ChainHeader_new (EntryType.App ''post'') v [(''me'', ''good'')] l l None t"

definition posts_cas :: "(Address, Content) fmap" where
  "posts_cas = fmap_of_list
     [(''A'', EntryContent (Entry.App ''post'' ''A'')), (''hA'', HeaderContent (post_header ''A'' None 1)),
      (''B'', EntryContent (Entry.App ''post'' ''B'')), (''hB'', HeaderContent (post_header ''B'' (Some ''hA'') 2)),
      (''C'', EntryContent (Entry.App ''post'' ''C'')), (''hC'', HeaderContent (post_header ''C'' (Some ''hB'') 3))]"

definition live :: "Address \<Rightarrow> EntityAttributeValueIndex" where
  "live a = \<lparr> eav_entity = a, eav_attribute = Attribute.CrudStatus, eav_value = ''live'', eav_index = 0 \<rparr>"

definition posts_context ::
  "(Lib3hClientProtocol list, (Address, Content) fmap, EntityAttributeValueIndex list) Context" where
  "posts_context =
     (let x = blog_context []
      in x\<lparr> ctx_state := (ctx_state x)\<lparr> st_agent := AgentState_new_with_top_chain_header
              (Some (post_header ''C'' (Some ''hB'') 3)) ''me'' \<rparr>,
            ctx_cas := posts_cas, ctx_eav := map live [''A'', ''B'', ''C''] \<rparr>)"

definition full_env :: env where
  "full_env = blog_env\<lparr> env_run_dna := (\<lambda>_. Ok ''full''), env_definition := (\<lambda>_. Some DefChainFull) \<rparr>"

lemma posts_simps:
  "ctx_ops posts_context = version_instance" "ctx_cas posts_context = posts_cas"
  "ctx_eav posts_context = map live [''A'', ''B'', ''C'']" "ctx_get_dna posts_context = Some blog_dna"
  "nucleus_dna (st_nucleus (ctx_state posts_context)) = Some blog_dna"
  "agent_top_chain_header (st_agent (ctx_state posts_context)) = Some (post_header ''C'' (Some ''hB'') 3)"
  by (simp_all add: posts_context_def ctx_get_dna_def blog_context_def version_context_def
      AgentState_new_with_top_chain_header_def Let_def)

lemma posts_chain:
  "own_chain posts_context
     [post_header ''C'' (Some ''hB'') 3, post_header ''B'' (Some ''hA'') 2, post_header ''A'' None 1]"
  by (simp add: own_chain_def posts_simps chain_ok_def stored_headers_def posts_cas_def post_header_def
      ChainHeader_new_def version_instance_def version_hasher_def sample_instance_def first_header_def)

lemma full_env_simps:
  "env_run_dna full_env c = Ok ''full''" "env_is_null full_env s \<longleftrightarrow> s = ''null''"
  "env_definition full_env s = Some DefChainFull"
  by (simp_all add: full_env_def blog_env_def)

lemma posts_publish: "can_publish posts_context (EntryType.App ''post'') = Returns True"
  by (simp add: can_publish_def is_sys_def posts_simps blog_simps blog_zome_def get_entry_type_def_def)

lemma posts_entries:
  "chain_entry posts_context ''A'' = Returns (Entry.App ''post'' ''A'')"
  "chain_entry posts_context ''B'' = Returns (Entry.App ''post'' ''B'')"
  "chain_entry posts_context ''C'' = Returns (Entry.App ''post'' ''C'')"
  by (simp_all add: chain_entry_def posts_simps version_instance_def sample_instance_def posts_cas_def
      get_entry_def get_raw_def)

lemma posts_on_dht:
  "found_on_dht full_env posts_context ''hA'' (Entry.ChainHeader (post_header ''A'' None 1))"
  "found_on_dht full_env posts_context ''A'' (Entry.App ''post'' ''A'')"
  by (simp_all add: found_on_dht_def get_entry_with_meta_workflow_def get_entry_with_meta_def get_entry_from_dht_def
      posts_simps version_instance_def sample_instance_def version_hasher_def posts_cas_def get_entry_def get_raw_def
      get_entry_crud_meta_from_dht_def fetch_eavi_def log_eav_def crud_status_query_def crud_link_query_def live_def
      context_get_headers_def get_headers_def header_query_def iter_collect.simps advance_def fetch_linked_def
      post_header_def ChainHeader_new_def run_bind_simps map_filter_def Let_def)

theorem dht_package_agrees_witness:
  "\<exists>p q. build_validation_package full_env posts_context (Entry.App ''post'' ''B'') [] = Some (Returns (Ok p))
     \<and> try_make_validation_package_dht full_env posts_context
          \<lparr> ewh_entry = Entry.App ''post'' ''B'', ewh_header = post_header ''B'' (Some ''hA'') 2 \<rparr> DefChainFull
        = Some (Returns (Ok q))
     \<and> source_chain_entries q = Some [Entry.App ''post'' ''A'']
     \<and> source_chain_entries p = Some (map (Entry.App ''post'') [''C'', ''B'', ''A''])"
proof -
  have types: "hdr_entry_type (post_header a l t) = EntryType.App ''post''" "hdr_entry_address (post_header a l t) = a"
    "header_hash (io_hasher (ctx_ops posts_context)) (post_header a l t) = CHR ''h'' # a" for a l t
    by (simp_all add: post_header_def ChainHeader_new_def posts_simps version_instance_def version_hasher_def)
  have "\<exists>p q. build_validation_package full_env posts_context (Entry.App ''post'' ''B'') [] = Some (Returns (Ok p))
     \<and> try_make_validation_package_dht full_env posts_context
          \<lparr> ewh_entry = Entry.App ''post'' ''B'', ewh_header = post_header ''B'' (Some ''hA'') 2 \<rparr> DefChainFull
        = Some (Returns (Ok q))
     \<and> (if DefChainFull = DefChainFull
        then q = \<lparr> vp_chain_header = post_header ''B'' (Some ''hA'') 2,
               source_chain_entries = Some [Entry.App ''post'' ''A''],
               source_chain_headers = Some [post_header ''A'' None 1], custom = None \<rparr>
          \<and> p = q\<lparr> source_chain_entries := Some ([Entry.App ''post'' ''C'', Entry.App ''post'' ''B''] @ [Entry.App ''post'' ''A'']),
                  source_chain_headers := Some ([post_header ''C'' (Some ''hB'') 3] @ post_header ''B'' (Some ''hA'') 2
                     # [post_header ''A'' None 1]) \<rparr>
        else p = q)"
    by (rule dht_package_agrees)
       (simp_all add: posts_chain types posts_simps version_instance_def version_hasher_def packageable_def
          get_zome_name_for_app_entry_type_def blog_simps blog_zome_def package_definition_def
          get_validation_package_definition_def full_env_simps parse_definition_def
          definition_of_callback_def public_chain_entries_from_headers_def public_headers_def posts_publish posts_entries
          dht_serves_def posts_on_dht)
  then show ?thesis by auto
qed

end
