(* ===== verification/Workflows.thy ===== *)
theory Workflows
  imports Validation_Package
begin

text \<open>
  The workflows that change the state: holding aspects (\<open>workflows/hold_*.rs\<close>, \<open>remove_link.rs\<close>,
  \<open>dht/actions/hold_aspect.rs\<close>), authoring (\<open>author_entry.rs\<close> with its actions), and the
  loop of \<open>instance.rs\<close> that takes workflows from the queue.  A dispatched action is reduced
  at once; waiting for a response that the reducer never gives is a run that does not end.
\<close>

section \<open>Dispatching\<close>

definition dispatch ::
  "env \<Rightarrow> string \<Rightarrow> Action \<Rightarrow> ('n, 'c, 'e) Context \<Rightarrow> ('n, 'c, 'e) Context run" where
  "dispatch v aid a x =
     run_bind (state_reduce (ctx_ops x) (env_now v) aid \<lparr> action = a, action_id = aid \<rparr>
         (ctx_state x, ctx_cas x, ctx_eav x)) (\<lambda>(s, cas, eav).
       Some (Returns (x\<lparr> ctx_state := s, ctx_cas := cas, ctx_eav := eav \<rparr>)))"

text \<open>The \<open>?\<close> operator in a workflow that has changed the context so far to \<open>x\<close>.\<close>

definition try_run :: "'a HcResult run \<Rightarrow> 'x \<Rightarrow> ('a \<Rightarrow> ('b HcResult \<times> 'x) run) \<Rightarrow> ('b HcResult \<times> 'x) run" where
  "try_run m x f = run_bind m (\<lambda>r. case r of Inl e \<Rightarrow> Some (Returns (Err e, x)) | Inr a \<Rightarrow> f a)"

definition then_run ::
  "('a HcResult \<times> 'x) run \<Rightarrow> ('a \<Rightarrow> 'x \<Rightarrow> ('b HcResult \<times> 'x) run) \<Rightarrow> ('b HcResult \<times> 'x) run" where
  "then_run m f = run_bind m (\<lambda>(r, x). case r of Inl e \<Rightarrow> Some (Returns (Err e, x)) | Inr a \<Rightarrow> f a x)"

section \<open>Holding an aspect\<close>

definition ack_single :: "('n, 'c, 'e) Context \<Rightarrow> EntryAspect \<Rightarrow> Action outcome" where
  "ack_single x aspect =
     outcome_bind (expect_ok ''Could not get entry address from aspect''
         (aspect_entry_address (io_hasher (ctx_ops x)) aspect)) (\<lambda>entry_address.
     outcome_bind (expect ''called `Option::unwrap()` on a `None` value''
         (net_dna_address (st_network (ctx_state x)))) (\<lambda>_.
       Returns (RespondGossipList
         \<lparr> el_request_id = '''', el_address_map = [(entry_address, [aspect_hash (io_hasher (ctx_ops x)) aspect])] \<rparr>)))"

definition hold_aspect_no_ack ::
  "env \<Rightarrow> HoldAspectAttemptId \<Rightarrow> EntryAspect \<Rightarrow> ('n, 'c, 'e) Context \<Rightarrow> (unit HcResult \<times> ('n, 'c, 'e) Context) run" where
  "hold_aspect_no_ack v hid aspect x =
     run_bind (dispatch v ''hold'' (HoldAspect aspect hid) x) (\<lambda>x'.
       map_option (\<lambda>r. Returns (r, x')) (hold_aspect_poll (st_dht (ctx_state x')) hid))"

definition hold_aspect ::
  "env \<Rightarrow> HoldAspectAttemptId \<Rightarrow> EntryAspect \<Rightarrow> ('n, 'c, 'e) Context \<Rightarrow> (unit HcResult \<times> ('n, 'c, 'e) Context) run" where
  "hold_aspect v hid aspect x =
     then_run (hold_aspect_no_ack v hid aspect x) (\<lambda>_ x'.
       run_bind (Some (ack_single x' aspect)) (\<lambda>ack.
       run_bind (dispatch v ''ack'' ack x') (\<lambda>x''. Some (Returns (Ok (), x'')))))"

definition hold_content_aspect ::
  "env \<Rightarrow> HoldAspectAttemptId \<Rightarrow> EntryWithHeader \<Rightarrow> ('n, 'c, 'e) Context
     \<Rightarrow> (unit HcResult \<times> ('n, 'c, 'e) Context) run" where
  "hold_content_aspect v hid ewh = hold_aspect v hid (EntryAspect.Content (ewh_entry ewh) (ewh_header ewh))"

section \<open>Holding workflows\<close>

definition get_package ::
  "env \<Rightarrow> ('n, 'c, 'e) Context \<Rightarrow> EntryWithHeader \<Rightarrow> HolochainError \<Rightarrow> ValidationPackage HcResult run" where
  "get_package v x ewh on_empty =
     run_bind (validation_package v x ewh) (\<lambda>r.
       Some (Returns (case r of
         Inl _ \<Rightarrow> Err ValidationPending
       | Inr None \<Rightarrow> Err on_empty
       | Inr (Some package) \<Rightarrow> Ok package)))"

definition validate_to_hold ::
  "env \<Rightarrow> ('n, 'c, 'e) Context \<Rightarrow> EntryWithHeader \<Rightarrow> Address option \<Rightarrow> ValidationPackage \<Rightarrow> EntryLifecycle
     \<Rightarrow> unit HcResult run" where
  "validate_to_hold v x ewh link_update package lifecycle =
     run_bind (validate_entry v x (ewh_entry ewh) link_update
         \<lparr> vd_package = package, vd_lifecycle = lifecycle \<rparr> Holding) (\<lambda>r.
       Some (Returns (map_err process_validation_err r)))"

definition empty_response :: HolochainError where
  "empty_response = ErrorGeneric ''Could not get validation package from source''"

type_synonym ('n, 'c, 'e) workflow =
  "env \<Rightarrow> ProcessUniqueId \<Rightarrow> nat \<Rightarrow> EntryWithHeader \<Rightarrow> ('n, 'c, 'e) Context \<Rightarrow> (unit HcResult \<times> ('n, 'c, 'e) Context) run"

definition hold_entry_workflow :: "('n, 'c, 'e) workflow" where
  "hold_entry_workflow v pid n ewh x =
     try_run (get_package v x ewh ValidationPending) x (\<lambda>package.
     try_run (validate_to_hold v x ewh None package Dht) x (\<lambda>_.
       hold_content_aspect v (pid, n) ewh x))"

definition hold_link_workflow :: "('n, 'c, 'e) workflow" where
  "hold_link_workflow v pid n ewh x =
     (case ewh_entry ewh of
        Entry.LinkAdd link_add \<Rightarrow>
          try_run (get_package v x ewh ValidationPending) x (\<lambda>package.
          try_run (validate_to_hold v x ewh None package Meta) x (\<lambda>_.
          then_run (hold_aspect v (pid, n) (EntryAspect.LinkAdd link_add (ewh_header ewh)) x) (\<lambda>_ x'.
            hold_content_aspect v (pid, Suc n) ewh x')))
      | _ \<Rightarrow> Some (Returns (Err (ErrorGeneric ''hold_link_workflow expects entry to be an Entry::LinkAdd''), x)))"

definition remove_link_workflow :: "('n, 'c, 'e) workflow" where
  "remove_link_workflow v pid n ewh x =
     (case ewh_entry ewh of
        Entry.LinkRemove link_data links_to_remove \<Rightarrow>
          try_run (get_package v x ewh empty_response) x (\<lambda>package.
          try_run (validate_to_hold v x ewh None package Meta) x (\<lambda>_.
          then_run (hold_aspect v (pid, n) (EntryAspect.LinkRemove link_data links_to_remove (ewh_header ewh)) x) (\<lambda>_ x'.
            hold_content_aspect v (pid, Suc n) ewh x')))
      | _ \<Rightarrow> Some (Returns (Err (ErrorGeneric ''remove_link_workflow expects entry to be an Entry::LinkRemove''), x)))"

definition hold_update_workflow :: "('n, 'c, 'e) workflow" where
  "hold_update_workflow v pid n ewh x =
     try_run (get_package v x ewh empty_response) x (\<lambda>package.
       case hdr_link_update_delete (ewh_header ewh) of
         None \<Rightarrow> Some (Returns (Err (ErrorGeneric ''Could not get link update from header''), x))
       | Some l \<Rightarrow>
           try_run (validate_to_hold v x ewh (Some l) package Meta) x (\<lambda>_.
             hold_aspect v (pid, n) (EntryAspect.Update (ewh_entry ewh) (ewh_header ewh)) x))"

definition hold_remove_workflow :: "('n, 'c, 'e) workflow" where
  "hold_remove_workflow v pid n ewh x =
     try_run (get_package v x ewh empty_response) x (\<lambda>package.
     try_run (validate_to_hold v x ewh None package Meta) x (\<lambda>_.
       hold_aspect v (pid, n) (EntryAspect.Deletion (ewh_header ewh)) x))"

definition run_holding_workflow ::
  "env \<Rightarrow> nat \<Rightarrow> PendingValidation \<Rightarrow> ('n, 'c, 'e) Context \<Rightarrow> (unit HcResult \<times> ('n, 'c, 'e) Context) run" where
  "run_holding_workflow v n p x =
     (case workflow p of
        HoldLink \<Rightarrow> hold_link_workflow v (uuid p) n (entry_with_header p) x
      | HoldEntry \<Rightarrow> hold_entry_workflow v (uuid p) n (entry_with_header p) x
      | ValidatingWorkflow.RemoveLink \<Rightarrow> remove_link_workflow v (uuid p) n (entry_with_header p) x
      | ValidatingWorkflow.UpdateEntry \<Rightarrow> hold_update_workflow v (uuid p) n (entry_with_header p) x
      | ValidatingWorkflow.RemoveEntry \<Rightarrow> hold_remove_workflow v (uuid p) n (entry_with_header p) x)"

section \<open>The holding loop\<close>

definition RETRY_VALIDATION_DURATION_MAX :: Duration where
  "RETRY_VALIDATION_DURATION_MAX = 60 * 60 * 10 ^ 9"

text \<open>What becomes of a workflow after its run; \<open>d\<close> is the delay it waited before.\<close>

definition queueing_after :: "unit HcResult \<Rightarrow> Duration option \<Rightarrow> HoldingWorkflowQueueing" where
  "queueing_after r d =
     (if r = Err ValidationPending
      then (let new_delay = (case d of Some old_delay \<Rightarrow> old_delay * 2 | None \<Rightarrow> RETRY_VALIDATION_DURATION_MIN)
            in Waiting (if new_delay > RETRY_VALIDATION_DURATION_MAX then RETRY_VALIDATION_DURATION_MAX else new_delay))
      else Done)"

definition remove_queued_holding_workflow ::
  "env \<Rightarrow> HoldingWorkflowQueueing \<Rightarrow> PendingValidation \<Rightarrow> ('n, 'c, 'e) Context \<Rightarrow> ('n, 'c, 'e) Context run" where
  "remove_queued_holding_workflow v q p x =
     run_bind (dispatch v ''queue'' (RemoveQueuedHoldingWorkflow q p) x) (\<lambda>x'.
       if queue_update_ready (io_hasher (ctx_ops x)) q p (st_dht (ctx_state x')) then Some (Returns x') else None)"

text \<open>One round of the loop, with the workflow it starts run to its end; None when nothing is due.\<close>

definition holding_step ::
  "env \<Rightarrow> nat \<Rightarrow> ('n, 'c, 'e) Context \<Rightarrow> ('n, 'c, 'e) Context option run" where
  "holding_step v n x =
     (case next_queued_holding_workflow (io_hasher (ctx_ops x)) (env_now v) (st_dht (ctx_state x)) of
        None \<Rightarrow> Some (Returns None)
      | Some (p, maybe_delay) \<Rightarrow>
          run_bind (remove_queued_holding_workflow v Processing p x) (\<lambda>x1.
          run_bind (run_holding_workflow v n p x1) (\<lambda>(r, x2).
          run_bind (remove_queued_holding_workflow v (queueing_after r maybe_delay) p x2) (\<lambda>x3.
            Some (Returns (Some x3))))))"

section \<open>Authoring\<close>

definition clear_response :: "env \<Rightarrow> string \<Rightarrow> 'a HcResult \<Rightarrow> ('n, 'c, 'e) Context \<Rightarrow> ('a HcResult \<times> ('n, 'c, 'e) Context) run" where
  "clear_response v aid r x =
     run_bind (dispatch v (''clear'' @ aid) (ClearActionResponse aid) x) (\<lambda>x'. Some (Returns (r, x')))"

definition commit_entry ::
  "env \<Rightarrow> string \<Rightarrow> Entry \<Rightarrow> Address option \<Rightarrow> ('n, 'c, 'e) Context \<Rightarrow> (Address HcResult \<times> ('n, 'c, 'e) Context) run" where
  "commit_entry v aid entry link_update x =
     run_bind (dispatch v aid (Commit entry link_update []) x) (\<lambda>x'.
       case fmlookup (agent_actions (st_agent (ctx_state x'))) aid of
         None \<Rightarrow> None
       | Some resp \<Rightarrow>
           (case response resp of
              CommitResponse r \<Rightarrow> clear_response v aid r x'
            | _ \<Rightarrow> Some (Panics ''internal error: entered unreachable code'')))"

definition await_network ::
  "env \<Rightarrow> string \<Rightarrow> (NetworkActionResponse \<Rightarrow> Address HcResult option) \<Rightarrow> ('n, 'c, 'e) Context
     \<Rightarrow> (Address HcResult \<times> ('n, 'c, 'e) Context) run" where
  "await_network v aid select x =
     (case initialized (st_network (ctx_state x)) of
        Inl e \<Rightarrow> Some (Returns (Err e, x))
      | Inr _ \<Rightarrow>
          (case fmlookup (net_actions (st_network (ctx_state x))) aid of
             None \<Rightarrow> None
           | Some resp \<Rightarrow>
               (case select (response resp) of
                  Some r \<Rightarrow> clear_response v aid r x
                | None \<Rightarrow> Some (Panics ''internal error: entered unreachable code''))))"

definition publish ::
  "env \<Rightarrow> string \<Rightarrow> Address \<Rightarrow> ('n, 'c, 'e) Context \<Rightarrow> (Address HcResult \<times> ('n, 'c, 'e) Context) run" where
  "publish v aid address x =
     run_bind (dispatch v aid (Publish address) x)
       (await_network v aid (\<lambda>r. case r of PublishResponse a \<Rightarrow> Some a | _ \<Rightarrow> None))"

definition publish_header_entry ::
  "env \<Rightarrow> string \<Rightarrow> Address \<Rightarrow> ('n, 'c, 'e) Context \<Rightarrow> (Address HcResult \<times> ('n, 'c, 'e) Context) run" where
  "publish_header_entry v aid address x =
     run_bind (dispatch v aid (PublishHeaderEntry address) x)
       (await_network v aid (\<lambda>r. case r of PublishHeaderEntryResponse a \<Rightarrow> Some a | _ \<Rightarrow> None))"

definition check_link_entries :: "env \<Rightarrow> ('n, 'c, 'e) Context \<Rightarrow> Entry \<Rightarrow> unit HcResult run" where
  "check_link_entries v x entry =
     (let check = (\<lambda>l. run_bind (get_link_entries v x l) (\<lambda>r. Some (Returns (map_ok (\<lambda>_. ()) r))))
      in case entry of
           Entry.LinkAdd link_data \<Rightarrow> check (link_of link_data)
         | Entry.LinkRemove link_data _ \<Rightarrow> check (link_of link_data)
         | _ \<Rightarrow> Some (Returns (Ok ())))"

definition validate_to_author ::
  "env \<Rightarrow> ('n, 'c, 'e) Context \<Rightarrow> Entry \<Rightarrow> Address option \<Rightarrow> ValidationPackage \<Rightarrow> unit HcResult run" where
  "validate_to_author v x entry link_update package =
     run_bind (validate_entry v x entry link_update \<lparr> vd_package = package, vd_lifecycle = Chain \<rparr> Authoring) (\<lambda>r.
       Some (Returns (map_err error_from_validation r)))"

text \<open>Only entries that can be published are; the header always is.\<close>

definition publish_authored ::
  "env \<Rightarrow> (nat \<Rightarrow> string) \<Rightarrow> Entry \<Rightarrow> Address \<Rightarrow> ('n, 'c, 'e) Context \<Rightarrow> (Address HcResult \<times> ('n, 'c, 'e) Context) run" where
  "publish_authored v ids entry addr x =
     (let address = entry_address (io_hasher (ctx_ops x)) entry
      in run_bind (Some (can_publish x (entry_type entry))) (\<lambda>public.
         then_run (if public then publish v (ids 1) address x else Some (Returns (Ok address, x))) (\<lambda>_ x1.
         then_run (publish_header_entry v (ids 2) address x1) (\<lambda>_ x2.
           Some (Returns (Ok addr, x2))))))"

definition author_entry ::
  "env \<Rightarrow> (nat \<Rightarrow> string) \<Rightarrow> Entry \<Rightarrow> Address option \<Rightarrow> Provenance list \<Rightarrow> ('n, 'c, 'e) Context
     \<Rightarrow> (Address HcResult \<times> ('n, 'c, 'e) Context) run" where
  "author_entry v ids entry link_update provenances x =
     try_run (check_link_entries v x entry) x (\<lambda>_.
     try_run (build_validation_package v x entry provenances) x (\<lambda>package.
     try_run (validate_to_author v x entry link_update package) x (\<lambda>_.
     then_run (commit_entry v (ids 0) entry link_update x) (\<lambda>addr x1.
       publish_authored v ids entry addr x1))))"

section \<open>What is held is valid\<close>

lemma try_run_Returns:
  assumes "try_run m x f = Some (Returns (r, x'))"
  obtains (failed) e where "m = Some (Returns (Err e))" "r = Err e" "x' = x"
    | (passed) a where "m = Some (Returns (Ok a))" "f a = Some (Returns (r, x'))"
  using assms by (auto simp: try_run_def elim!: run_bind_ReturnsE split: sum.splits)

lemma then_run_Returns:
  assumes "then_run m f = Some (Returns (r, x'))"
  obtains (failed) e where "m = Some (Returns (Err e, x'))" "r = Err e"
    | (passed) a y where "m = Some (Returns (Ok a, y))" "f a y = Some (Returns (r, x'))"
  using assms by (auto simp: then_run_def elim!: run_bind_ReturnsE split: sum.splits)

definition passed_validation :: "env \<Rightarrow> ('n, 'c, 'e) Context \<Rightarrow> EntryWithHeader \<Rightarrow> ValidationPackage \<Rightarrow> bool" where
  "passed_validation v x ewh package \<longleftrightarrow> validation_package v x ewh = Some (Returns (Ok (Some package)))
     \<and> (\<exists>l lc. validate_entry v x (ewh_entry ewh) l \<lparr> vd_package = package, vd_lifecycle = lc \<rparr> Holding
          = Some (Returns (Ok ())))"

lemma passed_validationI:
  assumes "validate_to_hold v x ewh l package lc = Some (Returns (Ok u))"
    and "get_package v x ewh e = Some (Returns (Ok package))"
  shows "passed_validation v x ewh package"
proof -
  have "validation_package v x ewh = Some (Returns (Ok (Some package)))"
    using assms(2) by (auto simp: get_package_def elim!: run_bind_ReturnsE split: sum.splits option.splits)
  moreover have "validate_entry v x (ewh_entry ewh) l \<lparr> vd_package = package, vd_lifecycle = lc \<rparr> Holding
      = Some (Returns (Ok ()))"
    using assms(1) by (auto simp: validate_to_hold_def elim!: run_bind_ReturnsE)
  ultimately show ?thesis unfolding passed_validation_def by blast
qed

lemma validated_first:
  assumes "try_run (get_package v x ewh e) x (\<lambda>package. try_run (validate_to_hold v x ewh l package lc) x (\<lambda>_. f))
      = Some (Returns (r, x'))"
  shows "x' = x \<and> (\<exists>e. r = Err e) \<or> (\<exists>package. passed_validation v x ewh package)"
  using assms by (auto elim!: try_run_Returns dest: passed_validationI)

lemma workflow_needs_validation:
  assumes "run_holding_workflow v n p x = Some (Returns (r, x'))"
  shows "x' = x \<and> (\<exists>e. r = Err e) \<or> (\<exists>package. passed_validation v x (entry_with_header p) package)"
proof (cases "workflow p = ValidatingWorkflow.UpdateEntry")
  case True
  show ?thesis
  proof (cases "hdr_link_update_delete (ewh_header (entry_with_header p))")
    case None
    then show ?thesis
      using assms True by (auto simp: run_holding_workflow_def hold_update_workflow_def elim!: try_run_Returns)
  next
    case (Some l)
    then show ?thesis
      using assms True validated_first by (simp add: run_holding_workflow_def hold_update_workflow_def)
  qed
next
  case False
  then show ?thesis
    using assms
    by (auto simp: run_holding_workflow_def hold_entry_workflow_def hold_link_workflow_def remove_link_workflow_def
        hold_remove_workflow_def dest!: validated_first split: ValidatingWorkflow.splits Entry.splits)
qed


section \<open>Witnesses\<close>

definition author_package :: ValidationPackage where
  "author_package = \<lparr> vp_chain_header = signed_header, source_chain_entries = Some [], source_chain_headers = Some [],
     custom = None \<rparr>"

definition hold_env :: env where
  "hold_env = blog_env\<lparr>
     env_run_dna := (\<lambda>c. Ok (if cb_fn_name c = ''__hdk_validate_app_entry'' then ''null'' else ''full'')),
     env_definition := (\<lambda>_. Some DefChainFull), env_author := (\<lambda>_. Ok (Some author_package)) \<rparr>"

definition online_context ::
  "(Lib3hClientProtocol list, (Address, Content) fmap, EntityAttributeValueIndex list) Context" where
  "online_context =
     (let x = blog_context [] in x\<lparr> ctx_state := (ctx_state x)\<lparr> st_network := sample_net \<rparr> \<rparr>)"

definition forged_header :: ChainHeader where
  "forged_header = ChainHeader_new (EntryType.App ''post'') ''A'' [(''me'', ''bad'')] None None None 99"

definition forged :: EntryWithHeader where
  "forged = \<lparr> ewh_entry = Entry.App ''post'' ''A'', ewh_header = forged_header \<rparr>"

lemma hold_env_simps:
  "env_run_dna hold_env c = Ok (if cb_fn_name c = ''__hdk_validate_app_entry'' then ''null'' else ''full'')"
  "env_is_null hold_env s \<longleftrightarrow> s = ''null''" "env_definition hold_env s = Some DefChainFull"
  "env_author hold_env h = Ok (Some author_package)" "env_verify hold_env q s = Ok (snd q = ''good'')"
  "env_now hold_env = 7"
  by (simp_all add: hold_env_def blog_env_def)

lemma online_simps:
  "ctx_ops online_context = version_instance" "ctx_get_dna online_context = Some blog_dna"
  "ctx_cas online_context = fmempty" "ctx_eav online_context = []"
  "ctx_state online_context = (State_new ''me'')\<lparr> st_nucleus := NucleusState_new\<lparr> nucleus_dna := Some blog_dna \<rparr>,
     st_network := sample_net \<rparr>"
  by (simp_all add: online_context_def ctx_get_dna_def blog_context_def version_context_def Let_def)

lemma forged_package: "validation_package hold_env online_context forged = Some (Returns (Ok (Some author_package)))"
  by (simp add: validation_package_def package_definition_def get_validation_package_definition_def online_simps
      forged_def get_zome_name_for_app_entry_type_def blog_simps blog_zome_def hold_env_simps parse_definition_def
      definition_of_callback_def run_bind_simps try_make_local_validation_package_def get_agent_def
      get_agent_address_def State_new_def AgentState_new_def iter_type_collect_def iter_find_def iter_collect.simps
      version_instance_def sample_instance_def get_entry_def get_raw_def forged_header_def ChainHeader_new_def
      first_source_def Provenance_source_def get_validation_package_from_cache_def sample_net_def NetworkState_new_def
      first_header_def)

lemma forged_valid:
  "validate_entry hold_env online_context (ewh_entry forged) None
     \<lparr> vd_package = author_package, vd_lifecycle = lc \<rparr> Holding = Some (Returns (Ok ()))"
  by (simp add: validate_entry_def Let_def validate_header_address_def validate_provenances_def
      validate_provenance_def clean_validation_data_def author_package_def signed_header_def ChainHeader_new_def
      online_simps version_instance_def version_hasher_def forged_def validate_app_entry_def dna_of_def blog_simps
      get_zome_name_for_app_entry_type_def blog_zome_def entry_to_validation_data_def run_validation_callback_def
      run_bind_simps hold_env_simps)

lemmas hold_simps =
  hold_content_aspect_def hold_aspect_def hold_aspect_no_ack_def then_run_def dispatch_def state_reduce_def
  agent_reduce_def dht_reduce_def dht_resolve_reducer_def reduce_hold_aspect_def reduce_store_entry_inner_def
  add_entry_def add_header_def create_crud_status_eav_def add_eavi_def add_header_for_entry_def
  mark_aspect_as_held_def mark_hold_aspect_complete_def aspect_add_def network_reduce_def hold_aspect_poll_def
  hold_aspec_request_complete_def ack_single_def reduce_respond_gossip_list_def


section \<open>The holding loop and its queues\<close>

definition with_dht :: "DhtStore \<Rightarrow> ('n, 'c, 'e) Context \<Rightarrow> ('n, 'c, 'e) Context" where
  "with_dht d x = x\<lparr> ctx_state := (ctx_state x)\<lparr> st_dht := d \<rparr> \<rparr>"

lemma with_dht_simps [simp]:
  "st_dht (ctx_state (with_dht d x)) = d" "ctx_ops (with_dht d x) = ctx_ops x"
  by (simp_all add: with_dht_def)

lemma dispatch_queue:
  "dispatch v aid (RemoveQueuedHoldingWorkflow q p) x = Some (Returns
     (with_dht (update_queued_holding_workflow (io_hasher (ctx_ops x)) (env_now v) q p (st_dht (ctx_state x))) x))"
  by (cases x; cases "ctx_state x")
     (simp add: dispatch_def state_reduce_def agent_reduce_def dht_reduce_def dht_resolve_reducer_def
        reduce_remove_queued_holding_workflow_def network_reduce_def nucleus_reduce_def run_bind_simps with_dht_def)

definition dht_queues :: "('n, 'c, 'e) Context \<Rightarrow> PendingValidationWithTimeout list \<times> PendingValidationWithTimeout list" where
  "dht_queues x = (queued_holding_workflows (st_dht (ctx_state x)), in_process_holding_workflows (st_dht (ctx_state x)))"

lemma dispatch_ops: "dispatch v aid a x = Some (Returns x') \<Longrightarrow> ctx_ops x' = ctx_ops x"
  by (auto simp: dispatch_def elim!: run_bind_ReturnsE)

lemma dispatch_frame [frame]:
  assumes "dispatch v aid a x = Some (Returns x')"
    and "(\<exists>asp hid. a = HoldAspect asp hid) \<or> (\<exists>l. a = RespondGossipList l)"
  shows "dht_queues x' = dht_queues x \<and> ctx_ops x' = ctx_ops x"
proof -
  obtain s cas eav where s: "state_reduce (ctx_ops x) (env_now v) aid \<lparr> action = a, action_id = aid \<rparr>
      (ctx_state x, ctx_cas x, ctx_eav x) = Some (Returns (s, cas, eav))"
    and x': "x' = x\<lparr> ctx_state := s, ctx_cas := cas, ctx_eav := eav \<rparr>"
    using assms(1) by (auto simp: dispatch_def elim!: run_bind_ReturnsE)
  obtain cas1 where d: "dht_reduce (io_hasher (ctx_ops x)) (io_cas (ctx_ops x)) (io_eav (ctx_ops x)) (env_now v)
      (cas1, ctx_eav x) (st_dht (ctx_state x)) \<lparr> action = a, action_id = aid \<rparr> = Returns (st_dht s, cas, eav)"
    using s by (auto simp: state_reduce_def elim!: run_bind_ReturnsE)
  then obtain r where r: "dht_resolve_reducer (io_hasher (ctx_ops x)) (io_cas (ctx_ops x)) (io_eav (ctx_ops x))
      (env_now v) (cas1, ctx_eav x) (st_dht (ctx_state x)) a = Returns (r, cas, eav)"
    "st_dht s = (case r of None \<Rightarrow> st_dht (ctx_state x) | Some d \<Rightarrow> d)"
    by (auto simp: dht_reduce_def outcome_bind_Returns_iff)
  show ?thesis
    using assms(2) r x' by (auto simp: dht_queues_def dht_resolve_reducer_def split: option.splits
        dest!: reduce_hold_aspect_queues)
qed

lemma hold_aspect_frame [frame]:
  "hold_aspect v hid asp x = Some (Returns (r, x')) \<Longrightarrow> dht_queues x' = dht_queues x \<and> ctx_ops x' = ctx_ops x"
  by (auto simp: hold_aspect_def hold_aspect_no_ack_def ack_single_def outcome_bind_Returns_iff
      elim!: then_run_Returns run_bind_ReturnsE dest!: dispatch_frame)

lemma run_holding_workflow_frame [frame]:
  assumes "run_holding_workflow v n p x = Some (Returns (r, x'))"
  shows "dht_queues x' = dht_queues x \<and> ctx_ops x' = ctx_ops x"
  using assms
  by (auto simp: run_holding_workflow_def hold_entry_workflow_def hold_link_workflow_def remove_link_workflow_def
      hold_update_workflow_def hold_remove_workflow_def hold_content_aspect_def
      elim!: try_run_Returns then_run_Returns dest!: hold_aspect_frame
      split: ValidatingWorkflow.splits Entry.splits option.splits)

lemma remove_first_split:
  "(\<And>u. u \<in> set ps \<Longrightarrow> \<not> P u) \<Longrightarrow> P y \<Longrightarrow> remove_first P (ps @ y # qs) = Some (y, ps @ qs)"
  by (induction ps) auto

lemma queues_ok_others:
  assumes "queues_ok d" "queued_holding_workflows d = ps @ item # qs"
    and "c \<in> set ps \<union> set qs \<union> set (in_process_holding_workflows d)"
  shows "\<not> same_pending H (pending c) (pending item)"
proof -
  have "workflow_key (pending c) \<noteq> workflow_key (pending item)"
    by (rule queues_ok_unique [OF assms(1), of _ "mset (ps @ qs @ in_process_holding_workflows d)"])
       (use assms(2,3) in auto)
  then show ?thesis using same_pending_key by blast
qed

definition start_workflow :: "PendingValidationWithTimeout \<Rightarrow> DhtStore \<Rightarrow> DhtStore" where
  "start_workflow item d =
     d\<lparr> queued_holding_workflows := remove1 item (queued_holding_workflows d),
        in_process_holding_workflows := in_process_holding_workflows d @ [item] \<rparr>"

lemma remove1_split: "y \<notin> set ps \<Longrightarrow> remove1 y (ps @ y # qs) = ps @ qs"
  by (induction ps) auto

lemma holding_step_result:
  assumes "queues_ok (st_dht (ctx_state x))"
    and "queued_holding_workflows (st_dht (ctx_state x)) = ps @ item # qs"
    and "next_queued_holding_workflow (io_hasher (ctx_ops x)) (env_now v) (st_dht (ctx_state x))
           = Some (pending item, map_option delay (timeout item))"
    and "run_holding_workflow v n (pending item) (with_dht (start_workflow item (st_dht (ctx_state x))) x)
           = Some (Returns (r, x2))"
  shows "\<exists>d3. holding_step v n x = Some (Returns (Some (with_dht d3 x2)))
    \<and> holding_map d3 = holding_map (st_dht (ctx_state x2)) \<and> ctx_ops x2 = ctx_ops x
    \<and> queued_holding_workflows d3 = ps @ qs @ (case queueing_after r (map_option delay (timeout item)) of
          Waiting d \<Rightarrow> [item\<lparr> timeout := Some \<lparr> time_of_dispatch = env_now v, delay = d \<rparr> \<rparr>]
        | _ \<Rightarrow> []) \<and> in_process_holding_workflows d3 = in_process_holding_workflows (st_dht (ctx_state x))"
proof -
  let ?H = "io_hasher (ctx_ops x)" and ?d = "st_dht (ctx_state x)" and ?p = "pending item"
  let ?ip = "in_process_holding_workflows ?d"
  have others: "\<not> same_pending ?H (pending c) ?p" if "c \<in> set ps \<union> set qs \<union> set ?ip" for c
    using queues_ok_others [OF assms(1,2) that] .
  then have "item \<notin> set ps" by force
  then have start: "start_workflow item ?d = ?d\<lparr> queued_holding_workflows := ps @ qs,
      in_process_holding_workflows := ?ip @ [item] \<rparr>"
    by (simp add: start_workflow_def assms(2) remove1_split)
  have upd: "update_queued_holding_workflow ?H (env_now v) Processing ?p ?d = start_workflow item ?d"
    using remove_first_split [of ps "\<lambda>c. same_pending ?H (pending c) ?p" item qs] others
    by (simp add: assms(2) start)
  have s1: "remove_queued_holding_workflow v Processing ?p x = Some (Returns (with_dht (start_workflow item ?d) x))"
    using others unfolding remove_queued_holding_workflow_def dispatch_queue upd run_bind_simps with_dht_simps
    by (auto simp: start has_exact_queued_holding_workflow_def has_exact_in_process_holding_workflow_def has_exact_iff)
  have x2: "queued_holding_workflows (st_dht (ctx_state x2)) = ps @ qs"
    "in_process_holding_workflows (st_dht (ctx_state x2)) = ?ip @ [item]" "ctx_ops x2 = ctx_ops x"
    using run_holding_workflow_frame [OF assms(4)] by (simp_all add: dht_queues_def start)
  let ?q = "queueing_after r (map_option delay (timeout item))"
  define d3 where "d3 = update_queued_holding_workflow ?H (env_now v) ?q ?p (st_dht (ctx_state x2))"
  have rf: "remove_first (\<lambda>c. same_pending ?H (pending c) ?p) (?ip @ [item]) = Some (item, ?ip)"
    using remove_first_split [of ?ip "\<lambda>c. same_pending ?H (pending c) ?p" item "[]"] others by simp
  have q: "?q = Done \<or> (\<exists>dl. ?q = Waiting dl)" by (auto simp: queueing_after_def Let_def)
  then have queues: "holding_map d3 = holding_map (st_dht (ctx_state x2))" "queued_holding_workflows d3 = ps @ qs @ (case ?q of
          Waiting d \<Rightarrow> [item\<lparr> timeout := Some \<lparr> time_of_dispatch = env_now v, delay = d \<rparr> \<rparr>]
        | _ \<Rightarrow> [])" "in_process_holding_workflows d3 = ?ip"
    by (auto simp: d3_def x2 rf)
  have ready: "queue_update_ready ?H ?q ?p d3"
    using q others queues
    by (auto simp: has_exact_queued_holding_workflow_def has_exact_in_process_holding_workflow_def has_exact_iff)
  then have "remove_queued_holding_workflow v ?q ?p x2 = Some (Returns (with_dht d3 x2))"
    by (simp add: remove_queued_holding_workflow_def dispatch_queue x2(3) d3_def run_bind_simps)
  then have "holding_step v n x = Some (Returns (Some (with_dht d3 x2)))"
    using assms(3,4) s1 by (simp add: holding_step_def run_bind_simps)
  then show ?thesis using queues x2(3) by blast
qed

text \<open>
  C27.  In queues without duplicates, a round of the holding loop takes the workflow that is next out of the queue and runs it.  When the workflow
  ends with the error that its validation is pending, and only then, it is queued again at the end, with the time of now
  and a delay of fifteen seconds at first and twice the last one afterwards, up to one hour; else it is forgotten.  All other
  workflows keep their places.  The loop never waits in vain for its own updates of the
  queues, so a round ends whenever the workflow does.
\<close>

theorem holding_step_queues:
  assumes "queues_ok (st_dht (ctx_state x))"
    and "queued_holding_workflows (st_dht (ctx_state x)) = ps @ item # qs"
    and "next_queued_holding_workflow (io_hasher (ctx_ops x)) (env_now v) (st_dht (ctx_state x))
           = Some (pending item, map_option delay (timeout item))"
    and "run_holding_workflow v n (pending item) (with_dht (start_workflow item (st_dht (ctx_state x))) x)
           = Some (Returns (r, x2))"
  shows "\<exists>x3. holding_step v n x = Some (Returns (Some x3))
    \<and> in_process_holding_workflows (st_dht (ctx_state x3)) = in_process_holding_workflows (st_dht (ctx_state x))
    \<and> queued_holding_workflows (st_dht (ctx_state x3)) =
        (if r = Err ValidationPending
         then ps @ qs @ [\<lparr> pending = pending item, timeout = Some \<lparr> time_of_dispatch = env_now v,
                delay = (case timeout item of None \<Rightarrow> 15 * 10 ^ 9 | Some t \<Rightarrow> min (2 * delay t) (3600 * 10 ^ 9)) \<rparr> \<rparr>]
         else ps @ qs)"
  using holding_step_result [OF assms]
  by (cases item) (auto simp: queueing_after_def Let_def min_def RETRY_VALIDATION_DURATION_MIN_def
      RETRY_VALIDATION_DURATION_MAX_def from_millis_def split: option.split)

fun waiting_delay :: "HoldingWorkflowQueueing \<Rightarrow> Duration option" where
  "waiting_delay (Waiting d) = Some d"
| "waiting_delay _ = None"

text \<open>
  The delay before the \<open>k\<close>-th retry doubles from fifteen seconds up to one hour and stays there.
\<close>

theorem retry_delay_exact:
  "((\<lambda>d. waiting_delay (queueing_after (Err ValidationPending) d)) ^^ Suc k) None
     = Some (min (RETRY_VALIDATION_DURATION_MIN * 2 ^ k) RETRY_VALIDATION_DURATION_MAX)"
proof (induction k)
  case 0
  then show ?case
    by (simp add: queueing_after_def RETRY_VALIDATION_DURATION_MAX_def RETRY_VALIDATION_DURATION_MIN_def from_millis_def)
next
  case (Suc k)
  have "waiting_delay (queueing_after (Err ValidationPending) (Some (min a m))) = Some (min (2 * a) m)"
    if "m = RETRY_VALIDATION_DURATION_MAX" "0 \<le> a" for a m
    using that by (auto simp: queueing_after_def Let_def min_def RETRY_VALIDATION_DURATION_MAX_def)
  from this [of RETRY_VALIDATION_DURATION_MAX "RETRY_VALIDATION_DURATION_MIN * 2 ^ k"] show ?case
    using Suc by (simp add: RETRY_VALIDATION_DURATION_MIN_def from_millis_def mult.left_commute)
qed

text \<open>
  C37.  A hold of an entry whose header cannot be stored is never answered: the reducer returns before it records a
  result, so the workflow that waits for the result waits forever.
\<close>

theorem hold_without_header_hangs:
  assumes "hold_in_storage (io_hasher (ctx_ops x)) (io_cas (ctx_ops x)) (io_eav (ctx_ops x))
             (ctx_cas x, ctx_eav x) asp = (None, cas', eav')"
    and "hold_aspect_poll (st_dht (ctx_state x)) hid = None"
  shows "hold_aspect v hid asp x = None"
proof -
  have "dispatch v ''hold'' (HoldAspect asp hid) x = Some (Returns (x\<lparr> ctx_cas := cas', ctx_eav := eav' \<rparr>))"
    using assms(1)
    by (cases x; cases "ctx_state x")
       (simp add: dispatch_def state_reduce_def agent_reduce_def dht_reduce_def dht_resolve_reducer_def
          reduce_hold_aspect_def network_reduce_def nucleus_reduce_def run_bind_simps)
  then show ?thesis
    using assms(2) by (simp add: hold_aspect_def hold_aspect_no_ack_def then_run_def run_bind_simps)
qed

definition queued_item :: PendingValidationWithTimeout where
  "queued_item = \<lparr> pending = \<lparr> entry_with_header = forged, dependencies = [], workflow = HoldEntry, uuid = 5 \<rparr>,
     timeout = None \<rparr>"

theorem holding_step_queues_witness:
  "\<exists>x3. holding_step blog_env 0
          (with_dht (DhtStore_new\<lparr> queued_holding_workflows := [queued_item] \<rparr>) online_context) = Some (Returns (Some x3))
     \<and> queued_holding_workflows (st_dht (ctx_state x3)) =
         [queued_item\<lparr> timeout := Some \<lparr> time_of_dispatch = 7, delay = 15000000000 \<rparr> \<rparr>]"
proof -
  let ?d = "DhtStore_new\<lparr> queued_holding_workflows := [queued_item] \<rparr>"
  let ?x = "with_dht ?d online_context"
  have p: "package_definition blog_env y (Entry.App ''post'' ''A'')
      = Returns (Err (SerializationError ''__hdk_get_validation_package_for_entry_type returned empty result''))"
    if "ctx_get_dna y = Some blog_dna" for y :: "(Lib3hClientProtocol list, (Address, Content) fmap,
        EntityAttributeValueIndex list) Context"
    using that by (simp add: package_definition_def get_validation_package_definition_def blog_env_def
        get_zome_name_for_app_entry_type_def blog_simps blog_zome_def parse_definition_def)
  have dna: "ctx_get_dna (with_dht d online_context) = Some blog_dna" for d
    by (simp add: ctx_get_dna_def with_dht_def online_simps)
  have "run_holding_workflow blog_env 0 (pending queued_item) (with_dht (start_workflow queued_item (st_dht (ctx_state ?x))) ?x)
      = Some (Returns (Err ValidationPending, with_dht (start_workflow queued_item (st_dht (ctx_state ?x))) ?x))"
    by (simp add: run_holding_workflow_def queued_item_def hold_entry_workflow_def try_run_def get_package_def
        validation_package_def forged_def with_dht_def)
       (simp add: p dna [unfolded with_dht_def] run_bind_simps)
  moreover have "queues_ok (st_dht (ctx_state ?x))" "queued_holding_workflows (st_dht (ctx_state ?x)) = [] @ queued_item # []"
      "next_queued_holding_workflow (io_hasher (ctx_ops ?x)) (env_now blog_env) (st_dht (ctx_state ?x)) =
         Some (pending queued_item, map_option delay (timeout queued_item))"
    by (simp_all add: queues_ok_def DhtStore_new_def next_queued_holding_workflow_def free_pending_filter_def
        still_delayed_def queued_item_def)
  moreover have "env_now blog_env = 7" "timeout queued_item = None" by (simp_all add: blog_env_def queued_item_def)
  ultimately show ?thesis
    using holding_step_queues [of ?x "[]" queued_item "[]" blog_env 0 "Err ValidationPending"] by fastforce
qed

section \<open>Authoring\<close>

text \<open>The messages \<open>ms\<close> were sent, in this order and no others.\<close>

definition sent :: "'n net_ops \<Rightarrow> Lib3hClientProtocol list \<Rightarrow> 'n NetworkState \<Rightarrow> 'n NetworkState \<Rightarrow> bool" where
  "sent N ms s s' \<longleftrightarrow> net_network s' = map_option (fold (\<lambda>m n. snd (net_send N n m)) ms) (net_network s)"

lemma sent_trans: "sent N ms s s' \<Longrightarrow> sent N ms' s' s'' \<Longrightarrow> sent N (ms @ ms') s s''"
  by (simp add: sent_def option.map_comp comp_def)

lemma sent_none: "net_network s' = net_network s \<Longrightarrow> sent N [] s s'"
  by (simp add: sent_def option.map_id)

text \<open>A message that publishes a header as an entry, and nothing else.\<close>

definition header_message :: "Lib3hClientProtocol \<Rightarrow> bool" where
  "header_message m \<longleftrightarrow> (\<exists>space agent a d h vh. m = PublishEntry space agent \<lparr> ed_entry_address = a, ed_aspect_list = [d] \<rparr>
     \<and> ead_aspect d = EntryAspect.Content (Entry.ChainHeader h) vh)"

lemma send_protocol_sent: "send_protocol N m s = (r, s') \<Longrightarrow> sent N [m] s s' \<or> net_network s' = net_network s"
  by (auto simp: send_protocol_def sent_def split: option.splits prod.splits)

lemma publish_header_sent:
  assumes "reduce_publish_header_entry H N C sign cas agent now aid address s = Some (Returns s')"
  shows "\<exists>ms. sent N ms s s' \<and> list_all header_message ms"
proof -
  obtain r s1 where s': "net_network s' = net_network s1"
    and s1: "s1 = s \<or> (\<exists>h. publish_header H N C sign now cas agent h s = Some (Returns (r, s1)))"
    using assms
    by (auto simp: reduce_publish_header_entry_def respond_action_def elim!: run_bind_ReturnsE split: sum.splits)
       blast
  show ?thesis
  proof (cases "net_network s1 = net_network s")
    case True
    then show ?thesis using s' sent_none by (intro exI [of _ "[]"]) auto
  next
    case False
    then obtain h ewh where "ewh_entry ewh = Entry.ChainHeader h" "publish_entry H N ewh s = Returns (r, s1)"
      using s1
      by (auto simp: publish_header_def create_entry_with_header_for_header_def Let_def and_then_Ok_iff
          elim!: run_bind_ReturnsE split: sum.splits) (metis EntryWithHeader.select_convs(1))
    then obtain space agent where "send_protocol N (PublishEntry space agent
         \<lparr> ed_entry_address = entry_address H (Entry.ChainHeader h),
           ed_aspect_list = [entry_data_to_entry_aspect_data H (EntryAspect.Content (Entry.ChainHeader h) (ewh_header ewh))] \<rparr>)
         s = (r, s1)"
      by (auto simp: publish_entry_def publish_aspect_def outcome_bind_Returns_iff)
    from send_protocol_sent [OF this] False s' show ?thesis
      by (intro exI [of _ "[_]"]) (auto simp: sent_def header_message_def entry_data_to_entry_aspect_data_def)
  qed
qed

lemma dispatch_network:
  fixes x :: "('n, 'c, 'e) Context"
  assumes "dispatch v aid a x = Some (Returns x')"
  shows "\<exists>c :: ('n, 'c) net_context. network_reduce c \<lparr> action = a, action_id = aid \<rparr> (st_network (ctx_state x)) = Some (Returns (st_network (ctx_state x')))
      \<and> nc_net c = io_net (ctx_ops x)
    \<and> ctx_ops x' = ctx_ops x \<and> st_nucleus (ctx_state x') = nucleus_reduce a (st_nucleus (ctx_state x))"
proof -
  obtain s cas eav where s: "state_reduce (ctx_ops x) (env_now v) aid \<lparr> action = a, action_id = aid \<rparr>
      (ctx_state x, ctx_cas x, ctx_eav x) = Some (Returns (s, cas, eav))"
    and x': "x' = x\<lparr> ctx_state := s, ctx_cas := cas, ctx_eav := eav \<rparr>"
    using assms(1) by (auto simp: dispatch_def elim!: run_bind_ReturnsE)
  from s show ?thesis
    unfolding x' by (auto simp: state_reduce_def elim!: run_bind_ReturnsE)
qed

lemma can_publish_cong: "ctx_get_dna x' = ctx_get_dna x \<Longrightarrow> can_publish x' t = can_publish x t"
  by (simp add: can_publish_def)

text \<open>What authoring does besides sending: it keeps the DNA and the library code.\<close>

definition same_setting :: "('n, 'c, 'e) Context \<Rightarrow> ('n, 'c, 'e) Context \<Rightarrow> bool" where
  "same_setting x x' \<longleftrightarrow> ctx_ops x' = ctx_ops x \<and> ctx_get_dna x' = ctx_get_dna x"

lemma same_setting_trans: "same_setting x y \<Longrightarrow> same_setting y z \<Longrightarrow> same_setting x z"
  by (simp add: same_setting_def)

lemma net_actions_update: "s\<lparr> net_actions := f \<rparr> = s' \<Longrightarrow> net_network s' = net_network s"
  by auto

lemma dispatch_quiet:
  assumes "dispatch v aid a x = Some (Returns x')"
    and "(\<exists>e l p. a = Commit e l p) \<or> (\<exists>i. a = ClearActionResponse i)"
  shows "same_setting x x' \<and> net_network (st_network (ctx_state x')) = net_network (st_network (ctx_state x))"
  using dispatch_network [OF assms(1)] assms(2)
  by (auto simp: same_setting_def ctx_get_dna_def network_reduce_def nucleus_reduce_def
      network_clear_action_response_def dest: net_actions_update)

lemma clear_response_quiet:
  assumes "clear_response v aid r x = Some (Returns (r', x'))"
  shows "r' = r \<and> same_setting x x' \<and> net_network (st_network (ctx_state x')) = net_network (st_network (ctx_state x))"
  using assms by (auto simp: clear_response_def elim!: run_bind_ReturnsE dest!: dispatch_quiet)

lemma commit_entry_quiet:
  assumes "commit_entry v aid entry l x = Some (Returns (r, x'))"
  shows "same_setting x x' \<and> net_network (st_network (ctx_state x')) = net_network (st_network (ctx_state x))"
  using assms
  by (auto simp: commit_entry_def elim!: run_bind_ReturnsE
      split: option.splits AgentActionResponse.splits dest!: dispatch_quiet clear_response_quiet
      intro: same_setting_trans)

lemma await_network_quiet:
  assumes "await_network v aid sel x = Some (Returns (r, x'))"
  shows "same_setting x x' \<and> net_network (st_network (ctx_state x')) = net_network (st_network (ctx_state x))"
  using assms
  by (auto simp: await_network_def same_setting_def split: sum.splits option.splits dest!: clear_response_quiet)

lemma publish_header_entry_sent:
  assumes "publish_header_entry v aid address x = Some (Returns (r, x'))"
  shows "same_setting x x' \<and> (\<exists>ms. sent (io_net (ctx_ops x)) ms (st_network (ctx_state x)) (st_network (ctx_state x'))
     \<and> list_all header_message ms)"
proof -
  obtain y where y: "dispatch v aid (PublishHeaderEntry address) x = Some (Returns y)"
    and a: "same_setting y x'" "net_network (st_network (ctx_state x')) = net_network (st_network (ctx_state y))"
    using assms by (auto simp: publish_header_entry_def elim!: run_bind_ReturnsE dest!: await_network_quiet)
  have "same_setting x y" using dispatch_network [OF y] by (auto simp: same_setting_def ctx_get_dna_def nucleus_reduce_def)
  moreover obtain ms where "sent (io_net (ctx_ops x)) ms (st_network (ctx_state x)) (st_network (ctx_state y))"
    "list_all header_message ms"
    using dispatch_network [OF y] by (auto simp: network_reduce_def dest!: publish_header_sent)
  ultimately show ?thesis using a same_setting_trans by (auto simp: sent_def)
qed


definition author_env :: env where
  "author_env = blog_env\<lparr>
     env_run_dna := (\<lambda>c. Ok (if cb_fn_name c = ''__hdk_validate_app_entry'' then ''null'' else ''entry'')),
     env_definition := (\<lambda>_. Some DefEntry), env_verify := (\<lambda>_ _. Ok True) \<rparr>"

lemma author_env_simps:
  "env_run_dna author_env c = Ok (if cb_fn_name c = ''__hdk_validate_app_entry'' then ''null'' else ''entry'')"
  "env_is_null author_env s \<longleftrightarrow> s = ''null''" "env_definition author_env s = Some DefEntry"
  "env_verify author_env q s = Ok True" "env_now author_env = 7"
  by (simp_all add: author_env_def blog_env_def)

lemmas author_simps =
  author_entry_def check_link_entries_def try_run_def build_validation_package_def packageable_def package_header_def
  find_chain_header_def iter_find_def iter_collect.simps create_new_chain_header_def get_agent_address_def
  iter_type_collect_def package_definition_def get_validation_package_definition_def parse_definition_def
  definition_of_callback_def fill_package_def only_header_def validate_to_author_def validate_entry_def
  clean_validation_data_def validate_header_address_def validate_provenances_def validate_provenance_def
  validate_app_entry_def dna_of_def entry_to_validation_data_def run_validation_callback_def commit_entry_def
  publish_authored_def can_publish_def publish_header_entry_def await_network_def clear_response_def then_run_def
  dispatch_def state_reduce_def agent_reduce_def dht_reduce_def dht_resolve_reducer_def network_reduce_def
  agent_reduce_commit_entry_def commit_result_def dht_reduce_commit_entry_def reduce_store_entry_inner_def
  add_entry_def add_header_def create_crud_status_eav_def add_eavi_def

lemma secret_authored:
  "\<exists>x'. author_entry author_env (\<lambda>n. if n = 0 then ''i'' else if n = 1 then ''j'' else ''k'') (Entry.App ''secret'' ''S'') None []
          online_context = Some (Returns (Ok ''S'', x'))"
  by (simp add: author_simps author_env_simps online_simps get_zome_name_for_app_entry_type_def blog_simps blog_zome_def
      version_instance_def sample_instance_def version_hasher_def log_eav_def State_new_def AgentState_new_def
      DhtStore_new_def first_header_def ChainHeader_new_def get_entry_type_def_def is_sys_def run_bind_simps
      initialized_def sample_net_def NetworkState_new_def ctx_get_dna_def nucleus_reduce_def
      reduce_publish_header_entry_def fetch_entry_with_header_def publish_header_def
      create_entry_with_header_for_header_def publish_entry_def publish_aspect_def space_and_agent_def send_protocol_def
      log_net_def respond_action_def generic_error_def get_entry_def get_raw_def agent_reduce_clear_action_response_def
      network_clear_action_response_def advance_def Let_def)


definition full_disk :: "EntityAttributeValueIndex list eav_ops" where
  "full_disk = log_eav\<lparr> eav_add := (\<lambda>es i. if eav_attribute i = EntryHeader then (Err (PIoError ''disk full''), es)
     else (Ok (Some i), es @ [i])) \<rparr>"

theorem hold_without_header_hangs_witness:
  "hold_aspect blog_env (5, 0) (EntryAspect.Content (Entry.App ''post'' ''A'') signed_header)
     (online_context\<lparr> ctx_ops := version_instance\<lparr> io_eav := full_disk \<rparr> \<rparr>) = None"
  by (rule hold_without_header_hangs)
     (simp_all add: version_instance_def sample_instance_def full_disk_def log_eav_def version_hasher_def
        online_simps State_new_def DhtStore_new_def hold_aspect_poll_def hold_aspec_request_complete_def
        reduce_store_entry_inner_def add_entry_def add_header_def create_crud_status_eav_def add_eavi_def
        add_header_for_entry_def Let_def)

end
