(* ===== verification/Handlers.thy ===== *)
theory Handlers
  imports Workflows
begin

text \<open>
  \<open>crates/core/src/network/handler\<close>: what the node does with each message of the network.  Contents are bytes;
  reading them as text is the standard library's check of UTF-8, reading the text as data is
  the JSON library's, a parameter.  A handler returns the actions it dispatches; tasks that it
  spawns run to their end.  The order in which hash sets and maps list their elements is a parameter.
\<close>

section \<open>Contents\<close>

definition cont_byte :: "nat \<Rightarrow> bool" where
  "cont_byte b \<longleftrightarrow> 128 \<le> b \<and> b < 192"

text \<open>The least and greatest second byte after a leading byte, and how many plain continuation bytes follow it.\<close>

definition utf8_lead :: "nat \<Rightarrow> (nat \<times> nat \<times> nat) option" where
  "utf8_lead b =
     (if 194 \<le> b \<and> b \<le> 223 then Some (128, 191, 0)
      else if b = 224 then Some (160, 191, 1)
      else if b = 237 then Some (128, 159, 1)
      else if 225 \<le> b \<and> b \<le> 239 then Some (128, 191, 1)
      else if b = 240 then Some (144, 191, 2)
      else if 241 \<le> b \<and> b \<le> 243 then Some (128, 191, 2)
      else if b = 244 then Some (128, 143, 2)
      else None)"

function valid_utf8 :: "nat list \<Rightarrow> bool" where
  "valid_utf8 [] \<longleftrightarrow> True"
| "valid_utf8 (b # bs) \<longleftrightarrow>
     (if b < 128 then valid_utf8 bs
      else case utf8_lead b of
             None \<Rightarrow> False
           | Some (lo, hi, n) \<Rightarrow>
               (case bs of
                  [] \<Rightarrow> False
                | c # cs \<Rightarrow> lo \<le> c \<and> c \<le> hi \<and> n \<le> length cs \<and> list_all cont_byte (take n cs)
                    \<and> valid_utf8 (drop n cs)))"
  by pat_completeness auto
termination
  by (relation "measure length") auto

definition from_utf8 :: "string \<Rightarrow> string outcome" where
  "from_utf8 bytes =
     (if valid_utf8 (map of_char bytes) then Returns bytes
      else Panics ''called `Result::unwrap()` on an `Err` value'')"

record wire =
  wire_aspect :: "string \<Rightarrow> EntryAspect option"
  wire_query :: "string \<Rightarrow> NetworkQuery option"
  wire_result :: "string \<Rightarrow> NetworkQueryResult option"
  wire_message :: "string \<Rightarrow> (DirectMessage, string) result"
  wire_debug :: bool
  wire_set_order :: "EntryAspect fset \<Rightarrow> EntryAspect list"
  wire_map_order :: "AspectMap \<Rightarrow> (Address \<times> Address list) list"

datatype Lib3hServerProtocol =
    FailureResult Address
  | HandleStoreEntryAspect Address string
  | HandleFetchEntry Address FetchEntryData
  | FetchEntryResult Address
  | HandleQueryEntry Address QueryEntryData string
  | QueryEntryResult Address Address Address string string
  | HandleSendDirectMessage Address Address Address string string
  | SendDirectMessageResult Address Address Address string string
  | Connected
  | HandleGetAuthoringEntryList Address Address string
  | HandleGetGossipingEntryList Address Address string
  | OtherServerMessage

text \<open>The texts that are formatted for the debug log, when it is on, unwrap the parsed content.\<close>

definition format_store_data :: "wire \<Rightarrow> string \<Rightarrow> unit outcome" where
  "format_store_data w content =
     (if \<not> wire_debug w then Returns ()
      else outcome_bind (from_utf8 content) (\<lambda>text.
           outcome_bind (expect ''called `Result::unwrap()` on an `Err` value'' (wire_aspect w text)) (\<lambda>_. Returns ())))"

definition format_message_data :: "wire \<Rightarrow> string \<Rightarrow> unit outcome" where
  "format_message_data w content =
     (if \<not> wire_debug w then Returns ()
      else outcome_bind (from_utf8 content) (\<lambda>text.
           outcome_bind (expect_ok ''called `Result::unwrap()` on an `Err` value'' (wire_message w text)) (\<lambda>_. Returns ())))"

section \<open>Storing\<close>

definition handle_store ::
  "wire \<Rightarrow> ProcessUniqueId \<Rightarrow> ('n, 'c, 'e) Context \<Rightarrow> string \<Rightarrow> Action list outcome" where
  "handle_store w pid x content =
     outcome_bind (from_utf8 content) (\<lambda>text.
       case wire_aspect w text of
         None \<Rightarrow> Returns []
       | Some aspect \<Rightarrow>
           outcome_bind (aspect_contains (io_hasher (ctx_ops x)) (holding_map (st_dht (ctx_state x))) aspect) (\<lambda>held.
             if held then outcome_bind (ack_single x aspect) (\<lambda>ack. Returns [ack])
             else (case pending_try_from (io_hasher (ctx_ops x)) pid aspect of
                     Inl _ \<Rightarrow> Returns []
                   | Inr p \<Rightarrow> Returns [QueueHoldingWorkflow p None])))"

section \<open>Aspects of an entry\<close>

text \<open>\<open>state.agent().iter_chain()\<close>\<close>

definition iter_chain :: "('n, 'c, 'e) Context \<Rightarrow> ChainHeader list run" where
  "iter_chain x = iter_collect hdr_link (io_cas (ctx_ops x)) (ctx_cas x) (\<lambda>_. True) None
     (agent_top_chain_header (st_agent (ctx_state x)))"

definition header_entry :: "env \<Rightarrow> ('n, 'c, 'e) Context \<Rightarrow> ChainHeader \<Rightarrow> EntryWithHeader HcResult run" where
  "header_entry v x h = create_entry_with_header_for_header (io_hasher (ctx_ops x)) (io_cas (ctx_ops x))
     (io_sign (ctx_ops x)) (env_now v) (ctx_cas x) (st_agent (ctx_state x)) h"

definition content_aspect_of ::
  "env \<Rightarrow> ('n, 'c, 'e) Context \<Rightarrow> Address \<Rightarrow> ChainHeader \<Rightarrow> EntryAspect option run" where
  "content_aspect_of v x address h =
     run_bind (Some (can_publish x (hdr_entry_type h))) (\<lambda>public.
       if \<not> public then Some (Returns None)
       else if header_hash (io_hasher (ctx_ops x)) h = address
       then run_bind (header_entry v x h) (\<lambda>r.
              Some (Returns (case r of
                Inr ewh \<Rightarrow> Some (EntryAspect.Content (ewh_entry ewh) (ewh_header ewh))
              | Inl _ \<Rightarrow> None)))
       else if hdr_entry_address h = address
       then Some (Returns (case get_entry (io_cas (ctx_ops x)) (ctx_cas x) address of
              Inr (Some entry) \<Rightarrow> Some (EntryAspect.Content entry h)
            | _ \<Rightarrow> None))
       else Some (Returns None))"

definition get_content_aspects_from_chain ::
  "env \<Rightarrow> ('n, 'c, 'e) Context \<Rightarrow> Address \<Rightarrow> EntryAspect list HcResult run" where
  "get_content_aspects_from_chain v x address =
     run_bind (iter_chain x) (\<lambda>hs.
     run_bind (run_map (content_aspect_of v x address) hs) (\<lambda>as.
       Some (Returns (Ok (List.map_filter id as)))))"

definition get_content_aspects :: "('n, 'c, 'e) Context \<Rightarrow> Address \<Rightarrow> EntryAspect list HcResult run" where
  "get_content_aspects x address =
     (case get_entry (io_cas (ctx_ops x)) (ctx_cas x) address of
        Inl e \<Rightarrow> Some (Returns (Err e))
      | Inr None \<Rightarrow> Some (Returns (Ok []))
      | Inr (Some entry) \<Rightarrow>
          run_bind (context_get_headers x address) (\<lambda>r.
            Some (Returns (case r of
              Inl _ \<Rightarrow> Err (ErrorGeneric ''net/fetch/get_content_aspects: Error trying to get headers'')
            | Inr headers \<Rightarrow> Ok (map (EntryAspect.Content entry) headers)))))"

definition entry_to_meta_aspect :: "hasher \<Rightarrow> Entry \<Rightarrow> ChainHeader \<Rightarrow> (Address \<times> EntryAspect) option HcResult" where
  "entry_to_meta_aspect H entry header =
     (let maybe_aspect =
        (case entry of
           Entry.App app_type app_value \<Rightarrow>
             map_option (\<lambda>_. EntryAspect.Update (Entry.App app_type app_value) header) (hdr_link_update_delete header)
         | Entry.LinkAdd link_data \<Rightarrow> Some (EntryAspect.LinkAdd link_data header)
         | Entry.LinkRemove link_data addresses \<Rightarrow> Some (EntryAspect.LinkRemove link_data addresses header)
         | Entry.Deletion _ \<Rightarrow> Some (EntryAspect.Deletion header)
         | _ \<Rightarrow> None)
      in case maybe_aspect of
           Some aspect \<Rightarrow> map_ok (\<lambda>a. Some (a, aspect)) (aspect_entry_address H aspect)
         | None \<Rightarrow> Ok None)"

definition chain_meta_aspect :: "('n, 'c, 'e) Context \<Rightarrow> ChainHeader \<Rightarrow> (Address \<times> EntryAspect) option outcome" where
  "chain_meta_aspect x h =
     (case get_entry (io_cas (ctx_ops x)) (ctx_cas x) (hdr_entry_address h) of
        Inl _ \<Rightarrow> Returns None
      | Inr maybe_entry \<Rightarrow>
          outcome_bind (expect ''Could not find entry in chain CAS, but header is chain'' maybe_entry) (\<lambda>entry.
            expect_ok ''Couldn't derive meta aspect from entry'' (entry_to_meta_aspect (io_hasher (ctx_ops x)) entry h)))"

definition get_meta_aspects_from_chain :: "('n, 'c, 'e) Context \<Rightarrow> Address \<Rightarrow> EntryAspect list HcResult run" where
  "get_meta_aspects_from_chain x address =
     run_bind (iter_chain x) (\<lambda>hs.
     run_bind (Some (public_headers x hs)) (\<lambda>public.
     run_bind (Some (outcome_map (chain_meta_aspect x) public)) (\<lambda>metas.
       Some (Returns (Ok (map snd (filter (\<lambda>(a, _). a = address) (List.map_filter id metas))))))))"

text \<open>
  The aspect that an index entry stands for.  A removed link whose value is the link that was added
  takes the header, and the link, from the one content aspect of the removal.
\<close>

definition removal_aspect ::
  "('n, 'c, 'e) Context \<Rightarrow> Address \<Rightarrow> Address \<Rightarrow> EntryAspect HcResult run" where
  "removal_aspect x link_remove_address link_add_address =
     run_bind (get_content_aspects x link_remove_address) (\<lambda>r.
       Some (Returns (and_then r (\<lambda>contents.
         case contents of
           [EntryAspect.Content (Entry.LinkRemove link_data _) header] \<Rightarrow>
             Ok (EntryAspect.LinkRemove link_data [link_add_address] header)
         | [EntryAspect.Content _ _] \<Rightarrow> Err (ErrorGeneric ''Expecting LinkRemove entry, got:'')
         | [_] \<Rightarrow> Err (ErrorGeneric ''Expecting content aspect, got:'')
         | _ \<Rightarrow> Err (ErrorGeneric ''Expecting one LinkRemove content aspect, got:'')))))"

definition eavi_aspect :: "('n, 'c, 'e) Context \<Rightarrow> EntityAttributeValueIndex \<Rightarrow> EntryAspect HcResult run" where
  "eavi_aspect x eavi =
     run_bind (get_entry_with_meta_workflow_local x (eav_value eavi)) (\<lambda>r.
       case and_then r (ok_or (ErrorGeneric ''Entry linked in EAV not found! This should never happen.'')) of
         Inl e \<Rightarrow> Some (Returns (Err e))
       | Inr value_entry \<Rightarrow>
           (case meta_headers value_entry of
              [] \<Rightarrow> Some (Panics ''index out of bounds: the len is 0 but the index is 0'')
            | header # _ \<Rightarrow>
                (case (eav_attribute eavi, meta_entry (entry_with_meta value_entry)) of
                   (LinkTag _ _, Entry.LinkAdd link_data) \<Rightarrow> Some (Returns (Ok (EntryAspect.LinkAdd link_data header)))
                 | (LinkTag _ _, Entry.LinkRemove link_data _) \<Rightarrow> Some (Returns (Ok (EntryAspect.LinkAdd link_data header)))
                 | (LinkTag _ _, _) \<Rightarrow> Some (Returns (Err (ErrorGeneric ''Invalid Entry Value for LinkTag:'')))
                 | (RemovedLink _ _ _, Entry.LinkRemove link_data removed) \<Rightarrow>
                     Some (Returns (Ok (EntryAspect.LinkRemove link_data removed header)))
                 | (RemovedLink link_remove_address _ _, Entry.LinkAdd _) \<Rightarrow>
                     removal_aspect x link_remove_address (eav_value eavi)
                 | (RemovedLink _ _ _, _) \<Rightarrow> Some (Returns (Err (ErrorGeneric ''Invalid Entry Value for RemovedLink:'')))
                 | (CrudLink, entry) \<Rightarrow> Some (Returns (Ok (EntryAspect.Update entry header)))
                 | _ \<Rightarrow> Some (Returns (Err (ErrorGeneric ''Invalid Attribute in eavi:''))))))"

definition meta_attribute :: "Attribute \<Rightarrow> bool" where
  "meta_attribute a \<longleftrightarrow> (case a of LinkTag _ _ \<Rightarrow> True | RemovedLink _ _ _ \<Rightarrow> True | CrudLink \<Rightarrow> True | _ \<Rightarrow> False)"

definition get_meta_aspects_from_dht_eav :: "('n, 'c, 'e) Context \<Rightarrow> Address \<Rightarrow> EntryAspect list HcResult run" where
  "get_meta_aspects_from_dht_eav x address =
     (case get_all_metas (io_eav (ctx_ops x)) (ctx_eav x) address of
        Inl e \<Rightarrow> Some (Returns (Err e))
      | Inr eavis \<Rightarrow>
          run_bind (run_map (eavi_aspect x) (filter (\<lambda>e. meta_attribute (eav_attribute e)) eavis)) (\<lambda>rs.
            Some (Returns (collect_results rs))))"

section \<open>Fetching\<close>

definition fetch_aspects_for_entry :: "('n, 'c, 'e) Context \<Rightarrow> Address \<Rightarrow> EntryAspect fset run" where
  "fetch_aspects_for_entry x address =
     run_bind (get_content_aspects x address) (\<lambda>r.
       case r of
         Inl _ \<Rightarrow> Some (Returns {||})
       | Inr content_aspects \<Rightarrow>
           run_bind (get_meta_aspects_from_chain x address) (\<lambda>r1.
           run_bind (get_meta_aspects_from_dht_eav x address) (\<lambda>r2.
             let ok = (\<lambda>r. case r of Inr as \<Rightarrow> as | Inl _ \<Rightarrow> [])
             in Some (Returns (fset_of_list (content_aspects @ ok r1 @ ok r2))))))"

definition handle_fetch_entry :: "wire \<Rightarrow> ('n, 'c, 'e) Context \<Rightarrow> FetchEntryData \<Rightarrow> Action list run" where
  "handle_fetch_entry w x get_dht_data =
     run_bind (fetch_aspects_for_entry x (fe_entry_address get_dht_data)) (\<lambda>aspect_set.
       Some (Returns [RespondFetch get_dht_data (wire_set_order w aspect_set)]))"

section \<open>Queries\<close>

definition handler_get_entry :: "('n, 'c, 'e) Context \<Rightarrow> Address \<Rightarrow> EntryWithMetaAndHeader option run" where
  "handler_get_entry x address =
     (case get_entry_with_meta x address of
        Inl _ \<Rightarrow> Some (Returns None)
      | Inr None \<Rightarrow> Some (Returns None)
      | Inr (Some m) \<Rightarrow>
          (case meta_entry m of
             Entry.ChainHeader _ \<Rightarrow> Some (Returns (Some \<lparr> entry_with_meta = m, meta_headers = [] \<rparr>))
           | _ \<Rightarrow>
               run_bind (context_get_headers x address) (\<lambda>r.
                 case r of
                   Inl _ \<Rightarrow> Some (Returns None)
                 | Inr headers \<Rightarrow>
                     run_bind (Some (can_publish x (entry_type (meta_entry m)))) (\<lambda>public.
                       Some (Returns (if public then Some \<lparr> entry_with_meta = m, meta_headers = headers \<rparr> else None))))))"

definition default_configuration :: GetLinksQueryConfiguration where
  "default_configuration = \<lparr> links_headers = False, pagination = None, sort_order = None \<rparr>"

definition handle_query_entry_data ::
  "wire \<Rightarrow> (string \<Rightarrow> string) \<Rightarrow> ('n, 'c, 'e) Context \<Rightarrow> QueryEntryData \<Rightarrow> string \<Rightarrow> Action list run" where
  "handle_query_entry_data w upper x query_data content =
     run_bind (Some (from_utf8 content)) (\<lambda>text.
       case wire_query w text of
         Some (GetLinks lt tg options query) \<Rightarrow>
           run_bind (handler_get_links upper x (qe_entry_address query_data) lt tg options
               (case query of Links configuration \<Rightarrow> configuration | _ \<Rightarrow> default_configuration)) (\<lambda>r.
             Some (Returns (case r of
               Inr links \<Rightarrow>
                 [RespondQuery query_data (LinksResult
                    (case query of Links _ \<Rightarrow> LinksFound links | Count \<Rightarrow> LinksCount (length links)) lt tg)]
             | Inl _ \<Rightarrow> [])))
       | Some GetEntry \<Rightarrow>
           run_bind (handler_get_entry x (qe_entry_address query_data)) (\<lambda>maybe_entry.
             Some (Returns [RespondQuery query_data (EntryResult maybe_entry)]))
       | None \<Rightarrow> Some (Returns []))"

definition handle_query_entry_result ::
  "wire \<Rightarrow> Address \<Rightarrow> string \<Rightarrow> string \<Rightarrow> Action list outcome" where
  "handle_query_entry_result w entry_addr request_id content =
     outcome_bind (from_utf8 content) (\<lambda>text.
       Returns (case wire_result w text of
         Some (EntryResult maybe_entry) \<Rightarrow>
           [HandleQuery (EntryResult maybe_entry) (EntryKey \<lparr> get_address = entry_addr, entry_key_id = request_id \<rparr>)]
       | Some (LinksResult links_result lt tg) \<Rightarrow>
           [HandleQuery (LinksResult links_result lt tg)
              (LinksKey \<lparr> base_address = entry_addr, key_link_type = lt, key_tag = tg, links_key_id = request_id \<rparr>)]
       | None \<Rightarrow> []))"

section \<open>Lists\<close>

fun run_fold :: "('a \<Rightarrow> 's \<Rightarrow> 's run) \<Rightarrow> 'a list \<Rightarrow> 's \<Rightarrow> 's run" where
  "run_fold f [] s = Some (Returns s)"
| "run_fold f (a # as) s = run_bind (f a s) (run_fold f as)"

definition get_all_public_chain_entries :: "('n, 'c, 'e) Context \<Rightarrow> Address list run" where
  "get_all_public_chain_entries x =
     run_bind (iter_chain x) (\<lambda>hs.
     run_bind (Some (public_headers x hs)) (\<lambda>public.
       Some (Returns (map hdr_entry_address public))))"

text \<open>A content aspect is listed under its entry, and the meta aspect that its entry makes under the base of that.\<close>

definition list_content_aspect ::
  "hasher \<Rightarrow> Address \<Rightarrow> EntryAspect \<Rightarrow> AspectMap \<Rightarrow> AspectMap run" where
  "list_content_aspect H entry_addr content_aspect m =
     (let m1 = insert_aspect (entry_addr, aspect_hash H content_aspect) m
      in case content_aspect of
           EntryAspect.Content entry header \<Rightarrow>
             run_bind (Some (expect_ok ''Couldn't derive meta aspect from entry'' (entry_to_meta_aspect H entry header)))
               (\<lambda>maybe_meta. Some (Returns (case maybe_meta of
                  Some (base_addr, meta_aspect) \<Rightarrow> insert_aspect (base_addr, aspect_hash H meta_aspect) m1
                | None \<Rightarrow> m1)))
         | _ \<Rightarrow> Some (Panics ''get_content_aspects must return only EntryAspect::Content''))"

definition list_entry :: "env \<Rightarrow> ('n, 'c, 'e) Context \<Rightarrow> Address \<Rightarrow> AspectMap \<Rightarrow> AspectMap run" where
  "list_entry v x entry_addr m =
     run_bind (get_content_aspects_from_chain v x entry_addr) (\<lambda>r.
     run_bind (Some (expect_ok ''Must be able to get content aspects of entry that is in our source chain'' r)) (\<lambda>as.
       run_fold (list_content_aspect (io_hasher (ctx_ops x)) entry_addr) as m))"

definition list_header :: "env \<Rightarrow> ('n, 'c, 'e) Context \<Rightarrow> ChainHeader \<Rightarrow> AspectMap \<Rightarrow> AspectMap run" where
  "list_header v x h m =
     run_bind (header_entry v x h) (\<lambda>r. Some (Returns (case r of
       Inl _ \<Rightarrow> m
     | Inr ewh \<Rightarrow> insert_aspect (entry_address (io_hasher (ctx_ops x)) (ewh_entry ewh),
                     aspect_hash (io_hasher (ctx_ops x)) (EntryAspect.Content (ewh_entry ewh) (ewh_header ewh))) m)))"

definition create_authoring_map :: "env \<Rightarrow> ('n, 'c, 'e) Context \<Rightarrow> AspectMap run" where
  "create_authoring_map v x =
     run_bind (get_all_public_chain_entries x) (\<lambda>entries.
     run_bind (run_fold (list_entry v x) entries AspectMap_new) (\<lambda>m.
     run_bind (iter_chain x) (\<lambda>hs.
       run_fold (list_header v x) hs m)))"

definition handle_get_authoring_list ::
  "wire \<Rightarrow> env \<Rightarrow> ('n, 'c, 'e) Context \<Rightarrow> string \<Rightarrow> Action list run" where
  "handle_get_authoring_list w v x request_id =
     run_bind (create_authoring_map v x) (\<lambda>m.
       Some (Returns [RespondAuthoringList \<lparr> el_request_id = request_id, el_address_map = wire_map_order w m \<rparr>]))"

definition handle_get_gossip_list :: "wire \<Rightarrow> ('n, 'c, 'e) Context \<Rightarrow> string \<Rightarrow> Action list" where
  "handle_get_gossip_list w x request_id =
     [RespondGossipList \<lparr> el_request_id = request_id,
        el_address_map = wire_map_order w (holding_map (st_dht (ctx_state x))) \<rparr>]"

section \<open>Direct messages\<close>

text \<open>\<open>receive\<close> is the callback of a zome, run by the ribosome.\<close>

definition parse_direct_message :: "wire \<Rightarrow> string \<Rightarrow> (DirectMessage, string) result" where
  "parse_direct_message w content =
     (if valid_utf8 (map of_char content) then wire_message w content else Err ''invalid utf-8'')"

definition handle_send_message ::
  "wire \<Rightarrow> env \<Rightarrow> (string \<Rightarrow> Address \<Rightarrow> string \<Rightarrow> (string, string) result) \<Rightarrow> ('n, 'c, 'e) Context
     \<Rightarrow> Address \<Rightarrow> string \<Rightarrow> string \<Rightarrow> Action list run" where
  "handle_send_message w v receive x from_agent_id request_id content =
     (case parse_direct_message w content of
        Inl _ \<Rightarrow> Some (Returns [])
      | Inr (Custom m) \<Rightarrow>
          Some (Returns (snd (handle_custom_direct_message receive (env_now v) from_agent_id request_id m)))
      | Inr (RequestValidationPackage key) \<Rightarrow>
          run_bind (respond_validation_package_request v x from_agent_id request_id (vk_address key) []) (\<lambda>a.
            Some (Returns [a]))
      | Inr (ValidationPackageMessage _) \<Rightarrow> Some (Returns []))"

section \<open>Dispatch\<close>

definition is_my_dna :: "Address \<Rightarrow> Address \<Rightarrow> bool" where
  "is_my_dna my_dna_address dna_address \<longleftrightarrow> my_dna_address = dna_address"

definition is_my_id :: "('n, 'c, 'e) Context \<Rightarrow> Address \<Rightarrow> bool" where
  "is_my_id x agent_id \<longleftrightarrow> \<not> (agent_id \<noteq> '''' \<and> pub_sign_key (ctx_agent_id x) \<noteq> agent_id)"

definition guarded :: "bool \<Rightarrow> Action list run \<Rightarrow> Action list run" where
  "guarded c r = (if c then r else Some (Returns []))"

definition net_handler ::
  "wire \<Rightarrow> env \<Rightarrow> (string \<Rightarrow> string) \<Rightarrow> (string \<Rightarrow> Address \<Rightarrow> string \<Rightarrow> (string, string) result) \<Rightarrow> ProcessUniqueId
     \<Rightarrow> Address \<Rightarrow> ('n, 'c, 'e) Context \<Rightarrow> (Lib3hServerProtocol, string) result \<Rightarrow> Action list run" where
  "net_handler w v upper receive pid my_dna x message =
     (case message of Inl _ \<Rightarrow> Some (Returns []) | Inr data \<Rightarrow> (case data of
        FailureResult space \<Rightarrow> guarded (is_my_dna my_dna space) (Some (Returns []))
      | HandleStoreEntryAspect space content \<Rightarrow>
          guarded (is_my_dna my_dna space)
            (run_bind (Some (format_store_data w content)) (\<lambda>_. Some (handle_store w pid x content)))
      | HandleFetchEntry space fetch_data \<Rightarrow> guarded (is_my_dna my_dna space) (handle_fetch_entry w x fetch_data)
      | FetchEntryResult space \<Rightarrow> guarded (is_my_dna my_dna space) (Some (Returns []))
      | HandleQueryEntry space query_data content \<Rightarrow>
          guarded (is_my_dna my_dna space) (handle_query_entry_data w upper x query_data content)
      | QueryEntryResult space requester entry_addr request_id content \<Rightarrow>
          guarded (is_my_dna my_dna space \<and> is_my_id x requester)
            (Some (handle_query_entry_result w entry_addr request_id content))
      | HandleSendDirectMessage space to_agent from_agent request_id content \<Rightarrow>
          guarded (is_my_dna my_dna space \<and> is_my_id x to_agent)
            (run_bind (Some (format_message_data w content)) (\<lambda>_.
              handle_send_message w v receive x from_agent request_id content))
      | SendDirectMessageResult space to_agent from_agent request_id content \<Rightarrow>
          guarded (is_my_dna my_dna space \<and> is_my_id x to_agent)
            (run_bind (Some (format_message_data w content)) (\<lambda>_.
              Some (handle_send_message_result (parse_direct_message w) request_id from_agent content
                (st_network (ctx_state x)))))
      | Connected \<Rightarrow> Some (Returns [])
      | HandleGetAuthoringEntryList space provider request_id \<Rightarrow>
          guarded (is_my_dna my_dna space \<and> is_my_id x provider) (handle_get_authoring_list w v x request_id)
      | HandleGetGossipingEntryList space provider request_id \<Rightarrow>
          guarded (is_my_dna my_dna space \<and> is_my_id x provider) (Some (Returns (handle_get_gossip_list w x request_id)))
      | OtherServerMessage \<Rightarrow> Some (Returns [])))"

section \<open>Facts of the chain\<close>

lemma run_fold_returns:
  assumes "\<And>a m. a \<in> set as \<Longrightarrow> f a m = Some (Returns (g a m))"
  shows "run_fold f as m = Some (Returns (fold g as m))"
  using assms by (induction as arbitrary: m) (simp_all add: run_bind_simps)

lemma run_map_returns:
  assumes "\<And>a. a \<in> set as \<Longrightarrow> f a = Some (Returns (g a))"
  shows "run_map f as = Some (Returns (map g as))"
  using assms by (induction as) (simp_all add: run_bind_simps)

lemma outcome_filter_returns:
  assumes "\<And>a. a \<in> set as \<Longrightarrow> \<exists>b. P a = Returns b"
  shows "outcome_filter P as = Returns (filter (\<lambda>a. P a = Returns True) as)"
  using assms
proof (induction as)
  case (Cons a as)
  then obtain b where b: "P a = Returns b" by (metis list.set_intros(1))
  have "outcome_filter P as = Returns (filter (\<lambda>a. P a = Returns True) as)"
    by (rule Cons.IH) (simp add: Cons.prems)
  then show ?case using b by (cases b) simp_all
qed simp

lemma iter_chain_own: "own_chain x hs \<Longrightarrow> iter_chain x = Some (Returns hs)"
  using iter_collect_path [of "io_hasher (ctx_ops x)" hdr_link hs "io_cas (ctx_ops x)" "ctx_cas x" "\<lambda>_. True" None]
  by (simp add: iter_chain_def own_chain_def chain_ok_def take_opt_def)

definition insert_aspects :: "(Address \<times> Address) list \<Rightarrow> AspectMap \<Rightarrow> AspectMap" where
  "insert_aspects ps m = fold insert_aspect ps m"

lemma aspects_of_inserted:
  "k |\<in>| aspects_of (insert_aspects ps m) a \<longleftrightarrow> (a, k) \<in> set ps \<or> k |\<in>| aspects_of m a"
proof -
  have "aspect_pairs (insert_aspects ps m) = fset_of_list ps |\<union>| aspect_pairs m"
    unfolding insert_aspects_def by (induction ps arbitrary: m) auto
  then have "(a, k) |\<in>| aspect_pairs (insert_aspects ps m) \<longleftrightarrow> (a, k) \<in> set ps \<or> (a, k) |\<in>| aspect_pairs m"
    by (simp add: fset_of_list_elem)
  then show ?thesis by simp
qed

lemma fold_insert_aspects: "fold (\<lambda>x. insert_aspects (f x)) xs m = insert_aspects (concat (map f xs)) m"
proof (induction xs arbitrary: m)
  case (Cons x xs)
  then show ?case by (simp add: insert_aspects_def [abs_def])
qed (simp add: insert_aspects_def)

text \<open>
  A header of the chain whose entry is stored under its address, of a type the DNA knows; a public one
  is of a kind that is published, and a deletion says what it deletes.
\<close>

definition entry_at :: "('n, 'c, 'e) Context \<Rightarrow> ChainHeader \<Rightarrow> Entry" where
  "entry_at x h = (case get_entry (io_cas (ctx_ops x)) (ctx_cas x) (hdr_entry_address h) of Inr (Some e) \<Rightarrow> e)"

definition is_public :: "('n, 'c, 'e) Context \<Rightarrow> ChainHeader \<Rightarrow> bool" where
  "is_public x h \<longleftrightarrow> can_publish x (hdr_entry_type h) = Returns True"

definition chain_entry_ok :: "('n, 'c, 'e) Context \<Rightarrow> ChainHeader \<Rightarrow> bool" where
  "chain_entry_ok x h \<longleftrightarrow>
     get_entry (io_cas (ctx_ops x)) (ctx_cas x) (hdr_entry_address h) = Ok (Some (entry_at x h))
   \<and> entry_address (io_hasher (ctx_ops x)) (entry_at x h) = hdr_entry_address h
   \<and> (is_public x h \<or> can_publish x (hdr_entry_type h) = Returns False)
   \<and> (is_public x h \<longrightarrow>
        published_aspects (io_hasher (ctx_ops x)) \<lparr> ewh_entry = entry_at x h, ewh_header = h \<rparr> \<noteq> None
      \<and> ((\<exists>a. entry_at x h = Entry.Deletion a) \<longrightarrow> hdr_link_update_delete h \<noteq> None))"

definition listed_aspects :: "('n, 'c, 'e) Context \<Rightarrow> ChainHeader \<Rightarrow> (Address \<times> Address) list" where
  "listed_aspects x h =
     (case published_aspects (io_hasher (ctx_ops x)) \<lparr> ewh_entry = entry_at x h, ewh_header = h \<rparr> of
        Some ps \<Rightarrow> map (\<lambda>(a, aspect). (a, aspect_hash (io_hasher (ctx_ops x)) aspect)) ps
      | None \<Rightarrow> [])"

definition listed_header :: "env \<Rightarrow> ('n, 'c, 'e) Context \<Rightarrow> ChainHeader \<Rightarrow> (Address \<times> Address) list" where
  "listed_header v x h =
     (case header_entry v x h of
        Some (Returns (Inr ewh)) \<Rightarrow>
          [(entry_address (io_hasher (ctx_ops x)) (ewh_entry ewh),
            aspect_hash (io_hasher (ctx_ops x)) (EntryAspect.Content (ewh_entry ewh) (ewh_header ewh)))]
      | _ \<Rightarrow> [])"

definition addresses_separate :: "hasher \<Rightarrow> ChainHeader list \<Rightarrow> bool" where
  "addresses_separate H hs \<longleftrightarrow> list_all (\<lambda>h. list_all (\<lambda>h'. header_hash H h \<noteq> hdr_entry_address h') hs) hs"

lemma content_aspect_of_ok:
  assumes "chain_entry_ok x h" "header_hash (io_hasher (ctx_ops x)) h \<noteq> a"
  shows "content_aspect_of v x a h = Some (Returns
     (if is_public x h \<and> hdr_entry_address h = a then Some (EntryAspect.Content (entry_at x h) h) else None))"
proof -
  have "get_entry (io_cas (ctx_ops x)) (ctx_cas x) (hdr_entry_address h) = Ok (Some (entry_at x h))"
    using assms(1) by (simp add: chain_entry_ok_def)
  moreover have "can_publish x (hdr_entry_type h) = Returns (is_public x h)"
    using assms(1) by (auto simp: chain_entry_ok_def is_public_def)
  ultimately show ?thesis
    using assms(2) by (auto simp: content_aspect_of_def run_bind_simps)
qed

lemma list_content_aspect_ok:
  assumes "chain_entry_ok x h" "is_public x h"
  shows "list_content_aspect (io_hasher (ctx_ops x)) (hdr_entry_address h) (EntryAspect.Content (entry_at x h) h) m
     = Some (Returns (insert_aspects (listed_aspects x h) m))"
proof -
  have e: "entry_address (io_hasher (ctx_ops x)) (entry_at x h) = hdr_entry_address h"
    "published_aspects (io_hasher (ctx_ops x)) \<lparr> ewh_entry = entry_at x h, ewh_header = h \<rparr> \<noteq> None"
    "(\<exists>a. entry_at x h = Entry.Deletion a) \<longrightarrow> hdr_link_update_delete h \<noteq> None"
    using assms by (simp_all add: chain_entry_ok_def)
  show ?thesis
    using e
    by (cases "entry_at x h"; cases "hdr_link_update_delete h")
       (simp_all add: list_content_aspect_def listed_aspects_def published_aspects_def Let_def
          entry_to_meta_aspect_def run_bind_simps insert_aspects_def update_delete_address_def)
qed

lemma map_filter_if: "List.map_filter id (map (\<lambda>h. if P h then Some (f h) else None) hs) = map f (filter P hs)"
  by (induction hs) (simp_all add: List.map_filter_def)

lemma content_aspects_from_chain_ok:
  assumes "own_chain x hs" "list_all (chain_entry_ok x) hs"
    and "\<And>h. h \<in> set hs \<Longrightarrow> header_hash (io_hasher (ctx_ops x)) h \<noteq> a"
  shows "get_content_aspects_from_chain v x a = Some (Returns (Ok (map (\<lambda>h. EntryAspect.Content (entry_at x h) h)
     (filter (\<lambda>h. is_public x h \<and> hdr_entry_address h = a) hs))))"
proof -
  have "run_map (content_aspect_of v x a) hs = Some (Returns (map (\<lambda>h.
     if is_public x h \<and> hdr_entry_address h = a then Some (EntryAspect.Content (entry_at x h) h) else None) hs))"
    using assms(2,3) by (intro run_map_returns content_aspect_of_ok) (auto simp: list_all_iff)
  then show ?thesis
    by (simp add: get_content_aspects_from_chain_def iter_chain_own [OF assms(1)] run_bind_simps map_filter_if)
qed

lemma list_entry_ok:
  assumes "own_chain x hs" "list_all (chain_entry_ok x) hs"
    and "\<And>h. h \<in> set hs \<Longrightarrow> header_hash (io_hasher (ctx_ops x)) h \<noteq> a"
  shows "list_entry v x a m = Some (Returns (insert_aspects
     (concat (map (listed_aspects x) (filter (\<lambda>h. is_public x h \<and> hdr_entry_address h = a) hs))) m))"
proof -
  have "run_fold (list_content_aspect (io_hasher (ctx_ops x)) a) (map (\<lambda>h. EntryAspect.Content (entry_at x h) h) gs) m
      = Some (Returns (insert_aspects (concat (map (listed_aspects x) gs)) m))"
    if "list_all (\<lambda>h. chain_entry_ok x h \<and> is_public x h \<and> hdr_entry_address h = a) gs" for gs
    using that
  proof (induction gs arbitrary: m)
    case (Cons g gs)
    then show ?case
      using list_content_aspect_ok [of x g m] by (simp add: run_bind_simps insert_aspects_def)
  qed (simp add: insert_aspects_def)
  moreover have "list_all (\<lambda>h. chain_entry_ok x h \<and> is_public x h \<and> hdr_entry_address h = a)
      (filter (\<lambda>h. is_public x h \<and> hdr_entry_address h = a) hs)"
    using assms(2) by (simp add: list_all_iff)
  ultimately show ?thesis
    by (simp add: list_entry_def content_aspects_from_chain_ok [OF assms] run_bind_simps)
qed

lemma public_entries_ok:
  assumes "own_chain x hs" "list_all (chain_entry_ok x) hs"
  shows "get_all_public_chain_entries x = Some (Returns (map hdr_entry_address (filter (is_public x) hs)))"
proof -
  have "public_headers x hs = Returns (filter (\<lambda>h. can_publish x (hdr_entry_type h) = Returns True) hs)"
    unfolding public_headers_def
    using assms(2) by (intro outcome_filter_returns) (auto simp: chain_entry_ok_def is_public_def list_all_iff)
  then show ?thesis
    by (simp add: get_all_public_chain_entries_def iter_chain_own [OF assms(1)] run_bind_simps is_public_def [abs_def])
qed

lemma list_header_ok:
  assumes "own_chain x hs" "0 \<le> env_now v"
  shows "list_header v x h m = Some (Returns (insert_aspects (listed_header v x h) m))"
proof -
  obtain r where "header_entry v x h = Some (Returns r)"
    using assms create_new_chain_header_chain [of "io_hasher (ctx_ops x)" "io_cas (ctx_ops x)" "ctx_cas x" hs
      "st_agent (ctx_state x)" "env_now v"]
    by (simp add: header_entry_def create_entry_with_header_for_header_def own_chain_def run_bind_simps Let_def)
  then show ?thesis
    by (cases r) (simp_all add: list_header_def listed_header_def run_bind_simps insert_aspects_def)
qed

lemma header_entry_of: "header_entry v x h = Some (Returns (Ok ewh)) \<Longrightarrow> ewh_entry ewh = Entry.ChainHeader h"
  by (auto simp: header_entry_def create_entry_with_header_for_header_def Let_def run_bind_Returns_iff result_iffs)

lemma listed_header_address:
  assumes "(a, k) \<in> set (listed_header v x h)"
  shows "a = header_hash (io_hasher (ctx_ops x)) h"
proof (cases "header_entry v x h")
  case (Some o')
  show ?thesis
  proof (cases o')
    case (Returns r)
    then show ?thesis using assms Some header_entry_of [of v x h] by (cases r) (simp_all add: listed_header_def)
  qed (use assms Some in \<open>simp add: listed_header_def\<close>)
qed (use assms in \<open>simp add: listed_header_def\<close>)

text \<open>
  C18.  The list of what this node authored is what it published.  On a well-formed chain the authoring list
  is computed, and it holds exactly the aspects that publishing the public entries of the chain sends,
  each under the entry it is sent for, and the entries that represent
  the headers of the chain.
\<close>

theorem authoring_list_is_published:
  assumes "own_chain x hs" and "list_all (chain_entry_ok x) hs"
    and "addresses_separate (io_hasher (ctx_ops x)) hs" and "0 \<le> env_now v"
  shows "\<exists>m. create_authoring_map v x = Some (Returns m)
     \<and> (\<forall>a k. k |\<in>| aspects_of m a \<longleftrightarrow>
          (\<exists>h\<in>set hs. is_public x h \<and> (a, k) \<in> set (listed_aspects x h))
        \<or> (\<exists>h\<in>set hs. (a, k) \<in> set (listed_header v x h)))"
proof -
  let ?of = "\<lambda>a. concat (map (listed_aspects x) (filter (\<lambda>h. is_public x h \<and> hdr_entry_address h = a) hs))"
  let ?as = "map hdr_entry_address (filter (is_public x) hs)"
  have "run_fold (list_entry v x) ?as AspectMap_new = Some (Returns (fold (\<lambda>a. insert_aspects (?of a)) ?as AspectMap_new))"
    using assms(3) by (intro run_fold_returns list_entry_ok [OF assms(1,2)]) (auto simp: addresses_separate_def list_all_iff)
  moreover have "run_fold (list_header v x) hs m = Some (Returns (fold (\<lambda>h. insert_aspects (listed_header v x h)) hs m))" for m
    by (intro run_fold_returns list_header_ok [OF assms(1,4)])
  ultimately have "create_authoring_map v x = Some (Returns
      (insert_aspects (concat (map (listed_header v x) hs)) (insert_aspects (concat (map ?of ?as)) AspectMap_new)))"
    by (simp add: create_authoring_map_def public_entries_ok [OF assms(1,2)] iter_chain_own [OF assms(1)]
        run_bind_simps fold_insert_aspects)
  then show ?thesis
    by (auto simp: aspects_of_inserted AspectMap_new_def)
qed

section \<open>Private entries\<close>

lemma handler_get_entry_public:
  assumes "handler_get_entry x a = Some (Returns (Some m))"
  shows "(\<exists>h. meta_entry (entry_with_meta m) = Entry.ChainHeader h)
     \<or> can_publish x (entry_type (meta_entry (entry_with_meta m))) = Returns True"
proof -
  obtain em where em: "get_entry_with_meta x a = Ok (Some em)"
    using assms by (auto simp: handler_get_entry_def split: sum.splits option.splits)
  show ?thesis
    using assms by (cases "meta_entry em")
      (auto simp: handler_get_entry_def em elim!: run_bind_ReturnsE split: sum.splits if_splits)
qed

text \<open>
  C34.  Queries keep private entries private.  An entry that this node answers to a query of the network is
  a header of the chain, or of a type that the node publishes.
\<close>

theorem query_answers_public:
  assumes "handle_query_entry_data w upper x d content = Some (Returns acts)"
    and "RespondQuery d' (EntryResult (Some m)) \<in> set acts"
  shows "d' = d
     \<and> ((\<exists>h. meta_entry (entry_with_meta m) = Entry.ChainHeader h)
        \<or> can_publish x (entry_type (meta_entry (entry_with_meta m))) = Returns True)"
proof -
  obtain t where t: "from_utf8 content = Returns t"
    using assms(1) by (auto simp: handle_query_entry_data_def run_bind_Returns_iff)
  show ?thesis
  proof (cases "wire_query w t")
    case (Some q)
    then show ?thesis
    proof (cases q)
      case GetEntry
      then have "handler_get_entry x (qe_entry_address d) = Some (Returns (Some m))" "d' = d"
        using assms Some by (auto simp: handle_query_entry_data_def t run_bind_simps run_bind_Returns_iff)
      then show ?thesis by (auto dest: handler_get_entry_public)
    qed (use assms Some in \<open>auto simp: handle_query_entry_data_def t run_bind_simps elim!: run_bind_ReturnsE
           split: sum.splits\<close>)
  qed (use assms in \<open>simp add: handle_query_entry_data_def t run_bind_simps\<close>)
qed

lemma own_headers_listed:
  assumes "own_chain x hs" "h \<in> set hs" "context_get_headers x (hdr_entry_address h) = Some (Returns (Ok gs))"
  shows "h \<in> set gs"
proof -
  have "iter_collect hdr_link (io_cas (ctx_ops x)) (ctx_cas x) (\<lambda>g. hdr_entry_address g = hdr_entry_address h) None
      (agent_top_chain_header (st_agent (ctx_state x)))
    = Some (Returns (filter (\<lambda>g. hdr_entry_address g = hdr_entry_address h) hs))"
    using assms(1) iter_collect_path [of "io_hasher (ctx_ops x)" hdr_link hs "io_cas (ctx_ops x)" "ctx_cas x"
      "\<lambda>g. hdr_entry_address g = hdr_entry_address h" None]
    by (simp add: own_chain_def chain_ok_def take_opt_def)
  then show ?thesis
    using assms(2,3)
    by (auto simp: context_get_headers_def get_headers_def run_bind_simps Let_def result_iffs)
qed

text \<open>
  C36.  Fetching does not.  When the network asks for a private entry of the agent's own chain,
  the answer to the query is that there is none, and the answer to the fetch has the entry with its header.
\<close>

theorem private_entry_fetched:
  assumes "own_chain x hs" and "h \<in> set hs" and "can_publish x (entry_type e) = Returns False"
    and "get_entry_with_meta x (hdr_entry_address h) = Ok (Some em)" and "meta_entry em = e"
    and "get_entry (io_cas (ctx_ops x)) (ctx_cas x) (hdr_entry_address h) = Ok (Some e)"
    and "\<nexists>g. e = Entry.ChainHeader g"
    and "context_get_headers x (hdr_entry_address h) = Some (Returns (Ok gs))"
    and "fe_entry_address d = hdr_entry_address h"
    and "fetch_aspects_for_entry x (hdr_entry_address h) = Some (Returns aspects)"
    and "set (wire_set_order w aspects) = fset aspects"
  shows "handler_get_entry x (hdr_entry_address h) = Some (Returns None)
     \<and> handle_fetch_entry w x d = Some (Returns [RespondFetch d (wire_set_order w aspects)])
     \<and> EntryAspect.Content e h \<in> set (wire_set_order w aspects)"
proof (intro conjI)
  show "handler_get_entry x (hdr_entry_address h) = Some (Returns None)"
    using assms(3-5,7,8) by (cases e) (simp_all add: handler_get_entry_def run_bind_simps)
  show "handle_fetch_entry w x d = Some (Returns [RespondFetch d (wire_set_order w aspects)])"
    by (simp add: handle_fetch_entry_def assms(9,10) run_bind_simps)
  have "h \<in> set gs" by (rule own_headers_listed [OF assms(1,2,8)])
  moreover have "get_content_aspects x (hdr_entry_address h) = Some (Returns (Ok (map (EntryAspect.Content e) gs)))"
    by (simp add: get_content_aspects_def assms(6,8) run_bind_simps)
  ultimately have "EntryAspect.Content e h |\<in>| aspects"
    using assms(10)
    by (auto simp: fetch_aspects_for_entry_def run_bind_simps run_bind_Returns_iff Let_def fset_of_list_elem)
  then show "EntryAspect.Content e h \<in> set (wire_set_order w aspects)" by (simp add: assms(11))
qed

section \<open>Unreadable messages\<close>

definition unreadable :: "wire \<Rightarrow> string \<Rightarrow> bool" where
  "unreadable w content \<longleftrightarrow> \<not> valid_utf8 (map of_char content) \<or> (\<exists>e. wire_message w content = Err e)"

text \<open>
  What a direct message that cannot be read does.  A message for another DNA or another agent is dropped
  unread; one for this agent that is not UTF-8 or not a message is
  dropped too, but only while the log does not print debug messages: with them the node panics.
\<close>

theorem unreadable_message_panics_iff:
  assumes "unreadable w content"
  shows "net_handler w v upper receive pid my_dna x (Ok (HandleSendDirectMessage space to_agent from_agent rid content))
     = (if space = my_dna \<and> (to_agent = '''' \<or> to_agent = pub_sign_key (ctx_agent_id x)) \<and> wire_debug w
        then Some (Panics ''called `Result::unwrap()` on an `Err` value'') else Some (Returns []))"
  using assms
  by (auto simp: net_handler_def guarded_def is_my_dna_def is_my_id_def unreadable_def format_message_data_def
      from_utf8_def handle_send_message_def parse_direct_message_def run_bind_simps)

section \<open>Samples\<close>

text \<open>A chain of one public post and one private entry.\<close>

definition secret_header :: ChainHeader where
  "secret_header = ChainHeader_new (EntryType.App ''secret'') ''S'' [(''me'', ''good'')] (Some ''hA'') None None 2"

definition diary_cas :: "(Address, Content) fmap" where
  "diary_cas = fmap_of_list
     [(''A'', EntryContent (Entry.App ''post'' ''A'')), (''hA'', HeaderContent (post_header ''A'' None 1)),
      (''S'', EntryContent (Entry.App ''secret'' ''S'')), (''hS'', HeaderContent secret_header)]"

definition diary_context ::
  "(Lib3hClientProtocol list, (Address, Content) fmap, EntityAttributeValueIndex list) Context" where
  "diary_context =
     (let x = blog_context []
      in x\<lparr> ctx_state := (ctx_state x)\<lparr> st_agent := AgentState_new_with_top_chain_header (Some secret_header) ''me'' \<rparr>,
            ctx_cas := diary_cas, ctx_eav := map live [''A'', ''S''] \<rparr>)"

definition diary_wire :: wire where
  "diary_wire = \<lparr> wire_aspect = (\<lambda>_. None), wire_query = (\<lambda>_. Some GetEntry), wire_result = (\<lambda>_. None),
     wire_message = (\<lambda>_. Err ''json''), wire_debug = True,
     wire_set_order = (\<lambda>_. [EntryAspect.Content (Entry.App ''secret'' ''S'') secret_header]), wire_map_order = (\<lambda>_. []) \<rparr>"

lemma diary_simps:
  "ctx_ops diary_context = version_instance" "ctx_cas diary_context = diary_cas"
  "ctx_eav diary_context = map live [''A'', ''S'']" "ctx_get_dna diary_context = Some blog_dna"
  "agent_top_chain_header (st_agent (ctx_state diary_context)) = Some secret_header"
  "pub_sign_key (ctx_agent_id diary_context) = ''me''"
  by (simp_all add: diary_context_def ctx_get_dna_def blog_context_def version_context_def
      AgentState_new_with_top_chain_header_def Let_def)

lemma diary_chain: "own_chain diary_context [secret_header, post_header ''A'' None 1]"
  by (simp add: own_chain_def diary_simps chain_ok_def stored_headers_def diary_cas_def post_header_def secret_header_def
      ChainHeader_new_def version_instance_def version_hasher_def sample_instance_def first_header_def)

lemma diary_publish:
  "can_publish diary_context (EntryType.App ''post'') = Returns True"
  "can_publish diary_context (EntryType.App ''secret'') = Returns False"
  by (simp_all add: can_publish_def is_sys_def diary_simps blog_simps blog_zome_def get_entry_type_def_def)

lemma diary_hasher:
  "entry_hash (io_hasher version_instance) (Entry.App t c) = c"
  "header_hash (io_hasher version_instance) h = CHR ''h'' # hdr_entry_address h"
  "aspect_hash (io_hasher version_instance) a = ''a''"
  "entry_address (io_hasher version_instance) (Entry.ChainHeader h) = CHR ''h'' # hdr_entry_address h"
  by (simp_all add: version_instance_def version_hasher_def)

lemma diary_headers:
  "hdr_entry_type secret_header = EntryType.App ''secret''" "hdr_entry_address secret_header = ''S''"
  "hdr_link_update_delete secret_header = None"
  "hdr_entry_type (post_header a l t) = EntryType.App ''post''" "hdr_entry_address (post_header a l t) = a"
  "hdr_link_update_delete (post_header a l t) = None"
  by (simp_all add: secret_header_def post_header_def ChainHeader_new_def)

lemma diary_entries:
  "get_entry (io_cas version_instance) diary_cas ''A'' = Ok (Some (Entry.App ''post'' ''A''))"
  "get_entry (io_cas version_instance) diary_cas ''S'' = Ok (Some (Entry.App ''secret'' ''S''))"
  by (simp_all add: version_instance_def sample_instance_def diary_cas_def get_entry_def get_raw_def)

theorem authoring_list_is_published_witness:
  "\<exists>m. create_authoring_map blog_env diary_context = Some (Returns m)
     \<and> aspects_of m ''A'' \<noteq> {||} \<and> aspects_of m ''S'' = {||}"
proof -
  let ?hs = "[secret_header, post_header ''A'' None 1]"
  have "\<exists>m. create_authoring_map blog_env diary_context = Some (Returns m)
     \<and> (\<forall>a k. k |\<in>| aspects_of m a \<longleftrightarrow>
          (\<exists>h\<in>set ?hs. is_public diary_context h
              \<and> (a, k) \<in> set (listed_aspects diary_context h))
        \<or> (\<exists>h\<in>set ?hs. (a, k) \<in> set (listed_header blog_env diary_context h)))"
    by (rule authoring_list_is_published)
       (simp_all add: diary_chain chain_entry_ok_def entry_at_def is_public_def diary_simps diary_hasher diary_headers
          diary_entries diary_publish addresses_separate_def published_aspects_def blog_env_def Let_def)
  then obtain m where m: "create_authoring_map blog_env diary_context = Some (Returns m)"
    and listed: "k |\<in>| aspects_of m a \<longleftrightarrow>
          (\<exists>h\<in>set ?hs. is_public diary_context h \<and> (a, k) \<in> set (listed_aspects diary_context h))
        \<or> (\<exists>h\<in>set ?hs. (a, k) \<in> set (listed_header blog_env diary_context h))" for a k
    by blast
  have post: "listed_aspects diary_context (post_header ''A'' None 1) = [(''A'', ''a'')]"
    "is_public diary_context (post_header ''A'' None 1)" "\<not> is_public diary_context secret_header"
    by (simp_all add: listed_aspects_def entry_at_def is_public_def diary_simps diary_hasher diary_headers
          diary_entries diary_publish published_aspects_def Let_def)
  have header: "(''S'', k) \<notin> set (listed_header blog_env diary_context h)" for k h
    by (auto simp: diary_simps diary_hasher dest: listed_header_address)
  have "''a'' |\<in>| aspects_of m ''A''" by (simp add: listed post)
  moreover have "k |\<notin>| aspects_of m ''S''" for k using post header by (simp add: listed)
  ultimately show ?thesis using m by (metis bot_fset.rep_eq empty_iff fset_eqI)
qed

theorem query_answers_public_witness:
  "\<exists>m. handle_query_entry_data diary_wire id diary_context
          \<lparr> qe_request_id = ''q'', qe_requester_agent_id = ''you'', qe_entry_address = ''A'' \<rparr> ''json''
        = Some (Returns [RespondQuery \<lparr> qe_request_id = ''q'', qe_requester_agent_id = ''you'', qe_entry_address = ''A'' \<rparr>
            (EntryResult (Some m))])
     \<and> can_publish diary_context (entry_type (meta_entry (entry_with_meta m))) = Returns True"
proof -
  let ?d = "\<lparr> qe_request_id = ''q'', qe_requester_agent_id = ''you'', qe_entry_address = ''A'' \<rparr>"
  obtain m where m: "handler_get_entry diary_context ''A'' = Some (Returns (Some m))"
    "meta_entry (entry_with_meta m) = Entry.App ''post'' ''A''"
    by (simp add: handler_get_entry_def get_entry_with_meta_def get_entry_from_dht_def diary_simps diary_entries
        get_entry_crud_meta_from_dht_def fetch_eavi_def log_eav_def crud_status_query_def crud_link_query_def live_def
        context_get_headers_def get_headers_def header_query_def iter_collect.simps advance_def fetch_linked_def
        diary_publish version_instance_def sample_instance_def version_hasher_def diary_cas_def get_entry_def get_raw_def
        post_header_def secret_header_def ChainHeader_new_def run_bind_simps map_filter_def Let_def)
  then have "handle_query_entry_data diary_wire id diary_context ?d ''json''
      = Some (Returns [RespondQuery ?d (EntryResult (Some m))])"
    by (simp add: handle_query_entry_data_def diary_wire_def from_utf8_def run_bind_simps)
  with query_answers_public [OF this, of ?d m] m(2) show ?thesis by auto
qed

theorem private_entry_fetched_witness:
  "handler_get_entry diary_context ''S'' = Some (Returns None)
   \<and> handle_fetch_entry diary_wire diary_context \<lparr> fe_request_id = ''f'', fe_entry_address = ''S'' \<rparr>
      = Some (Returns [RespondFetch \<lparr> fe_request_id = ''f'', fe_entry_address = ''S'' \<rparr>
          [EntryAspect.Content (Entry.App ''secret'' ''S'') secret_header]])"
proof -
  let ?aspects = "{| EntryAspect.Content (Entry.App ''secret'' ''S'') secret_header |}"
  note headers = context_get_headers_def get_headers_def header_query_def iter_collect.simps advance_def fetch_linked_def
    diary_simps diary_hasher fetch_eavi_def log_eav_def live_def diary_headers run_bind_simps Let_def
  have links: "hdr_link secret_header = Some ''hA''" "hdr_link (post_header ''A'' None 1) = None"
    by (simp_all add: secret_header_def post_header_def ChainHeader_new_def)
  have io: "io_eav version_instance = log_eav" by (simp add: version_instance_def sample_instance_def)
  note headers = headers io links
  have S: "get_raw (io_cas version_instance) diary_cas ''hA'' = Ok (Some (HeaderContent (post_header ''A'' None 1)))"
    by (simp add: version_instance_def sample_instance_def diary_cas_def get_raw_def)
  have gs: "context_get_headers diary_context ''S'' = Some (Returns (Ok [secret_header]))"
    by (simp add: headers S map_filter_def version_instance_def sample_instance_def diary_cas_def)
  have chain: "iter_chain diary_context = Some (Returns [secret_header, post_header ''A'' None 1])"
    by (rule iter_chain_own [OF diary_chain])
  have "fetch_aspects_for_entry diary_context ''S'' = Some (Returns ?aspects)"
    by (simp add: fetch_aspects_for_entry_def get_content_aspects_def gs diary_entries
        get_meta_aspects_from_chain_def chain public_headers_def diary_publish chain_meta_aspect_def
        entry_to_meta_aspect_def get_meta_aspects_from_dht_eav_def get_all_metas_def meta_attribute_def
        map_filter_def diary_simps diary_headers fetch_eavi_def io log_eav_def live_def run_bind_simps)
  then have "handler_get_entry diary_context (hdr_entry_address secret_header) = Some (Returns None)
     \<and> handle_fetch_entry diary_wire diary_context \<lparr> fe_request_id = ''f'', fe_entry_address = ''S'' \<rparr>
        = Some (Returns [RespondFetch \<lparr> fe_request_id = ''f'', fe_entry_address = ''S'' \<rparr> (wire_set_order diary_wire ?aspects)])
     \<and> EntryAspect.Content (Entry.App ''secret'' ''S'') secret_header \<in> set (wire_set_order diary_wire ?aspects)"
    by (intro private_entry_fetched [OF diary_chain, where em = "\<lparr> meta_entry = Entry.App ''secret'' ''S'', meta_crud_status = Live, maybe_link_update_delete = None \<rparr>"])
       (simp_all add: gs diary_headers diary_publish diary_simps diary_entries diary_wire_def
          get_entry_with_meta_def get_entry_from_dht_def get_entry_crud_meta_from_dht_def fetch_eavi_def io log_eav_def
          crud_status_query_def crud_link_query_def live_def crud_status_of_def crud_status_from_str_def)
  then show ?thesis by (simp add: diary_headers diary_wire_def)
qed

theorem unreadable_message_panics_iff_witness:
  "net_handler diary_wire blog_env id (\<lambda>_ _ _. Ok '''') 7 ''dna'' diary_context
     (Ok (HandleSendDirectMessage ''dna'' ''me'' ''you'' ''r'' ''noise''))
   = Some (Panics ''called `Result::unwrap()` on an `Err` value'')"
  using unreadable_message_panics_iff [of diary_wire "''noise''" blog_env id "\<lambda>_ _ _. Ok ''''" "7" "''dna''" diary_context
      "''dna''" "''me''" "''you''" "''r''"]
  by (simp add: unreadable_def diary_wire_def diary_simps)

end
