(* ===== verification/Spec2Isabelle.thy ===== *)
theory Spec2Isabelle
  imports Wasm_Memory Sim2h_Worker Handlers
begin

text \<open>
  A verification development for the Holochain core: the Rust crates under \<open>src/crates/\<close>.  An instance of a DNA is
  a state of four slices that a single action loop reduces; handlers of network messages, zome calls and
  workflows read the state and dispatch actions; futures poll the state for the answers.

  \<^bold>\<open>Parts and theories.\<close>

  \<^item> \<open>Prelude\<close>: machine integers, results, panics, loops that may not end, and the facts the components share.
  \<^item> \<open>Bits_N_Pieces\<close>, \<open>Ribosome_Error\<close>, \<open>Wasm_Memory\<close>: the packing of integers (\<open>core_types/src/bits_n_pieces.rs\<close>), the
    encoding of results between ribosome and zome (\<open>core_types/src/error\<close>), the stack allocator of the zome
    (\<open>wasm_utils/src/memory\<close>) and the page manager and \<open>run_dna\<close> of the ribosome (\<open>core/src/wasm_engine\<close>).
  \<^item> \<open>Core_Types\<close>, \<open>Eav\<close>, \<open>Aspect_Map\<close>, \<open>Content_Store\<close>, \<open>Action\<close>: entries, headers, links, DNAs (\<open>core_types/src\<close>),
    attributes and the index, the register of held aspects (\<open>net/src/aspect_map.rs\<close>), content storages
    (\<open>core/src/content_store.rs\<close>) and the actions (\<open>core/src/action.rs\<close>).
  \<^item> \<open>Chain_Store\<close>, \<open>Agent_State\<close>: the source chain, its iterators and queries, and the agent slice with the
    commits that extend the chain (\<open>core/src/agent\<close>).
  \<^item> \<open>Pending_Validations\<close>, \<open>Dht_Store\<close>, \<open>Dht_Reducers\<close>: the DHT slice: what is held, what waits to be
    validated, links and CRUD metadata (\<open>core/src/dht\<close>).
  \<^item> \<open>Nucleus\<close>, \<open>Zome_Calls\<close>: the nucleus slice, capabilities, and the queueing and running of zome calls
    (\<open>core/src/nucleus\<close>).
  \<^item> \<open>Network\<close>, \<open>Network_Flow\<close>: the network slice, publishing, and the life of a request from the action that
    opens it to the future that returns its answer (\<open>core/src/network\<close>, \<open>core/src/scheduled_jobs\<close>).
  \<^item> \<open>State\<close>: the root state, its reducer and its restart from snapshots (\<open>core/src/state.rs\<close>).
  \<^item> \<open>Get_Entry\<close>, \<open>Validation\<close>, \<open>Validation_Package\<close>, \<open>Workflows\<close>: reading entries with their history, validating them,
    getting the packages that validation needs, and holding and authoring (\<open>core/src/workflows\<close>,
    \<open>core/src/nucleus/validation\<close>, the holding loop of \<open>core/src/instance.rs\<close>).
  \<^item> \<open>Handlers\<close>: what the node does with each message of the network (\<open>core/src/network/handler\<close>).
  \<^item> \<open>Sim2h_State\<close>, \<open>Sim2h\<close>, \<open>Sim2h_Worker\<close>: the store of the switchboard that routes messages between nodes, its
    handlers and the interleaving of its tasks (\<open>sim2h/src\<close>), and the worker that connects a node to it
    (\<open>net/src/sim2h_worker.rs\<close>).
  \<^item> This theory: the properties that span author, network and holder.

  \<^bold>\<open>Correspondence.\<close>  A struct is a record and an enum a datatype with the names of the source, prefixed where two
  would clash; a method \<open>T::f\<close> is \<open>f\<close> or \<open>T_f\<close>.  \<open>Result\<close> is a sum, a panic (\<open>unwrap\<close>, \<open>expect\<close>, an index out of
  bounds) a value of \<open>outcome\<close>, and a loop that may not end a partial function into \<open>'a run\<close>, where not returning is
  \<open>None\<close>; no fuel is used.  Hash maps are finite maps, and where the code iterates over one the order is an argument.
  Times are integers of nanoseconds.  Reducers take and return the slice and the shared storages.  The text that
  \<open>Debug\<close> prints inside error messages is dropped; logging, tracing and metrics are left out.

  \<^bold>\<open>Parameters.\<close>  Code that is not in the repository is an argument: the persistence library (\<open>cas_ops\<close>, \<open>eav_ops\<close> with
  the laws \<open>content_addressable\<close> where they are used), hashing, signing and verification, JSON, the network engine
  (\<open>net_ops\<close>, and \<open>network\<close> for the answer to a query), sockets and locations on the ring of lib3h (\<open>worker_ops\<close>,
  \<open>sim_env\<close>, \<open>sim_codec\<close>; that hash maps list each key once is \<open>lists_sets\<close>), the clock, fresh ids, pattern matching of globs, and
  the WASM interpreter (\<open>env_run_dna\<close>, \<open>run_dna\<close>).

  \<^bold>\<open>What is shown.\<close>  The source chain stays well-formed under every action; queries, messages and requests for packages
  always have a timeout and end; at most the allowed number of zome calls runs and none is lost; capabilities are
  checked exactly; nothing is held or committed that was not validated, and private entries are
  not published; what an author publishes is queued, and held by an idle node when its workflow succeeds; the authoring list is what was
  published; packages from the author and from the DHT agree but for the full chain; the queues of
  holding workflows hold no duplicates, make progress and retry with bounded delays; the allocator refines a
  stack; encodings round-trip.  The switchboard attributes and routes messages only by what was joined under a
  verified signature, under every interleaving of its tasks; publishing and fetching reach exactly who should
  hold or lacks an aspect, and gossip asks a connected holder for what an agent lacks; the worker keeps a message until the
  receipt that the switchboard makes for it, or until an acknowledgement of 0 if the message was not written.  Where the code
  does not do what it means to, the theorem says what it does: update cycles that never return, private entries that are
  fetched, holds that hang, messages that panic, a join in another agent's name, the agent's public key as a token for
  everyone, connections that outlive their uri, a delay without bound.

  \<^bold>\<open>Not modelled.\<close>  Threads, channels and wakers (tasks run to their end, interleavings are modelled for zome calls
  and for the switchboard); the sockets of the switchboard (\<open>connection_mgr.rs\<close>), its metrics and the files it
  writes for debugging; the other network engines (\<open>in_memory\<close>, \<open>lib3h_worker\<close>); the conductor and its interfaces, the command line tools, and servers (\<open>conductor_lib\<close>, \<open>cli\<close>,
  \<open>sim2h_server\<close>, \<open>trycp_server\<close>), which are configuration, processes and sockets; the HDK (\<open>hdk\<close>,
  \<open>hdk_v2\<close>), which forwards to the host functions; \<open>in_stream\<close>, \<open>locksmith\<close>, \<open>metrics\<close> and \<open>stress\<close>, which are I/O,
  locks and measurements; \<open>dpki\<close>, which wraps a foreign cryptographic library.
\<close>

section \<open>From the author to the holder\<close>

fun dispatch_all :: "env \<Rightarrow> string \<Rightarrow> Action list \<Rightarrow> ('n, 'c, 'e) Context \<Rightarrow> ('n, 'c, 'e) Context run" where
  "dispatch_all v aid [] x = Some (Returns x)"
| "dispatch_all v aid (a # as) x = run_bind (dispatch v aid a x) (dispatch_all v aid as)"

definition waiting_workflows :: "('n, 'c, 'e) Context \<Rightarrow> PendingValidation list" where
  "waiting_workflows x = map pending (queued_holding_workflows (st_dht (ctx_state x))
     @ in_process_holding_workflows (st_dht (ctx_state x)))"

definition holds :: "('n, 'c, 'e) Context \<Rightarrow> Address \<Rightarrow> EntryAspect \<Rightarrow> bool" where
  "holds x a aspect \<longleftrightarrow> aspect_hash (io_hasher (ctx_ops x)) aspect |\<in>| aspects_of (holding_map (st_dht (ctx_state x))) a"

text \<open>An entry with its header as an author commits it: the header names the entry, and that of a deletion what it deletes.\<close>

definition committed :: "hasher \<Rightarrow> EntryWithHeader \<Rightarrow> bool" where
  "committed H ewh \<longleftrightarrow> entry_address H (ewh_entry ewh) = hdr_entry_address (ewh_header ewh)
     \<and> (\<forall>a. ewh_entry ewh = Entry.Deletion a \<longrightarrow> hdr_link_update_delete (ewh_header ewh) = Some a)"

lemma published_aspect_pending:
  assumes "published_aspects H ewh = Some ps" "(a, aspect) \<in> set ps" "committed H ewh"
  shows "\<exists>p. pending_try_from H pid aspect = Ok p \<and> entry_with_header p = ewh
     \<and> pending_to_aspect p = Returns aspect \<and> aspect_entry_address H aspect = Ok a"
  using assms
  by (cases "ewh_entry ewh"; cases "hdr_link_update_delete (ewh_header ewh)"; cases ewh)
     (auto simp: published_aspects_def committed_def Let_def try_from_entry_and_header_def PendingValidation_new_def
        pending_to_aspect_def update_delete_address_def)

lemma dispatch_queue_workflow:
  assumes "reduce_queue_holding_workflow (io_hasher (ctx_ops x)) (st_dht (ctx_state x)) p None = Returns r"
  shows "dispatch v aid (QueueHoldingWorkflow p None) x
     = Some (Returns (with_dht (case r of None \<Rightarrow> st_dht (ctx_state x) | Some d \<Rightarrow> d) x))"
  using assms
  by (cases x; cases "ctx_state x"; cases r)
     (simp_all add: dispatch_def state_reduce_def agent_reduce_def dht_reduce_def dht_resolve_reducer_def
        network_reduce_def nucleus_reduce_def run_bind_simps with_dht_def)

lemma queue_workflow_result:
  assumes "pending_to_aspect p = Returns aspect" "aspect_entry_address (io_hasher (ctx_ops x)) aspect = Ok a"
    and "\<not> holds x a aspect"
  shows "\<exists>r. reduce_queue_holding_workflow (io_hasher (ctx_ops x)) (st_dht (ctx_state x)) p None = Returns r
     \<and> (r = None \<longrightarrow> workflow_key p \<in> workflow_key ` set (waiting_workflows x))
     \<and> (\<forall>d. r = Some d \<longrightarrow> set (waiting_workflows (with_dht d x)) = insert p (set (waiting_workflows x)))"
proof -
  note q = reduce_queue_holding_workflow_def assms(1,2) aspect_contains_def
  have c: "aspect_hash (io_hasher (ctx_ops x)) aspect |\<notin>| aspects_of (holding_map (st_dht (ctx_state x))) a"
    using assms(3) by (simp add: holds_def)
  show ?thesis
  proof (cases "has_same_queued_holding_worfkow (st_dht (ctx_state x)) p \<or> has_same_in_process_holding_worfkow (st_dht (ctx_state x)) p")
    case True
    then obtain c where "c \<in> set (waiting_workflows x)" "workflow_key c = workflow_key p"
      by (fastforce simp: has_same_queued_holding_worfkow_def has_same_in_process_holding_worfkow_def list_ex_iff
          waiting_workflows_def)
    then have "workflow_key p \<in> workflow_key ` set (waiting_workflows x)" by (metis image_eqI)
    then show ?thesis using True c by (intro exI [of _ None]) (auto simp: q)
  next
    case False
    then show ?thesis using c by (auto simp: q waiting_workflows_def)
  qed
qed

lemma dispatch_gossip_list:
  "\<exists>x'. dispatch v aid (RespondGossipList l) x = Some (Returns x') \<and> st_dht (ctx_state x') = st_dht (ctx_state x)
     \<and> ctx_ops x' = ctx_ops x"
  by (cases x; cases "ctx_state x")
     (simp add: dispatch_def state_reduce_def agent_reduce_def dht_reduce_def dht_resolve_reducer_def
        network_reduce_def nucleus_reduce_def run_bind_simps)

text \<open>
  C3.  What an author publishes is not lost on the way to a holder.  When an aspect that publishing a committed entry
  sends reaches a node that is on the network, its handler does not panic, and after the actions that it dispatches
  the node holds the aspect or a holding workflow for it waits; if the workflow is new, it is for
  the entry and the header of the author.
\<close>

theorem published_aspect_received:
  assumes "published_aspects (io_hasher (ctx_ops x)) ewh = Some ps" and "(a, aspect) \<in> set ps"
    and "committed (io_hasher (ctx_ops x)) ewh"
    and "valid_utf8 (map of_char content)" and "wire_aspect w content = Some aspect"
    and "net_dna_address (st_network (ctx_state x)) = Some dna"
  shows "\<exists>acts x' p. handle_store w pid x content = Returns acts \<and> dispatch_all v aid acts x = Some (Returns x')
     \<and> pending_to_aspect p = Returns aspect \<and> entry_with_header p = ewh
     \<and> (holds x' a aspect \<or> workflow_key p \<in> workflow_key ` set (waiting_workflows x'))
     \<and> set (waiting_workflows x') \<subseteq> insert p (set (waiting_workflows x))"
proof -
  obtain p where p: "pending_try_from (io_hasher (ctx_ops x)) pid aspect = Ok p" "entry_with_header p = ewh"
    "pending_to_aspect p = Returns aspect" "aspect_entry_address (io_hasher (ctx_ops x)) aspect = Ok a"
    using published_aspect_pending [OF assms(1-3)] by blast
  have utf8: "from_utf8 content = Returns content" using assms(4) by (simp add: from_utf8_def)
  show ?thesis
  proof (cases "holds x a aspect")
    case True
    obtain l where "handle_store w pid x content = Returns [RespondGossipList l]"
      using True p(4) by (auto simp: handle_store_def utf8 assms(5,6) aspect_contains_def holds_def ack_single_def)
    moreover obtain x' where "dispatch v aid (RespondGossipList l) x = Some (Returns x')"
      "st_dht (ctx_state x') = st_dht (ctx_state x)" "ctx_ops x' = ctx_ops x"
      using dispatch_gossip_list by blast
    ultimately show ?thesis using True p
      by (intro exI [of _ "[RespondGossipList l]"] exI [of _ x'] exI [of _ p])
         (auto simp: run_bind_simps holds_def waiting_workflows_def)
  next
    case False
    then have "handle_store w pid x content = Returns [QueueHoldingWorkflow p None]"
      using p by (simp add: handle_store_def utf8 assms(5) aspect_contains_def holds_def)
    moreover obtain r where r: "reduce_queue_holding_workflow (io_hasher (ctx_ops x)) (st_dht (ctx_state x)) p None = Returns r"
      "r = None \<longrightarrow> workflow_key p \<in> workflow_key ` set (waiting_workflows x)"
      "\<forall>d. r = Some d \<longrightarrow> set (waiting_workflows (with_dht d x)) = insert p (set (waiting_workflows x))"
      using queue_workflow_result [OF p(3,4) False] by blast
    moreover have "with_dht (st_dht (ctx_state x)) x = x" by (simp add: with_dht_def)
    ultimately show ?thesis using p
      by (intro exI [of _ "[QueueHoldingWorkflow p None]"] exI [of _ "with_dht (case r of None \<Rightarrow> st_dht (ctx_state x) | Some d \<Rightarrow> d) x"]
            exI [of _ p])
         (auto simp: dispatch_queue_workflow [OF r(1)] run_bind_simps split: option.splits)
  qed
qed

section \<open>From the queue to the shard\<close>

lemma dispatch_hold:
  assumes "dispatch v aid (HoldAspect aspect hid) x = Some (Returns x')"
  shows "\<exists>st r st'. reduce_hold_aspect (io_hasher (ctx_ops x)) (io_cas (ctx_ops x)) (io_eav (ctx_ops x)) st
       (st_dht (ctx_state x)) aspect hid = Returns (r, st')
     \<and> st_dht (ctx_state x') = (case r of None \<Rightarrow> st_dht (ctx_state x) | Some d \<Rightarrow> d) \<and> ctx_ops x' = ctx_ops x"
proof -
  obtain s cas eav where s: "state_reduce (ctx_ops x) (env_now v) aid \<lparr> action = HoldAspect aspect hid, action_id = aid \<rparr>
      (ctx_state x, ctx_cas x, ctx_eav x) = Some (Returns (s, cas, eav))"
    and x': "x' = x\<lparr> ctx_state := s, ctx_cas := cas, ctx_eav := eav \<rparr>"
    using assms by (auto simp: dispatch_def elim!: run_bind_ReturnsE)
  obtain cas1 where "dht_reduce (io_hasher (ctx_ops x)) (io_cas (ctx_ops x)) (io_eav (ctx_ops x)) (env_now v)
      (cas1, ctx_eav x) (st_dht (ctx_state x)) \<lparr> action = HoldAspect aspect hid, action_id = aid \<rparr>
      = Returns (st_dht s, cas, eav)"
    using s by (auto simp: state_reduce_def elim!: run_bind_ReturnsE)
  then show ?thesis
    using x' by (fastforce simp: dht_reduce_def dht_resolve_reducer_def outcome_bind_Returns_iff)
qed

text \<open>Nothing that is held is lost, and no attempt but this one is answered.\<close>

definition hold_step :: "HoldAspectAttemptId \<Rightarrow> ('n, 'c, 'e) Context \<Rightarrow> ('n, 'c, 'e) Context \<Rightarrow> bool" where
  "hold_step hid x x' \<longleftrightarrow> ctx_ops x' = ctx_ops x
     \<and> (\<forall>a aspect. holds x a aspect \<longrightarrow> holds x' a aspect)
     \<and> (\<forall>hid'. hid' \<noteq> hid \<longrightarrow> hold_aspect_poll (st_dht (ctx_state x')) hid' = hold_aspect_poll (st_dht (ctx_state x)) hid')"

lemma held_aspect:
  assumes "hold_aspect v hid aspect x = Some (Returns (Ok (), x'))"
    and "hold_aspect_poll (st_dht (ctx_state x)) hid = None"
  shows "\<exists>a. aspect_entry_address (io_hasher (ctx_ops x)) aspect = Ok a \<and> holds x' a aspect \<and> hold_step hid x x'"
proof -
  obtain x1 l where x1: "dispatch v ''hold'' (HoldAspect aspect hid) x = Some (Returns x1)"
    "hold_aspect_poll (st_dht (ctx_state x1)) hid = Some (Ok ())"
    and x': "dispatch v ''ack'' (RespondGossipList l) x1 = Some (Returns x')"
    using assms(1)
    by (auto simp: hold_aspect_def hold_aspect_no_ack_def ack_single_def outcome_bind_Returns_iff
        elim!: then_run_Returns run_bind_ReturnsE)
  obtain st r st' where r: "reduce_hold_aspect (io_hasher (ctx_ops x)) (io_cas (ctx_ops x)) (io_eav (ctx_ops x)) st
       (st_dht (ctx_state x)) aspect hid = Returns (r, st')"
    and d: "st_dht (ctx_state x1) = (case r of None \<Rightarrow> st_dht (ctx_state x) | Some d \<Rightarrow> d)" "ctx_ops x1 = ctx_ops x"
    using dispatch_hold [OF x1(1)] by blast
  have same: "st_dht (ctx_state x') = st_dht (ctx_state x1)" "ctx_ops x' = ctx_ops x1"
    using dispatch_gossip_list [of v "''ack''" l x1] x' by auto
  obtain a m where "aspect_entry_address (io_hasher (ctx_ops x)) aspect = Ok a"
    "r = Some (mark_hold_aspect_complete hid (Ok ()) ((st_dht (ctx_state x))\<lparr> holding_map := m \<rparr>))"
    "m = insert_aspect (a, aspect_hash (io_hasher (ctx_ops x)) aspect) (holding_map (st_dht (ctx_state x)))"
    using r d(1) x1(2) assms(2)
    by (auto simp: reduce_hold_aspect_def mark_aspect_as_held_def aspect_add_def outcome_bind_Returns_iff Let_def
        mark_hold_aspect_complete_def hold_aspect_poll_def hold_aspec_request_complete_def
        split: prod.splits option.splits sum.splits elim!: expect_ok.elims)
  then show ?thesis
    using d same
    by (auto simp: holds_def hold_step_def mark_hold_aspect_complete_def hold_aspect_poll_def
        hold_aspec_request_complete_def)
qed

definition is_held :: "('n, 'c, 'e) Context \<Rightarrow> EntryAspect \<Rightarrow> bool" where
  "is_held x aspect \<longleftrightarrow>
     (case aspect_entry_address (io_hasher (ctx_ops x)) aspect of Inr a \<Rightarrow> holds x a aspect | Inl _ \<Rightarrow> False)"

lemma held_one:
  assumes "hold_aspect v hid aspect x = Some (Returns (Ok (), x'))"
    and "hold_aspect_poll (st_dht (ctx_state x)) hid = None"
  shows "is_held x' aspect"
  using held_aspect [OF assms] by (auto simp: is_held_def hold_step_def)

lemma held_two:
  assumes "then_run (hold_aspect v (pid, n) aspect x) (\<lambda>_. hold_aspect v (pid, Suc n) aspect') = Some (Returns (Ok (), x'))"
    and "hold_aspect_poll (st_dht (ctx_state x)) (pid, n) = None" "hold_aspect_poll (st_dht (ctx_state x)) (pid, Suc n) = None"
  shows "is_held x' aspect"
proof -
  obtain x1 where x1: "hold_aspect v (pid, n) aspect x = Some (Returns (Ok (), x1))"
    "hold_aspect v (pid, Suc n) aspect' x1 = Some (Returns (Ok (), x'))"
    using assms(1) by (auto elim!: then_run_Returns)
  have "hold_aspect_poll (st_dht (ctx_state x1)) (pid, Suc n) = None"
    using held_aspect [OF x1(1) assms(2)] assms(3) by (auto simp: hold_step_def)
  with held_aspect [OF x1(2)] held_one [OF x1(1) assms(2)] show ?thesis
    by (auto simp: is_held_def hold_step_def split: sum.splits)
qed

lemma success_holds:
  assumes "run_holding_workflow v n p x = Some (Returns (Ok (), x'))"
    and "hold_aspect_poll (st_dht (ctx_state x)) (uuid p, n) = None"
    and "hold_aspect_poll (st_dht (ctx_state x)) (uuid p, Suc n) = None"
  shows "\<exists>aspect. pending_to_aspect p = Returns aspect \<and> is_held x' aspect"
  using assms
  by (cases "workflow p")
     (auto simp: run_holding_workflow_def hold_entry_workflow_def hold_link_workflow_def remove_link_workflow_def
        hold_update_workflow_def hold_remove_workflow_def hold_content_aspect_def pending_to_aspect_def Let_def
        elim!: try_run_Returns dest: held_one held_two
        split: option.splits Entry.splits)

text \<open>
  C2.  The life of an aspect, at a node that is idle.  An aspect that publishing a committed entry sends reaches a node
  whose two queues of workflows are empty, that does not hold the aspect, and that has recorded no answer under the ids
  of the attempts that the round makes; the entry is not among the dependencies of its own workflow.  Then the handler queues
  a workflow, the next round of the holding loop runs this workflow, and if it succeeds the node holds the aspect under the
  entry it was published for and the queues are empty again.
\<close>

theorem published_aspect_held:
  assumes "published_aspects (io_hasher (ctx_ops x)) ewh = Some ps" and "(a, aspect) \<in> set ps"
    and "committed (io_hasher (ctx_ops x)) ewh"
    and "valid_utf8 (map of_char content)" and "wire_aspect w content = Some aspect"
    and "\<not> holds x a aspect" and "waiting_workflows x = []"
    and "pending_try_from (io_hasher (ctx_ops x)) pid aspect = Ok p"
    and "entry_address (io_hasher (ctx_ops x)) (ewh_entry ewh) \<notin> set (dependencies p)"
    and "hold_aspect_poll (st_dht (ctx_state x)) (uuid p, n) = None"
    and "hold_aspect_poll (st_dht (ctx_state x)) (uuid p, Suc n) = None"
    and "run_holding_workflow v n p (with_dht ((st_dht (ctx_state x))
           \<lparr> in_process_holding_workflows := [\<lparr> pending = p, timeout = None \<rparr>] \<rparr>) x) = Some (Returns (Ok (), x2))"
  shows "\<exists>x1 x3. handle_store w pid x content = Returns [QueueHoldingWorkflow p None]
     \<and> dispatch v aid (QueueHoldingWorkflow p None) x = Some (Returns x1)
     \<and> holding_step v n x1 = Some (Returns (Some x3))
     \<and> holds x3 a aspect \<and> waiting_workflows x3 = []"
proof -
  let ?d = "st_dht (ctx_state x)" and ?item = "\<lparr> pending = p, timeout = None \<rparr>"
  have p: "entry_with_header p = ewh" "pending_to_aspect p = Returns aspect"
    "aspect_entry_address (io_hasher (ctx_ops x)) aspect = Ok a"
    using published_aspect_pending [OF assms(1-3), of pid] assms(8) by auto
  have empty: "queued_holding_workflows ?d = []" "in_process_holding_workflows ?d = []"
    using assms(7) by (simp_all add: waiting_workflows_def)
  have store: "handle_store w pid x content = Returns [QueueHoldingWorkflow p None]"
    using assms(4-6,8) p(3) by (simp add: handle_store_def from_utf8_def aspect_contains_def holds_def)
  define x1 where "x1 = with_dht (?d\<lparr> queued_holding_workflows := [?item] \<rparr>) x"
  have "reduce_queue_holding_workflow (io_hasher (ctx_ops x)) ?d p None = Returns (Some (?d\<lparr> queued_holding_workflows := [?item] \<rparr>))"
    using assms(6) by (simp add: reduce_queue_holding_workflow_def p(2,3) aspect_contains_def holds_def empty
        has_same_queued_holding_worfkow_def has_same_in_process_holding_worfkow_def)
  from dispatch_queue_workflow [OF this, of v aid]
  have queued: "dispatch v aid (QueueHoldingWorkflow p None) x = Some (Returns x1)" by (simp add: x1_def)
  have "next_queued_holding_workflow (io_hasher (ctx_ops x1)) (env_now v) (st_dht (ctx_state x1)) = Some (p, None)"
    using assms(9) p(1) by (auto simp: x1_def next_queued_holding_workflow_def free_pending_filter_def list_all_iff
        pending_address_def still_delayed_def Let_def)
  moreover have "start_workflow ?item (st_dht (ctx_state x1)) = ?d\<lparr> in_process_holding_workflows := [?item] \<rparr>"
    using empty by (simp add: x1_def start_workflow_def)
  moreover have "with_dht d x1 = with_dht d x" for d by (simp add: x1_def with_dht_def)
  moreover have "queues_ok (st_dht (ctx_state x1))" by (simp add: x1_def queues_ok_def empty)
  ultimately obtain d3 where step: "holding_step v n x1 = Some (Returns (Some (with_dht d3 x2)))"
    "holding_map d3 = holding_map (st_dht (ctx_state x2))" "ctx_ops x2 = ctx_ops x1"
    "queued_holding_workflows d3 = []" "in_process_holding_workflows d3 = []"
    using holding_step_result [of x1 "[]" ?item "[]" v n "Ok ()" x2] assms(12) empty
    by (auto simp: x1_def queueing_after_def)
  have "is_held x2 aspect"
    using success_holds [OF assms(12)] assms(10,11) p(2) by (simp add: hold_aspect_poll_def hold_aspec_request_complete_def)
  then have "holds (with_dht d3 x2) a aspect"
    using p(3) step(2,3) by (simp add: is_held_def holds_def x1_def)
  moreover have "waiting_workflows (with_dht d3 x2) = []" using step(4,5) by (simp add: waiting_workflows_def)
  ultimately show ?thesis using store queued step(1) by blast
qed

section \<open>Witnesses\<close>

definition posted :: EntryWithHeader where
  "posted = \<lparr> ewh_entry = Entry.App ''post'' ''A'', ewh_header = signed_header \<rparr>"

definition post_aspect :: EntryAspect where
  "post_aspect = EntryAspect.Content (Entry.App ''post'' ''A'') signed_header"

definition post_wire :: wire where
  "post_wire = diary_wire\<lparr> wire_aspect := (\<lambda>_. Some post_aspect) \<rparr>"

lemma posted_simps:
  "published_aspects (io_hasher version_instance) posted = Some [(''A'', post_aspect)]"
  "committed (io_hasher version_instance) posted"
  "pending_try_from (io_hasher version_instance) 5 post_aspect = Ok (PendingValidation_new 5 posted HoldEntry)"
  "dependencies (PendingValidation_new 5 posted HoldEntry) = []"
  "net_dna_address (st_network (ctx_state online_context)) = Some ''dna''"
  "aspect_entry_address (io_hasher version_instance) post_aspect = Ok ''A''"
  by (simp_all add: posted_def post_aspect_def signed_header_def ChainHeader_new_def published_aspects_def committed_def
      diary_hasher try_from_entry_and_header_def PendingValidation_new_def get_validation_dependencies_def
      online_simps sample_net_def Let_def)

theorem published_aspect_received_witness:
  "\<exists>acts x'. handle_store post_wire 5 online_context ''json'' = Returns acts
     \<and> dispatch_all hold_env ''aid'' acts online_context = Some (Returns x')
     \<and> (holds x' ''A'' post_aspect \<or> (signed_header, HoldEntry) \<in> workflow_key ` set (waiting_workflows x'))"
proof -
  have "\<exists>acts x' p. handle_store post_wire 5 online_context ''json'' = Returns acts
     \<and> dispatch_all hold_env ''aid'' acts online_context = Some (Returns x')
     \<and> pending_to_aspect p = Returns post_aspect \<and> entry_with_header p = posted
     \<and> (holds x' ''A'' post_aspect \<or> workflow_key p \<in> workflow_key ` set (waiting_workflows x'))
     \<and> set (waiting_workflows x') \<subseteq> insert p (set (waiting_workflows online_context))"
    by (rule published_aspect_received [where ps = "[(''A'', post_aspect)]"])
       (simp_all add: posted_simps online_simps post_wire_def sample_net_def)
  moreover have "workflow_key p = (signed_header, HoldEntry)"
    if "pending_to_aspect p = Returns post_aspect" "entry_with_header p = posted" for p
    using that by (auto simp: pending_to_aspect_def post_aspect_def posted_def workflow_key_def Let_def
        split: ValidatingWorkflow.splits Entry.splits)
  ultimately show ?thesis by metis
qed

lemma posted_package:
  "validation_package hold_env (with_dht d online_context) posted = Some (Returns (Ok (Some author_package)))"
  by (simp add: validation_package_def package_definition_def get_validation_package_definition_def online_simps
      posted_def get_zome_name_for_app_entry_type_def blog_simps blog_zome_def hold_env_simps parse_definition_def
      definition_of_callback_def run_bind_simps try_make_local_validation_package_def get_agent_def with_dht_def
      get_agent_address_def State_new_def AgentState_new_def iter_type_collect_def iter_find_def iter_collect.simps
      version_instance_def sample_instance_def get_entry_def get_raw_def signed_header_def ChainHeader_new_def
      first_source_def Provenance_source_def get_validation_package_from_cache_def sample_net_def NetworkState_new_def
      first_header_def ctx_get_dna_def)

lemma posted_valid:
  "validate_entry hold_env (with_dht d online_context) (ewh_entry posted) None
     \<lparr> vd_package = author_package, vd_lifecycle = lc \<rparr> Holding = Some (Returns (Ok ()))"
  by (simp add: validate_entry_def Let_def validate_header_address_def validate_provenances_def with_dht_def
      validate_provenance_def clean_validation_data_def author_package_def signed_header_def ChainHeader_new_def
      online_simps version_instance_def version_hasher_def posted_def validate_app_entry_def dna_of_def blog_simps
      get_zome_name_for_app_entry_type_def blog_zome_def entry_to_validation_data_def run_validation_callback_def
      run_bind_simps hold_env_simps ctx_get_dna_def)

theorem published_aspect_held_witness:
  "\<exists>x1 x3. dispatch hold_env ''aid'' (QueueHoldingWorkflow (PendingValidation_new 5 posted HoldEntry) None) online_context
        = Some (Returns x1)
     \<and> holding_step hold_env 0 x1 = Some (Returns (Some x3)) \<and> holds x3 ''A'' post_aspect \<and> waiting_workflows x3 = []"
proof -
  let ?p = "PendingValidation_new 5 posted HoldEntry"
  let ?x = "with_dht ((st_dht (ctx_state online_context))\<lparr> in_process_holding_workflows := [\<lparr> pending = ?p, timeout = None \<rparr>] \<rparr>)
      online_context"
  have "\<exists>x2. hold_content_aspect hold_env (5, 0) posted ?x = Some (Returns (Ok (), x2))"
    by (simp add: hold_simps posted_def online_simps version_instance_def sample_instance_def version_hasher_def
        log_eav_def signed_header_def ChainHeader_new_def State_new_def DhtStore_new_def sample_net_def run_bind_simps
        Let_def NetworkState_new_def with_dht_def)
  then obtain x2 where x2: "hold_content_aspect hold_env (5, 0) posted ?x = Some (Returns (Ok (), x2))" by blast
  have p: "uuid ?p = 5" "workflow ?p = HoldEntry" "entry_with_header ?p = posted" by (simp_all add: PendingValidation_new_def)
  have "run_holding_workflow hold_env 0 ?p ?x = Some (Returns (Ok (), x2))"
    using x2 by (simp add: run_holding_workflow_def p hold_entry_workflow_def try_run_def get_package_def posted_package
        validate_to_hold_def posted_valid run_bind_simps)
  then have "\<exists>x1 x3. handle_store post_wire 5 online_context ''json'' = Returns [QueueHoldingWorkflow ?p None]
     \<and> dispatch hold_env ''aid'' (QueueHoldingWorkflow ?p None) online_context = Some (Returns x1)
     \<and> holding_step hold_env 0 x1 = Some (Returns (Some x3)) \<and> holds x3 ''A'' post_aspect \<and> waiting_workflows x3 = []"
    by (intro published_aspect_held [where ps = "[(''A'', post_aspect)]" and ewh = posted])
       (simp_all add: posted_simps online_simps post_wire_def p holds_def waiting_workflows_def State_new_def
          DhtStore_new_def AspectMap_new_def hold_aspect_poll_def hold_aspec_request_complete_def)
  then show ?thesis by blast
qed

end
